(* ===== verification/Prelude.thy ===== *)
theory Prelude
  imports Main "HOL-Library.Sublist" "HOL-Library.Word"
begin

text \<open>
  Shared ground of the development: the collections of facts that carry the
  component proofs, and the language-independent list and string operations
  the components use (splitting at a separator, joining, decimal digits).
  Nothing here models a line of the program; the Go-specific readings of
  these operations (\<open>strings.Split\<close>, \<open>strconv.Itoa\<close>, \<open>strconv.Atoi\<close>) are in
  theory \<open>GoLib\<close>.
\<close>

section \<open>Fact collections\<close>

named_theorems model_defs "definitions of pure operations of the model, to unfold"
named_theorems io_defs "definitions of operations that act on the world, to unfold"
named_theorems clock_mono "the clock of the world never goes back"
named_theorems calls_ext "the call history of the world only grows"

section \<open>Values of a sum used as results\<close>

text \<open>
  A fallible operation returns \<open>'e + 'a\<close> with \<open>Inl\<close> the failure. \<open>is_ok\<close> and
  \<open>is_fail\<close> name the two cases; \<open>map_fail\<close> rewrites the failure and keeps
  a success.
\<close>

definition is_ok :: "'e + 'a \<Rightarrow> bool" where
  "is_ok r = (case r of Inl _ \<Rightarrow> False | Inr _ \<Rightarrow> True)"

definition is_fail :: "'e + 'a \<Rightarrow> bool" where
  "is_fail r = (case r of Inl _ \<Rightarrow> True | Inr _ \<Rightarrow> False)"

definition map_fail :: "('e \<Rightarrow> 'f) \<Rightarrow> 'e + 'a \<Rightarrow> 'f + 'a" where
  "map_fail f r = (case r of Inl e \<Rightarrow> Inl (f e) | Inr x \<Rightarrow> Inr x)"

lemma is_ok_simps [simp]: "is_ok (Inr x)" "\<not> is_ok (Inl e)"
  by (simp_all add: is_ok_def)

lemma is_fail_simps [simp]: "is_fail (Inl e)" "\<not> is_fail (Inr x)"
  by (simp_all add: is_fail_def)

lemma is_fail_iff_not_ok: "is_fail r \<longleftrightarrow> \<not> is_ok r"
  by (cases r) simp_all

lemma map_fail_simps [simp]:
  "map_fail f (Inl e) = Inl (f e)" "map_fail f (Inr x) = Inr x"
  by (simp_all add: map_fail_def)

lemma map_fail_eq_Inr [simp]: "map_fail f r = Inr x \<longleftrightarrow> r = Inr x"
  by (cases r) simp_all

lemma is_ok_map_fail [simp]: "is_ok (map_fail f r) = is_ok r"
  by (cases r) simp_all

section \<open>Splitting a list at a separator\<close>

fun split_on :: "'a \<Rightarrow> 'a list \<Rightarrow> 'a list list" where
  "split_on c [] = [[]]"
| "split_on c (x # xs) =
     (if x = c then [] # split_on c xs
      else (x # hd (split_on c xs)) # tl (split_on c xs))"

fun join :: "'a list \<Rightarrow> 'a list list \<Rightarrow> 'a list" where
  "join sep [] = []"
| "join sep [p] = p"
| "join sep (p # q # ps) = p @ sep @ join sep (q # ps)"

lemma split_on_not_Nil [simp]: "split_on c xs \<noteq> []"
  by (induction xs) simp_all

lemma length_split_on: "length (split_on c xs) = Suc (count_list xs c)"
  by (induction xs) (simp_all add: Suc_leI)

lemma split_on_no_sep: "c \<notin> set xs \<Longrightarrow> split_on c xs = [xs]"
  by (induction xs) auto

lemma split_on_append_sep:
  "split_on c (xs @ c # ys) = split_on c xs @ split_on c ys"
  by (induction xs) simp_all

lemma split_on_snoc_sep: "split_on c (xs @ [c]) = split_on c xs @ [[]]"
  using split_on_append_sep [of c xs "[]"] by simp

lemma split_on_pieces: "p \<in> set (split_on c xs) \<Longrightarrow> c \<notin> set p"
proof (induction xs arbitrary: p)
  case Nil
  then show ?case by simp
next
  case (Cons x xs)
  obtain q qs where r: "split_on c xs = q # qs"
    by (cases "split_on c xs") simp_all
  with Cons.IH have "c \<notin> set q" and "\<And>p. p \<in> set qs \<Longrightarrow> c \<notin> set p"
    by simp_all
  with Cons.prems r show ?case
    by (auto split: if_splits)
qed

lemma join_Cons: "ps \<noteq> [] \<Longrightarrow> join sep (p # ps) = p @ sep @ join sep ps"
  by (cases ps) simp_all

lemma join_split_on: "join [c] (split_on c xs) = xs"
proof (induction xs)
  case Nil
  show ?case by simp
next
  case (Cons x xs)
  obtain q qs where r: "split_on c xs = q # qs"
    by (cases "split_on c xs") simp_all
  with Cons.IH show ?case
    by (cases qs) (auto simp: join_Cons)
qed

lemma sublist_within: "sublist p xs \<Longrightarrow> sublist p (a @ xs @ b)"
proof -
  assume "sublist p xs"
  then obtain ps ss where "xs = ps @ p @ ss" by (auto simp: sublist_def)
  then have "a @ xs @ b = (a @ ps) @ p @ (ss @ b)" by simp
  then show ?thesis unfolding sublist_def by blast
qed

lemma sublist_within_left: "sublist p xs \<Longrightarrow> sublist p (a @ xs)"
  using sublist_within [of p xs a "[]"] by simp

lemma sublist_within_right: "sublist p xs \<Longrightarrow> sublist p (xs @ b)"
  using sublist_within [of p xs "[]" b] by simp

lemma sublist_join: "p \<in> set ps \<Longrightarrow> sublist p (join sep ps)"
proof (induction ps)
  case Nil
  then show ?case by simp
next
  case (Cons q qs)
  show ?case
  proof (cases "qs = []")
    case True
    with Cons.prems show ?thesis by simp
  next
    case False
    with Cons show ?thesis
      by (auto simp: join_Cons intro: sublist_within_left sublist_within_right)
  qed
qed

section \<open>Decimal digits\<close>

definition digit_char :: "nat \<Rightarrow> char" where
  "digit_char n = ''0123456789'' ! n"

definition digit_val :: "char \<Rightarrow> nat" where
  "digit_val c = of_char c - 48"

definition is_digit :: "char \<Rightarrow> bool" where
  "is_digit c \<longleftrightarrow> 48 \<le> (of_char c :: nat) \<and> (of_char c :: nat) \<le> 57"

fun digits10 :: "nat \<Rightarrow> string" where
  "digits10 n =
     (if n < 10 then [digit_char n]
      else digits10 (n div 10) @ [digit_char (n mod 10)])"

declare digits10.simps [simp del]

definition nat_of_digits :: "string \<Rightarrow> nat" where
  "nat_of_digits s = foldl (\<lambda>acc c. 10 * acc + digit_val c) 0 s"

lemma less_10_cases: "n < 10 \<longleftrightarrow> n \<in> {0, 1, 2, 3, 4, 5, 6, 7, 8, 9 :: nat}"
  by auto

lemma digit_val_digit_char [simp]: "n < 10 \<Longrightarrow> digit_val (digit_char n) = n"
  by (auto simp: less_10_cases digit_val_def digit_char_def)

lemma is_digit_digit_char [simp]: "n < 10 \<Longrightarrow> is_digit (digit_char n)"
  by (auto simp: less_10_cases is_digit_def digit_char_def)

lemma digit_val_less_10: "is_digit c \<Longrightarrow> digit_val c < 10"
  by (auto simp: is_digit_def digit_val_def)

lemma digits10_not_Nil [simp]: "digits10 n \<noteq> []"
  by (subst digits10.simps) simp

lemma digits10_digits: "c \<in> set (digits10 n) \<Longrightarrow> is_digit c"
proof (induction n arbitrary: c rule: digits10.induct)
  case (1 n)
  show ?case
  proof (cases "n < 10")
    case True
    with "1.prems" show ?thesis by (simp add: digits10.simps [of n])
  next
    case False
    with "1.prems" "1.IH" show ?thesis
      by (auto simp: digits10.simps [of n])
  qed
qed

lemma list_all_is_digit_digits10 [simp]: "list_all is_digit (digits10 n)"
  by (simp add: list_all_iff digits10_digits)

lemma nat_of_digits_snoc [simp]:
  "nat_of_digits (s @ [c]) = 10 * nat_of_digits s + digit_val c"
  by (simp add: nat_of_digits_def)

lemma nat_of_digits_Nil [simp]: "nat_of_digits [] = 0"
  by (simp add: nat_of_digits_def)

lemma nat_of_digits_digits10 [simp]: "nat_of_digits (digits10 n) = n"
proof (induction n rule: digits10.induct)
  case (1 n)
  show ?case
  proof (cases "n < 10")
    case True
    then show ?thesis
      by (simp add: digits10.simps [of n] nat_of_digits_def)
  next
    case False
    with "1.IH" show ?thesis
      by (simp add: digits10.simps [of n])
  qed
qed

lemma digits10_inj: "digits10 m = digits10 n \<Longrightarrow> m = n"
  by (metis nat_of_digits_digits10)

lemma is_digit_not_sep [simp]:
  "is_digit c \<Longrightarrow> c \<noteq> CHR ''/''" "is_digit c \<Longrightarrow> c \<noteq> CHR ''-''"
  "is_digit c \<Longrightarrow> c \<noteq> CHR ''+''"
  by (auto simp: is_digit_def)

end
