(* ===== verification/GoLib.thy ===== *)
theory GoLib
  imports Prelude
begin

text \<open>
  The parts of the Go runtime and of the libraries that the client calls and
  that the model has to give a meaning to: error values of package
  \<open>github.com/pkg/errors\<close> with the text their \<open>Error()\<close> method prints, the two
  ways a call can fail (a returned error, a run-time panic), \<open>strconv.Itoa\<close>
  and \<open>strconv.Atoi\<close> on 64-bit integers, \<open>strings.Split\<close>, \<open>path.Clean\<close> and
  \<open>path.Join\<close>. None of this code is in the repository; the definitions follow
  the documented behaviour of the libraries.
\<close>

section \<open>Error values and failures\<close>

datatype goerror =
    errors_New string
  | errors_Wrapped goerror string

fun Error :: "goerror \<Rightarrow> string" where
  "Error (errors_New m) = m"
| "Error (errors_Wrapped e m) = m @ '': '' @ Error e"

text \<open>
  \<open>errors.WithMessage(err, msg)\<close> annotates a non-nil error and returns nil
  for a nil one. A Go value of type \<open>error\<close> is a \<open>goerror option\<close>.
\<close>

definition errors_WithMessage :: "goerror option \<Rightarrow> string \<Rightarrow> goerror option" where
  "errors_WithMessage err m = (case err of None \<Rightarrow> None | Some e \<Rightarrow> Some (errors_Wrapped e m))"

datatype failure = Err goerror | Panic string

type_synonym 'a result = "failure + 'a"

text \<open>
  \<open>returning x err\<close> is what a caller that tests \<open>err != nil\<close> sees of
  \<open>return x, err\<close>.
\<close>

definition returning :: "'a \<Rightarrow> goerror option \<Rightarrow> 'a result" where
  "returning x err = (case err of None \<Rightarrow> Inr x | Some e \<Rightarrow> Inl (Err e))"

definition nil_dereference :: failure where
  "nil_dereference = Panic ''runtime error: invalid memory address or nil pointer dereference''"

definition index_out_of_range :: failure where
  "index_out_of_range = Panic ''runtime error: index out of range''"

fun failure_text :: "failure \<Rightarrow> string" where
  "failure_text (Err e) = Error e"
| "failure_text (Panic m) = m"

fun is_panic :: "failure \<Rightarrow> bool" where
  "is_panic (Panic m) = True"
| "is_panic (Err e) = False"

definition panics :: "'a result \<Rightarrow> bool" where
  "panics r = (case r of Inl f \<Rightarrow> is_panic f | Inr _ \<Rightarrow> False)"

lemma errors_WithMessage_simps [simp]:
  "errors_WithMessage None m = None"
  "errors_WithMessage (Some e) m = Some (errors_Wrapped e m)"
  by (simp_all add: errors_WithMessage_def)

lemma returning_simps [simp]:
  "returning x None = Inr x" "returning x (Some e) = Inl (Err e)"
  by (simp_all add: returning_def)

lemma panics_simps [simp]:
  "panics (Inl (Panic m))" "\<not> panics (Inl (Err e))" "\<not> panics (Inr x)"
  "panics (Inl nil_dereference)" "panics (Inl index_out_of_range)"
  by (simp_all add: panics_def nil_dereference_def index_out_of_range_def)

lemma panic_neq_Err [simp]:
  "nil_dereference \<noteq> Err e" "index_out_of_range \<noteq> Err e"
  "Err e \<noteq> nil_dereference" "Err e \<noteq> index_out_of_range"
  by (simp_all add: nil_dereference_def index_out_of_range_def)

lemma Error_Wrapped_suffix: "suffix (Error e) (Error (errors_Wrapped e m))"
  by (simp add: suffix_def)

lemma Error_Wrapped_sublist:
  "sublist s (Error e) \<Longrightarrow> sublist s (Error (errors_Wrapped e m))"
proof -
  assume "sublist s (Error e)"
  then obtain ps ss where "Error e = ps @ s @ ss"
    by (auto simp: sublist_def)
  then have "Error (errors_Wrapped e m) = (m @ '': '' @ ps) @ s @ ss"
    by simp
  then show ?thesis
    unfolding sublist_def by blast
qed

section \<open>strconv\<close>

text \<open>
  Go's \<open>int\<close> is taken to be 64 bits wide. \<open>Itoa\<close> prints a sign and the
  decimal digits; \<open>Atoi\<close> accepts an optional sign followed by one or more
  digits and refuses everything else, as well as values outside the range of
  \<open>int\<close>.
\<close>

definition MinInt :: int where "MinInt = - (2 ^ 63)"
definition MaxInt :: int where "MaxInt = 2 ^ 63 - 1"

definition fits_int :: "int \<Rightarrow> bool" where
  "fits_int i \<longleftrightarrow> MinInt \<le> i \<and> i \<le> MaxInt"

definition Itoa :: "int \<Rightarrow> string" where
  "Itoa i = (if i < 0 then CHR ''-'' # digits10 (nat (- i)) else digits10 (nat i))"

definition quote :: "string \<Rightarrow> string" where
  "quote s = [CHR 0x22] @ s @ [CHR 0x22]"

definition NumError :: "string \<Rightarrow> string \<Rightarrow> string \<Rightarrow> goerror" where
  "NumError fn s why = errors_New (''strconv.'' @ fn @ '': parsing '' @ quote s @ '': '' @ why)"

definition Atoi :: "string \<Rightarrow> goerror + int" where
  "Atoi s =
     (let neg = (s \<noteq> [] \<and> hd s = CHR ''-'');
          ds = (if s \<noteq> [] \<and> (hd s = CHR ''-'' \<or> hd s = CHR ''+'') then tl s else s)
      in if ds = [] \<or> \<not> list_all is_digit ds then Inl (NumError ''Atoi'' s ''invalid syntax'')
         else let v = (if neg then - int (nat_of_digits ds) else int (nat_of_digits ds))
              in if fits_int v then Inr v
                 else Inl (NumError ''Atoi'' s ''value out of range''))"

text \<open>
  \<open>Atoi_value\<close> is the integer that \<open>strconv.Atoi\<close> returns beside its error:
  the number parsed, 0 beside a syntax error, and beside a range error the
  largest or the smallest \<open>int\<close>, by the sign. It is what a caller holds that
  drops the error.
\<close>

definition Atoi_value :: "string \<Rightarrow> int" where
  "Atoi_value s =
     (let neg = (s \<noteq> [] \<and> hd s = CHR ''-'');
          ds = (if s \<noteq> [] \<and> (hd s = CHR ''-'' \<or> hd s = CHR ''+'') then tl s else s)
      in if ds = [] \<or> \<not> list_all is_digit ds then 0
         else let v = (if neg then - int (nat_of_digits ds) else int (nat_of_digits ds))
              in if fits_int v then v else if neg then MinInt else MaxInt)"

text \<open>\<open>strconv.ParseBool\<close> accepts twelve spellings and refuses everything else.\<close>

definition ParseBool :: "string \<Rightarrow> goerror + bool" where
  "ParseBool s =
     (if s \<in> set [''1'', ''t'', ''T'', ''TRUE'', ''true'', ''True''] then Inr True
      else if s \<in> set [''0'', ''f'', ''F'', ''FALSE'', ''false'', ''False''] then Inr False
      else Inl (NumError ''ParseBool'' s ''invalid syntax''))"

lemma fits_int_0 [simp]: "fits_int 0"
  by (simp add: fits_int_def MinInt_def MaxInt_def)

lemma Atoi_empty: "Atoi [] = Inl (NumError ''Atoi'' [] ''invalid syntax'')"
  by (simp add: Atoi_def)

lemma Itoa_not_Nil [simp]: "Itoa i \<noteq> []"
  by (simp add: Itoa_def)

lemma Itoa_nonneg: "0 \<le> i \<Longrightarrow> Itoa i = digits10 (nat i)"
  by (simp add: Itoa_def)

lemma Itoa_no_slash [simp]: "CHR ''/'' \<notin> set (Itoa i)"
  by (auto simp: Itoa_def is_digit_def dest!: digits10_digits)

lemma hd_digits10_is_digit: "is_digit (hd (digits10 n))"
  by (rule digits10_digits [of _ n]) simp

lemma Atoi_Itoa: "fits_int i \<Longrightarrow> Atoi (Itoa i) = Inr i"
proof (cases "i < 0")
  case True
  assume "fits_int i"
  with True show ?thesis
    by (simp add: Atoi_def Itoa_def)
next
  case False
  assume fit: "fits_int i"
  have "hd (digits10 (nat i)) \<noteq> CHR ''-''" "hd (digits10 (nat i)) \<noteq> CHR ''+''"
    using hd_digits10_is_digit [of "nat i"] is_digit_not_sep by blast+
  with False fit show ?thesis
    by (simp add: Atoi_def Itoa_def)
qed

lemma Atoi_Nil: "Atoi [] = Inl (NumError ''Atoi'' [] ''invalid syntax'')"
  by (simp add: Atoi_def)

lemma Atoi_fits: "Atoi s = Inr i \<Longrightarrow> fits_int i"
  by (auto simp: Atoi_def Let_def split: if_splits)

lemma Atoi_value_ok: "Atoi s = Inr i \<Longrightarrow> Atoi_value s = i"
  by (auto simp: Atoi_def Atoi_value_def Let_def split: if_splits)

lemma Atoi_value_syntax: "Atoi s = Inl (NumError ''Atoi'' s ''invalid syntax'') \<Longrightarrow> Atoi_value s = 0"
  by (auto simp: Atoi_def Atoi_value_def Let_def NumError_def split: if_splits)

lemma Atoi_value_fits [simp]: "fits_int (Atoi_value s)"
  by (simp add: Atoi_value_def Let_def) (simp add: fits_int_def MinInt_def MaxInt_def)

lemma Atoi_value_examples:
  "Atoi_value ''prod'' = 0" "Atoi_value ''99999999999999999999'' = MaxInt"
  "Atoi_value ''-99999999999999999999'' = MinInt"
  by (simp_all add: Atoi_value_def is_digit_def nat_of_digits_def digit_val_def fits_int_def
      MaxInt_def MinInt_def)

lemma Atoi_value_Itoa [simp]: "fits_int i \<Longrightarrow> Atoi_value (Itoa i) = i"
  by (simp add: Atoi_value_ok Atoi_Itoa)

lemma Itoa_inj: "Itoa i = Itoa j \<Longrightarrow> i = j"
proof -
  assume eq: "Itoa i = Itoa j"
  have neg: "hd (Itoa k) = CHR ''-'' \<longleftrightarrow> k < 0" for k
    using hd_digits10_is_digit [of "nat k"] is_digit_not_sep(2) by (auto simp: Itoa_def)
  from eq neg [of i] neg [of j] have same: "i < 0 \<longleftrightarrow> j < 0" by simp
  with eq show ?thesis
    by (auto simp: Itoa_def dest!: digits10_inj split: if_splits)
qed

section \<open>strings.Split\<close>

text \<open>
  \<open>split_str sep skip acc s\<close> scans \<open>s\<close> from the left for occurrences of the
  non-empty separator that do not overlap; \<open>skip\<close> counts the characters of a
  separator just found that are still to be passed over. An empty separator
  splits after each character.
\<close>

fun split_str :: "string \<Rightarrow> nat \<Rightarrow> string \<Rightarrow> string \<Rightarrow> string list" where
  "split_str sep skip acc [] = [rev acc]"
| "split_str sep skip acc (x # xs) =
     (if 0 < skip then split_str sep (skip - 1) acc xs
      else if prefix sep (x # xs) then rev acc # split_str sep (length sep - 1) [] xs
      else split_str sep 0 (x # acc) xs)"

definition strings_Split :: "string \<Rightarrow> string \<Rightarrow> string list" where
  "strings_Split s sep = (if sep = [] then map (\<lambda>c. [c]) s else split_str sep 0 [] s)"

lemma split_str_not_Nil [simp]: "split_str sep skip acc xs \<noteq> []"
  by (induction xs arbitrary: skip acc) simp_all

lemma split_str_char:
  "split_str [c] 0 acc xs = (rev acc @ hd (split_on c xs)) # tl (split_on c xs)"
  by (induction xs arbitrary: acc) auto

lemma strings_Split_char: "strings_Split s [c] = split_on c s"
  by (simp add: strings_Split_def split_str_char)

lemma strings_Split_not_Nil: "sep \<noteq> [] \<Longrightarrow> strings_Split s sep \<noteq> []"
  by (simp add: strings_Split_def)

section \<open>path.Clean and path.Join\<close>

text \<open>
  \<open>Clean\<close> works on the elements between slashes: empty elements and \<open>.\<close>
  vanish, \<open>..\<close> removes the element before it (at the start of a rooted
  path it vanishes, at the start of a relative path it stays). \<open>Join\<close>
  ignores empty arguments, joins the others with slashes and cleans the
  result.
\<close>

fun clean_elems :: "bool \<Rightarrow> string list \<Rightarrow> string list \<Rightarrow> string list" where
  "clean_elems rooted st [] = rev st"
| "clean_elems rooted st (e # es) =
     (if e = [] \<or> e = ''.'' then clean_elems rooted st es
      else if e = ''..'' then
        (case st of
           [] \<Rightarrow> if rooted then clean_elems rooted [] es else clean_elems rooted [''..''] es
         | t # ts \<Rightarrow> if t = ''..'' then clean_elems rooted (''..'' # st) es
                     else clean_elems rooted ts es)
      else clean_elems rooted (e # st) es)"

definition path_Clean :: "string \<Rightarrow> string" where
  "path_Clean p =
     (let rooted = (p \<noteq> [] \<and> hd p = CHR ''/'');
          body = join ''/'' (clean_elems rooted [] (split_on CHR ''/'' p))
      in if rooted then CHR ''/'' # body else if body = [] then ''.'' else body)"

definition path_Join :: "string list \<Rightarrow> string" where
  "path_Join elems =
     (let es = filter (\<lambda>e. e \<noteq> []) elems
      in if es = [] then [] else path_Clean (join ''/'' es))"

definition plain_segment :: "string \<Rightarrow> bool" where
  "plain_segment s \<longleftrightarrow> s \<noteq> [] \<and> CHR ''/'' \<notin> set s \<and> s \<noteq> ''.'' \<and> s \<noteq> ''..''"

lemma clean_elems_plain:
  "list_all plain_segment es \<Longrightarrow> clean_elems rooted st es = rev st @ es"
  by (induction es arbitrary: st) (simp_all add: plain_segment_def)

lemma split_on_join_plain:
  "list_all plain_segment es \<Longrightarrow> es \<noteq> [] \<Longrightarrow> split_on CHR ''/'' (join ''/'' es) = es"
proof (induction es)
  case Nil
  then show ?case by simp
next
  case (Cons p ps)
  note IH = Cons.IH and prems = Cons.prems
  show ?case
  proof (cases ps)
    case Nil
    with prems show ?thesis
      by (simp add: split_on_no_sep plain_segment_def)
  next
    case (Cons q qs)
    with IH prems have "split_on CHR ''/'' (join ''/'' ps) = ps"
      by simp
    with Cons prems show ?thesis
      by (simp add: split_on_append_sep split_on_no_sep plain_segment_def)
  qed
qed

lemma hd_join_plain:
  assumes "list_all plain_segment es" and "es \<noteq> []"
  shows "join ''/'' es \<noteq> [] \<and> hd (join ''/'' es) \<noteq> CHR ''/''"
proof -
  from assms obtain p ps where es: "es = p # ps" and p: "p \<noteq> []" "CHR ''/'' \<notin> set p"
    by (cases es) (auto simp: plain_segment_def)
  from p have "hd p \<noteq> CHR ''/''"
    by (metis hd_in_set)
  with es p show ?thesis
    by (cases ps) simp_all
qed

text \<open>A path made of plain segments is already clean.\<close>

lemma path_Clean_plain:
  assumes "list_all plain_segment es" and "es \<noteq> []"
  shows "path_Clean (join ''/'' es) = join ''/'' es"
  using assms hd_join_plain [OF assms]
  by (simp add: path_Clean_def split_on_join_plain clean_elems_plain)

end
