(* ===== verification/Config.thy ===== *)
theory Config
  imports GoLib
begin

text \<open>
  The provider's configuration value (\<open>provider.go\<close>, the third part of
  \<open>src/api_client.go\<close>): the struct \<open>Config\<close> and its constructor. Every
  operation of the client takes this value as an argument and none changes it.
\<close>

record Config =
  scheme :: string
  address :: string
  port :: string
  user :: string
  password :: string
  verifySSL :: bool

definition NewConfig :: "string \<Rightarrow> string \<Rightarrow> string \<Rightarrow> string \<Rightarrow> string \<Rightarrow> bool \<Rightarrow> Config" where
  "NewConfig scheme' address' port' user' password' verifySSL' =
     \<lparr>scheme = scheme', address = address', port = port', user = user',
      password = password', verifySSL = verifySSL'\<rparr>"

text \<open>An example configuration, for the instances of the properties.\<close>

definition demo_config :: Config where
  "demo_config = NewConfig ''https'' ''athena.example.org'' ''8443'' ''admin'' ''secret'' True"

lemma NewConfig_sel [simp]:
  "scheme (NewConfig s a p u pw v) = s" "address (NewConfig s a p u pw v) = a"
  "port (NewConfig s a p u pw v) = p" "user (NewConfig s a p u pw v) = u"
  "password (NewConfig s a p u pw v) = pw" "verifySSL (NewConfig s a p u pw v) = v"
  by (simp_all add: NewConfig_def)

lemma demo_config_sel [simp]:
  "scheme demo_config = ''https''" "address demo_config = ''athena.example.org''"
  "port demo_config = ''8443''" "user demo_config = ''admin''" "password demo_config = ''secret''"
  "verifySSL demo_config"
  by (simp_all add: demo_config_def)

end
