(* ===== verification/Json.thy ===== *)
theory Json
  imports GoLib
begin

text \<open>
  JSON documents as value trees, and the part of \<open>encoding/json\<close> the client
  relies on, read at the level of trees: the text of a document is not parsed
  here. A body on the wire is either a JSON document, given by its tree, or
  text that is no JSON document. What \<open>json.Unmarshal\<close> does with a tree
  depends on the Go type of the target; the decoders of the struct types are in
  theory \<open>Entities\<close>, built from the field decoders below. A member that
  does not fit the type of its field is skipped and reported, and the rest of
  the document is still decoded: a decoder is therefore a total function that
  gives the value (\<open>get\<close>), beside a predicate that says whether every member
  fitted (\<open>ok\<close>).
  Limits of the model: numbers are integers; object keys are matched exactly
  (Go also accepts a key that differs in case); strings are printed without
  escapes; the texts of the library's own errors are fixed strings.
\<close>

section \<open>Documents and bodies\<close>

datatype json =
    JNull
  | JBool bool
  | JNumber int
  | JString string
  | JArray "json list"
  | JObject "(string \<times> json) list"

type_synonym fields = "(string \<times> json) list"

fun json_string :: "json \<Rightarrow> string" where
  "json_string JNull = ''null''"
| "json_string (JBool b) = (if b then ''true'' else ''false'')"
| "json_string (JNumber n) = Itoa n"
| "json_string (JString s) = quote s"
| "json_string (JArray xs) = ''['' @ join '','' (map json_string xs) @ '']''"
| "json_string (JObject kvs) =
     ''{'' @ join '','' (map (\<lambda>(k, v). quote k @ '':'' @ json_string v) kvs) @ ''}''"

datatype body = Text string | Json json

fun body_string :: "body \<Rightarrow> string" where
  "body_string (Text s) = s"
| "body_string (Json j) = json_string j"

section \<open>Reading the members of an object\<close>

text \<open>
  The decoder assigns the members of an object in the order of the document,
  so of two members with one key the later one stays.
\<close>

definition member :: "fields \<Rightarrow> string \<Rightarrow> json option" where
  "member kvs k = map_of (rev kvs) k"

text \<open>
  The Go type of a target value: its zero value, what an object decodes to,
  and whether all members of an object fit.
\<close>

record 'a gotype =
  zero_value :: 'a
  decode :: "fields \<Rightarrow> 'a"
  fits :: "fields \<Rightarrow> bool"

text \<open>
  Field decoders. An absent member and \<open>null\<close> leave a field at its zero value
  and are no error; a member of another kind than the field is an error and
  leaves the field as it is, except that a nil pointer has been made to point
  to a zero value by then.
\<close>

definition get_string :: "json option \<Rightarrow> string" where
  "get_string m = (case m of Some (JString s) \<Rightarrow> s | _ \<Rightarrow> [])"

definition ok_string :: "json option \<Rightarrow> bool" where
  "ok_string m = (case m of None \<Rightarrow> True | Some JNull \<Rightarrow> True | Some (JString s) \<Rightarrow> True | _ \<Rightarrow> False)"

definition get_int :: "json option \<Rightarrow> int" where
  "get_int m = (case m of Some (JNumber n) \<Rightarrow> if fits_int n then n else 0 | _ \<Rightarrow> 0)"

definition ok_int :: "json option \<Rightarrow> bool" where
  "ok_int m = (case m of None \<Rightarrow> True | Some JNull \<Rightarrow> True | Some (JNumber n) \<Rightarrow> fits_int n | _ \<Rightarrow> False)"

definition get_map :: "json option \<Rightarrow> fields" where
  "get_map m = (case m of Some (JObject kvs) \<Rightarrow> kvs | _ \<Rightarrow> [])"

definition ok_map :: "json option \<Rightarrow> bool" where
  "ok_map m = (case m of None \<Rightarrow> True | Some JNull \<Rightarrow> True | Some (JObject kvs) \<Rightarrow> True | _ \<Rightarrow> False)"

definition get_struct :: "'a gotype \<Rightarrow> json option \<Rightarrow> 'a" where
  "get_struct T m = (case m of Some (JObject kvs) \<Rightarrow> decode T kvs | _ \<Rightarrow> zero_value T)"

definition ok_struct :: "'a gotype \<Rightarrow> json option \<Rightarrow> bool" where
  "ok_struct T m =
     (case m of None \<Rightarrow> True | Some JNull \<Rightarrow> True | Some (JObject kvs) \<Rightarrow> fits T kvs | _ \<Rightarrow> False)"

definition get_ptr :: "'a gotype \<Rightarrow> json option \<Rightarrow> 'a option" where
  "get_ptr T m =
     (case m of None \<Rightarrow> None | Some JNull \<Rightarrow> None | Some (JObject kvs) \<Rightarrow> Some (decode T kvs)
      | Some _ \<Rightarrow> Some (zero_value T))"

definition get_slice :: "'a gotype \<Rightarrow> json option \<Rightarrow> 'a list" where
  "get_slice T m = (case m of Some (JArray js) \<Rightarrow> map (\<lambda>j. get_struct T (Some j)) js | _ \<Rightarrow> [])"

definition ok_slice :: "'a gotype \<Rightarrow> json option \<Rightarrow> bool" where
  "ok_slice T m =
     (case m of None \<Rightarrow> True | Some JNull \<Rightarrow> True
      | Some (JArray js) \<Rightarrow> list_all (\<lambda>j. ok_struct T (Some j)) js | _ \<Rightarrow> False)"

definition get_slice_ptr :: "'a gotype \<Rightarrow> json option \<Rightarrow> 'a list option" where
  "get_slice_ptr T m =
     (case m of None \<Rightarrow> None | Some JNull \<Rightarrow> None | Some j \<Rightarrow> Some (get_slice T (Some j)))"

section \<open>Unmarshal and Marshal\<close>

definition SyntaxError :: goerror where
  "SyntaxError = errors_New ''invalid character looking for beginning of value''"

definition UnmarshalTypeError :: goerror where
  "UnmarshalTypeError = errors_New ''json: cannot unmarshal value into Go value''"

definition UnsupportedValueError :: goerror where
  "UnsupportedValueError = errors_New ''json: unsupported value''"

text \<open>
  \<open>json_Unmarshal T b\<close>: \<open>json.Unmarshal(b, &v)\<close> for a struct \<open>v\<close> of type \<open>T\<close>
  that holds its zero value before the call; the result is the value of \<open>v\<close>
  after the call and the error returned. \<open>json_Unmarshal_ptr T b\<close>: the same
  for a nil pointer to a struct, which \<open>null\<close> leaves nil. Text that is no JSON
  document is refused before anything is stored. \<open>json_Marshal enc x\<close> is the
  document of \<open>x\<close>, whose bytes are \<open>json_string\<close> of it; the encoder answers
  \<open>None\<close> for a value the library refuses.
\<close>

definition json_Unmarshal :: "'a gotype \<Rightarrow> body \<Rightarrow> 'a \<times> goerror option" where
  "json_Unmarshal T b =
     (case b of
        Text s \<Rightarrow> (zero_value T, Some SyntaxError)
      | Json j \<Rightarrow>
          (get_struct T (Some j), if ok_struct T (Some j) then None else Some UnmarshalTypeError))"

definition json_Unmarshal_ptr :: "'a gotype \<Rightarrow> body \<Rightarrow> 'a option \<times> goerror option" where
  "json_Unmarshal_ptr T b =
     (case b of
        Text s \<Rightarrow> (None, Some SyntaxError)
      | Json j \<Rightarrow>
          (get_ptr T (Some j), if ok_struct T (Some j) then None else Some UnmarshalTypeError))"

definition json_Marshal :: "('a \<Rightarrow> json option) \<Rightarrow> 'a \<Rightarrow> goerror + json" where
  "json_Marshal enc x =
     (case enc x of None \<Rightarrow> Inl UnsupportedValueError | Some j \<Rightarrow> Inr j)"

text \<open>
  The members a struct contributes to its document: \<open>omitempty\<close> leaves out a
  member whose value is the zero value of its type.
\<close>

definition enc_string :: "string \<Rightarrow> string \<Rightarrow> fields" where
  "enc_string k s = [(k, JString s)]"

definition enc_string_omitempty :: "string \<Rightarrow> string \<Rightarrow> fields" where
  "enc_string_omitempty k s = (if s = [] then [] else [(k, JString s)])"

definition enc_int_omitempty :: "string \<Rightarrow> int \<Rightarrow> fields" where
  "enc_int_omitempty k n = (if n = 0 then [] else [(k, JNumber n)])"

definition enc_map_omitempty :: "string \<Rightarrow> fields \<Rightarrow> fields" where
  "enc_map_omitempty k m = (if m = [] then [] else [(k, JObject m)])"

definition enc_ptr_omitempty :: "string \<Rightarrow> ('a \<Rightarrow> fields) \<Rightarrow> 'a option \<Rightarrow> fields" where
  "enc_ptr_omitempty k enc p = (case p of None \<Rightarrow> [] | Some x \<Rightarrow> [(k, JObject (enc x))])"

lemmas get_defs = get_string_def get_int_def get_map_def get_struct_def get_ptr_def
  get_slice_def get_slice_ptr_def

lemmas ok_defs = ok_string_def ok_int_def ok_map_def ok_struct_def ok_slice_def

lemmas enc_defs = enc_string_def enc_string_omitempty_def enc_int_omitempty_def
  enc_map_omitempty_def enc_ptr_omitempty_def

subsection \<open>Facts about members and field decoders\<close>

lemma member_Nil [simp]: "member [] k = None"
  by (simp add: member_def)

lemma member_append [simp]:
  "member (xs @ ys) k = (case member ys k of None \<Rightarrow> member xs k | Some v \<Rightarrow> Some v)"
  by (simp add: member_def map_add_def split: option.splits)

lemma member_single [simp]: "member [(k', v)] k = (if k = k' then Some v else None)"
  by (simp add: member_def)

lemma member_Cons:
  "member ((k', v) # xs) k = (case member xs k of None \<Rightarrow> (if k = k' then Some v else None) | Some w \<Rightarrow> Some w)"
  by (simp add: member_def map_add_def split: option.splits)

lemma get_absent [simp]:
  "get_string None = []" "get_int None = 0" "get_map None = []"
  "get_struct T None = zero_value T" "get_ptr T None = None" "get_slice T None = []"
  "get_slice_ptr T None = None"
  by (simp_all add: get_defs)

lemma ok_absent [simp]:
  "ok_string None" "ok_int None" "ok_map None" "ok_struct T None" "ok_slice T None"
  by (simp_all add: ok_defs)

lemma get_present [simp]:
  "get_string (Some (JString s)) = s"
  "get_int (Some (JNumber n)) = (if fits_int n then n else 0)"
  "get_map (Some (JObject kvs)) = kvs"
  "get_struct T (Some (JObject kvs)) = decode T kvs"
  "get_ptr T (Some (JObject kvs)) = Some (decode T kvs)"
  "get_slice T (Some (JArray js)) = map (\<lambda>j. get_struct T (Some j)) js"
  by (simp_all add: get_defs)

lemma ok_present [simp]:
  "ok_string (Some (JString s))" "ok_int (Some (JNumber n)) = fits_int n"
  "ok_map (Some (JObject kvs))" "ok_struct T (Some (JObject kvs)) = fits T kvs"
  "ok_slice T (Some (JArray js)) = list_all (\<lambda>j. ok_struct T (Some j)) js"
  by (simp_all add: ok_defs)

lemma fits_int_get_int [simp]: "fits_int (get_int m)"
  by (simp add: get_int_def split: option.splits json.splits)

lemma get_enc [simp]:
  "get_string (member (enc_string_omitempty k s) k) = s"
  "get_string (member (enc_string k s) k) = s"
  "fits_int n \<Longrightarrow> get_int (member (enc_int_omitempty k n) k) = n"
  "get_map (member (enc_map_omitempty k m) k) = m"
  by (simp_all add: enc_defs)

lemma ok_enc [simp]:
  "ok_string (member (enc_string_omitempty k s) k')" "ok_string (member (enc_string k s) k')"
  "fits_int n \<Longrightarrow> ok_int (member (enc_int_omitempty k n) k')"
  "ok_map (member (enc_map_omitempty k m) k')"
  by (simp_all add: enc_defs)

lemma member_enc_other [simp]:
  "k \<noteq> k' \<Longrightarrow> member (enc_string_omitempty k' s) k = None"
  "k \<noteq> k' \<Longrightarrow> member (enc_string k' s) k = None"
  "k \<noteq> k' \<Longrightarrow> member (enc_int_omitempty k' n) k = None"
  "k \<noteq> k' \<Longrightarrow> member (enc_map_omitempty k' m) k = None"
  "k \<noteq> k' \<Longrightarrow> member (enc_ptr_omitempty k' enc p) k = None"
  by (simp_all add: enc_defs split: option.splits)

text \<open>
  Looking a key up in a document assembled from the members of a struct:
  \<open>member_skip\<close> passes a member with another key, \<open>member_hit\<close> stops at the
  member with the key when no later member has it.
\<close>

lemma member_append_right: "member xs k = None \<Longrightarrow> member (xs @ ys) k = member ys k"
  by (simp split: option.splits)

lemma member_append_left: "member ys k = None \<Longrightarrow> member (xs @ ys) k = member xs k"
  by (simp split: option.splits)

lemma member_skip:
  "k \<noteq> k' \<Longrightarrow> member (enc_string_omitempty k' s @ ys) k = member ys k"
  "k \<noteq> k' \<Longrightarrow> member (enc_string k' s @ ys) k = member ys k"
  "k \<noteq> k' \<Longrightarrow> member (enc_int_omitempty k' n @ ys) k = member ys k"
  "k \<noteq> k' \<Longrightarrow> member (enc_map_omitempty k' m @ ys) k = member ys k"
  "k \<noteq> k' \<Longrightarrow> member (enc_ptr_omitempty k' enc p @ ys) k = member ys k"
  by (simp_all split: option.splits)

lemma member_hit:
  "member ys k = None \<Longrightarrow> member (enc_string_omitempty k s @ ys) k = member (enc_string_omitempty k s) k"
  "member ys k = None \<Longrightarrow> member (enc_string k s @ ys) k = member (enc_string k s) k"
  "member ys k = None \<Longrightarrow> member (enc_int_omitempty k n @ ys) k = member (enc_int_omitempty k n) k"
  "member ys k = None \<Longrightarrow> member (enc_map_omitempty k m @ ys) k = member (enc_map_omitempty k m) k"
  "member ys k = None \<Longrightarrow> member (enc_ptr_omitempty k enc p @ ys) k = member (enc_ptr_omitempty k enc p) k"
  by (simp_all add: member_append_left)

lemmas member_pick = member_skip member_hit

lemma member_enc_ptr [simp]:
  "member (enc_ptr_omitempty k enc p) k = map_option (\<lambda>x. JObject (enc x)) p"
  by (simp add: enc_ptr_omitempty_def split: option.splits)

lemma get_ptr_enc [simp]:
  "get_ptr T (map_option (\<lambda>x. JObject (enc x)) p) = map_option (\<lambda>x. decode T (enc x)) p"
  "ok_struct T (map_option (\<lambda>x. JObject (enc x)) p) = (case p of None \<Rightarrow> True | Some x \<Rightarrow> fits T (enc x))"
  by (cases p; simp)+

lemma json_Unmarshal_Text [simp]:
  "json_Unmarshal T (Text s) = (zero_value T, Some SyntaxError)"
  "json_Unmarshal_ptr T (Text s) = (None, Some SyntaxError)"
  by (simp_all add: json_Unmarshal_def json_Unmarshal_ptr_def)

lemma json_Unmarshal_null [simp]:
  "json_Unmarshal T (Json JNull) = (zero_value T, None)"
  "json_Unmarshal_ptr T (Json JNull) = (None, None)"
  by (simp_all add: json_Unmarshal_def json_Unmarshal_ptr_def get_defs ok_defs)

lemma json_Unmarshal_object [simp]:
  "json_Unmarshal T (Json (JObject kvs)) =
     (decode T kvs, if fits T kvs then None else Some UnmarshalTypeError)"
  "json_Unmarshal_ptr T (Json (JObject kvs)) =
     (Some (decode T kvs), if fits T kvs then None else Some UnmarshalTypeError)"
  by (simp_all add: json_Unmarshal_def json_Unmarshal_ptr_def)

lemma json_Unmarshal_ptr_None:
  "json_Unmarshal_ptr T b = (None, None) \<longleftrightarrow> b = Json JNull"
  by (cases b) (auto simp: json_Unmarshal_ptr_def get_defs ok_defs split: json.splits)

end
