(* ===== verification/World.thy ===== *)
theory World
  imports Json
begin

text \<open>
  Everything outside the program that its behaviour depends on: the clock, the
  remote service behind \<open>net/http\<close>, and the verdict of \<open>net/url\<close> on a URL.
  The world is a record that the operations of the client take and return.
  The remote service is an arbitrary function of the calls made so far and of
  the call at hand; it says how long the exchange takes, how much of the
  request body it reads, and what comes back: a transport error or a response.
  The clock counts nanoseconds, as \<open>time.Duration\<close> does; an exchange takes a
  time that is not negative, and a sleep lasts at least as long as asked.
\<close>

section \<open>Requests, responses and the world\<close>

record http_request =
  req_method :: string
  req_url :: string
  req_header :: "(string \<times> string) list"
  req_basic_auth :: "(string \<times> string) option"
  req_body :: "body option"

record http_response =
  StatusCode :: int
  resp_body :: "goerror + body"

record http_client =
  InsecureSkipVerify :: bool

record call =
  call_at :: int
  call_client :: http_client
  call_req :: http_request

record exchange =
  latency :: nat
  consumed :: nat
  reply :: "goerror + http_response"

record world =
  clock :: int
  calls :: "call list"
  network :: "call list \<Rightarrow> call \<Rightarrow> exchange"
  oversleep :: "int \<Rightarrow> nat"
  url_ok :: "string \<Rightarrow> bool"

section \<open>Time\<close>

text \<open>
  A \<open>time.Duration\<close> is an \<open>int64\<close> of nanoseconds. \<open>Duration_ms n\<close> is
  \<open>time.Duration(n) * time.Millisecond\<close>, computed at that width.
\<close>

definition Millisecond :: int where
  "Millisecond = 1000000"

definition Duration_ms :: "int \<Rightarrow> int" where
  "Duration_ms n = sint ((word_of_int n :: 64 word) * word_of_int Millisecond)"

definition time_Now :: "world \<Rightarrow> int" where
  "time_Now w = clock w"

definition time_Since :: "int \<Rightarrow> world \<Rightarrow> int" where
  "time_Since start w = clock w - start"

definition time_Sleep :: "int \<Rightarrow> world \<Rightarrow> world" where
  "time_Sleep d w = w\<lparr>clock := clock w + max 0 d + int (oversleep w (clock w))\<rparr>"

section \<open>net/http\<close>

definition url_error :: "string \<Rightarrow> goerror" where
  "url_error u = errors_New (''parse '' @ quote u @ '': invalid URL'')"

definition http_NewRequest :: "world \<Rightarrow> string \<Rightarrow> string \<Rightarrow> body option \<Rightarrow> goerror + http_request" where
  "http_NewRequest w m u b =
     (if url_ok w u
      then Inr \<lparr>req_method = m, req_url = u, req_header = [], req_basic_auth = None, req_body = b\<rparr>
      else Inl (url_error u))"

text \<open>
  \<open>Header.Add\<close> files a value under the canonical form of its key
  (\<open>textproto.CanonicalMIMEHeaderKey\<close>): the first letter and every letter after
  a hyphen in upper case, the others in lower case; a key with a character
  that no header name may hold is left as it is. The header of a request is
  the list of the pairs added, in the order of the calls.
\<close>

definition lower_letters :: string where "lower_letters = ''abcdefghijklmnopqrstuvwxyz''"
definition upper_letters :: string where "upper_letters = ''ABCDEFGHIJKLMNOPQRSTUVWXYZ''"

definition to_upper :: "char \<Rightarrow> char" where
  "to_upper c = (case map_of (zip lower_letters upper_letters) c of Some u \<Rightarrow> u | None \<Rightarrow> c)"

definition to_lower :: "char \<Rightarrow> char" where
  "to_lower c = (case map_of (zip upper_letters lower_letters) c of Some l \<Rightarrow> l | None \<Rightarrow> c)"

definition is_token_char :: "char \<Rightarrow> bool" where
  "is_token_char c \<longleftrightarrow>
     c \<in> set lower_letters \<or> c \<in> set upper_letters \<or> c \<in> set ''0123456789''
     \<or> c \<in> set [CHR ''!'', CHR ''#'', CHR ''$'', CHR ''%'', CHR ''&'', CHR 0x27, CHR ''*'', CHR ''+'',
          CHR ''-'', CHR ''.'', CHR ''^'', CHR ''_'', CHR 0x60, CHR ''|'', CHR ''~'']"

fun canonical_from :: "bool \<Rightarrow> string \<Rightarrow> string" where
  "canonical_from up [] = []"
| "canonical_from up (c # cs) =
     (if up then to_upper c else to_lower c) # canonical_from (c = CHR ''-'') cs"

definition CanonicalMIMEHeaderKey :: "string \<Rightarrow> string" where
  "CanonicalMIMEHeaderKey s = (if list_all is_token_char s then canonical_from True s else s)"

definition Header_Add :: "string \<Rightarrow> string \<Rightarrow> http_request \<Rightarrow> http_request" where
  "Header_Add k v req = req\<lparr>req_header := req_header req @ [(CanonicalMIMEHeaderKey k, v)]\<rparr>"

definition SetBasicAuth :: "string \<Rightarrow> string \<Rightarrow> http_request \<Rightarrow> http_request" where
  "SetBasicAuth u p req = req\<lparr>req_basic_auth := Some (u, p)\<rparr>"

text \<open>
  \<open>client_Do\<close> performs one exchange. It returns the reply, what is left
  unread of the request body (\<open>None\<close> for a request without a body), and the
  world after the exchange. \<open>exchange_of\<close> and \<open>after_call\<close> name the two
  parts of that step for the lemmas: what the service answers to a request
  made now, and the world once the answer has arrived.
\<close>

definition call_of :: "http_client \<Rightarrow> http_request \<Rightarrow> world \<Rightarrow> call" where
  "call_of c req w = \<lparr>call_at = clock w, call_client = c, call_req = req\<rparr>"

definition exchange_of :: "http_client \<Rightarrow> http_request \<Rightarrow> world \<Rightarrow> exchange" where
  "exchange_of c req w = network w (calls w) (call_of c req w)"

definition after_call :: "http_client \<Rightarrow> http_request \<Rightarrow> world \<Rightarrow> world" where
  "after_call c req w =
     w\<lparr>clock := clock w + int (latency (exchange_of c req w)), calls := calls w @ [call_of c req w]\<rparr>"

definition client_Do :: "http_client \<Rightarrow> http_request \<Rightarrow> world \<Rightarrow> (goerror + http_response) \<times> string option \<times> world" where
  "client_Do c req w =
     (let k = \<lparr>call_at = clock w, call_client = c, call_req = req\<rparr>;
          x = network w (calls w) k
      in (reply x,
          map_option (\<lambda>b. drop (consumed x) (body_string b)) (req_body req),
          w\<lparr>clock := clock w + int (latency x), calls := calls w @ [k]\<rparr>))"

text \<open>
  \<open>ioutil.ReadAll(req.Body)\<close> after the exchange, its error dropped: the
  unread text, or a panic when the request has no body.
\<close>

definition ReadAll_request :: "string option \<Rightarrow> string result" where
  "ReadAll_request left = (case left of None \<Rightarrow> Inl nil_dereference | Some s \<Rightarrow> Inr s)"

section \<open>Example worlds\<close>

text \<open>
  \<open>world_with net\<close> is a world at time 0 with no call made, exact sleeps, every
  URL accepted and the service \<open>net\<close>; in \<open>unreachable\<close> the service refuses
  every connection.
\<close>

definition refusing :: exchange where
  "refusing = \<lparr>latency = 0, consumed = 0, reply = Inl (errors_New ''connection refused'')\<rparr>"

definition world_with :: "(call list \<Rightarrow> call \<Rightarrow> exchange) \<Rightarrow> world" where
  "world_with net = \<lparr>clock = 0, calls = [], network = net, oversleep = (\<lambda>t. 0), url_ok = (\<lambda>u. True)\<rparr>"

definition unreachable :: world where
  "unreachable = world_with (\<lambda>h k. refusing)"

section \<open>Facts: the clock and the call history\<close>

lemma Millisecond_pos [simp]: "0 < Millisecond"
  by (simp add: Millisecond_def)

lemma Duration_ms_5000 [simp]: "Duration_ms 5000 = 5000000000"
  by (simp add: Duration_ms_def Millisecond_def)

lemma Duration_ms_3600000 [simp]: "Duration_ms 3600000 = 3600000000000"
  by (simp add: Duration_ms_def Millisecond_def)

lemma time_Sleep_clock [clock_mono]: "clock w + max 0 d \<le> clock (time_Sleep d w)"
  by (simp add: time_Sleep_def)

lemma time_Sleep_clock_mono [clock_mono]: "clock w \<le> clock (time_Sleep d w)"
  by (simp add: time_Sleep_def)

lemma time_Sleep_sel [simp]:
  "calls (time_Sleep d w) = calls w" "network (time_Sleep d w) = network w"
  "oversleep (time_Sleep d w) = oversleep w" "url_ok (time_Sleep d w) = url_ok w"
  by (simp_all add: time_Sleep_def)

lemma client_Do_eq:
  "client_Do c req w =
     (reply (exchange_of c req w),
      map_option (\<lambda>b. drop (consumed (exchange_of c req w)) (body_string b)) (req_body req),
      after_call c req w)"
  by (simp add: client_Do_def exchange_of_def after_call_def call_of_def Let_def)

lemma after_call_sel [simp]:
  "clock (after_call c req w) = clock w + int (latency (exchange_of c req w))"
  "calls (after_call c req w) = calls w @ [call_of c req w]"
  "network (after_call c req w) = network w" "oversleep (after_call c req w) = oversleep w"
  "url_ok (after_call c req w) = url_ok w"
  by (simp_all add: after_call_def)

lemma after_call_clock [clock_mono]: "clock w \<le> clock (after_call c req w)"
  by simp

lemma call_of_sel [simp]:
  "call_at (call_of c req w) = clock w" "call_client (call_of c req w) = c"
  "call_req (call_of c req w) = req"
  by (simp_all add: call_of_def)

lemma client_Do_clock [clock_mono]:
  "client_Do c req w = (r, left, w') \<Longrightarrow> clock w \<le> clock w'"
  by (auto simp: client_Do_def Let_def)

lemma client_Do_calls:
  "client_Do c req w = (r, left, w') \<Longrightarrow>
     calls w' = calls w @ [\<lparr>call_at = clock w, call_client = c, call_req = req\<rparr>]"
  by (auto simp: client_Do_def Let_def)

lemma client_Do_sel:
  "client_Do c req w = (r, left, w') \<Longrightarrow>
     network w' = network w \<and> oversleep w' = oversleep w \<and> url_ok w' = url_ok w"
  by (auto simp: client_Do_def Let_def)

lemma client_Do_left:
  "client_Do c req w = (r, left, w') \<Longrightarrow> (left = None \<longleftrightarrow> req_body req = None)"
  by (auto simp: client_Do_def Let_def)

lemma http_NewRequest_Inr:
  "http_NewRequest w m u b = Inr req \<Longrightarrow>
     req_method req = m \<and> req_url req = u \<and> req_body req = b \<and> req_header req = []
     \<and> req_basic_auth req = None \<and> url_ok w u"
  by (auto simp: http_NewRequest_def split: if_splits)

lemma http_NewRequest_ok [simp]:
  "url_ok w u \<Longrightarrow> http_NewRequest w m u b =
     Inr \<lparr>req_method = m, req_url = u, req_header = [], req_basic_auth = None, req_body = b\<rparr>"
  by (simp add: http_NewRequest_def)

lemma http_NewRequest_bad [simp]:
  "\<not> url_ok w u \<Longrightarrow> http_NewRequest w m u b = Inl (url_error u)"
  by (simp add: http_NewRequest_def)

lemma Header_Add_sel [simp]:
  "req_method (Header_Add k v r) = req_method r" "req_url (Header_Add k v r) = req_url r"
  "req_body (Header_Add k v r) = req_body r"
  "req_basic_auth (Header_Add k v r) = req_basic_auth r"
  "req_header (Header_Add k v r) = req_header r @ [(CanonicalMIMEHeaderKey k, v)]"
  by (simp_all add: Header_Add_def)

lemmas canonical_defs = CanonicalMIMEHeaderKey_def is_token_char_def to_upper_def to_lower_def
  lower_letters_def upper_letters_def

lemma canonical_keys [simp]:
  "CanonicalMIMEHeaderKey ''Content-Type'' = ''Content-Type''"
  "CanonicalMIMEHeaderKey ''Accept'' = ''Accept''"
  "CanonicalMIMEHeaderKey ''Cache-Control'' = ''Cache-Control''"
  "CanonicalMIMEHeaderKey ''cache-control'' = ''Cache-Control''"
  "CanonicalMIMEHeaderKey ''accept-encoding'' = ''Accept-Encoding''"
  "CanonicalMIMEHeaderKey ''Connection'' = ''Connection''"
  "CanonicalMIMEHeaderKey ''Host'' = ''Host''"
  "CanonicalMIMEHeaderKey ''SOURCE'' = ''Source''"
  by (simp_all add: canonical_defs)

lemma SetBasicAuth_sel [simp]:
  "req_method (SetBasicAuth u p r) = req_method r" "req_url (SetBasicAuth u p r) = req_url r"
  "req_body (SetBasicAuth u p r) = req_body r"
  "req_basic_auth (SetBasicAuth u p r) = Some (u, p)"
  "req_header (SetBasicAuth u p r) = req_header r"
  by (simp_all add: SetBasicAuth_def)

lemma world_with_sel [simp]:
  "clock (world_with net) = 0" "calls (world_with net) = []" "network (world_with net) = net"
  "oversleep (world_with net) t = 0" "url_ok (world_with net) u"
  by (simp_all add: world_with_def)

lemma refusing_sel [simp]:
  "latency refusing = 0" "consumed refusing = 0"
  "reply refusing = Inl (errors_New ''connection refused'')"
  by (simp_all add: refusing_def)

end
