(* ===== verification/Transport.thy ===== *)
theory Transport
  imports Config World
begin

text \<open>
  The transport helpers of \<open>src/api_client.go\<close>: the constants of the API,
  the URL builders (\<open>collectionURL\<close>, \<open>itemURL\<close>, \<open>urlFromHref\<close>), the headers
  every request carries (\<open>setStandardHeaders\<close>, \<open>setHeaders\<close>), the HTTP client
  (\<open>getHttpClient\<close>), the classification of a response by its status
  (\<open>checkForErrors\<close>, \<open>readResponse\<close>) and the builders of POST and PUT
  requests (\<open>buildPostRequest\<close>, \<open>buildPutRequest\<close>). The lemmas give the
  canonical form of the URLs, the headers of a built request and the exact
  condition under which a response counts as a failure.
\<close>

section \<open>Constants\<close>

definition ApiVersion :: string where "ApiVersion = ''api/v3''"
definition ApiNamespace :: string where "ApiNamespace = ''onefuse''"
definition WorkspaceResourceType :: string where "WorkspaceResourceType = ''workspaces''"
definition ModuleEndpointResourceType :: string where "ModuleEndpointResourceType = ''endpoints''"
definition ModulePolicyResourceType :: string where "ModulePolicyResourceType = ''modulePolicies''"
definition ModuleDepoloymentResourceType :: string where
  "ModuleDepoloymentResourceType = ''moduleManagedObjects''"
definition IPAMReservationResourceType :: string where
  "IPAMReservationResourceType = ''ipamReservations''"
definition IPAMPolicyResourceType :: string where "IPAMPolicyResourceType = ''ipamPolicies''"
definition JobStatusResourceType :: string where "JobStatusResourceType = ''jobStatus''"
definition RenderTemplateType :: string where "RenderTemplateType = ''templateTester''"
definition JobSuccess :: string where "JobSuccess = ''Successful''"
definition JobFailed :: string where "JobFailed = ''Failed''"

lemmas resource_type_defs = WorkspaceResourceType_def ModuleEndpointResourceType_def
  ModulePolicyResourceType_def ModuleDepoloymentResourceType_def
  IPAMReservationResourceType_def IPAMPolicyResourceType_def JobStatusResourceType_def
  RenderTemplateType_def

section \<open>URLs\<close>

definition baseURL :: "Config \<Rightarrow> string" where
  "baseURL config = scheme config @ ''://'' @ address config @ '':'' @ port config"

definition collectionURL :: "Config \<Rightarrow> string \<Rightarrow> string" where
  "collectionURL config resourceType =
     (let endpoint = path_Join [ApiVersion, ApiNamespace, resourceType]
      in baseURL config @ ''/'' @ endpoint @ ''/'')"

definition urlFromHref :: "Config \<Rightarrow> string \<Rightarrow> string" where
  "urlFromHref config href = baseURL config @ href"

definition itemURL :: "Config \<Rightarrow> string \<Rightarrow> int \<Rightarrow> string" where
  "itemURL config resourceType id' =
     (let idString = Itoa id'
      in collectionURL config resourceType @ idString @ ''/'')"

section \<open>Headers and the client\<close>

definition setStandardHeaders :: "http_request \<Rightarrow> http_request" where
  "setStandardHeaders req =
     (Header_Add ''cache-control'' ''no-cache''
      (Header_Add ''Connection'' ''keep-alive''
      (Header_Add ''accept-encoding'' ''gzip, deflate''
      (Header_Add ''Cache-Control'' ''no-cache''
      (Header_Add ''Accept'' ''*/*''
      (Header_Add ''Content-Type'' ''application/json'' req))))))"

definition setHeaders :: "http_request \<Rightarrow> Config \<Rightarrow> http_request" where
  "setHeaders req config =
     SetBasicAuth (user config) (password config)
      (Header_Add ''SOURCE'' ''Terraform''
      (Header_Add ''Host'' (address config @ '':'' @ port config)
      (setStandardHeaders req)))"

definition getHttpClient :: "Config \<Rightarrow> http_client" where
  "getHttpClient config = \<lparr>InsecureSkipVerify = \<not> verifySSL config\<rparr>"

section \<open>Responses\<close>

definition checkForErrors :: "http_response \<Rightarrow> goerror option" where
  "checkForErrors res =
     (if StatusCode res \<ge> 500 then
        (case resp_body res of Inl err \<Rightarrow> Some err | Inr b \<Rightarrow> Some (errors_New (body_string b)))
      else if StatusCode res \<ge> 400 then
        (case resp_body res of Inl err \<Rightarrow> Some err | Inr b \<Rightarrow> Some (errors_New (body_string b)))
      else None)"

definition readResponse :: "http_response \<Rightarrow> goerror + body" where
  "readResponse res =
     (case checkForErrors res of
        Some err \<Rightarrow> Inl err
      | None \<Rightarrow> resp_body res)"

section \<open>Requests with a body\<close>

text \<open>
  The entity to send has the Go type \<open>interface{}\<close>; its encoder, the first
  argument, stands for the dynamic type of the value.
\<close>

definition buildPostRequest :: "('a \<Rightarrow> json option) \<Rightarrow> world \<Rightarrow> Config \<Rightarrow> string \<Rightarrow> 'a \<Rightarrow> http_request result" where
  "buildPostRequest enc w config resourceType requestEntity =
     (let url = collectionURL config resourceType
      in case json_Marshal enc requestEntity of
           Inl err \<Rightarrow>
             Inl (Err (errors_Wrapped err ''athena.apiClient: Failed to marshal request body to JSON''))
         | Inr j \<Rightarrow>
             (let requestBody = json_string j
              in case http_NewRequest w ''POST'' url (Some (Json j)) of
                   Inl err \<Rightarrow>
                     Inl (Err (errors_Wrapped err
                       (''athena.apiClient: Unable to create request POST '' @ url @ '' '' @ requestBody)))
                 | Inr req \<Rightarrow> Inr (setHeaders req config)))"

definition buildPutRequest :: "('a \<Rightarrow> json option) \<Rightarrow> world \<Rightarrow> Config \<Rightarrow> string \<Rightarrow> 'a \<Rightarrow> int \<Rightarrow> http_request result" where
  "buildPutRequest enc w config resourceType requestEntity id' =
     (let url = itemURL config resourceType id'
      in case json_Marshal enc requestEntity of
           Inl err \<Rightarrow>
             Inl (Err (errors_Wrapped err ''athena.apiClient: Failed to marshal request body to JSON''))
         | Inr j \<Rightarrow>
             (let requestBody = json_string j
              in case http_NewRequest w ''PUT'' url (Some (Json j)) of
                   Inl err \<Rightarrow>
                     Inl (Err (errors_Wrapped err
                       (''athena.apiClient: Unable to create request PUT '' @ url @ '' '' @ requestBody)))
                 | Inr req \<Rightarrow> Inr (setHeaders req config)))"

declare baseURL_def [model_defs] collectionURL_def [model_defs] itemURL_def [model_defs]
  urlFromHref_def [model_defs]

section \<open>The canonical form of the URLs\<close>

lemma plain_resource_types [simp]:
  "plain_segment WorkspaceResourceType" "plain_segment ModuleEndpointResourceType"
  "plain_segment ModulePolicyResourceType" "plain_segment ModuleDepoloymentResourceType"
  "plain_segment IPAMReservationResourceType" "plain_segment IPAMPolicyResourceType"
  "plain_segment JobStatusResourceType" "plain_segment RenderTemplateType"
  by (simp_all add: plain_segment_def resource_type_defs)

lemma path_Join_api:
  assumes "plain_segment rt"
  shows "path_Join [ApiVersion, ApiNamespace, rt] = ''api/v3/onefuse/'' @ rt"
proof -
  let ?es = "[''api'', ''v3'', ''onefuse'', rt]"
  have "list_all plain_segment ?es"
    using assms by (simp add: plain_segment_def)
  then have "path_Clean (join ''/'' ?es) = join ''/'' ?es"
    by (rule path_Clean_plain) simp
  moreover have "join ''/'' [ApiVersion, ApiNamespace, rt] = join ''/'' ?es"
    by (simp add: ApiVersion_def ApiNamespace_def)
  ultimately show ?thesis
    using assms by (simp add: path_Join_def ApiVersion_def ApiNamespace_def plain_segment_def)
qed

lemma collectionURL_plain:
  "plain_segment rt \<Longrightarrow>
     collectionURL config rt =
       scheme config @ ''://'' @ address config @ '':'' @ port config @ ''/api/v3/onefuse/'' @ rt @ ''/''"
  by (simp add: collectionURL_def baseURL_def path_Join_api)

lemma itemURL_plain:
  "plain_segment rt \<Longrightarrow>
     itemURL config rt n =
       scheme config @ ''://'' @ address config @ '':'' @ port config @ ''/api/v3/onefuse/'' @ rt
         @ ''/'' @ Itoa n @ ''/''"
  by (simp add: itemURL_def collectionURL_plain)

lemma itemURL_collectionURL: "itemURL config rt n = collectionURL config rt @ Itoa n @ ''/''"
  by (simp add: itemURL_def)

lemma itemURL_inj: "itemURL config rt m = itemURL config rt n \<Longrightarrow> m = n"
  by (auto simp: itemURL_def dest: Itoa_inj)

section \<open>The headers of a request\<close>

definition standard_headers :: "(string \<times> string) list" where
  "standard_headers =
     [(''Content-Type'', ''application/json''), (''Accept'', ''*/*''),
      (''Cache-Control'', ''no-cache''), (''Accept-Encoding'', ''gzip, deflate''),
      (''Connection'', ''keep-alive''), (''Cache-Control'', ''no-cache'')]"

lemma setStandardHeaders_sel [simp]:
  "req_header (setStandardHeaders req) = req_header req @ standard_headers"
  "req_method (setStandardHeaders req) = req_method req"
  "req_url (setStandardHeaders req) = req_url req"
  "req_body (setStandardHeaders req) = req_body req"
  "req_basic_auth (setStandardHeaders req) = req_basic_auth req"
  by (simp_all add: setStandardHeaders_def standard_headers_def)

lemma setHeaders_sel [simp]:
  "req_header (setHeaders req config) =
     req_header req @ standard_headers
       @ [(''Host'', address config @ '':'' @ port config), (''Source'', ''Terraform'')]"
  "req_method (setHeaders req config) = req_method req"
  "req_url (setHeaders req config) = req_url req"
  "req_body (setHeaders req config) = req_body req"
  "req_basic_auth (setHeaders req config) = Some (user config, password config)"
  by (simp_all add: setHeaders_def)

section \<open>Which responses are failures\<close>

lemma checkForErrors_None_iff: "checkForErrors res = None \<longleftrightarrow> StatusCode res < 400"
  by (auto simp: checkForErrors_def split: sum.splits)

lemma checkForErrors_Some: "checkForErrors res = Some err \<Longrightarrow> 400 \<le> StatusCode res"
  by (auto simp: checkForErrors_def split: if_splits)

lemma checkForErrors_ok [simp]: "StatusCode res < 400 \<Longrightarrow> checkForErrors res = None"
  by (simp add: checkForErrors_None_iff)

lemma checkForErrors_body:
  "400 \<le> StatusCode res \<Longrightarrow> resp_body res = Inr b \<Longrightarrow>
     checkForErrors res = Some (errors_New (body_string b))"
  by (simp add: checkForErrors_def)

lemma readResponse_Inr_iff:
  "readResponse res = Inr b \<longleftrightarrow> StatusCode res < 400 \<and> resp_body res = Inr b"
  by (auto simp: readResponse_def checkForErrors_def split: sum.splits option.splits)

lemma readResponse_ok [simp]:
  "StatusCode res < 400 \<Longrightarrow> readResponse res = resp_body res"
  by (simp add: readResponse_def checkForErrors_def)

section \<open>Built requests\<close>

lemma buildPostRequest_Inr:
  "buildPostRequest enc w config rt x = Inr req \<Longrightarrow>
     \<exists>j. enc x = Some j \<and> req_method req = ''POST'' \<and> req_url req = collectionURL config rt
       \<and> req_body req = Some (Json j)
       \<and> req_basic_auth req = Some (user config, password config)
       \<and> url_ok w (collectionURL config rt)"
  by (auto simp: buildPostRequest_def json_Marshal_def Let_def
      split: option.splits sum.splits dest!: http_NewRequest_Inr)

lemma buildPostRequest_ok:
  "enc x = Some j \<Longrightarrow> url_ok w (collectionURL config rt) \<Longrightarrow>
     buildPostRequest enc w config rt x =
       Inr (setHeaders \<lparr>req_method = ''POST'', req_url = collectionURL config rt, req_header = [],
              req_basic_auth = None, req_body = Some (Json j)\<rparr> config)"
  by (simp add: buildPostRequest_def json_Marshal_def)

lemma buildPostRequest_not_panic: "\<not> panics (buildPostRequest enc w config rt x)"
  by (simp add: buildPostRequest_def Let_def split: sum.splits)

lemma Itoa_42 [simp]: "Itoa 42 = ''42''"
  by (simp add: Itoa_def digits10.simps digit_char_def)

section \<open>Properties of the transport\<close>

text \<open>
  C19. The form of the URLs. For a resource type that is a plain path segment,
  as all the resource types of the program are, the URL of the collection is
  \<open>scheme://address:port/api/v3/onefuse/type/\<close> and the URL of item \<open>n\<close> is the
  URL of the collection followed by the decimal form of \<open>n\<close> and a slash.
\<close>

theorem itemURL_form:
  assumes "plain_segment resourceType"
  shows "collectionURL config resourceType =
           scheme config @ ''://'' @ address config @ '':'' @ port config @ ''/api/v3/onefuse/''
             @ resourceType @ ''/''
         \<and> itemURL config resourceType n =
           scheme config @ ''://'' @ address config @ '':'' @ port config @ ''/api/v3/onefuse/''
             @ resourceType @ ''/'' @ Itoa n @ ''/''"
  using assms by (simp add: collectionURL_plain itemURL_plain)

theorem itemURL_form_witness:
  "collectionURL demo_config IPAMReservationResourceType =
     ''https://athena.example.org:8443/api/v3/onefuse/ipamReservations/''
   \<and> itemURL demo_config IPAMReservationResourceType 42 =
     ''https://athena.example.org:8443/api/v3/onefuse/ipamReservations/42/''"
  using itemURL_form [of IPAMReservationResourceType demo_config 42]
  by simp (simp add: IPAMReservationResourceType_def)

text \<open>
  Items have URLs of their own. Two items of one resource type have the
  same URL exactly when they have the same id.
\<close>

theorem itemURL_distinct: "itemURL config resourceType m = itemURL config resourceType n \<longleftrightarrow> m = n"
  by (auto dest: itemURL_inj)

text \<open>
  The headers of a request. \<open>setHeaders\<close> leaves the method, the URL and the
  body of the request as they are, sets basic authentication with the user
  and the password of the configuration, and adds eight headers after those
  the request had: the six standard ones, of which \<open>Cache-Control\<close> is added
  twice, then \<open>Host\<close> and \<open>Source\<close>.
\<close>

theorem setHeaders_request:
  "setHeaders req config =
     req\<lparr>req_header := req_header req @
            [(''Content-Type'', ''application/json''), (''Accept'', ''*/*''),
             (''Cache-Control'', ''no-cache''), (''Accept-Encoding'', ''gzip, deflate''),
             (''Connection'', ''keep-alive''), (''Cache-Control'', ''no-cache''),
             (''Host'', address config @ '':'' @ port config), (''Source'', ''Terraform'')],
         req_basic_auth := Some (user config, password config)\<rparr>"
  by (simp add: setHeaders_def setStandardHeaders_def Header_Add_def SetBasicAuth_def)

text \<open>
  Which responses are errors. \<open>checkForErrors\<close> reports an error exactly for
  a status of 400 or more; the error is the one met while reading the body,
  or else an error whose text is the body. The branches of the code for
  status 500 and for status 400 do the same.
\<close>

theorem checkForErrors_from_400:
  "checkForErrors res =
     (if StatusCode res < 400 then None
      else case resp_body res of
             Inl err \<Rightarrow> Some err
           | Inr b \<Rightarrow> Some (errors_New (body_string b)))"
  by (simp add: checkForErrors_def)

text \<open>
  C20. The request that \<open>buildPostRequest\<close> builds. If the entity can be encoded
  and the URL of the collection is accepted, the result is a POST to the URL of
  the collection whose body is the encoded entity, with the authentication of
  the configuration and with exactly the eight headers of \<open>setHeaders\<close>, in
  their order: the six standard ones, of which \<open>Cache-Control\<close> is added
  twice, then \<open>Host\<close> and \<open>Source\<close>.
\<close>

theorem buildPostRequest_request:
  assumes "enc x = Some j" and "url_ok w (collectionURL config resourceType)"
  shows "\<exists>req. buildPostRequest enc w config resourceType x = Inr req \<and> req_method req = ''POST'' \<and>
           req_url req = collectionURL config resourceType \<and> req_body req = Some (Json j) \<and>
           req_basic_auth req = Some (user config, password config) \<and>
           req_header req =
             [(''Content-Type'', ''application/json''), (''Accept'', ''*/*''),
              (''Cache-Control'', ''no-cache''), (''Accept-Encoding'', ''gzip, deflate''),
              (''Connection'', ''keep-alive''), (''Cache-Control'', ''no-cache''),
              (''Host'', address config @ '':'' @ port config), (''Source'', ''Terraform'')]"
  using assms by (simp add: buildPostRequest_ok setHeaders_request)

theorem buildPostRequest_request_witness:
  "\<exists>req. buildPostRequest (\<lambda>s. Some (JString s)) unreachable demo_config RenderTemplateType ''x'' = Inr req
     \<and> req_method req = ''POST'' \<and> req_url req = collectionURL demo_config RenderTemplateType
     \<and> req_body req = Some (Json (JString ''x''))
     \<and> req_basic_auth req = Some (user demo_config, password demo_config)
     \<and> req_header req =
         [(''Content-Type'', ''application/json''), (''Accept'', ''*/*''),
          (''Cache-Control'', ''no-cache''), (''Accept-Encoding'', ''gzip, deflate''),
          (''Connection'', ''keep-alive''), (''Cache-Control'', ''no-cache''),
          (''Host'', address demo_config @ '':'' @ port demo_config), (''Source'', ''Terraform'')]"
  by (rule buildPostRequest_request) (simp_all add: unreachable_def)

end
