(* ===== verification/Entities.thy ===== *)
theory Entities
  imports Json
begin

text \<open>
  The struct types of \<open>src/api_client.go\<close> and their JSON forms. Each struct
  is a record with the fields of the source; where two structs have a field of
  the same name, the fields of all but \<open>IPAMReservation\<close> carry a prefix.
  A pointer field is an \<open>option\<close>. For each struct, \<open>X_of\<close> reads the members
  of a JSON object as the struct tags direct (the decoder that \<open>json.Unmarshal\<close>
  runs for that type), \<open>X_ok\<close> says whether every member fits its field,
  \<open>X_zero\<close> is the zero value and \<open>X_type\<close> bundles the three; for the
  structs the client sends, \<open>X_fields\<close> lists the members that \<open>json.Marshal\<close>
  writes, with \<open>omitempty\<close> honoured.
\<close>

section \<open>CustomName and LinkRef\<close>

record CustomName =
  cn_Id :: int
  cn_Name :: string
  cn_DnsSuffix :: string

record LinkRef =
  Href :: string
  Title :: string

definition LinkRef_zero :: LinkRef where
  "LinkRef_zero = \<lparr>Href = [], Title = []\<rparr>"

definition LinkRef_of :: "fields \<Rightarrow> LinkRef" where
  "LinkRef_of kvs =
     \<lparr>Href = get_string (member kvs ''href''), Title = get_string (member kvs ''title'')\<rparr>"

definition LinkRef_ok :: "fields \<Rightarrow> bool" where
  "LinkRef_ok kvs \<longleftrightarrow> ok_string (member kvs ''href'') \<and> ok_string (member kvs ''title'')"

definition LinkRef_type :: "LinkRef gotype" where
  "LinkRef_type = \<lparr>zero_value = LinkRef_zero, decode = LinkRef_of, fits = LinkRef_ok\<rparr>"

definition LinkRef_fields :: "LinkRef \<Rightarrow> fields" where
  "LinkRef_fields l = enc_string_omitempty ''href'' (Href l) @ enc_string_omitempty ''title'' (Title l)"

section \<open>Workspace\<close>

record Workspace_Links =
  wl_Self :: LinkRef

record Workspace =
  ws_Links :: "Workspace_Links option"
  ws_ID :: int
  ws_Name :: string

record WorkspacesListResponse =
  Workspaces :: "Workspace list"

definition Workspace_Links_type :: "Workspace_Links gotype" where
  "Workspace_Links_type =
     \<lparr>zero_value = \<lparr>wl_Self = LinkRef_zero\<rparr>,
      decode = (\<lambda>kvs. \<lparr>wl_Self = get_struct LinkRef_type (member kvs ''self'')\<rparr>),
      fits = (\<lambda>kvs. ok_struct LinkRef_type (member kvs ''self''))\<rparr>"

definition Workspace_zero :: Workspace where
  "Workspace_zero = \<lparr>ws_Links = None, ws_ID = 0, ws_Name = []\<rparr>"

definition Workspace_of :: "fields \<Rightarrow> Workspace" where
  "Workspace_of kvs =
     \<lparr>ws_Links = get_ptr Workspace_Links_type (member kvs ''_links''),
      ws_ID = get_int (member kvs ''id''),
      ws_Name = get_string (member kvs ''name'')\<rparr>"

definition Workspace_ok :: "fields \<Rightarrow> bool" where
  "Workspace_ok kvs \<longleftrightarrow>
     ok_struct Workspace_Links_type (member kvs ''_links'') \<and> ok_int (member kvs ''id'')
     \<and> ok_string (member kvs ''name'')"

definition Workspace_type :: "Workspace gotype" where
  "Workspace_type = \<lparr>zero_value = Workspace_zero, decode = Workspace_of, fits = Workspace_ok\<rparr>"

definition Workspaces_Embedded_type :: "Workspace list gotype" where
  "Workspaces_Embedded_type =
     \<lparr>zero_value = [],
      decode = (\<lambda>em. get_slice Workspace_type (member em ''workspaces'')),
      fits = (\<lambda>em. ok_slice Workspace_type (member em ''workspaces''))\<rparr>"

definition WorkspacesListResponse_type :: "WorkspacesListResponse gotype" where
  "WorkspacesListResponse_type =
     \<lparr>zero_value = \<lparr>Workspaces = []\<rparr>,
      decode = (\<lambda>kvs. \<lparr>Workspaces = get_struct Workspaces_Embedded_type (member kvs ''_embedded'')\<rparr>),
      fits = (\<lambda>kvs. ok_struct Workspaces_Embedded_type (member kvs ''_embedded''))\<rparr>"

section \<open>IPAMReservation\<close>

record IPAMReservation_Links =
  rl_Self :: LinkRef
  rl_Workspace :: LinkRef
  rl_Policy :: LinkRef
  rl_JobMetadata :: LinkRef

record IPAMReservation =
  Links :: "IPAMReservation_Links option"
  ID :: int
  Hostname :: string
  PolicyID :: int
  Policy :: string
  WorkspaceURL :: string
  IPaddress :: string
  Gateway :: string
  PrimaryDNS :: string
  SecondaryDNS :: string
  Network :: string
  Subnet :: string
  DNSSuffix :: string
  Netmask :: string
  NicLabel :: string
  TemplateProperties :: fields

definition IPAMReservation_zero :: IPAMReservation where
  "IPAMReservation_zero =
     \<lparr>Links = None, ID = 0, Hostname = [], PolicyID = 0, Policy = [], WorkspaceURL = [],
      IPaddress = [], Gateway = [], PrimaryDNS = [], SecondaryDNS = [], Network = [],
      Subnet = [], DNSSuffix = [], Netmask = [], NicLabel = [], TemplateProperties = []\<rparr>"

definition IPAMReservation_Links_type :: "IPAMReservation_Links gotype" where
  "IPAMReservation_Links_type =
     \<lparr>zero_value = \<lparr>rl_Self = LinkRef_zero, rl_Workspace = LinkRef_zero, rl_Policy = LinkRef_zero,
                    rl_JobMetadata = LinkRef_zero\<rparr>,
      decode = (\<lambda>kvs.
        \<lparr>rl_Self = get_struct LinkRef_type (member kvs ''self''),
         rl_Workspace = get_struct LinkRef_type (member kvs ''workspace''),
         rl_Policy = get_struct LinkRef_type (member kvs ''policy''),
         rl_JobMetadata = get_struct LinkRef_type (member kvs ''jobMetadata'')\<rparr>),
      fits = (\<lambda>kvs.
        ok_struct LinkRef_type (member kvs ''self'')
        \<and> ok_struct LinkRef_type (member kvs ''workspace'')
        \<and> ok_struct LinkRef_type (member kvs ''policy'')
        \<and> ok_struct LinkRef_type (member kvs ''jobMetadata''))\<rparr>"

definition IPAMReservation_Links_fields :: "IPAMReservation_Links \<Rightarrow> fields" where
  "IPAMReservation_Links_fields l =
     [(''self'', JObject (LinkRef_fields (rl_Self l))),
      (''workspace'', JObject (LinkRef_fields (rl_Workspace l))),
      (''policy'', JObject (LinkRef_fields (rl_Policy l))),
      (''jobMetadata'', JObject (LinkRef_fields (rl_JobMetadata l)))]"

definition IPAMReservation_of :: "fields \<Rightarrow> IPAMReservation" where
  "IPAMReservation_of kvs =
     \<lparr>Links = get_ptr IPAMReservation_Links_type (member kvs ''_links''),
      ID = get_int (member kvs ''id''),
      Hostname = get_string (member kvs ''hostname''),
      PolicyID = get_int (member kvs ''policyId''),
      Policy = get_string (member kvs ''policy''),
      WorkspaceURL = get_string (member kvs ''workspace''),
      IPaddress = get_string (member kvs ''ipAddress''),
      Gateway = get_string (member kvs ''gateway''),
      PrimaryDNS = get_string (member kvs ''primaryDns''),
      SecondaryDNS = get_string (member kvs ''secondaryDns''),
      Network = get_string (member kvs ''network''),
      Subnet = get_string (member kvs ''subnet''),
      DNSSuffix = get_string (member kvs ''dnsSuffix''),
      Netmask = get_string (member kvs ''netmask''),
      NicLabel = get_string (member kvs ''nicLabel''),
      TemplateProperties = get_map (member kvs ''template_properties'')\<rparr>"

definition IPAMReservation_ok :: "fields \<Rightarrow> bool" where
  "IPAMReservation_ok kvs \<longleftrightarrow>
     ok_struct IPAMReservation_Links_type (member kvs ''_links'')
     \<and> ok_int (member kvs ''id'') \<and> ok_string (member kvs ''hostname'')
     \<and> ok_int (member kvs ''policyId'') \<and> ok_string (member kvs ''policy'')
     \<and> ok_string (member kvs ''workspace'') \<and> ok_string (member kvs ''ipAddress'')
     \<and> ok_string (member kvs ''gateway'') \<and> ok_string (member kvs ''primaryDns'')
     \<and> ok_string (member kvs ''secondaryDns'') \<and> ok_string (member kvs ''network'')
     \<and> ok_string (member kvs ''subnet'') \<and> ok_string (member kvs ''dnsSuffix'')
     \<and> ok_string (member kvs ''netmask'') \<and> ok_string (member kvs ''nicLabel'')
     \<and> ok_map (member kvs ''template_properties'')"

definition IPAMReservation_type :: "IPAMReservation gotype" where
  "IPAMReservation_type =
     \<lparr>zero_value = IPAMReservation_zero, decode = IPAMReservation_of, fits = IPAMReservation_ok\<rparr>"

definition IPAMReservation_fields :: "IPAMReservation \<Rightarrow> fields" where
  "IPAMReservation_fields r =
     enc_ptr_omitempty ''_links'' IPAMReservation_Links_fields (Links r)
     @ enc_int_omitempty ''id'' (ID r)
     @ enc_string_omitempty ''hostname'' (Hostname r)
     @ enc_int_omitempty ''policyId'' (PolicyID r)
     @ enc_string_omitempty ''policy'' (Policy r)
     @ enc_string_omitempty ''workspace'' (WorkspaceURL r)
     @ enc_string_omitempty ''ipAddress'' (IPaddress r)
     @ enc_string_omitempty ''gateway'' (Gateway r)
     @ enc_string ''primaryDns'' (PrimaryDNS r)
     @ enc_string ''secondaryDns'' (SecondaryDNS r)
     @ enc_string_omitempty ''network'' (Network r)
     @ enc_string_omitempty ''subnet'' (Subnet r)
     @ enc_string_omitempty ''dnsSuffix'' (DNSSuffix r)
     @ enc_string_omitempty ''netmask'' (Netmask r)
     @ enc_string_omitempty ''nicLabel'' (NicLabel r)
     @ enc_map_omitempty ''template_properties'' (TemplateProperties r)"

definition IPAMReservation_json :: "IPAMReservation \<Rightarrow> json option" where
  "IPAMReservation_json r = Some (JObject (IPAMReservation_fields r))"

section \<open>IPAMPolicy\<close>

record IPAMPolicy_Links =
  pl_Self :: LinkRef
  pl_Workspace :: LinkRef

record IPAMPolicy =
  pol_Links :: "IPAMPolicy_Links option"
  pol_ID :: int
  pol_Name :: string
  pol_Description :: string

record IPAMPolicyResponse =
  IPAMPolicies :: "IPAMPolicy list"

definition IPAMPolicy_Links_type :: "IPAMPolicy_Links gotype" where
  "IPAMPolicy_Links_type =
     \<lparr>zero_value = \<lparr>pl_Self = LinkRef_zero, pl_Workspace = LinkRef_zero\<rparr>,
      decode = (\<lambda>kvs.
        \<lparr>pl_Self = get_struct LinkRef_type (member kvs ''self''),
         pl_Workspace = get_struct LinkRef_type (member kvs ''workspace'')\<rparr>),
      fits = (\<lambda>kvs.
        ok_struct LinkRef_type (member kvs ''self'')
        \<and> ok_struct LinkRef_type (member kvs ''workspace''))\<rparr>"

definition IPAMPolicy_zero :: IPAMPolicy where
  "IPAMPolicy_zero = \<lparr>pol_Links = None, pol_ID = 0, pol_Name = [], pol_Description = []\<rparr>"

definition IPAMPolicy_of :: "fields \<Rightarrow> IPAMPolicy" where
  "IPAMPolicy_of kvs =
     \<lparr>pol_Links = get_ptr IPAMPolicy_Links_type (member kvs ''_links''),
      pol_ID = get_int (member kvs ''id''),
      pol_Name = get_string (member kvs ''name''),
      pol_Description = get_string (member kvs ''description'')\<rparr>"

definition IPAMPolicy_ok :: "fields \<Rightarrow> bool" where
  "IPAMPolicy_ok kvs \<longleftrightarrow>
     ok_struct IPAMPolicy_Links_type (member kvs ''_links'') \<and> ok_int (member kvs ''id'')
     \<and> ok_string (member kvs ''name'') \<and> ok_string (member kvs ''description'')"

definition IPAMPolicy_type :: "IPAMPolicy gotype" where
  "IPAMPolicy_type = \<lparr>zero_value = IPAMPolicy_zero, decode = IPAMPolicy_of, fits = IPAMPolicy_ok\<rparr>"

definition IPAMPolicies_Embedded_type :: "IPAMPolicy list gotype" where
  "IPAMPolicies_Embedded_type =
     \<lparr>zero_value = [],
      decode = (\<lambda>em. get_slice IPAMPolicy_type (member em ''ipamPolicies'')),
      fits = (\<lambda>em. ok_slice IPAMPolicy_type (member em ''ipamPolicies''))\<rparr>"

definition IPAMPolicyResponse_type :: "IPAMPolicyResponse gotype" where
  "IPAMPolicyResponse_type =
     \<lparr>zero_value = \<lparr>IPAMPolicies = []\<rparr>,
      decode = (\<lambda>kvs. \<lparr>IPAMPolicies = get_struct IPAMPolicies_Embedded_type (member kvs ''_embedded'')\<rparr>),
      fits = (\<lambda>kvs. ok_struct IPAMPolicies_Embedded_type (member kvs ''_embedded''))\<rparr>"

text \<open>
  The fields of \<open>Embedded\<close> that reflection finds by name, for each list
  response: \<open>FieldByName\<close> gives the zero value for any other name.
\<close>

definition WorkspacesListResponse_Embedded ::
  "string \<Rightarrow> (WorkspacesListResponse \<Rightarrow> Workspace list) option" where
  "WorkspacesListResponse_Embedded name = (if name = ''Workspaces'' then Some Workspaces else None)"

definition IPAMPolicyResponse_Embedded ::
  "string \<Rightarrow> (IPAMPolicyResponse \<Rightarrow> IPAMPolicy list) option" where
  "IPAMPolicyResponse_Embedded name = (if name = ''IPAMPolicies'' then Some IPAMPolicies else None)"

section \<open>JobStatus\<close>

record JobStatus_Links =
  jl_Self :: LinkRef
  jl_JobMetadata :: LinkRef
  jl_ManagedObject :: LinkRef
  jl_Policy :: LinkRef
  jl_Workspace :: LinkRef

record ErrorMessage =
  Message :: string

record ErrorDetails =
  Code :: int
  Errors :: "ErrorMessage list option"

record JobStatus =
  js_Links :: "JobStatus_Links option"
  js_ID :: int
  JobStateDescription :: string
  JobState :: string
  JobTrackingID :: string
  JobType :: string
  ErrorDetails :: "ErrorDetails option"

definition JobStatus_zero :: JobStatus where
  "JobStatus_zero =
     \<lparr>js_Links = None, js_ID = 0, JobStateDescription = [], JobState = [], JobTrackingID = [],
      JobType = [], ErrorDetails = None\<rparr>"

definition JobStatus_Links_type :: "JobStatus_Links gotype" where
  "JobStatus_Links_type =
     \<lparr>zero_value = \<lparr>jl_Self = LinkRef_zero, jl_JobMetadata = LinkRef_zero,
                    jl_ManagedObject = LinkRef_zero, jl_Policy = LinkRef_zero,
                    jl_Workspace = LinkRef_zero\<rparr>,
      decode = (\<lambda>kvs.
        \<lparr>jl_Self = get_struct LinkRef_type (member kvs ''self''),
         jl_JobMetadata = get_struct LinkRef_type (member kvs ''jobMetadata''),
         jl_ManagedObject = get_struct LinkRef_type (member kvs ''managedObject''),
         jl_Policy = get_struct LinkRef_type (member kvs ''policy''),
         jl_Workspace = get_struct LinkRef_type (member kvs ''workspace'')\<rparr>),
      fits = (\<lambda>kvs.
        ok_struct LinkRef_type (member kvs ''self'')
        \<and> ok_struct LinkRef_type (member kvs ''jobMetadata'')
        \<and> ok_struct LinkRef_type (member kvs ''managedObject'')
        \<and> ok_struct LinkRef_type (member kvs ''policy'')
        \<and> ok_struct LinkRef_type (member kvs ''workspace''))\<rparr>"

definition ErrorMessage_type :: "ErrorMessage gotype" where
  "ErrorMessage_type =
     \<lparr>zero_value = \<lparr>Message = []\<rparr>,
      decode = (\<lambda>kvs. \<lparr>Message = get_string (member kvs ''message'')\<rparr>),
      fits = (\<lambda>kvs. ok_string (member kvs ''message''))\<rparr>"

definition ErrorDetails_type :: "ErrorDetails gotype" where
  "ErrorDetails_type =
     \<lparr>zero_value = \<lparr>Code = 0, Errors = None\<rparr>,
      decode = (\<lambda>kvs.
        \<lparr>Code = get_int (member kvs ''code''),
         Errors = get_slice_ptr ErrorMessage_type (member kvs ''errors'')\<rparr>),
      fits = (\<lambda>kvs. ok_int (member kvs ''code'') \<and> ok_slice ErrorMessage_type (member kvs ''errors''))\<rparr>"

definition JobStatus_of :: "fields \<Rightarrow> JobStatus" where
  "JobStatus_of kvs =
     \<lparr>js_Links = get_ptr JobStatus_Links_type (member kvs ''_links''),
      js_ID = get_int (member kvs ''id''),
      JobStateDescription = get_string (member kvs ''jobStateDescription''),
      JobState = get_string (member kvs ''jobState''),
      JobTrackingID = get_string (member kvs ''jobTrackingId''),
      JobType = get_string (member kvs ''jobType''),
      ErrorDetails = get_ptr ErrorDetails_type (member kvs ''errorDetails'')\<rparr>"

definition JobStatus_ok :: "fields \<Rightarrow> bool" where
  "JobStatus_ok kvs \<longleftrightarrow>
     ok_struct JobStatus_Links_type (member kvs ''_links'') \<and> ok_int (member kvs ''id'')
     \<and> ok_string (member kvs ''jobStateDescription'') \<and> ok_string (member kvs ''jobState'')
     \<and> ok_string (member kvs ''jobTrackingId'') \<and> ok_string (member kvs ''jobType'')
     \<and> ok_struct ErrorDetails_type (member kvs ''errorDetails'')"

definition JobStatus_type :: "JobStatus gotype" where
  "JobStatus_type = \<lparr>zero_value = JobStatus_zero, decode = JobStatus_of, fits = JobStatus_ok\<rparr>"

section \<open>RenderTemplateRequest\<close>

record RenderTemplateRequest =
  Template :: string
  rt_TemplateProperties :: fields

definition RenderTemplateRequest_fields :: "RenderTemplateRequest \<Rightarrow> fields" where
  "RenderTemplateRequest_fields r =
     enc_string_omitempty ''template'' (Template r)
     @ enc_map_omitempty ''template_properties'' (rt_TemplateProperties r)"

definition RenderTemplateRequest_json :: "RenderTemplateRequest \<Rightarrow> json option" where
  "RenderTemplateRequest_json r = Some (JObject (RenderTemplateRequest_fields r))"

section \<open>Facts\<close>

lemmas entity_type_defs = LinkRef_type_def Workspace_Links_type_def Workspace_type_def
  Workspaces_Embedded_type_def WorkspacesListResponse_type_def IPAMReservation_Links_type_def
  IPAMReservation_type_def IPAMPolicy_Links_type_def IPAMPolicy_type_def
  IPAMPolicies_Embedded_type_def IPAMPolicyResponse_type_def JobStatus_Links_type_def
  ErrorMessage_type_def ErrorDetails_type_def JobStatus_type_def

lemmas entity_of_defs = LinkRef_of_def Workspace_of_def IPAMReservation_of_def IPAMPolicy_of_def
  JobStatus_of_def

lemmas entity_ok_defs = LinkRef_ok_def Workspace_ok_def IPAMReservation_ok_def IPAMPolicy_ok_def
  JobStatus_ok_def

lemmas entity_zero_defs = LinkRef_zero_def Workspace_zero_def IPAMReservation_zero_def
  IPAMPolicy_zero_def JobStatus_zero_def

lemma JobStatus_type_sel [simp]:
  "zero_value JobStatus_type = JobStatus_zero" "decode JobStatus_type = JobStatus_of"
  "fits JobStatus_type = JobStatus_ok"
  by (simp_all add: JobStatus_type_def)

lemma IPAMReservation_type_sel [simp]:
  "zero_value IPAMReservation_type = IPAMReservation_zero"
  "decode IPAMReservation_type = IPAMReservation_of"
  "fits IPAMReservation_type = IPAMReservation_ok"
  by (simp_all add: IPAMReservation_type_def)

lemma JobStatus_of_sel [simp]:
  "js_ID (JobStatus_of kvs) = get_int (member kvs ''id'')"
  "JobState (JobStatus_of kvs) = get_string (member kvs ''jobState'')"
  "JobType (JobStatus_of kvs) = get_string (member kvs ''jobType'')"
  "js_Links (JobStatus_of kvs) = get_ptr JobStatus_Links_type (member kvs ''_links'')"
  "ErrorDetails (JobStatus_of kvs) = get_ptr ErrorDetails_type (member kvs ''errorDetails'')"
  by (simp_all add: JobStatus_of_def)

section \<open>Decoded lists\<close>

lemma fits_int_Workspace_decoded [simp]: "fits_int (ws_ID (get_struct Workspace_type m))"
  by (simp add: get_struct_def Workspace_type_def Workspace_of_def Workspace_zero_def
      split: option.splits json.splits)

lemma list_response_type_sel [simp]:
  "zero_value WorkspacesListResponse_type = \<lparr>Workspaces = []\<rparr>"
  "decode WorkspacesListResponse_type kvs =
     \<lparr>Workspaces = get_struct Workspaces_Embedded_type (member kvs ''_embedded'')\<rparr>"
  "zero_value Workspaces_Embedded_type = []"
  "decode Workspaces_Embedded_type em = get_slice Workspace_type (member em ''workspaces'')"
  "zero_value IPAMPolicyResponse_type = \<lparr>IPAMPolicies = []\<rparr>"
  "decode IPAMPolicyResponse_type kvs =
     \<lparr>IPAMPolicies = get_struct IPAMPolicies_Embedded_type (member kvs ''_embedded'')\<rparr>"
  "zero_value IPAMPolicies_Embedded_type = []"
  "decode IPAMPolicies_Embedded_type em = get_slice IPAMPolicy_type (member em ''ipamPolicies'')"
  by (simp_all add: WorkspacesListResponse_type_def Workspaces_Embedded_type_def
      IPAMPolicyResponse_type_def IPAMPolicies_Embedded_type_def)

lemma Workspace_slice_fit: "ws \<in> set (get_slice Workspace_type m) \<Longrightarrow> fits_int (ws_ID ws)"
  by (auto simp: get_slice_def split: option.splits json.splits)

lemma Workspaces_Embedded_fit:
  "ws \<in> set (get_struct Workspaces_Embedded_type m) \<Longrightarrow> fits_int (ws_ID ws)"
  by (auto simp: get_struct_def dest: Workspace_slice_fit split: option.splits json.splits)

lemma WorkspacesListResponse_fit:
  "ws \<in> set (Workspaces (get_struct WorkspacesListResponse_type m)) \<Longrightarrow> fits_int (ws_ID ws)"
  by (auto simp: get_struct_def [of WorkspacesListResponse_type] dest: Workspaces_Embedded_fit
      split: option.splits json.splits)

lemma Workspaces_decoded_fit:
  "ws \<in> set (Workspaces (fst (json_Unmarshal WorkspacesListResponse_type body))) \<Longrightarrow>
     fits_int (ws_ID ws)"
  by (cases body) (auto simp: json_Unmarshal_def dest: WorkspacesListResponse_fit)

section \<open>Encoding and decoding a reservation\<close>

lemma LinkRef_roundtrip [simp]: "LinkRef_of (LinkRef_fields l) = l" "LinkRef_ok (LinkRef_fields l)"
  by (simp_all add: LinkRef_of_def LinkRef_fields_def LinkRef_ok_def member_pick del: member_append)

lemma IPAMReservation_Links_roundtrip [simp]:
  "decode IPAMReservation_Links_type (IPAMReservation_Links_fields l) = l"
  "fits IPAMReservation_Links_type (IPAMReservation_Links_fields l)"
  by (simp_all add: IPAMReservation_Links_type_def IPAMReservation_Links_fields_def member_Cons
      LinkRef_type_def)

lemma IPAMReservation_roundtrip:
  assumes "fits_int (ID r)" and "fits_int (PolicyID r)"
  shows "IPAMReservation_of (IPAMReservation_fields r) = r"
  using assms
  by (simp add: IPAMReservation_of_def IPAMReservation_fields_def option.map_ident member_pick
      del: member_append cong: option.map_cong)

lemma IPAMReservation_fields_ok:
  assumes "fits_int (ID r)" and "fits_int (PolicyID r)"
  shows "IPAMReservation_ok (IPAMReservation_fields r)"
  using assms
  by (simp add: IPAMReservation_ok_def IPAMReservation_fields_def member_pick
      del: member_append split: option.splits)

text \<open>An example reservation, for the instances of the properties.\<close>

definition demo_reservation :: IPAMReservation where
  "demo_reservation =
     \<lparr>Links = None, ID = 0, Hostname = ''web01'', PolicyID = 42, Policy = [], WorkspaceURL = [],
      IPaddress = ''10.0.0.5'', Gateway = ''10.0.0.1'', PrimaryDNS = ''10.0.0.2'',
      SecondaryDNS = [], Network = ''prod'', Subnet = ''10.0.0.0/24'',
      DNSSuffix = ''example.org'', Netmask = ''255.255.255.0'', NicLabel = ''eth0'',
      TemplateProperties = [(''env'', JString ''prod'')]\<rparr>"

lemma fits_int_small [simp]: "fits_int 1" "fits_int 3" "fits_int 7" "fits_int 42" "fits_int 400"
  by (simp_all add: fits_int_def MinInt_def MaxInt_def)

section \<open>Properties of the wire format\<close>

text \<open>
  C10. A reservation survives the wire. Decoding the document that a reservation
  is encoded to gives the reservation back, with every member and the
  template properties, and reports no error, when its id and its policy id
  are 64-bit integers.
\<close>

theorem IPAMReservation_wire_roundtrip:
  assumes "fits_int (ID r)" and "fits_int (PolicyID r)"
  shows "json_Unmarshal IPAMReservation_type (Json (JObject (IPAMReservation_fields r))) = (r, None)"
  using assms by (simp add: IPAMReservation_roundtrip IPAMReservation_fields_ok)

theorem IPAMReservation_wire_roundtrip_witness:
  "json_Unmarshal IPAMReservation_type (Json (JObject (IPAMReservation_fields demo_reservation)))
     = (demo_reservation, None)"
  by (rule IPAMReservation_wire_roundtrip) (simp_all add: demo_reservation_def)

end
