(* ===== verification/Fixtures.thy ===== *)
theory Fixtures
  imports Transport Entities
begin

text \<open>
  Concrete replies and worlds: the inputs on which the
  properties of the components are instantiated and the scenarios of the
  specification are run.
  \<open>scripted xs\<close> is a service that answers the \<open>i\<close>-th call made with the
  \<open>i\<close>-th exchange of \<open>xs\<close>, whatever the request, and refuses the connection
  once the script is over.
\<close>

definition job_fields :: "int \<Rightarrow> string \<Rightarrow> fields" where
  "job_fields n st = [(''id'', JNumber n), (''jobState'', JString st), (''jobType'', JString ''Provision IPAM'')]"

definition failed_job_fields :: "int \<Rightarrow> string \<Rightarrow> fields" where
  "failed_job_fields n msg =
     job_fields n ''Failed'' @
     [(''errorDetails'', JObject [(''code'', JNumber 400),
        (''errors'', JArray [JObject [(''message'', JString msg)]])])]"

definition replying :: "int \<Rightarrow> json \<Rightarrow> exchange" where
  "replying code j =
     \<lparr>latency = 0, consumed = 0, reply = Inr \<lparr>StatusCode = code, resp_body = Inr (Json j)\<rparr>\<rparr>"

definition scripted :: "exchange list \<Rightarrow> call list \<Rightarrow> call \<Rightarrow> exchange" where
  "scripted xs h k = (if length h < length xs then xs ! length h else refusing)"

text \<open>
  The worlds of the scenarios: a job that is pending twice and then
  successful; a job that stays pending for ever; a job that is pending in the
  answers to the first \<open>k + 1\<close> calls and successful from then on
  (\<open>ends_after k\<close>); a job that stays pending with a sleep that
  lasts an hour too long; a submission answered with job 7 whose first status
  is successful; and one whose first status is a failure with the message
  \<open>bad hostname\<close>.
\<close>

definition job_reply :: "int \<Rightarrow> string \<Rightarrow> exchange" where
  "job_reply n st = replying 200 (JObject (job_fields n st))"

definition three_polls :: world where
  "three_polls =
     world_with (scripted [job_reply 7 ''Pending'', job_reply 7 ''Pending'', job_reply 7 ''Successful''])"

definition always_pending :: world where
  "always_pending = world_with (\<lambda>h k. job_reply 7 ''Pending'')"

definition ends_after :: "nat \<Rightarrow> world" where
  "ends_after k =
     world_with (\<lambda>h c. if length h \<le> k then job_reply 7 ''Pending'' else job_reply 7 ''Successful'')"

definition slow_sleeper :: world where
  "slow_sleeper = always_pending\<lparr>oversleep := (\<lambda>t. 3600000000000)\<rparr>"

definition job_done :: world where
  "job_done = world_with (scripted [job_reply 7 ''Pending'', job_reply 7 ''Successful''])"

definition job_failed :: world where
  "job_failed =
     world_with (scripted [job_reply 7 ''Pending'',
       replying 200 (JObject (failed_job_fields 7 ''bad hostname''))])"

definition job_failed_bare :: world where
  "job_failed_bare = world_with (scripted [job_reply 7 ''Pending'', job_reply 7 ''Failed''])"

definition job_missing :: world where
  "job_missing =
     world_with (scripted [\<lparr>latency = 0, consumed = 0,
       reply = Inr \<lparr>StatusCode = 404, resp_body = Inr (Text ''no such job'')\<rparr>\<rparr>])"

text \<open>
  Worlds for the operations on reservations: a service with one workspace
  named Default, with none, one that returns a stored reservation, and one
  that plays a whole creation: the workspace lookup, the submission answered
  with job 7, the status Pending twice and then Successful with a link to the
  created reservation, and the reservation itself.
\<close>

definition workspaces_reply :: "int list \<Rightarrow> exchange" where
  "workspaces_reply ids =
     replying 200 (JObject [(''_embedded'', JObject [(''workspaces'',
       JArray (map (\<lambda>n. JObject [(''id'', JNumber n), (''name'', JString ''Default'')]) ids))])])"

definition one_workspace :: world where
  "one_workspace = world_with (scripted [workspaces_reply [3]])"

definition no_workspace :: world where
  "no_workspace = world_with (scripted [workspaces_reply []])"

definition stored_reservation :: IPAMReservation where
  "stored_reservation = demo_reservation\<lparr>ID := 42\<rparr>"

definition reservation_reply :: "IPAMReservation \<Rightarrow> exchange" where
  "reservation_reply r = replying 200 (JObject (IPAMReservation_fields r))"

definition reading_world :: world where
  "reading_world = world_with (scripted [reservation_reply stored_reservation])"

definition done_job_fields :: "int \<Rightarrow> string \<Rightarrow> fields" where
  "done_job_fields n href =
     job_fields n ''Successful''
     @ [(''_links'', JObject [(''managedObject'', JObject [(''href'', JString href)])])]"

definition create_world :: world where
  "create_world =
     world_with (scripted [workspaces_reply [3], job_reply 7 ''Pending'', job_reply 7 ''Pending'',
       job_reply 7 ''Pending'',
       replying 200 (JObject (done_job_fields 7 ''/api/v3/onefuse/ipamReservations/42/'')),
       reservation_reply stored_reservation])"

definition one_policy :: world where
  "one_policy =
     world_with (scripted [replying 200 (JObject [(''_embedded'', JObject [(''ipamPolicies'',
       JArray [JObject [(''id'', JNumber 42), (''name'', JString ''prod'')]])])])])"

definition delete_request :: http_request where
  "delete_request =
     \<lparr>req_method = ''DELETE'', req_url = itemURL demo_config IPAMReservationResourceType 42,
      req_header = [], req_basic_auth = None, req_body = None\<rparr>"

lemma replying_sel [simp]:
  "latency (replying code j) = 0" "consumed (replying code j) = 0"
  "reply (replying code j) = Inr \<lparr>StatusCode = code, resp_body = Inr (Json j)\<rparr>"
  by (simp_all add: replying_def)

lemma job_reply_sel [simp]:
  "latency (job_reply n st) = 0" "consumed (job_reply n st) = 0"
  "reply (job_reply n st) = Inr \<lparr>StatusCode = 200, resp_body = Inr (Json (JObject (job_fields n st)))\<rparr>"
  by (simp_all add: job_reply_def)

lemma job_fields_ok [simp]: "fits_int n \<Longrightarrow> JobStatus_ok (job_fields n st)"
  by (simp add: JobStatus_ok_def job_fields_def member_Cons)

lemma job_fields_sel [simp]:
  "get_int (member (job_fields n st) ''id'') = (if fits_int n then n else 0)"
  "get_string (member (job_fields n st) ''jobState'') = st"
  "member (job_fields n st) ''errorDetails'' = None" "member (job_fields n st) ''_links'' = None"
  by (simp_all add: job_fields_def member_Cons)

lemma scripted_simps [simp]:
  "scripted (x # xs) [] k = x" "scripted (x # xs) (c # h) k = scripted xs h k'"
  "scripted [] h k = refusing"
  by (simp_all add: scripted_def)

end
