(* ===== verification/Accessors.thy ===== *)
theory Accessors
  imports Transport Entities Fixtures
begin

text \<open>
  The synchronous accessors of \<open>src/api_client.go\<close>: \<open>doGet\<close> (one GET, its
  response decoded into a target), \<open>GetJobStatus\<close>, \<open>findEntityByName\<close> and
  \<open>findDefaultWorkspaceID\<close>. Each takes the world and returns its result with
  the world after it. The lemmas say that a \<open>doGet\<close> makes no call when the
  URL is refused and exactly one call otherwise, that it never moves the clock
  back, and how its result follows from the reply of the service.
\<close>

section \<open>doGet\<close>

definition doGet :: "'a gotype \<Rightarrow> Config \<Rightarrow> string \<Rightarrow> world \<Rightarrow> 'a result \<times> world" where
  "doGet T config url w =
     (case http_NewRequest w ''GET'' url None of
        Inl err \<Rightarrow>
          (Inl (Err (errors_Wrapped err (''athena.apiClient: Failed to create request GET '' @ url))), w)
      | Inr req0 \<Rightarrow>
          (let req = setHeaders req0 config;
               client = getHttpClient config
           in case client_Do client req w of
                (Inl err, left, w') \<Rightarrow>
                  (Inl (Err (errors_Wrapped err (''athena.apiClient: Failed to do request GET '' @ url))), w')
              | (Inr res, left, w') \<Rightarrow>
                  (case checkForErrors res of
                     Some err \<Rightarrow>
                       (Inl (Err (errors_Wrapped err (''athena.apiClient: Request failed GET '' @ url))), w')
                   | None \<Rightarrow>
                       (case resp_body res of
                          Inl err \<Rightarrow>
                            (Inl (Err (errors_Wrapped err
                               (''athena.apiClient: Failed to read response body from GET '' @ url))), w')
                        | Inr body \<Rightarrow>
                            (case json_Unmarshal T body of
                               (v, Some err) \<Rightarrow>
                                 (Inl (Err (errors_Wrapped err
                                    (''athena.apiClient: Failed to unmarshal response '' @ body_string body))), w')
                             | (v, None) \<Rightarrow> (Inr v, w'))))))"

section \<open>GetJobStatus\<close>

definition GetJobStatus :: "int \<Rightarrow> Config \<Rightarrow> world \<Rightarrow> JobStatus result \<times> world" where
  "GetJobStatus id' config w =
     (let url = itemURL config JobStatusResourceType id'
      in case doGet JobStatus_type config url w of
           (Inl err, w') \<Rightarrow> (Inl err, w')
         | (Inr result, w') \<Rightarrow> (Inr result, w'))"

section \<open>findDefaultWorkspaceID\<close>

text \<open>
  The error of \<open>json.Unmarshal\<close> is dropped, so a body that is not JSON or of
  another shape counts as an empty list. In the branch of the empty list the
  error is built by \<open>errors.WithMessage\<close> from \<open>clientErr\<close>, which is nil there: the
  function returns the empty string and no error.
\<close>

definition findDefaultWorkspaceID :: "Config \<Rightarrow> world \<Rightarrow> string result \<times> world" where
  "findDefaultWorkspaceID config w =
     (let filter = ''filter=name.exact:Default'';
          url = collectionURL config WorkspaceResourceType @ ''?'' @ filter
      in case http_NewRequest w ''GET'' url None of
           Inl clientErr \<Rightarrow>
             (Inl (Err (errors_Wrapped clientErr
                (''athena.findDefaultWorkspaceID: Failed to make request GET '' @ url))), w)
         | Inr req0 \<Rightarrow>
             (let req = setHeaders req0 config;
                  client = getHttpClient config
              in case client_Do client req w of
                   (Inl clientErr, left, w1) \<Rightarrow>
                     (Inl (Err (errors_Wrapped clientErr
                        (''athena.findDefaultWorkspaceID: Failed to do request GET '' @ url))), w1)
                 | (Inr res, left, w1) \<Rightarrow>
                     (case readResponse res of
                        Inl err \<Rightarrow> (Inl (Err err), w1)
                      | Inr body \<Rightarrow>
                          (let data = fst (json_Unmarshal WorkspacesListResponse_type body);
                               workspaces = Workspaces data
                           in if length workspaces = 0 then
                                (case errors_WithMessage None
                                   ''athena.findDefaultWorkspaceID: Failed to find default workspace!'' of
                                   Some err \<Rightarrow> (Inl (Err err), w1)
                                 | None \<Rightarrow> (Inr [], w1))
                              else (Inr (Itoa (ws_ID (workspaces ! 0))), w1)))))"

section \<open>findEntityByName\<close>

text \<open>
  The collection is reached by reflection: the field \<open>Embedded\<close> of the response
  and in it the field named by \<open>embeddedStructFieldName\<close>. The argument
  \<open>fields_of\<close> is the table of the list fields of \<open>Embedded\<close> for the type of the
  response; a name that is not in the table gives the zero \<open>reflect.Value\<close>,
  and \<open>Len\<close> of it panics.
\<close>

definition Could_not_find :: "string \<Rightarrow> string \<Rightarrow> goerror" where
  "Could_not_find resourceType name =
     errors_New (''athena.apiClient: Could not find '' @ resourceType @ '' '' @ [CHR 0x27] @ name
       @ [CHR 0x27] @ ''!'')"

definition findEntityByName ::
  "'r gotype \<Rightarrow> (string \<Rightarrow> ('r \<Rightarrow> 'a list) option) \<Rightarrow> Config \<Rightarrow> string \<Rightarrow> string \<Rightarrow> string \<Rightarrow> string
     \<Rightarrow> world \<Rightarrow> 'a result \<times> world"
where
  "findEntityByName T fields_of config name resourceType embeddedStructFieldName additionalFilters w =
     (let url = collectionURL config resourceType @ ''?filter=name:'' @ name @ additionalFilters
      in case doGet T config url w of
           (Inl err, w1) \<Rightarrow> (Inl err, w1)
         | (Inr collectionResponse, w1) \<Rightarrow>
             (case fields_of embeddedStructFieldName of
                None \<Rightarrow> (Inl (Panic ''reflect: call of reflect.Value.Len on zero Value''), w1)
              | Some collectionField \<Rightarrow>
                  if length (collectionField collectionResponse) < 1
                  then (Inl (Err (Could_not_find resourceType name)), w1)
                  else (Inr (collectionField collectionResponse ! 0), w1)))"

section \<open>How a GET turns out\<close>

text \<open>
  The request a \<open>doGet\<close> sends, and the result it draws from the reply of the
  service: these two name the parts of \<open>doGet\<close> in the lemmas below.
\<close>

definition GET_request :: "Config \<Rightarrow> string \<Rightarrow> http_request" where
  "GET_request config url =
     setHeaders \<lparr>req_method = ''GET'', req_url = url, req_header = [], req_basic_auth = None,
                 req_body = None\<rparr> config"

definition GET_outcome :: "'a gotype \<Rightarrow> string \<Rightarrow> goerror + http_response \<Rightarrow> 'a result" where
  "GET_outcome T url r =
     (case r of
        Inl err \<Rightarrow> Inl (Err (errors_Wrapped err (''athena.apiClient: Failed to do request GET '' @ url)))
      | Inr res \<Rightarrow>
          (case checkForErrors res of
             Some err \<Rightarrow> Inl (Err (errors_Wrapped err (''athena.apiClient: Request failed GET '' @ url)))
           | None \<Rightarrow>
               (case resp_body res of
                  Inl err \<Rightarrow>
                    Inl (Err (errors_Wrapped err
                      (''athena.apiClient: Failed to read response body from GET '' @ url)))
                | Inr body \<Rightarrow>
                    (case snd (json_Unmarshal T body) of
                       Some err \<Rightarrow>
                         Inl (Err (errors_Wrapped err
                           (''athena.apiClient: Failed to unmarshal response '' @ body_string body)))
                     | None \<Rightarrow> Inr (fst (json_Unmarshal T body))))))"

abbreviation GET_exchange :: "Config \<Rightarrow> string \<Rightarrow> world \<Rightarrow> exchange" where
  "GET_exchange config url w \<equiv> exchange_of (getHttpClient config) (GET_request config url) w"

abbreviation after_GET :: "Config \<Rightarrow> string \<Rightarrow> world \<Rightarrow> world" where
  "after_GET config url w \<equiv> after_call (getHttpClient config) (GET_request config url) w"

lemma doGet_bad_url:
  "\<not> url_ok w url \<Longrightarrow>
     doGet T config url w =
       (Inl (Err (errors_Wrapped (url_error url) (''athena.apiClient: Failed to create request GET '' @ url))), w)"
  by (simp add: doGet_def)

lemma doGet_eq:
  "url_ok w url \<Longrightarrow>
     doGet T config url w =
       (GET_outcome T url (reply (GET_exchange config url w)), after_GET config url w)"
  by (simp add: doGet_def client_Do_eq GET_request_def GET_outcome_def Let_def
      split: sum.splits option.splits prod.splits)

lemma GET_outcome_not_panic [simp]: "\<not> panics (GET_outcome T url r)"
  by (simp add: GET_outcome_def split: sum.splits option.splits)

lemma GET_outcome_ok:
  "StatusCode res < 400 \<Longrightarrow> resp_body res = Inr (Json (JObject kvs)) \<Longrightarrow> fits T kvs \<Longrightarrow>
     GET_outcome T url (Inr res) = Inr (decode T kvs)"
  by (simp add: GET_outcome_def checkForErrors_def)

lemma GET_outcome_Inr_iff:
  "GET_outcome T url r = Inr v \<longleftrightarrow>
     (\<exists>res b. r = Inr res \<and> StatusCode res < 400 \<and> resp_body res = Inr b
        \<and> json_Unmarshal T b = (v, None))"
  by (cases r)
     (auto simp: GET_outcome_def checkForErrors_None_iff
       split: sum.splits option.splits prod.splits intro: prod_eqI dest: checkForErrors_Some)

lemma GET_outcome_status:
  "400 \<le> StatusCode res \<Longrightarrow> resp_body res = Inr b \<Longrightarrow>
     GET_outcome T url (Inr res) =
       Inl (Err (errors_Wrapped (errors_New (body_string b)) (''athena.apiClient: Request failed GET '' @ url)))"
  by (simp add: GET_outcome_def checkForErrors_body)

lemma doGet_clock [clock_mono]: "clock w \<le> clock (snd (doGet T config url w))"
  by (cases "url_ok w url") (simp_all add: doGet_bad_url doGet_eq)

lemma doGet_calls:
  "calls (snd (doGet T config url w)) =
     (if url_ok w url then calls w @ [call_of (getHttpClient config) (GET_request config url) w]
      else calls w)"
  by (simp add: doGet_bad_url doGet_eq)

lemma doGet_Inr_calls:
  assumes "doGet T config url w = (Inr x, w')"
  shows "calls w' = calls w @ [call_of (getHttpClient config) (GET_request config url) w]"
proof -
  have "url_ok w url"
    using assms by (rule contrapos_pp) (simp add: doGet_bad_url)
  with doGet_calls [of T config url w] assms show ?thesis
    by simp
qed

lemma doGet_frame [simp]:
  "network (snd (doGet T config url w)) = network w"
  "oversleep (snd (doGet T config url w)) = oversleep w"
  "url_ok (snd (doGet T config url w)) = url_ok w"
  by (cases "url_ok w url"; simp add: doGet_bad_url doGet_eq)+

lemma doGet_not_panic: "\<not> panics (fst (doGet T config url w))"
  by (cases "url_ok w url") (simp_all add: doGet_bad_url doGet_eq)

lemma GetJobStatus_eq:
  "GetJobStatus n config w = doGet JobStatus_type config (itemURL config JobStatusResourceType n) w"
  by (simp add: GetJobStatus_def Let_def split: prod.splits sum.splits)

section \<open>Calls that only read\<close>

text \<open>
  \<open>only_GETs cs\<close>: every call of \<open>cs\<close> is a GET. The calls that change
  nothing at the service are the GETs; a call that is no GET is the submission of a
  request.
\<close>

definition only_GETs :: "call list \<Rightarrow> bool" where
  "only_GETs cs = list_all (\<lambda>k. req_method (call_req k) = ''GET'') cs"

lemma only_GETs_simps [simp]:
  "only_GETs []" "only_GETs (k # cs) \<longleftrightarrow> req_method (call_req k) = ''GET'' \<and> only_GETs cs"
  "only_GETs (cs @ ds) \<longleftrightarrow> only_GETs cs \<and> only_GETs ds"
  by (simp_all add: only_GETs_def)

lemma GET_request_sel [simp]:
  "req_method (GET_request config url) = ''GET''" "req_url (GET_request config url) = url"
  "req_body (GET_request config url) = None"
  by (simp_all add: GET_request_def)

lemma doGet_calls_GET:
  "\<exists>cs. calls (snd (doGet T config url w)) = calls w @ cs \<and> only_GETs cs \<and> length cs \<le> 1"
  by (simp add: doGet_calls)

section \<open>Facts: findDefaultWorkspaceID and findEntityByName\<close>

text \<open>
  \<open>default_workspace_url\<close> is the URL that \<open>findDefaultWorkspaceID\<close> gets, and
  \<open>default_workspace_outcome\<close> what it draws from the reply of the service.
\<close>

definition default_workspace_url :: "Config \<Rightarrow> string" where
  "default_workspace_url config =
     collectionURL config WorkspaceResourceType @ ''?filter=name.exact:Default''"

definition default_workspace_outcome :: "string \<Rightarrow> goerror + http_response \<Rightarrow> string result" where
  "default_workspace_outcome url r =
     (case r of
        Inl clientErr \<Rightarrow>
          Inl (Err (errors_Wrapped clientErr
            (''athena.findDefaultWorkspaceID: Failed to do request GET '' @ url)))
      | Inr res \<Rightarrow>
          (case readResponse res of
             Inl err \<Rightarrow> Inl (Err err)
           | Inr body \<Rightarrow>
               (case Workspaces (fst (json_Unmarshal WorkspacesListResponse_type body)) of
                  [] \<Rightarrow> Inr []
                | ws # rest \<Rightarrow> Inr (Itoa (ws_ID ws)))))"

definition name_filter_url :: "Config \<Rightarrow> string \<Rightarrow> string \<Rightarrow> string \<Rightarrow> string" where
  "name_filter_url config resourceType name additionalFilters =
     collectionURL config resourceType @ ''?filter=name:'' @ name @ additionalFilters"

lemma findDefaultWorkspaceID_bad_url:
  "\<not> url_ok w (default_workspace_url config) \<Longrightarrow>
     findDefaultWorkspaceID config w =
       (Inl (Err (errors_Wrapped (url_error (default_workspace_url config))
          (''athena.findDefaultWorkspaceID: Failed to make request GET ''
             @ default_workspace_url config))), w)"
  by (simp add: findDefaultWorkspaceID_def default_workspace_url_def Let_def)

lemma findDefaultWorkspaceID_eq:
  "url_ok w (default_workspace_url config) \<Longrightarrow>
     findDefaultWorkspaceID config w =
       (default_workspace_outcome (default_workspace_url config)
          (reply (GET_exchange config (default_workspace_url config) w)),
        after_GET config (default_workspace_url config) w)"
  by (simp add: findDefaultWorkspaceID_def default_workspace_url_def default_workspace_outcome_def
      client_Do_eq GET_request_def Let_def hd_conv_nth
      split: sum.splits option.splits prod.splits list.splits)

lemma default_workspace_outcome_not_panic [simp]: "\<not> panics (default_workspace_outcome url r)"
  by (simp add: default_workspace_outcome_def split: sum.splits list.splits)

lemma default_workspace_outcome_Inr:
  assumes "default_workspace_outcome url r = Inr s"
  shows "s = [] \<or> (\<exists>n. fits_int n \<and> s = Itoa n)"
proof -
  from assms obtain res body where "r = Inr res" "readResponse res = Inr body"
    by (auto simp: default_workspace_outcome_def split: sum.splits)
  with assms show ?thesis
    using Workspaces_decoded_fit [of _ body]
    by (auto simp: default_workspace_outcome_def split: list.splits)
qed

lemma findDefaultWorkspaceID_not_panic: "\<not> panics (fst (findDefaultWorkspaceID config w))"
  by (cases "url_ok w (default_workspace_url config)")
     (simp_all add: findDefaultWorkspaceID_bad_url findDefaultWorkspaceID_eq)

lemma findDefaultWorkspaceID_calls:
  "calls (snd (findDefaultWorkspaceID config w)) =
     (if url_ok w (default_workspace_url config)
      then calls w @ [call_of (getHttpClient config) (GET_request config (default_workspace_url config)) w]
      else calls w)"
  by (simp add: findDefaultWorkspaceID_bad_url findDefaultWorkspaceID_eq)

lemma findDefaultWorkspaceID_calls_GET:
  "\<exists>cs. calls (snd (findDefaultWorkspaceID config w)) = calls w @ cs \<and> only_GETs cs \<and> length cs \<le> 1"
  by (simp add: findDefaultWorkspaceID_calls)

lemma findDefaultWorkspaceID_frame [simp]:
  "network (snd (findDefaultWorkspaceID config w)) = network w"
  "oversleep (snd (findDefaultWorkspaceID config w)) = oversleep w"
  "url_ok (snd (findDefaultWorkspaceID config w)) = url_ok w"
  by (cases "url_ok w (default_workspace_url config)";
      simp add: findDefaultWorkspaceID_bad_url findDefaultWorkspaceID_eq)+

lemma findDefaultWorkspaceID_clock [clock_mono]:
  "clock w \<le> clock (snd (findDefaultWorkspaceID config w))"
  by (cases "url_ok w (default_workspace_url config)")
     (simp_all add: findDefaultWorkspaceID_bad_url findDefaultWorkspaceID_eq)

lemma findEntityByName_eq:
  "findEntityByName T fields_of config name resourceType field additionalFilters w =
     (case doGet T config (name_filter_url config resourceType name additionalFilters) w of
        (Inl err, w1) \<Rightarrow> (Inl err, w1)
      | (Inr r, w1) \<Rightarrow>
          (case fields_of field of
             None \<Rightarrow> (Inl (Panic ''reflect: call of reflect.Value.Len on zero Value''), w1)
           | Some f \<Rightarrow>
               (case f r of
                  [] \<Rightarrow> (Inl (Err (Could_not_find resourceType name)), w1)
                | x # xs \<Rightarrow> (Inr x, w1))))"
  by (simp add: findEntityByName_def name_filter_url_def Let_def
      split: prod.splits sum.splits option.splits list.splits)

lemma findEntityByName_world:
  "snd (findEntityByName T fields_of config name resourceType field additionalFilters w) =
     snd (doGet T config (name_filter_url config resourceType name additionalFilters) w)"
  by (simp add: findEntityByName_eq split: prod.splits sum.splits option.splits list.splits)

section \<open>Properties of the accessors\<close>

text \<open>
  C17. What \<open>doGet\<close> returns for a good response. If the URL is accepted and the
  service answers with a status below 400 and a JSON object that fits the type
  asked for, \<open>doGet\<close> returns the decoded object.
\<close>

theorem doGet_decodes:
  assumes "url_ok w url" and "reply (GET_exchange config url w) = Inr res"
    and "StatusCode res < 400" and "resp_body res = Inr (Json (JObject kvs))" and "fits T kvs"
  shows "doGet T config url w = (Inr (decode T kvs), after_GET config url w)"
  using assms by (simp add: doGet_eq GET_outcome_ok)

theorem doGet_decodes_witness:
  "doGet JobStatus_type demo_config (itemURL demo_config JobStatusResourceType 7) job_done =
     (Inr (JobStatus_of (job_fields 7 ''Pending'')),
      after_GET demo_config (itemURL demo_config JobStatusResourceType 7) job_done)"
  using doGet_decodes [of job_done "itemURL demo_config JobStatusResourceType 7" demo_config
      "\<lparr>StatusCode = 200, resp_body = Inr (Json (JObject (job_fields 7 ''Pending'')))\<rparr>"
      "job_fields 7 ''Pending''" JobStatus_type]
  by (simp add: job_done_def exchange_of_def scripted_def)

text \<open>
  C18. What \<open>doGet\<close> returns for an HTTP error. If the URL is accepted and the
  service answers with a status of 400 or more, \<open>doGet\<close> fails with an error
  whose text is \<open>athena.apiClient: Request failed GET\<close>, the URL, and the body of
  the response.
\<close>

theorem doGet_http_error:
  assumes "url_ok w url" and "reply (GET_exchange config url w) = Inr res"
    and "400 \<le> StatusCode res" and "resp_body res = Inr b"
  shows "\<exists>err. doGet T config url w = (Inl (Err err), after_GET config url w) \<and>
           Error err = ''athena.apiClient: Request failed GET '' @ url @ '': '' @ body_string b"
  using assms by (simp add: doGet_eq GET_outcome_status)

theorem doGet_http_error_witness:
  "\<exists>err. doGet JobStatus_type demo_config (itemURL demo_config JobStatusResourceType 7) job_missing =
       (Inl (Err err), after_GET demo_config (itemURL demo_config JobStatusResourceType 7) job_missing)
     \<and> Error err = ''athena.apiClient: Request failed GET ''
         @ itemURL demo_config JobStatusResourceType 7 @ '': '' @ body_string (Text ''no such job'')"
  using doGet_http_error [of job_missing "itemURL demo_config JobStatusResourceType 7" demo_config
      "\<lparr>StatusCode = 404, resp_body = Inr (Text ''no such job'')\<rparr>" "Text ''no such job''"
      JobStatus_type]
  by (simp add: job_missing_def exchange_of_def scripted_def)

text \<open>
  One GET, one call. \<open>doGet\<close> makes exactly one call to the service when the
  URL is accepted, a GET of that URL with the client and the headers of the
  configuration and no body, and no call otherwise; it never sets the clock
  back and never panics.
\<close>

theorem doGet_one_call:
  "calls (snd (doGet T config url w)) =
     (if url_ok w url
      then calls w @ [\<lparr>call_at = clock w, call_client = getHttpClient config,
             call_req = setHeaders \<lparr>req_method = ''GET'', req_url = url, req_header = [],
               req_basic_auth = None, req_body = None\<rparr> config\<rparr>]
      else calls w)
   \<and> clock w \<le> clock (snd (doGet T config url w)) \<and> \<not> panics (fst (doGet T config url w))"
  by (simp add: doGet_calls doGet_clock doGet_not_panic call_of_def GET_request_def)

end
