(* ===== verification/JobEngine.thy ===== *)
theory JobEngine
  imports Accessors
begin

text \<open>
  The asynchronous job protocol of \<open>src/api_client.go\<close>: \<open>waitForJob\<close> polls
  the status of a job until it is terminal or the budget of one hour is spent,
  \<open>checkForJobErrors\<close> turns a job that did not succeed into an error,
  \<open>handleAsyncRequest\<close> submits a request, reads the job it started and waits
  for it, and \<open>handleAsyncRequestAndFetchManagdObject\<close> then fetches the object
  the job produced.
  The loop of \<open>waitForJob\<close> is the function \<open>waitForJob_loop\<close> over the loop
  variables \<open>jobStatusDescription\<close> and \<open>jobStatus\<close>; it terminates because every
  turn sleeps five seconds and a turn that ends after the budget leaves the
  loop.
\<close>

section \<open>waitForJob\<close>

definition PollingTimeoutMS :: int where "PollingTimeoutMS = 3600000"
definition PollingIntervalMS :: int where "PollingIntervalMS = 5000"

definition timed_out :: goerror where
  "timed_out = errors_New ''Timed out while waiting for job to complete.''"

function waitForJob_loop ::
  "Config \<Rightarrow> int \<Rightarrow> int \<Rightarrow> string \<Rightarrow> JobStatus option \<Rightarrow> world \<Rightarrow> JobStatus option result \<times> world"
where
  "waitForJob_loop config jobID startTime jobStatusDescription jobStatus w =
     (if jobStatusDescription \<noteq> JobSuccess \<and> jobStatusDescription \<noteq> JobFailed then
        (case GetJobStatus jobID config w of
           (Inl err, w1) \<Rightarrow> (Inl err, w1)
         | (Inr js, w1) \<Rightarrow>
             (let w2 = time_Sleep (Duration_ms PollingIntervalMS) w1
              in if time_Since startTime w2 > Duration_ms PollingTimeoutMS
                 then (Inl (Err timed_out), w2)
                 else waitForJob_loop config jobID startTime (JobState js) (Some js) w2))
      else (Inr jobStatus, w))"
  by pat_completeness auto
termination
proof (relation "measure (\<lambda>(config, jobID, startTime, d, js, w).
    nat (Duration_ms PollingTimeoutMS + Duration_ms PollingIntervalMS - (clock w - startTime)))")
  show "wf (measure (\<lambda>(config, jobID, startTime, d, js, w).
    nat (Duration_ms PollingTimeoutMS + Duration_ms PollingIntervalMS - (clock w - startTime))))"
    by simp
next
  fix config :: Config and jobID startTime :: int and jobStatusDescription :: string
    and jobStatus :: "JobStatus option" and w w1 w2 :: world and r js
  assume get: "(r, w1) = GetJobStatus jobID config w"
    and w2: "w2 = time_Sleep (Duration_ms PollingIntervalMS) w1"
    and live: "\<not> Duration_ms PollingTimeoutMS < time_Since startTime w2"
  from get have "clock w \<le> clock w1"
    using doGet_clock [of w JobStatus_type config "itemURL config JobStatusResourceType jobID"]
    by (simp add: GetJobStatus_eq split: prod.splits) (metis snd_conv)
  moreover from w2 have "clock w1 + Duration_ms PollingIntervalMS \<le> clock w2"
    using time_Sleep_clock [of w1 "Duration_ms PollingIntervalMS"]
    by (simp add: PollingIntervalMS_def)
  ultimately show "((config, jobID, startTime, JobState js, Some js, w2),
      (config, jobID, startTime, jobStatusDescription, jobStatus, w))
    \<in> measure (\<lambda>(config, jobID, startTime, d, js, w).
        nat (Duration_ms PollingTimeoutMS + Duration_ms PollingIntervalMS - (clock w - startTime)))"
    using live by (simp add: time_Since_def PollingIntervalMS_def PollingTimeoutMS_def)
qed

declare waitForJob_loop.simps [simp del]

definition waitForJob :: "int \<Rightarrow> Config \<Rightarrow> world \<Rightarrow> JobStatus option result \<times> world" where
  "waitForJob jobID config w =
     (let jobStatusDescription = [];
          startTime = time_Now w
      in waitForJob_loop config jobID startTime jobStatusDescription None w)"

section \<open>checkForJobErrors\<close>

text \<open>
  \<open>format_errors\<close> is what \<open>%v\<close> prints for the slice of error messages.
  A nil \<open>jobStatus\<close>, nil \<open>ErrorDetails\<close> or nil \<open>Errors\<close> is dereferenced
  without a test, which is a panic.
\<close>

definition format_errors :: "ErrorMessage list \<Rightarrow> string" where
  "format_errors es = ''['' @ join '' '' (map (\<lambda>e. ''{'' @ Message e @ ''}'') es) @ '']''"

definition checkForJobErrors :: "JobStatus option \<Rightarrow> failure option" where
  "checkForJobErrors jobStatus =
     (case jobStatus of
        None \<Rightarrow> Some nil_dereference
      | Some js \<Rightarrow>
          if JobState js \<noteq> JobSuccess then
            (case ErrorDetails js of
               None \<Rightarrow> Some nil_dereference
             | Some ed \<Rightarrow>
                 (case Errors ed of
                    None \<Rightarrow> Some nil_dereference
                  | Some es \<Rightarrow>
                      Some (Err (errors_New
                        (''Job '' @ JobType js @ '' ('' @ Itoa (js_ID js) @ '') failed with message ''
                          @ format_errors es)))))
          else None)"

section \<open>handleAsyncRequest\<close>

definition handleAsyncRequest ::
  "http_request \<Rightarrow> Config \<Rightarrow> string \<Rightarrow> world \<Rightarrow> JobStatus option result \<times> world"
where
  "handleAsyncRequest req config httpVerb w =
     (let client = getHttpClient config
      in case client_Do client req w of
           (Inl err, left, w1) \<Rightarrow>
             (case ReadAll_request left of
                Inl p \<Rightarrow> (Inl p, w1)
              | Inr body \<Rightarrow>
                  (Inl (Err (errors_Wrapped err
                     (''athena.apiClient: Failed to do request '' @ httpVerb @ '' '' @ req_url req
                        @ '' '' @ body))), w1))
         | (Inr res, left, w1) \<Rightarrow>
             (case readResponse res of
                Inl err \<Rightarrow>
                  (case ReadAll_request left of
                     Inl p \<Rightarrow> (Inl p, w1)
                   | Inr body \<Rightarrow>
                       (Inl (Err (errors_Wrapped err
                          (''athena.apiClient: Failed to read response body from '' @ httpVerb @ '' ''
                             @ req_url req @ '' '' @ body))), w1))
              | Inr body \<Rightarrow>
                  (case json_Unmarshal_ptr JobStatus_type body of
                     (jobStatus, Some err) \<Rightarrow>
                       (Inl (Err (errors_Wrapped err
                          (''athena.apiClient: Failed to unmarshal response '' @ body_string body))), w1)
                   | (None, None) \<Rightarrow> (Inl nil_dereference, w1)
                   | (Some submitted, None) \<Rightarrow>
                       (case waitForJob (js_ID submitted) config w1 of
                          (Inl err, w2) \<Rightarrow> (Inl err, w2)
                        | (Inr jobStatus, w2) \<Rightarrow>
                            (case checkForJobErrors jobStatus of
                               Some err \<Rightarrow> (Inl err, w2)
                             | None \<Rightarrow> (Inr jobStatus, w2))))))"

section \<open>handleAsyncRequestAndFetchManagdObject\<close>

definition handleAsyncRequestAndFetchManagdObject ::
  "http_request \<Rightarrow> Config \<Rightarrow> 'a gotype \<Rightarrow> string \<Rightarrow> world \<Rightarrow> (JobStatus option \<times> 'a) result \<times> world"
where
  "handleAsyncRequestAndFetchManagdObject req config T httpVerb w =
     (case handleAsyncRequest req config httpVerb w of
        (Inl err, w1) \<Rightarrow> (Inl err, w1)
      | (Inr jobStatus, w1) \<Rightarrow>
          (case jobStatus of
             None \<Rightarrow> (Inl nil_dereference, w1)
           | Some js \<Rightarrow>
               (case js_Links js of
                  None \<Rightarrow> (Inl nil_dereference, w1)
                | Some links \<Rightarrow>
                    (let url = urlFromHref config (Href (jl_ManagedObject links))
                     in case doGet T config url w1 of
                          (Inl err, w2) \<Rightarrow> (Inl err, w2)
                        | (Inr responseObject, w2) \<Rightarrow> (Inr (jobStatus, responseObject), w2)))))"

section \<open>The loop, turn by turn\<close>

text \<open>
  The lemmas see the loop through one turn of its body: \<open>poll_turn\<close> fetches
  the status, sleeps, and tests the budget. \<open>terminal\<close> is the negation of the
  loop's guard. \<open>job_url\<close>, \<open>poll_reply\<close> and \<open>after_poll\<close> name the URL polled,
  what the fetch of a turn yields and the world at the end of a turn.
\<close>

definition terminal :: "string \<Rightarrow> bool" where
  "terminal d \<longleftrightarrow> d = JobSuccess \<or> d = JobFailed"

abbreviation PollingTimeout :: int where "PollingTimeout \<equiv> Duration_ms PollingTimeoutMS"
abbreviation PollingInterval :: int where "PollingInterval \<equiv> Duration_ms PollingIntervalMS"

definition job_url :: "Config \<Rightarrow> int \<Rightarrow> string" where
  "job_url config n = itemURL config JobStatusResourceType n"

definition poll_turn :: "Config \<Rightarrow> int \<Rightarrow> int \<Rightarrow> world \<Rightarrow> JobStatus result \<times> world" where
  "poll_turn config n start w =
     (case GetJobStatus n config w of
        (Inl err, w1) \<Rightarrow> (Inl err, w1)
      | (Inr js, w1) \<Rightarrow>
          (let w2 = time_Sleep PollingInterval w1
           in if time_Since start w2 > PollingTimeout then (Inl (Err timed_out), w2)
              else (Inr js, w2)))"

definition poll_call :: "Config \<Rightarrow> int \<Rightarrow> world \<Rightarrow> call" where
  "poll_call config n w = call_of (getHttpClient config) (GET_request config (job_url config n)) w"

definition poll_reply :: "Config \<Rightarrow> int \<Rightarrow> world \<Rightarrow> JobStatus result" where
  "poll_reply config n w =
     GET_outcome JobStatus_type (job_url config n) (reply (GET_exchange config (job_url config n) w))"

definition after_poll :: "Config \<Rightarrow> int \<Rightarrow> world \<Rightarrow> world" where
  "after_poll config n w = time_Sleep PollingInterval (after_GET config (job_url config n) w)"

lemma PollingInterval_eq [simp]: "PollingInterval = 5000000000"
  by (simp add: PollingIntervalMS_def)

lemma PollingTimeout_eq [simp]: "PollingTimeout = 3600000000000"
  by (simp add: PollingTimeoutMS_def)

lemma terminal_simps [simp]:
  "terminal JobSuccess" "terminal JobFailed" "\<not> terminal []"
  "terminal ''Successful''" "terminal ''Failed''" "\<not> terminal ''Pending''"
  by (simp_all add: terminal_def JobSuccess_def JobFailed_def)

lemma waitForJob_loop_done:
  "terminal d \<Longrightarrow> waitForJob_loop config n start d p w = (Inr p, w)"
  by (subst waitForJob_loop.simps) (auto simp: terminal_def)

lemma waitForJob_loop_turn:
  "\<not> terminal d \<Longrightarrow>
     waitForJob_loop config n start d p w =
       (case poll_turn config n start w of
          (Inl err, w') \<Rightarrow> (Inl err, w')
        | (Inr js, w') \<Rightarrow> waitForJob_loop config n start (JobState js) (Some js) w')"
  by (subst waitForJob_loop.simps)
     (auto simp: terminal_def poll_turn_def Let_def split: prod.splits sum.splits)

lemma waitForJob_turn:
  "waitForJob n config w =
     (case poll_turn config n (clock w) w of
        (Inl err, w') \<Rightarrow> (Inl err, w')
      | (Inr js, w') \<Rightarrow> waitForJob_loop config n (clock w) (JobState js) (Some js) w')"
  by (simp add: waitForJob_def time_Now_def waitForJob_loop_turn)

lemma waitForJob_loop_induct [case_names leave turn]:
  assumes "\<And>config n start d p w. terminal d \<Longrightarrow> P config n start d p w"
    and "\<And>config n start d p w. \<not> terminal d \<Longrightarrow>
           (\<And>js w'. poll_turn config n start w = (Inr js, w') \<Longrightarrow>
              P config n start (JobState js) (Some js) w')
           \<Longrightarrow> P config n start d p w"
  shows "P config n start d p w"
proof (induction config n start d p w rule: waitForJob_loop.induct)
  case (1 config jobID startTime d p w)
  show ?case
  proof (cases "terminal d")
    case True
    then show ?thesis by (rule assms(1))
  next
    case False
    show ?thesis
    proof (rule assms(2) [OF False])
      fix js w'
      assume "poll_turn config jobID startTime w = (Inr js, w')"
      then show "P config jobID startTime (JobState js) (Some js) w'"
        using False "1.IH"
        by (auto simp: poll_turn_def terminal_def Let_def split: prod.splits sum.splits if_splits)
    qed
  qed
qed

subsection \<open>One turn\<close>

lemma after_poll_sel [simp]:
  "calls (after_poll config n w) = calls w @ [poll_call config n w]"
  "network (after_poll config n w) = network w" "oversleep (after_poll config n w) = oversleep w"
  "url_ok (after_poll config n w) = url_ok w"
  by (simp_all add: after_poll_def poll_call_def)

lemma after_poll_clock [clock_mono]: "clock w + 5000000000 \<le> clock (after_poll config n w)"
  using time_Sleep_clock [of "after_GET config (job_url config n) w" PollingInterval]
  by (simp add: after_poll_def)

lemma poll_call_sel [simp]:
  "call_at (poll_call config n w) = clock w"
  "call_client (poll_call config n w) = getHttpClient config"
  "call_req (poll_call config n w) = GET_request config (job_url config n)"
  by (simp_all add: poll_call_def)

lemma poll_turn_bad_url:
  "\<not> url_ok w (job_url config n) \<Longrightarrow>
     poll_turn config n start w =
       (Inl (Err (errors_Wrapped (url_error (job_url config n))
          (''athena.apiClient: Failed to create request GET '' @ job_url config n))), w)"
  by (simp add: poll_turn_def GetJobStatus_eq doGet_bad_url job_url_def)

lemma poll_turn_eq:
  "url_ok w (job_url config n) \<Longrightarrow>
     poll_turn config n start w =
       (case poll_reply config n w of
          Inl err \<Rightarrow> (Inl err, after_GET config (job_url config n) w)
        | Inr js \<Rightarrow>
            if clock (after_poll config n w) - start > 3600000000000
            then (Inl (Err timed_out), after_poll config n w)
            else (Inr js, after_poll config n w))"
  by (simp add: poll_turn_def GetJobStatus_eq doGet_eq job_url_def poll_reply_def after_poll_def
      time_Since_def Let_def split: sum.splits)

lemma poll_turn_Inr:
  assumes "poll_turn config n start w = (Inr js, w')"
  shows "url_ok w (job_url config n)" and "poll_reply config n w = Inr js"
    and "w' = after_poll config n w" and "clock w' - start \<le> 3600000000000"
proof -
  show ok: "url_ok w (job_url config n)"
    using assms by (rule contrapos_pp) (simp add: poll_turn_bad_url)
  from assms show "poll_reply config n w = Inr js" and "w' = after_poll config n w"
    and "clock w' - start \<le> 3600000000000"
    by (auto simp: poll_turn_eq [OF ok] split: sum.splits if_splits)
qed

lemma poll_turn_Inl_calls:
  "poll_turn config n start w = (Inl f, w') \<Longrightarrow>
     calls w' = calls w \<or> calls w' = calls w @ [poll_call config n w]"
  by (cases "url_ok w (job_url config n)")
     (auto simp: poll_turn_bad_url poll_turn_eq poll_call_def split: sum.splits if_splits)

lemma poll_turn_clock [clock_mono]: "poll_turn config n start w = (r, w') \<Longrightarrow> clock w \<le> clock w'"
  using after_poll_clock [of w config n]
  by (cases "url_ok w (job_url config n)")
     (auto simp: poll_turn_bad_url poll_turn_eq split: sum.splits if_splits)

lemma poll_turn_frame:
  "poll_turn config n start w = (r, w') \<Longrightarrow>
     network w' = network w \<and> oversleep w' = oversleep w \<and> url_ok w' = url_ok w"
  by (cases "url_ok w (job_url config n)")
     (auto simp: poll_turn_bad_url poll_turn_eq split: sum.splits if_splits)

lemma panics_Inl [simp]: "panics (Inl f) = is_panic f"
  by (simp add: panics_def)

lemma poll_reply_not_panic [simp]: "\<not> panics (poll_reply config n w)"
  by (simp add: poll_reply_def)

lemma poll_reply_Inl: "poll_reply config n w = Inl f \<Longrightarrow> \<not> is_panic f"
  using poll_reply_not_panic [of config n w] by (simp del: poll_reply_not_panic)

lemma poll_turn_not_panic: "poll_turn config n start w = (Inl f, w') \<Longrightarrow> \<not> is_panic f"
  by (cases "url_ok w (job_url config n)")
     (auto simp: poll_turn_bad_url poll_turn_eq timed_out_def dest: poll_reply_Inl
       split: sum.splits if_splits)

section \<open>What a run of the loop does to the world\<close>

text \<open>
  \<open>new_calls w w'\<close> are the calls made between two worlds of one run.
  \<open>polls_spaced config n t cs\<close> says that \<open>cs\<close> are status fetches of job \<open>n\<close>,
  the first not before \<open>t\<close> and each at least one polling interval after the
  one before it. \<open>turns_left start w\<close> bounds the turns a loop started at \<open>start\<close>
  can still take in world \<open>w\<close>.
\<close>

definition new_calls :: "world \<Rightarrow> world \<Rightarrow> call list" where
  "new_calls w w' = drop (length (calls w)) (calls w')"

fun polls_spaced :: "Config \<Rightarrow> int \<Rightarrow> int \<Rightarrow> call list \<Rightarrow> bool" where
  "polls_spaced config n t [] = True"
| "polls_spaced config n t (k # ks) =
     (call_req k = GET_request config (job_url config n) \<and> call_client k = getHttpClient config \<and>
      t \<le> call_at k \<and> polls_spaced config n (call_at k + 5000000000) ks)"

definition turns_left :: "int \<Rightarrow> world \<Rightarrow> nat" where
  "turns_left start w =
     nat (max 1 ((PollingTimeout + PollingInterval - (clock w - start)) div PollingInterval))"

lemma new_calls_append [simp]: "calls w' = calls w @ cs \<Longrightarrow> new_calls w w' = cs"
  by (simp add: new_calls_def)

lemma new_calls_same [simp]: "new_calls w w = []"
  by (simp add: new_calls_def)

lemma polls_spaced_mono:
  "polls_spaced config n t' cs \<Longrightarrow> t \<le> t' \<Longrightarrow> polls_spaced config n t cs"
  by (cases cs) auto

lemma turns_left_pos: "1 \<le> turns_left start w"
  by (simp add: turns_left_def)

lemma turns_left_start [simp]: "turns_left (clock w) w = 721"
  by (simp add: turns_left_def)

lemma turns_left_turn:
  assumes "clock w + 5000000000 \<le> clock w'" and "clock w' - start \<le> 3600000000000"
  shows "Suc (turns_left start w') \<le> turns_left start w"
  using assms by (simp add: turns_left_def)

lemma waitForJob_loop_run:
  assumes "waitForJob_loop config n start d p w = (r, w')"
  shows "\<exists>cs. calls w' = calls w @ cs \<and> polls_spaced config n (clock w) cs \<and>
           length cs \<le> turns_left start w \<and> (\<not> terminal d \<and> url_ok w (job_url config n) \<longrightarrow> cs \<noteq> [])"
  using assms
proof (induction config n start d p w rule: waitForJob_loop_induct)
  case (leave config n start d p w)
  then show ?case by (simp add: waitForJob_loop_done)
next
  case (turn config n start d p w)
  obtain x w1 where t: "poll_turn config n start w = (x, w1)"
    by (cases "poll_turn config n start w")
  show ?case
  proof (cases x)
    case (Inl f)
    with t turn.prems turn.hyps have "w' = w1"
      by (simp add: waitForJob_loop_turn)
    with t Inl poll_turn_Inl_calls [of config n start w f w1] turns_left_pos [of start w]
    show ?thesis
      by (cases "url_ok w (job_url config n)") (auto simp: poll_turn_bad_url poll_turn_eq split: sum.splits if_splits)
  next
    case (Inr js)
    note step = poll_turn_Inr [OF t [unfolded Inr]]
    from t Inr turn.prems turn.hyps
    have "waitForJob_loop config n start (JobState js) (Some js) w1 = (r, w')"
      by (simp add: waitForJob_loop_turn)
    from turn.IH [OF t [unfolded Inr] this] obtain cs where
      cs: "calls w' = calls w1 @ cs" "polls_spaced config n (clock w1) cs"
        "length cs \<le> turns_left start w1"
      by blast
    have far: "clock w + 5000000000 \<le> clock w1"
      using step(3) by (simp add: after_poll_clock)
    have "calls w' = calls w @ poll_call config n w # cs"
      using cs(1) step(3) by simp
    moreover have "polls_spaced config n (clock w) (poll_call config n w # cs)"
      using polls_spaced_mono [OF cs(2), of "clock w + 5000000000"] far by simp
    moreover have "length (poll_call config n w # cs) \<le> turns_left start w"
      using cs(3) turns_left_turn [OF far step(4)] by simp
    ultimately show ?thesis by blast
  qed
qed

lemma waitForJob_run:
  assumes "waitForJob n config w = (r, w')"
  shows "\<exists>cs. calls w' = calls w @ cs \<and> polls_spaced config n (clock w) cs \<and>
           length cs \<le> 721 \<and> (url_ok w (job_url config n) \<longrightarrow> cs \<noteq> [])"
  using waitForJob_loop_run [of config n "clock w" "[]" None w r w'] assms
  by (simp add: waitForJob_def time_Now_def)

section \<open>What the loop returns\<close>

lemma timed_out_not_Wrapped [simp]:
  "errors_Wrapped e m \<noteq> timed_out" "timed_out \<noteq> errors_Wrapped e m"
  by (simp_all add: timed_out_def)

lemma poll_reply_not_timed_out [simp]: "poll_reply config n w \<noteq> Inl (Err timed_out)"
  by (simp add: poll_reply_def GET_outcome_def split: sum.splits option.splits)

lemma poll_turn_timed_out:
  "poll_turn config n start w = (Inl (Err timed_out), w') \<Longrightarrow>
     3600000000000 < clock w' - start \<and> w' = after_poll config n w"
  by (cases "url_ok w (job_url config n)")
     (auto simp: poll_turn_bad_url poll_turn_eq split: sum.splits if_splits)

lemma waitForJob_loop_Inr:
  assumes "waitForJob_loop config n start d p w = (Inr q, w')"
  shows "(terminal d \<and> q = p \<and> w' = w) \<or>
         (\<exists>js w0. q = Some js \<and> terminal (JobState js) \<and> poll_reply config n w0 = Inr js \<and>
            w' = after_poll config n w0 \<and> clock w' - start \<le> 3600000000000)"
  using assms
proof (induction config n start d p w rule: waitForJob_loop_induct)
  case (leave config n start d p w)
  then show ?case by (simp add: waitForJob_loop_done)
next
  case (turn config n start d p w)
  from turn.prems turn.hyps obtain js w1 where
    t: "poll_turn config n start w = (Inr js, w1)"
    and l: "waitForJob_loop config n start (JobState js) (Some js) w1 = (Inr q, w')"
    by (auto simp: waitForJob_loop_turn split: prod.splits sum.splits)
  from turn.IH [OF t l] poll_turn_Inr [OF t] show ?case by blast
qed

lemma waitForJob_loop_Inl:
  assumes "waitForJob_loop config n start d p w = (Inl f, w')"
  shows "\<not> is_panic f \<and> (f = Err timed_out \<longrightarrow> 3600000000000 < clock w' - start)"
  using assms
proof (induction config n start d p w rule: waitForJob_loop_induct)
  case (leave config n start d p w)
  then show ?case by (simp add: waitForJob_loop_done)
next
  case (turn config n start d p w)
  obtain x w1 where t: "poll_turn config n start w = (x, w1)"
    by (cases "poll_turn config n start w")
  show ?case
  proof (cases x)
    case (Inl g)
    with t turn.prems turn.hyps have "g = f" "w1 = w'"
      by (simp_all add: waitForJob_loop_turn)
    with t Inl poll_turn_not_panic [of config n start w f w']
      poll_turn_timed_out [of config n start w w']
    show ?thesis by auto
  next
    case (Inr js)
    with t turn.prems turn.hyps turn.IH [of js w1] show ?thesis
      by (simp add: waitForJob_loop_turn)
  qed
qed

lemma waitForJob_loop_frame:
  assumes "waitForJob_loop config n start d p w = (r, w')"
  shows "clock w \<le> clock w' \<and> network w' = network w \<and> oversleep w' = oversleep w \<and>
         url_ok w' = url_ok w"
  using assms
proof (induction config n start d p w rule: waitForJob_loop_induct)
  case (leave config n start d p w)
  then show ?case by (simp add: waitForJob_loop_done)
next
  case (turn config n start d p w)
  obtain x w1 where t: "poll_turn config n start w = (x, w1)"
    by (cases "poll_turn config n start w")
  note f = poll_turn_frame [OF t] poll_turn_clock [OF t]
  show ?case
  proof (cases x)
    case (Inl g)
    with t turn.prems turn.hyps f show ?thesis
      by (simp add: waitForJob_loop_turn)
  next
    case (Inr js)
    with t turn.prems turn.hyps f turn.IH [of js w1] show ?thesis
      by (simp add: waitForJob_loop_turn)
  qed
qed

lemmas waitForJob_unfold = waitForJob_def time_Now_def Let_def

lemma waitForJob_Inr:
  assumes "waitForJob n config w = (Inr q, w')"
  shows "\<exists>js w0. q = Some js \<and> terminal (JobState js) \<and> poll_reply config n w0 = Inr js \<and>
           w' = after_poll config n w0 \<and> clock w' - clock w \<le> 3600000000000"
  using waitForJob_loop_Inr [of config n "clock w" "[]" None w q w'] assms
  by (simp add: waitForJob_unfold)

lemma waitForJob_Inl:
  assumes "waitForJob n config w = (Inl f, w')"
  shows "\<not> is_panic f" and "f = Err timed_out \<Longrightarrow> 3600000000000 < clock w' - clock w"
  using waitForJob_loop_Inl [of config n "clock w" "[]" None w f w'] assms
  by (simp_all add: waitForJob_unfold)

lemma waitForJob_frame:
  assumes "waitForJob n config w = (r, w')"
  shows "clock w \<le> clock w'" and "network w' = network w" and "oversleep w' = oversleep w"
    and "url_ok w' = url_ok w"
  using waitForJob_loop_frame [of config n "clock w" "[]" None w r w'] assms
  by (simp_all add: waitForJob_unfold)

section \<open>Facts: checkForJobErrors\<close>

lemma sublist_format_errors: "e \<in> set es \<Longrightarrow> sublist (Message e) (format_errors es)"
proof -
  assume "e \<in> set es"
  then have "sublist (''{'' @ Message e @ ''}'') (join '' '' (map (\<lambda>e. ''{'' @ Message e @ ''}'') es))"
    by (intro sublist_join) auto
  moreover have "sublist (Message e) (''{'' @ Message e @ ''}'')"
    by (intro sublist_within) simp
  ultimately have "sublist (Message e) (join '' '' (map (\<lambda>e. ''{'' @ Message e @ ''}'') es))"
    by (rule sublist_order.order_trans [rotated])
  then show ?thesis
    unfolding format_errors_def by (intro sublist_within)
qed

lemma checkForJobErrors_None_iff:
  "checkForJobErrors q = None \<longleftrightarrow> (\<exists>js. q = Some js \<and> JobState js = JobSuccess)"
  by (auto simp: checkForJobErrors_def split: option.splits)

lemma checkForJobErrors_failed:
  "JobState js \<noteq> JobSuccess \<Longrightarrow> ErrorDetails js = Some ed \<Longrightarrow> Errors ed = Some es \<Longrightarrow>
     checkForJobErrors (Some js) =
       Some (Err (errors_New (''Job '' @ JobType js @ '' ('' @ Itoa (js_ID js)
         @ '') failed with message '' @ format_errors es)))"
  by (simp add: checkForJobErrors_def)

lemma checkForJobErrors_mentions:
  assumes "JobState js \<noteq> JobSuccess" and "ErrorDetails js = Some ed" and "Errors ed = Some es"
    and "e \<in> set es"
  shows "\<exists>err. checkForJobErrors (Some js) = Some (Err err) \<and> sublist (Message e) (Error err)"
proof -
  define pre where "pre = ''Job '' @ JobType js @ '' ('' @ Itoa (js_ID js) @ '') failed with message ''"
  define err where "err = errors_New (pre @ format_errors es)"
  have "sublist (Message e) (Error err)"
    unfolding err_def Error.simps by (intro sublist_within_left sublist_format_errors assms)
  moreover have "checkForJobErrors (Some js) = Some (Err err)"
    using assms by (simp add: checkForJobErrors_def err_def pre_def)
  ultimately show ?thesis by blast
qed

lemma checkForJobErrors_nil:
  "JobState js \<noteq> JobSuccess \<Longrightarrow> Option.bind (ErrorDetails js) Errors = None \<Longrightarrow>
     checkForJobErrors (Some js) = Some nil_dereference"
  by (auto simp: checkForJobErrors_def split: option.splits)

section \<open>Facts: handleAsyncRequest\<close>

text \<open>
  \<open>submit_reply\<close> is what the service answers to the submitted request,
  \<open>after_submit\<close> the world once that answer has arrived, and \<open>await_job\<close> the
  second half of \<open>handleAsyncRequest\<close>: wait for job \<open>n\<close>, then check how it
  ended.
\<close>

abbreviation submit_reply :: "http_request \<Rightarrow> Config \<Rightarrow> world \<Rightarrow> goerror + http_response" where
  "submit_reply req config w \<equiv> reply (exchange_of (getHttpClient config) req w)"

abbreviation after_submit :: "http_request \<Rightarrow> Config \<Rightarrow> world \<Rightarrow> world" where
  "after_submit req config w \<equiv> after_call (getHttpClient config) req w"

definition await_job :: "int \<Rightarrow> Config \<Rightarrow> world \<Rightarrow> JobStatus option result \<times> world" where
  "await_job n config w =
     (case waitForJob n config w of
        (Inl err, w2) \<Rightarrow> (Inl err, w2)
      | (Inr jobStatus, w2) \<Rightarrow>
          (case checkForJobErrors jobStatus of
             Some err \<Rightarrow> (Inl err, w2)
           | None \<Rightarrow> (Inr jobStatus, w2)))"

lemma handleAsyncRequest_no_reply:
  "submit_reply req config w = Inl err \<Longrightarrow>
     handleAsyncRequest req config verb w =
       (case req_body req of
          None \<Rightarrow> Inl nil_dereference
        | Some b \<Rightarrow> Inl (Err (errors_Wrapped err
            (''athena.apiClient: Failed to do request '' @ verb @ '' '' @ req_url req @ '' ''
               @ drop (consumed (exchange_of (getHttpClient config) req w)) (body_string b)))),
        after_submit req config w)"
  by (simp add: handleAsyncRequest_def client_Do_eq ReadAll_request_def Let_def split: option.splits)

lemma handleAsyncRequest_refused:
  "submit_reply req config w = Inr res \<Longrightarrow> readResponse res = Inl err \<Longrightarrow>
     handleAsyncRequest req config verb w =
       (case req_body req of
          None \<Rightarrow> Inl nil_dereference
        | Some b \<Rightarrow> Inl (Err (errors_Wrapped err
            (''athena.apiClient: Failed to read response body from '' @ verb @ '' '' @ req_url req
               @ '' '' @ drop (consumed (exchange_of (getHttpClient config) req w)) (body_string b)))),
        after_submit req config w)"
  by (simp add: handleAsyncRequest_def client_Do_eq ReadAll_request_def Let_def split: option.splits)

lemma handleAsyncRequest_read:
  "submit_reply req config w = Inr res \<Longrightarrow> readResponse res = Inr body \<Longrightarrow>
     handleAsyncRequest req config verb w =
       (case json_Unmarshal_ptr JobStatus_type body of
          (jobStatus, Some err) \<Rightarrow>
            (Inl (Err (errors_Wrapped err
               (''athena.apiClient: Failed to unmarshal response '' @ body_string body))),
             after_submit req config w)
        | (None, None) \<Rightarrow> (Inl nil_dereference, after_submit req config w)
        | (Some submitted, None) \<Rightarrow> await_job (js_ID submitted) config (after_submit req config w))"
  by (simp add: handleAsyncRequest_def client_Do_eq await_job_def Let_def
      split: option.splits prod.splits)

lemma handleAsyncRequest_accepted:
  "submit_reply req config w = Inr res \<Longrightarrow> readResponse res = Inr (Json (JObject kvs)) \<Longrightarrow>
     JobStatus_ok kvs \<Longrightarrow>
     handleAsyncRequest req config verb w =
       await_job (get_int (member kvs ''id'')) config (after_submit req config w)"
  by (simp add: handleAsyncRequest_read)

lemma handleAsyncRequest_null:
  "submit_reply req config w = Inr res \<Longrightarrow> readResponse res = Inr (Json JNull) \<Longrightarrow>
     handleAsyncRequest req config verb w = (Inl nil_dereference, after_submit req config w)"
  by (simp add: handleAsyncRequest_read)

lemma await_job_Inr:
  assumes "await_job n config w = (Inr q, w')"
  shows "\<exists>js. q = Some js \<and> JobState js = JobSuccess"
    and "waitForJob n config w = (Inr q, w')"
  using assms
  by (auto simp: await_job_def checkForJobErrors_None_iff split: prod.splits sum.splits option.splits)

lemma handleAsyncRequest_Inr_await:
  assumes "handleAsyncRequest req config verb w = (Inr q, w')"
  shows "\<exists>n. await_job n config (after_submit req config w) = (Inr q, w')"
proof (cases "submit_reply req config w")
  case (Inl err)
  with assms show ?thesis
    by (simp add: handleAsyncRequest_no_reply split: option.splits)
next
  case (Inr res)
  show ?thesis
  proof (cases "readResponse res")
    case (Inl err)
    with Inr assms show ?thesis
      by (simp add: handleAsyncRequest_refused split: option.splits)
  next
    case body: (Inr body)
    with Inr assms show ?thesis
      by (auto simp: handleAsyncRequest_read split: prod.splits option.splits)
  qed
qed

lemma handleAsyncRequest_Inr:
  assumes "handleAsyncRequest req config verb w = (Inr q, w')"
  shows "\<exists>js. q = Some js \<and> JobState js = JobSuccess"
  using handleAsyncRequest_Inr_await [OF assms] await_job_Inr(1) by blast

section \<open>Runs that find a terminal status, runs that time out\<close>

text \<open>
  \<open>pending_for config n k w\<close>: from world \<open>w\<close> on, the next \<open>k\<close> fetches of the
  status of job \<open>n\<close> succeed and show a job that is not terminal. The worlds of
  these fetches are \<open>w\<close>, \<open>after_poll config n w\<close>, and so on.
\<close>

fun pending_for :: "Config \<Rightarrow> int \<Rightarrow> nat \<Rightarrow> world \<Rightarrow> bool" where
  "pending_for config n 0 w = True"
| "pending_for config n (Suc k) w =
     (case poll_reply config n w of
        Inl err \<Rightarrow> False
      | Inr js \<Rightarrow> \<not> terminal (JobState js) \<and> pending_for config n k (after_poll config n w))"

lemma pending_for_mono: "pending_for config n k w \<Longrightarrow> j \<le> k \<Longrightarrow> pending_for config n j w"
proof (induction j arbitrary: k w)
  case 0
  show ?case by simp
next
  case (Suc j)
  then obtain k' where "k = Suc k'" by (cases k) auto
  with Suc show ?case by (auto split: sum.splits)
qed

lemma after_poll_funpow_clock: "clock w \<le> clock ((after_poll config n ^^ k) w)"
proof (induction k)
  case 0
  show ?case by simp
next
  case (Suc k)
  then show ?case
    using after_poll_clock [of "(after_poll config n ^^ k) w" config n] by simp
qed

lemma after_poll_funpow_far:
  "clock w + 5000000000 * int k \<le> clock ((after_poll config n ^^ k) w)"
proof (induction k)
  case 0
  show ?case by simp
next
  case (Suc k)
  then show ?case
    using after_poll_clock [of "(after_poll config n ^^ k) w" config n] by simp
qed

lemma after_poll_funpow_sel [simp]:
  "network ((after_poll config n ^^ k) w) = network w"
  "oversleep ((after_poll config n ^^ k) w) = oversleep w"
  "length (calls ((after_poll config n ^^ k) w)) = length (calls w) + k"
  by (induction k) simp_all

lemma after_poll_funpow_url_ok [simp]: "url_ok ((after_poll config n ^^ k) w) = url_ok w"
  by (induction k) simp_all

lemma waitForJob_loop_finds:
  assumes "\<not> terminal d" and "url_ok w (job_url config n)"
    and "pending_for config n k w"
    and "poll_reply config n ((after_poll config n ^^ k) w) = Inr js" and "terminal (JobState js)"
    and "clock ((after_poll config n ^^ Suc k) w) - start \<le> 3600000000000"
  shows "waitForJob_loop config n start d p w = (Inr (Some js), (after_poll config n ^^ Suc k) w)"
  using assms
proof (induction k arbitrary: d p w)
  case 0
  then show ?case
    by (simp add: waitForJob_loop_turn poll_turn_eq waitForJob_loop_done)
next
  case (Suc k)
  from Suc.prems(3) obtain js0 where r: "poll_reply config n w = Inr js0"
    and live: "\<not> terminal (JobState js0)" and rest: "pending_for config n k (after_poll config n w)"
    by (auto split: sum.splits)
  let ?w1 = "after_poll config n w"
  have "clock ?w1 \<le> clock ((after_poll config n ^^ Suc k) ?w1)"
    by (rule after_poll_funpow_clock)
  with Suc.prems(6) have near: "clock ?w1 - start \<le> 3600000000000"
    by (simp add: funpow_swap1)
  have "waitForJob_loop config n start (JobState js0) (Some js0) ?w1 =
      (Inr (Some js), (after_poll config n ^^ Suc k) ?w1)"
    using Suc.prems live rest by (intro Suc.IH) (simp_all add: funpow_swap1)
  with Suc.prems(1,2) r near show ?case
    by (simp add: waitForJob_loop_turn poll_turn_eq funpow_swap1)
qed

lemma waitForJob_loop_times_out:
  assumes "\<not> terminal d" and "url_ok w (job_url config n)"
    and "pending_for config n (turns_left start w) w"
  shows "fst (waitForJob_loop config n start d p w) = Inl (Err timed_out)"
  using assms
proof (induction config n start d p w rule: waitForJob_loop_induct)
  case (leave config n start d p w)
  then show ?case by simp
next
  case (turn config n start d p w)
  obtain m where m: "turns_left start w = Suc m"
    using turns_left_pos [of start w] by (cases "turns_left start w") auto
  with turn.prems obtain js where r: "poll_reply config n w = Inr js"
    and live: "\<not> terminal (JobState js)" and rest: "pending_for config n m (after_poll config n w)"
    by (auto split: sum.splits)
  let ?w1 = "after_poll config n w"
  show ?case
  proof (cases "clock ?w1 - start > 3600000000000")
    case True
    with turn.prems turn.hyps r show ?thesis
      by (simp add: waitForJob_loop_turn poll_turn_eq)
  next
    case False
    then have t: "poll_turn config n start w = (Inr js, ?w1)"
      using turn.prems r by (simp add: poll_turn_eq)
    have "Suc (turns_left start ?w1) \<le> turns_left start w"
      using False by (intro turns_left_turn after_poll_clock) simp
    with m rest have "pending_for config n (turns_left start ?w1) ?w1"
      by (intro pending_for_mono [OF rest]) simp
    with turn.IH [OF t live] turn.prems(2) t turn.hyps show ?thesis
      by (simp add: waitForJob_loop_turn)
  qed
qed

lemma await_job_finds:
  assumes "url_ok w (job_url config n)" and "pending_for config n k w"
    and "poll_reply config n ((after_poll config n ^^ k) w) = Inr js" and "JobState js = JobSuccess"
    and "clock ((after_poll config n ^^ Suc k) w) - clock w \<le> 3600000000000"
  shows "await_job n config w = (Inr (Some js), (after_poll config n ^^ Suc k) w)"
proof -
  have "waitForJob n config w = (Inr (Some js), (after_poll config n ^^ Suc k) w)"
    unfolding waitForJob_unfold
    using assms by (intro waitForJob_loop_finds) simp_all
  with assms(4) show ?thesis
    by (simp add: await_job_def checkForJobErrors_def)
qed

section \<open>Facts: handleAsyncRequestAndFetchManagdObject\<close>

text \<open>
  \<open>fetch_managed\<close> is the second half of the operation: the GET of the object
  that the link \<open>managedObject\<close> of the final status names.
\<close>

definition fetch_managed ::
  "Config \<Rightarrow> 'a gotype \<Rightarrow> JobStatus option \<Rightarrow> world \<Rightarrow> (JobStatus option \<times> 'a) result \<times> world"
where
  "fetch_managed config T jobStatus w =
     (case jobStatus of
        None \<Rightarrow> (Inl nil_dereference, w)
      | Some js \<Rightarrow>
          (case js_Links js of
             None \<Rightarrow> (Inl nil_dereference, w)
           | Some links \<Rightarrow>
               (case doGet T config (urlFromHref config (Href (jl_ManagedObject links))) w of
                  (Inl err, w2) \<Rightarrow> (Inl err, w2)
                | (Inr responseObject, w2) \<Rightarrow> (Inr (jobStatus, responseObject), w2))))"

lemma handleAsyncRequestAndFetchManagdObject_eq:
  "handleAsyncRequestAndFetchManagdObject req config T verb w =
     (case handleAsyncRequest req config verb w of
        (Inl err, w1) \<Rightarrow> (Inl err, w1)
      | (Inr jobStatus, w1) \<Rightarrow> fetch_managed config T jobStatus w1)"
  by (simp add: handleAsyncRequestAndFetchManagdObject_def fetch_managed_def Let_def
      split: prod.splits sum.splits option.splits)

lemma fetch_managed_links:
  "js_Links js = Some links \<Longrightarrow>
     fetch_managed config T (Some js) w =
       (case doGet T config (urlFromHref config (Href (jl_ManagedObject links))) w of
          (Inl err, w2) \<Rightarrow> (Inl err, w2)
        | (Inr x, w2) \<Rightarrow> (Inr (Some js, x), w2))"
  by (simp add: fetch_managed_def)

lemma fetch_managed_no_links:
  "js_Links js = None \<Longrightarrow> fetch_managed config T (Some js) w = (Inl nil_dereference, w)"
  by (simp add: fetch_managed_def)

section \<open>Facts: the calls of a submission\<close>

lemma polls_spaced_only_GETs: "polls_spaced config n t cs \<Longrightarrow> only_GETs cs"
  by (induction cs arbitrary: t) auto

lemma await_job_world: "snd (await_job n config w) = snd (waitForJob n config w)"
  by (simp add: await_job_def split: prod.splits sum.splits option.splits)

lemma handleAsyncRequest_world:
  "snd (handleAsyncRequest req config verb w) = after_submit req config w \<or>
   (\<exists>n. snd (handleAsyncRequest req config verb w) = snd (waitForJob n config (after_submit req config w)))"
proof (cases "submit_reply req config w")
  case (Inl err)
  then show ?thesis by (simp add: handleAsyncRequest_no_reply)
next
  case (Inr res)
  show ?thesis
  proof (cases "readResponse res")
    case (Inl err)
    with Inr show ?thesis by (simp add: handleAsyncRequest_refused)
  next
    case body: (Inr body)
    with Inr show ?thesis
      by (auto simp: handleAsyncRequest_read await_job_world split: prod.splits option.splits)
  qed
qed

lemma handleAsyncRequest_calls:
  "\<exists>cs. calls (snd (handleAsyncRequest req config verb w)) =
          calls w @ call_of (getHttpClient config) req w # cs \<and> only_GETs cs \<and> length cs \<le> 721"
proof -
  have "\<exists>cs. calls (snd (waitForJob n config w1)) = calls w1 @ cs \<and> only_GETs cs \<and> length cs \<le> 721"
    for n w1
    using waitForJob_run [of n config w1 "fst (waitForJob n config w1)" "snd (waitForJob n config w1)"]
    by (auto dest: polls_spaced_only_GETs)
  from this [of _ "after_submit req config w"] handleAsyncRequest_world [of req config verb w]
  show ?thesis by auto
qed

lemma fetch_managed_world:
  "snd (fetch_managed config T q w) = w \<or>
   (\<exists>url. snd (fetch_managed config T q w) = snd (doGet T config url w))"
  by (auto simp: fetch_managed_def split: option.splits prod.splits sum.splits)
     (metis snd_conv)+

lemma fetch_managed_calls:
  "\<exists>cs. calls (snd (fetch_managed config T q w)) = calls w @ cs \<and> only_GETs cs \<and> length cs \<le> 1"
  using fetch_managed_world [of config T q w] doGet_calls_GET [of T config _ w] by auto

lemma handleAsyncRequestAndFetchManagdObject_calls:
  "\<exists>cs. calls (snd (handleAsyncRequestAndFetchManagdObject req config T verb w)) =
          calls w @ call_of (getHttpClient config) req w # cs \<and> only_GETs cs \<and> length cs \<le> 722"
proof -
  obtain r w1 where h: "handleAsyncRequest req config verb w = (r, w1)"
    by (cases "handleAsyncRequest req config verb w")
  from handleAsyncRequest_calls [of req config verb w] h obtain cs where
    cs: "calls w1 = calls w @ call_of (getHttpClient config) req w # cs" "only_GETs cs" "length cs \<le> 721"
    by auto
  show ?thesis
  proof (cases r)
    case (Inl f)
    with h cs show ?thesis
      by (auto simp: handleAsyncRequestAndFetchManagdObject_eq intro!: exI [of _ cs])
  next
    case (Inr q)
    from fetch_managed_calls [of config T q w1] obtain ds where
      "calls (snd (fetch_managed config T q w1)) = calls w1 @ ds" "only_GETs ds" "length ds \<le> 1"
      by blast
    with h cs Inr show ?thesis
      by (auto simp: handleAsyncRequestAndFetchManagdObject_eq intro!: exI [of _ "cs @ ds"])
  qed
qed

section \<open>Scenarios\<close>

text \<open>
  How the engine runs in the worlds of theory \<open>Fixtures\<close>. These runs discharge
  the hypotheses of the properties below at concrete inputs.
\<close>

lemma after_poll_clock_eq:
  "clock (after_poll config n w) =
     clock w + int (latency (GET_exchange config (job_url config n) w)) + 5000000000
       + int (oversleep w (clock w + int (latency (GET_exchange config (job_url config n) w))))"
  by (simp add: after_poll_def time_Sleep_def)

lemma poll_reply_replying:
  "network w (calls w) (poll_call config n w) = replying code (JObject kvs) \<Longrightarrow> code < 400 \<Longrightarrow>
     JobStatus_ok kvs \<Longrightarrow> poll_reply config n w = Inr (JobStatus_of kvs)"
  by (simp add: poll_reply_def exchange_of_def poll_call_def GET_outcome_ok)

lemma poll_reply_job_reply:
  "network w (calls w) (poll_call config n w) = job_reply m st \<Longrightarrow> fits_int m \<Longrightarrow>
     poll_reply config n w = Inr (JobStatus_of (job_fields m st))"
  by (simp add: job_reply_def poll_reply_replying)

lemma latency_replying:
  "network w (calls w) (poll_call config n w) = replying code j \<Longrightarrow>
     latency (GET_exchange config (job_url config n) w) = 0"
  by (simp add: exchange_of_def poll_call_def)

lemma latency_job_reply:
  "network w (calls w) (poll_call config n w) = job_reply m st \<Longrightarrow>
     latency (GET_exchange config (job_url config n) w) = 0"
  by (simp add: job_reply_def latency_replying)

lemma pending_for_always: "network w = (\<lambda>h k. job_reply 7 ''Pending'') \<Longrightarrow> pending_for config n k w"
  by (induction k arbitrary: w) (simp_all add: poll_reply_job_reply)

lemma ends_after_pending:
  assumes "network w = (\<lambda>h c. if length h \<le> m then job_reply 7 ''Pending'' else job_reply 7 ''Successful'')"
    and "length (calls w) + k \<le> Suc m"
  shows "pending_for config n k w"
  using assms by (induction k arbitrary: w) (simp_all add: poll_reply_job_reply)

lemma ends_after_clock:
  assumes "network w = (\<lambda>h c. if length h \<le> m then job_reply 7 ''Pending'' else job_reply 7 ''Successful'')"
    and "oversleep w = (\<lambda>t. 0)"
  shows "clock ((after_poll config n ^^ k) w) = clock w + 5000000000 * int k"
proof (induction k)
  case 0
  show ?case by simp
next
  case (Suc k)
  let ?w = "(after_poll config n ^^ k) w"
  from assms(1) have "latency (GET_exchange config (job_url config n) ?w) = 0"
    by (cases "length (calls ?w) \<le> m") (simp_all add: latency_job_reply)
  with Suc assms(2) show ?case
    by (simp add: after_poll_clock_eq)
qed

lemmas scenario_defs = three_polls_def always_pending_def slow_sleeper_def job_done_def
  job_failed_def job_failed_bare_def unreachable_def delete_request_def

lemmas scenario_simps = poll_reply_job_reply latency_job_reply latency_replying after_poll_clock_eq scripted_def
  scenario_defs numeral_3_eq_3 numeral_2_eq_2

lemma three_polls_run:
  "waitForJob 7 demo_config three_polls =
     (Inr (Some (JobStatus_of (job_fields 7 ''Successful''))), (after_poll demo_config 7 ^^ 3) three_polls)"
  unfolding waitForJob_unfold numeral_3_eq_3
  by (rule waitForJob_loop_finds) (simp_all add: scenario_simps)

lemma three_polls_calls:
  "map call_at (calls ((after_poll demo_config 7 ^^ 3) three_polls)) = [0, 5000000000, 10000000000]"
  by (simp add: scenario_simps)

lemma slow_sleeper_run:
  "waitForJob 7 demo_config slow_sleeper = (Inl (Err timed_out), after_poll demo_config 7 slow_sleeper)"
  by (simp add: waitForJob_turn poll_turn_eq scenario_simps)

lemma submit_job_reply:
  "submit_reply req config w = reply (job_reply n st) \<Longrightarrow> fits_int n \<Longrightarrow>
     handleAsyncRequest req config verb w = await_job n config (after_submit req config w)"
  by (simp add: job_reply_def handleAsyncRequest_accepted [where kvs = "job_fields n st"]
      readResponse_ok)

lemma job_done_run:
  "handleAsyncRequest req demo_config verb job_done =
    (Inr (Some (JobStatus_of (job_fields 7 ''Successful''))),
     after_poll demo_config 7 (after_submit req demo_config job_done))"
proof -
  let ?w1 = "after_submit req demo_config job_done"
  have "waitForJob 7 demo_config ?w1 =
      (Inr (Some (JobStatus_of (job_fields 7 ''Successful''))), (after_poll demo_config 7 ^^ Suc 0) ?w1)"
    unfolding waitForJob_unfold
    by (rule waitForJob_loop_finds) (simp_all add: scenario_simps exchange_of_def)
  then show ?thesis
    by (subst submit_job_reply [where n = 7 and st = "''Pending''"])
       (simp_all add: exchange_of_def scenario_simps await_job_def checkForJobErrors_def JobSuccess_def)
qed

lemma failed_job_decoded:
  "JobStatus_ok (failed_job_fields 7 msg)"
  "get_int (member (failed_job_fields 7 msg) ''id'') = 7"
  "get_string (member (failed_job_fields 7 msg) ''jobState'') = ''Failed''"
  "get_ptr ErrorDetails_type (member (failed_job_fields 7 msg) ''errorDetails'') =
     Some \<lparr>Code = 400, Errors = Some [\<lparr>Message = msg\<rparr>]\<rparr>"
  by (simp_all add: failed_job_fields_def job_fields_def JobStatus_ok_def member_Cons
      entity_type_defs get_defs ok_defs)

lemma job_failed_wait:
  "waitForJob 7 demo_config (after_submit req demo_config job_failed) =
     (Inr (Some (JobStatus_of (failed_job_fields 7 ''bad hostname''))),
      after_poll demo_config 7 (after_submit req demo_config job_failed))"
proof -
  let ?w1 = "after_submit req demo_config job_failed"
  have "waitForJob 7 demo_config ?w1 =
      (Inr (Some (JobStatus_of (failed_job_fields 7 ''bad hostname''))),
       (after_poll demo_config 7 ^^ Suc 0) ?w1)"
    unfolding waitForJob_unfold
    by (rule waitForJob_loop_finds)
       (simp_all add: scenario_simps exchange_of_def failed_job_decoded
         poll_reply_replying [where code = 200 and kvs = "failed_job_fields 7 ''bad hostname''"])
  then show ?thesis by simp
qed

lemma job_failed_bare_wait:
  "waitForJob 7 demo_config (after_submit req demo_config job_failed_bare) =
     (Inr (Some (JobStatus_of (job_fields 7 ''Failed''))),
      after_poll demo_config 7 (after_submit req demo_config job_failed_bare))"
proof -
  let ?w1 = "after_submit req demo_config job_failed_bare"
  have "waitForJob 7 demo_config ?w1 =
      (Inr (Some (JobStatus_of (job_fields 7 ''Failed''))), (after_poll demo_config 7 ^^ Suc 0) ?w1)"
    unfolding waitForJob_unfold
    by (rule waitForJob_loop_finds) (simp_all add: scenario_simps exchange_of_def)
  then show ?thesis by simp
qed

section \<open>Properties of the job engine\<close>

text \<open>
  C1. \<open>waitForJob\<close> returns the first terminal status. If the URL of the job is
  accepted, the next \<open>k\<close> fetches show a job that is not terminal, fetch number
  \<open>k + 1\<close> decodes to a status \<open>js\<close> whose state is \<open>Successful\<close> or \<open>Failed\<close>, and
  the sleep after that fetch ends within the budget of one hour, then
  \<open>waitForJob\<close> returns \<open>js\<close> in the world reached after exactly \<open>k + 1\<close> turns.
  On the status sequence Pending, Pending, Successful this is three fetches, at
  0 s, 5 s and 10 s.
\<close>

theorem waitForJob_finds:
  assumes "url_ok w (job_url config n)" and "pending_for config n k w"
    and "poll_reply config n ((after_poll config n ^^ k) w) = Inr js" and "terminal (JobState js)"
    and "clock ((after_poll config n ^^ Suc k) w) - clock w \<le> 3600000000000"
  shows "waitForJob n config w = (Inr (Some js), (after_poll config n ^^ Suc k) w)"
  unfolding waitForJob_unfold by (rule waitForJob_loop_finds) (use assms in simp_all)

theorem waitForJob_finds_witness:
  "fst (waitForJob 7 demo_config three_polls) = Inr (Some (JobStatus_of (job_fields 7 ''Successful'')))
   \<and> map call_at (calls (snd (waitForJob 7 demo_config three_polls)))
       = [0, 5000000000, 10000000000]"
  using waitForJob_finds [of three_polls demo_config 7 "Suc (Suc 0)"
      "JobStatus_of (job_fields 7 ''Successful'')"]
  by (simp add: scenario_simps)

text \<open>
  C2. A status that \<open>waitForJob\<close> returns is terminal. Whenever \<open>waitForJob\<close>
  returns without an error, it returns a status, the state of that status is
  \<open>Successful\<close> or \<open>Failed\<close>, it is what the last fetch decoded, and no more than
  the budget of one hour has passed since the call.
\<close>

theorem waitForJob_terminal:
  assumes "waitForJob n config w = (Inr q, w')"
  shows "\<exists>js w0. q = Some js \<and> terminal (JobState js) \<and> poll_reply config n w0 = Inr js \<and>
           w' = after_poll config n w0 \<and> clock w' - clock w \<le> 3600000000000"
  using waitForJob_Inr [OF assms] by simp

theorem waitForJob_terminal_witness:
  "\<exists>js w0. Some (JobStatus_of (job_fields 7 ''Successful'')) = Some js \<and> terminal (JobState js) \<and>
     poll_reply demo_config 7 w0 = Inr js \<and>
     (after_poll demo_config 7 ^^ 3) three_polls = after_poll demo_config 7 w0 \<and>
     clock ((after_poll demo_config 7 ^^ 3) three_polls) - clock three_polls \<le> 3600000000000"
  by (rule waitForJob_terminal [OF three_polls_run])

text \<open>
  C3. The timeout is real. If the URL of the job is accepted and the next 721
  fetches all show a job that is not terminal, \<open>waitForJob\<close> fails with the
  error \<open>Timed out while waiting for job to complete.\<close>
\<close>

theorem waitForJob_times_out:
  assumes "url_ok w (job_url config n)" and "pending_for config n 721 w"
  shows "fst (waitForJob n config w) = Inl (Err timed_out)"
  unfolding waitForJob_unfold
  by (rule waitForJob_loop_times_out) (use assms in simp_all)

theorem waitForJob_times_out_witness:
  "fst (waitForJob 7 demo_config always_pending) = Inl (Err timed_out)"
  by (rule waitForJob_times_out) (simp_all add: pending_for_always always_pending_def)

text \<open>
  C4. The number of fetches is bounded. One call of \<open>waitForJob\<close> makes at most
  721 calls to the service, whatever the service answers and however long
  the exchanges and the sleeps take.
\<close>

theorem waitForJob_polls_bounded:
  "length (new_calls w (snd (waitForJob n config w))) \<le> 721"
  using waitForJob_run [of n config w "fst (waitForJob n config w)" "snd (waitForJob n config w)"]
  by auto

text \<open>
  C5. The fetches are spaced. Every call that \<open>waitForJob\<close> makes is a GET of the
  status of the job, sent with the client and the headers of the
  configuration, and each is made at least five seconds after the one
  before it.
\<close>

theorem waitForJob_polls_spaced:
  "polls_spaced config n (clock w) (new_calls w (snd (waitForJob n config w)))"
  using waitForJob_run [of n config w "fst (waitForJob n config w)" "snd (waitForJob n config w)"]
  by auto

theorem waitForJob_polls_spaced_witness:
  "polls_spaced demo_config 7 0 (new_calls three_polls (snd (waitForJob 7 demo_config three_polls)))"
  using waitForJob_polls_spaced [of demo_config 7 three_polls] by (simp add: three_polls_def)

text \<open>
  C8. There is always a first fetch. If the URL of the job is accepted,
  \<open>waitForJob\<close> makes at least one call to the service: the status is fetched
  before the loop can end, also for a job that had ended when it was
  submitted.
\<close>

theorem waitForJob_polls_once:
  assumes "url_ok w (job_url config n)"
  shows "new_calls w (snd (waitForJob n config w)) \<noteq> []"
  using waitForJob_run [of n config w "fst (waitForJob n config w)" "snd (waitForJob n config w)"]
    assms by auto

theorem waitForJob_polls_once_witness:
  "new_calls job_done (snd (waitForJob 7 demo_config job_done)) \<noteq> []"
  by (rule waitForJob_polls_once) (simp add: job_done_def)

text \<open>
  C9. A timeout is reported only after the budget. When \<open>waitForJob\<close> fails with
  the timeout error, more than one hour has passed on the clock since it was
  called.
\<close>

theorem waitForJob_timeout_late:
  assumes "waitForJob n config w = (Inl (Err timed_out), w')"
  shows "3600000000000 < clock w' - clock w"
  using waitForJob_Inl(2) [OF assms] by simp

theorem waitForJob_timeout_late_witness:
  "3600000000000 < clock (after_poll demo_config 7 slow_sleeper) - clock slow_sleeper"
  by (rule waitForJob_timeout_late [OF slow_sleeper_run])

text \<open>
  C7. \<open>handleAsyncRequest\<close> succeeds only with a successful job. Whenever it
  returns without an error, it returns a status whose state is \<open>Successful\<close>.
\<close>

theorem handleAsyncRequest_success:
  assumes "handleAsyncRequest req config verb w = (Inr q, w')"
  shows "\<exists>js. q = Some js \<and> JobState js = JobSuccess"
  using assms by (rule handleAsyncRequest_Inr)

theorem handleAsyncRequest_success_witness:
  "\<exists>js. Some (JobStatus_of (job_fields 7 ''Successful'')) = Some js \<and> JobState js = JobSuccess"
  by (rule handleAsyncRequest_success [OF job_done_run [of delete_request "''DELETE''"]])

text \<open>
  C6. A failed job is reported with its messages. If the service accepts the
  submitted request and answers with a job, and waiting for that job ends
  with a status that is \<open>Failed\<close> and carries error details, then
  \<open>handleAsyncRequest\<close> fails with an error whose text contains the message
  of every error of the details.
\<close>

theorem handleAsyncRequest_job_failed:
  assumes "submit_reply req config w = Inr res" and "readResponse res = Inr (Json (JObject kvs))"
    and "JobStatus_ok kvs"
    and "waitForJob (get_int (member kvs ''id'')) config (after_submit req config w) = (Inr (Some js), w')"
    and "JobState js = JobFailed" and "ErrorDetails js = Some ed" and "Errors ed = Some es"
    and "e \<in> set es"
  shows "\<exists>err. handleAsyncRequest req config verb w = (Inl (Err err), w') \<and>
           sublist (Message e) (Error err)"
proof -
  have "JobState js \<noteq> JobSuccess"
    using assms(5) by (simp add: JobFailed_def JobSuccess_def)
  from checkForJobErrors_mentions [OF this assms(6,7,8)] show ?thesis
    using assms(1-4) by (auto simp: handleAsyncRequest_accepted await_job_def)
qed

theorem handleAsyncRequest_job_failed_witness:
  "\<exists>err. handleAsyncRequest delete_request demo_config ''DELETE'' job_failed =
      (Inl (Err err), after_poll demo_config 7 (after_submit delete_request demo_config job_failed))
     \<and> sublist ''bad hostname'' (Error err)"
  using handleAsyncRequest_job_failed [where req = delete_request and config = demo_config
      and w = job_failed and kvs = "job_fields 7 ''Pending''" and verb = "''DELETE''"
      and res = "\<lparr>StatusCode = 200, resp_body = Inr (Json (JObject (job_fields 7 ''Pending'')))\<rparr>"
      and js = "JobStatus_of (failed_job_fields 7 ''bad hostname'')"
      and w' = "after_poll demo_config 7 (after_submit delete_request demo_config job_failed)"
      and ed = "\<lparr>Code = 400, Errors = Some [\<lparr>Message = ''bad hostname''\<rparr>]\<rparr>"
      and es = "[\<lparr>Message = ''bad hostname''\<rparr>]" and e = "\<lparr>Message = ''bad hostname''\<rparr>"]
  by (simp add: job_failed_wait failed_job_decoded JobFailed_def)
     (simp add: exchange_of_def job_failed_def scripted_def)

text \<open>
  C31. A failed job without error details is a panic. If the service answers
  the submitted request with a job and waiting for it ends with a status
  that is not \<open>Successful\<close> and carries no error details, or details without a
  list of errors, \<open>handleAsyncRequest\<close> does not return an error: it
  dereferences the missing details.
\<close>

theorem handleAsyncRequest_failed_without_details:
  assumes "submit_reply req config w = Inr res" and "readResponse res = Inr (Json (JObject kvs))"
    and "JobStatus_ok kvs"
    and "waitForJob (get_int (member kvs ''id'')) config (after_submit req config w) = (Inr (Some js), w')"
    and "JobState js \<noteq> JobSuccess" and "Option.bind (ErrorDetails js) Errors = None"
  shows "handleAsyncRequest req config verb w = (Inl nil_dereference, w')"
  using assms by (simp add: handleAsyncRequest_accepted await_job_def checkForJobErrors_nil)

theorem handleAsyncRequest_failed_without_details_witness:
  "handleAsyncRequest delete_request demo_config ''DELETE'' job_failed_bare =
     (Inl nil_dereference,
      after_poll demo_config 7 (after_submit delete_request demo_config job_failed_bare))"
  using handleAsyncRequest_failed_without_details [where req = delete_request
      and config = demo_config and w = job_failed_bare and kvs = "job_fields 7 ''Pending''"
      and res = "\<lparr>StatusCode = 200, resp_body = Inr (Json (JObject (job_fields 7 ''Pending'')))\<rparr>"
      and js = "JobStatus_of (job_fields 7 ''Failed'')" and verb = "''DELETE''"
      and w' = "after_poll demo_config 7 (after_submit delete_request demo_config job_failed_bare)"]
  by (simp add: job_failed_bare_wait JobSuccess_def)
     (simp add: exchange_of_def job_failed_bare_def scripted_def)

text \<open>
  C32. A successful job without links is a panic. If \<open>handleAsyncRequest\<close>
  succeeds with a status that has no \<open>_links\<close>,
  \<open>handleAsyncRequestAndFetchManagdObject\<close> does not return an error: it
  dereferences the missing links to find the managed object.
\<close>

theorem handleAsyncRequestAndFetchManagdObject_without_links:
  assumes "handleAsyncRequest req config verb w = (Inr (Some js), w')" and "js_Links js = None"
  shows "handleAsyncRequestAndFetchManagdObject req config T verb w = (Inl nil_dereference, w')"
  using assms by (simp add: handleAsyncRequestAndFetchManagdObject_eq fetch_managed_no_links)

theorem handleAsyncRequestAndFetchManagdObject_without_links_witness:
  "handleAsyncRequestAndFetchManagdObject delete_request demo_config IPAMReservation_type ''POST''
      job_done =
     (Inl nil_dereference, after_poll demo_config 7 (after_submit delete_request demo_config job_done))"
  using handleAsyncRequestAndFetchManagdObject_without_links [OF job_done_run,
      where req = delete_request and verb = "''POST''" and T = IPAMReservation_type]
  by simp

end
