(* ===== verification/Reservations.thy ===== *)
theory Reservations
  imports JobEngine
begin

text \<open>
  The domain operations of \<open>src/api_client.go\<close>: the methods of
  \<open>AthenaAPIClient\<close> on IPAM reservations and policies, \<open>RenderTemplate\<close>, and
  \<open>findWorkspaceURLOrDefault\<close>. Creating and deleting a reservation run
  through the job engine; reading one and rendering a template are single
  exchanges; updating a reservation and reading a policy by id are not
  implemented and say so.
  \<open>CreateIPAMReservation\<close> assigns to the fields \<open>WorkspaceURL\<close> and \<open>Policy\<close> of
  the record its caller passes; the model carries the updated record
  (\<open>newIPAMRecord1\<close>, \<open>newIPAMRecord2\<close>) to the request and does not return it,
  as no caller reads it again.
\<close>

section \<open>The client\<close>

record AthenaAPIClient =
  api_config :: Config

definition NewAthenaApiClient :: "Config \<Rightarrow> AthenaAPIClient" where
  "NewAthenaApiClient c = \<lparr>api_config = c\<rparr>"

section \<open>findWorkspaceURLOrDefault\<close>

definition findWorkspaceURLOrDefault :: "Config \<Rightarrow> string \<Rightarrow> world \<Rightarrow> string result \<times> world" where
  "findWorkspaceURLOrDefault config workspaceURL w =
     (if workspaceURL = [] then
        (case findDefaultWorkspaceID config w of
           (Inl (Panic p), w1) \<Rightarrow> (Inl (Panic p), w1)
         | (Inl (Err err), w1) \<Rightarrow>
             (Inl (Err (errors_Wrapped err ''athena.apiClient: Failed to find default workspace'')), w1)
         | (Inr workspaceID, w1) \<Rightarrow>
             (case Atoi workspaceID of
                Inl err \<Rightarrow>
                  (Inl (Err (errors_Wrapped err
                     (''athena.apiClient: Failed to convert Workspace ID '' @ [CHR 0x27] @ workspaceID
                        @ [CHR 0x27] @ '' to integer''))), w1)
              | Inr workspaceIDInt \<Rightarrow>
                  (Inr (itemURL config WorkspaceResourceType workspaceIDInt), w1)))
      else (Inr workspaceURL, w))"

section \<open>Reservations\<close>

definition Create_requires :: goerror where
  "Create_requires =
     errors_New ''athena.apiClient: IPAM Record Create requires a PolicyID or Policy URL''"

definition Not_implemented :: goerror where
  "Not_implemented = errors_New ''athena.apiClient: Not implemented yet''"

definition CreateIPAMReservation ::
  "AthenaAPIClient \<Rightarrow> IPAMReservation \<Rightarrow> world \<Rightarrow> IPAMReservation result \<times> world"
where
  "CreateIPAMReservation apiClient newIPAMRecord w =
     (let config = api_config apiClient
      in case findWorkspaceURLOrDefault config (WorkspaceURL newIPAMRecord) w of
           (Inl err, w1) \<Rightarrow> (Inl err, w1)
         | (Inr workspaceURL, w1) \<Rightarrow>
             (let newIPAMRecord1 = newIPAMRecord\<lparr>WorkspaceURL := workspaceURL\<rparr>
              in if Policy newIPAMRecord1 = [] then
                   (if PolicyID newIPAMRecord1 \<noteq> 0 then
                      (let newIPAMRecord2 = newIPAMRecord1
                             \<lparr>Policy := itemURL config WorkspaceResourceType (PolicyID newIPAMRecord1)\<rparr>
                       in case buildPostRequest IPAMReservation_json w1 config
                                 IPAMReservationResourceType newIPAMRecord2 of
                            Inl err \<Rightarrow> (Inl err, w1)
                          | Inr req \<Rightarrow>
                              (case handleAsyncRequestAndFetchManagdObject req config
                                      IPAMReservation_type ''POST'' w1 of
                                 (Inl err, w2) \<Rightarrow> (Inl err, w2)
                               | (Inr (jobStatus, ipamRecord), w2) \<Rightarrow> (Inr ipamRecord, w2)))
                    else (Inl (Err Create_requires), w1))
                 else (Inl (Err Create_requires), w1)))"

definition GetIPAMReservation ::
  "AthenaAPIClient \<Rightarrow> int \<Rightarrow> world \<Rightarrow> IPAMReservation result \<times> world"
where
  "GetIPAMReservation apiClient id' w =
     (let config = api_config apiClient;
          url = itemURL config IPAMReservationResourceType id'
      in case doGet IPAMReservation_type config url w of
           (Inl err, w1) \<Rightarrow> (Inl err, w1)
         | (Inr ipamRecord, w1) \<Rightarrow> (Inr ipamRecord, w1))"

definition UpdateIPAMReservation ::
  "AthenaAPIClient \<Rightarrow> int \<Rightarrow> IPAMReservation \<Rightarrow> world \<Rightarrow> IPAMReservation result \<times> world"
where
  "UpdateIPAMReservation apiClient id' updatedIPAMReservation w = (Inl (Err Not_implemented), w)"

definition DeleteIPAMReservation :: "AthenaAPIClient \<Rightarrow> int \<Rightarrow> world \<Rightarrow> unit result \<times> world" where
  "DeleteIPAMReservation apiClient id' w =
     (let config = api_config apiClient;
          url = itemURL config IPAMReservationResourceType id'
      in case http_NewRequest w ''DELETE'' url None of
           Inl err \<Rightarrow>
             (Inl (Err (errors_Wrapped err
                (''athena.apiClient: Failed to create request DELETE '' @ url))), w)
         | Inr req0 \<Rightarrow>
             (let req = setHeaders req0 config
              in case handleAsyncRequest req config ''DELETE'' w of
                   (Inl err, w1) \<Rightarrow> (Inl err, w1)
                 | (Inr jobStatus, w1) \<Rightarrow> (Inr (), w1)))"

section \<open>Policies\<close>

definition GetIPAMPolicy :: "AthenaAPIClient \<Rightarrow> int \<Rightarrow> world \<Rightarrow> IPAMPolicy result \<times> world" where
  "GetIPAMPolicy apiClient id' w = (Inl (Err Not_implemented), w)"

definition GetIPAMPolicyByName ::
  "AthenaAPIClient \<Rightarrow> string \<Rightarrow> world \<Rightarrow> IPAMPolicy result \<times> world"
where
  "GetIPAMPolicyByName apiClient name w =
     (let config = api_config apiClient
      in case findEntityByName IPAMPolicyResponse_type IPAMPolicyResponse_Embedded config name
                IPAMPolicyResourceType ''IPAMPolicies'' [] w of
           (Inl err, w1) \<Rightarrow> (Inl err, w1)
         | (Inr entity, w1) \<Rightarrow> (Inr entity, w1))"

section \<open>RenderTemplate\<close>

text \<open>
  The type \<open>RenderTemplateResponse\<close> of the result is not declared in the
  sources at hand; the operation is modelled for any Go type \<open>T\<close> in its place.
\<close>

definition RenderTemplate ::
  "'r gotype \<Rightarrow> AthenaAPIClient \<Rightarrow> string \<Rightarrow> fields \<Rightarrow> world \<Rightarrow> 'r result \<times> world"
where
  "RenderTemplate T apiClient template templateProperties w =
     (let config = api_config apiClient;
          requestBody = \<lparr>Template = template, rt_TemplateProperties = templateProperties\<rparr>
      in case buildPostRequest RenderTemplateRequest_json w config RenderTemplateType requestBody of
           Inl err \<Rightarrow> (Inl err, w)
         | Inr req \<Rightarrow>
             (let client = getHttpClient config
              in case client_Do client req w of
                   (Inl err, left, w1) \<Rightarrow>
                     (case ReadAll_request left of
                        Inl p \<Rightarrow> (Inl p, w1)
                      | Inr body \<Rightarrow>
                          (Inl (Err (errors_Wrapped err
                             (''athena.apiClient: Failed to do request POST '' @ req_url req @ '' ''
                                @ body))), w1))
                 | (Inr res, left, w1) \<Rightarrow>
                     (case checkForErrors res of
                        Some err \<Rightarrow>
                          (case ReadAll_request left of
                             Inl p \<Rightarrow> (Inl p, w1)
                           | Inr body \<Rightarrow>
                               (Inl (Err (errors_Wrapped err
                                  (''athena.apiClient: Request failed POST '' @ req_url req @ '' ''
                                     @ body))), w1))
                      | None \<Rightarrow>
                          (case resp_body res of
                             Inl err \<Rightarrow>
                               (case ReadAll_request left of
                                  Inl p \<Rightarrow> (Inl p, w1)
                                | Inr body \<Rightarrow>
                                    (Inl (Err (errors_Wrapped err
                                       (''athena.apiClient: Failed to read response body from POST ''
                                          @ req_url req @ '' '' @ body))), w1))
                           | Inr body \<Rightarrow>
                               (case json_Unmarshal T body of
                                  (renderTemplateResponse, Some err) \<Rightarrow>
                                    (Inl (Err (errors_Wrapped err
                                       (''athena.apiClient: Failed to unmarshal response ''
                                          @ body_string body))), w1)
                                | (renderTemplateResponse, None) \<Rightarrow>
                                    (Inr renderTemplateResponse, w1))))))"

section \<open>Facts: findWorkspaceURLOrDefault\<close>

text \<open>
  \<open>workspace_url_outcome\<close> is what \<open>findWorkspaceURLOrDefault\<close> makes of the
  result of \<open>findDefaultWorkspaceID\<close>.
\<close>

definition workspace_url_outcome :: "Config \<Rightarrow> string result \<Rightarrow> string result" where
  "workspace_url_outcome config r =
     (case r of
        Inl (Panic p) \<Rightarrow> Inl (Panic p)
      | Inl (Err err) \<Rightarrow>
          Inl (Err (errors_Wrapped err ''athena.apiClient: Failed to find default workspace''))
      | Inr workspaceID \<Rightarrow>
          (case Atoi workspaceID of
             Inl err \<Rightarrow>
               Inl (Err (errors_Wrapped err
                 (''athena.apiClient: Failed to convert Workspace ID '' @ [CHR 0x27] @ workspaceID
                    @ [CHR 0x27] @ '' to integer'')))
           | Inr n \<Rightarrow> Inr (itemURL config WorkspaceResourceType n)))"

lemma findWorkspaceURLOrDefault_given [simp]:
  "u \<noteq> [] \<Longrightarrow> findWorkspaceURLOrDefault config u w = (Inr u, w)"
  by (simp add: findWorkspaceURLOrDefault_def)

lemma findWorkspaceURLOrDefault_default:
  "findWorkspaceURLOrDefault config [] w =
     (workspace_url_outcome config (fst (findDefaultWorkspaceID config w)),
      snd (findDefaultWorkspaceID config w))"
  by (simp add: findWorkspaceURLOrDefault_def workspace_url_outcome_def
      split: prod.splits sum.splits failure.splits)

lemma workspace_url_outcome_Itoa [simp]:
  "fits_int n \<Longrightarrow> workspace_url_outcome config (Inr (Itoa n)) = Inr (itemURL config WorkspaceResourceType n)"
  by (simp add: workspace_url_outcome_def Atoi_Itoa)

lemma workspace_url_outcome_empty [simp]:
  "workspace_url_outcome config (Inr []) =
     Inl (Err (errors_Wrapped (NumError ''Atoi'' [] ''invalid syntax'')
       (''athena.apiClient: Failed to convert Workspace ID '' @ [CHR 0x27, CHR 0x27]
          @ '' to integer'')))"
  unfolding workspace_url_outcome_def by (simp add: Atoi_empty)

lemma findWorkspaceURLOrDefault_world:
  "snd (findWorkspaceURLOrDefault config u w) =
     (if u = [] then snd (findDefaultWorkspaceID config w) else w)"
  by (simp add: findWorkspaceURLOrDefault_default)

lemma findWorkspaceURLOrDefault_not_panic: "\<not> panics (fst (findWorkspaceURLOrDefault config u w))"
  using findDefaultWorkspaceID_not_panic [of config w]
  by (cases "u = []")
     (auto simp: findWorkspaceURLOrDefault_default workspace_url_outcome_def
       split: sum.splits failure.splits)

section \<open>Facts: CreateIPAMReservation\<close>

text \<open>
  \<open>create_body\<close> is the record that is sent when the workspace resolved to \<open>u\<close>,
  \<open>create_request\<close> the request that carries it, and \<open>create_submit\<close> the part
  of \<open>CreateIPAMReservation\<close> after the workspace is known.
\<close>

definition create_body :: "Config \<Rightarrow> IPAMReservation \<Rightarrow> string \<Rightarrow> IPAMReservation" where
  "create_body config r u =
     r\<lparr>WorkspaceURL := u, Policy := itemURL config WorkspaceResourceType (PolicyID r)\<rparr>"

definition create_request :: "Config \<Rightarrow> IPAMReservation \<Rightarrow> string \<Rightarrow> http_request" where
  "create_request config r u =
     setHeaders \<lparr>req_method = ''POST'', req_url = collectionURL config IPAMReservationResourceType,
       req_header = [], req_basic_auth = None,
       req_body = Some (Json (JObject (IPAMReservation_fields (create_body config r u))))\<rparr> config"

definition create_submit ::
  "Config \<Rightarrow> IPAMReservation \<Rightarrow> string \<Rightarrow> world \<Rightarrow> IPAMReservation result \<times> world" where
  "create_submit config r u w =
     (if Policy r = [] \<and> PolicyID r \<noteq> 0 then
        (case buildPostRequest IPAMReservation_json w config IPAMReservationResourceType
                (create_body config r u) of
           Inl err \<Rightarrow> (Inl err, w)
         | Inr req \<Rightarrow>
             (case handleAsyncRequestAndFetchManagdObject req config IPAMReservation_type ''POST'' w of
                (Inl err, w2) \<Rightarrow> (Inl err, w2)
              | (Inr (jobStatus, ipamRecord), w2) \<Rightarrow> (Inr ipamRecord, w2)))
      else (Inl (Err Create_requires), w))"

lemma CreateIPAMReservation_eq:
  "CreateIPAMReservation c r w =
     (case findWorkspaceURLOrDefault (api_config c) (WorkspaceURL r) w of
        (Inl err, w1) \<Rightarrow> (Inl err, w1)
      | (Inr u, w1) \<Rightarrow> create_submit (api_config c) r u w1)"
  by (auto simp: CreateIPAMReservation_def create_submit_def create_body_def Let_def
      split: prod.splits sum.splits)

lemma create_submit_rejected:
  "Policy r \<noteq> [] \<or> PolicyID r = 0 \<Longrightarrow> create_submit config r u w = (Inl (Err Create_requires), w)"
  by (auto simp: create_submit_def)

lemma create_submit_posts:
  "Policy r = [] \<Longrightarrow> PolicyID r \<noteq> 0 \<Longrightarrow> url_ok w (collectionURL config IPAMReservationResourceType) \<Longrightarrow>
     create_submit config r u w =
       (case handleAsyncRequestAndFetchManagdObject (create_request config r u) config
               IPAMReservation_type ''POST'' w of
          (Inl err, w2) \<Rightarrow> (Inl err, w2)
        | (Inr (jobStatus, ipamRecord), w2) \<Rightarrow> (Inr ipamRecord, w2))"
  by (simp add: create_submit_def create_request_def
      buildPostRequest_ok [where j = "JObject (IPAMReservation_fields (create_body config r u))"]
      IPAMReservation_json_def)

lemma CreateIPAMReservation_given:
  "WorkspaceURL r \<noteq> [] \<Longrightarrow>
     CreateIPAMReservation c r w = create_submit (api_config c) r (WorkspaceURL r) w"
  by (simp add: CreateIPAMReservation_eq)

section \<open>Facts: the other operations\<close>

definition delete_request_of :: "Config \<Rightarrow> int \<Rightarrow> http_request" where
  "delete_request_of config n =
     setHeaders \<lparr>req_method = ''DELETE'', req_url = itemURL config IPAMReservationResourceType n,
       req_header = [], req_basic_auth = None, req_body = None\<rparr> config"

definition render_request :: "Config \<Rightarrow> string \<Rightarrow> fields \<Rightarrow> http_request" where
  "render_request config template ps =
     setHeaders \<lparr>req_method = ''POST'', req_url = collectionURL config RenderTemplateType,
       req_header = [], req_basic_auth = None,
       req_body = Some (Json (JObject (RenderTemplateRequest_fields
         \<lparr>Template = template, rt_TemplateProperties = ps\<rparr>)))\<rparr> config"

lemma DeleteIPAMReservation_bad_url:
  "\<not> url_ok w (itemURL (api_config c) IPAMReservationResourceType n) \<Longrightarrow>
     DeleteIPAMReservation c n w =
       (Inl (Err (errors_Wrapped (url_error (itemURL (api_config c) IPAMReservationResourceType n))
          (''athena.apiClient: Failed to create request DELETE ''
             @ itemURL (api_config c) IPAMReservationResourceType n))), w)"
  by (simp add: DeleteIPAMReservation_def Let_def)

lemma DeleteIPAMReservation_eq:
  "url_ok w (itemURL (api_config c) IPAMReservationResourceType n) \<Longrightarrow>
     DeleteIPAMReservation c n w =
       (case handleAsyncRequest (delete_request_of (api_config c) n) (api_config c) ''DELETE'' w of
          (Inl err, w1) \<Rightarrow> (Inl err, w1)
        | (Inr jobStatus, w1) \<Rightarrow> (Inr (), w1))"
  by (simp add: DeleteIPAMReservation_def delete_request_of_def Let_def)

lemma GetIPAMReservation_eq:
  "GetIPAMReservation c n w =
     doGet IPAMReservation_type (api_config c) (itemURL (api_config c) IPAMReservationResourceType n) w"
  by (simp add: GetIPAMReservation_def Let_def split: prod.splits sum.splits)

lemma RenderTemplate_bad_url:
  "\<not> url_ok w (collectionURL (api_config c) RenderTemplateType) \<Longrightarrow>
     snd (RenderTemplate T c t ps w) = w \<and> \<not> panics (fst (RenderTemplate T c t ps w))"
  by (simp add: RenderTemplate_def buildPostRequest_def json_Marshal_def RenderTemplateRequest_json_def
      Let_def)

lemma RenderTemplate_world:
  "url_ok w (collectionURL (api_config c) RenderTemplateType) \<Longrightarrow>
     snd (RenderTemplate T c t ps w) =
       after_call (getHttpClient (api_config c)) (render_request (api_config c) t ps) w"
  by (simp add: RenderTemplate_def render_request_def RenderTemplateRequest_json_def
      buildPostRequest_ok [where j = "JObject (RenderTemplateRequest_fields
         \<lparr>Template = t, rt_TemplateProperties = ps\<rparr>)"] client_Do_eq ReadAll_request_def Let_def
      split: sum.splits option.splits prod.splits)

lemma RenderTemplate_not_panic:
  "\<not> panics (fst (RenderTemplate T c t ps w))"
proof (cases "url_ok w (collectionURL (api_config c) RenderTemplateType)")
  case True
  then show ?thesis
    by (simp add: RenderTemplate_def
      buildPostRequest_ok [where j = "JObject (RenderTemplateRequest_fields
         \<lparr>Template = t, rt_TemplateProperties = ps\<rparr>)"] RenderTemplateRequest_json_def
      client_Do_eq ReadAll_request_def Let_def
      split: sum.splits option.splits prod.splits)
next
  case False
  then show ?thesis by (simp add: RenderTemplate_bad_url)
qed

lemma GetIPAMPolicyByName_eq:
  "GetIPAMPolicyByName c name w =
     (case doGet IPAMPolicyResponse_type (api_config c)
             (name_filter_url (api_config c) IPAMPolicyResourceType name []) w of
        (Inl err, w1) \<Rightarrow> (Inl err, w1)
      | (Inr r, w1) \<Rightarrow>
          (case IPAMPolicies r of
             [] \<Rightarrow> (Inl (Err (Could_not_find IPAMPolicyResourceType name)), w1)
           | p # ps \<Rightarrow> (Inr p, w1)))"
  by (simp add: GetIPAMPolicyByName_def findEntityByName_eq IPAMPolicyResponse_Embedded_def Let_def
      split: prod.splits sum.splits list.splits)

lemma GET_reservation_reply:
  assumes "url_ok w url" and "GET_exchange config url w = reservation_reply r"
    and "fits_int (ID r)" and "fits_int (PolicyID r)"
  shows "doGet IPAMReservation_type config url w = (Inr r, after_GET config url w)"
  using assms
  by (simp add: doGet_eq reservation_reply_def GET_outcome_ok IPAMReservation_roundtrip
      IPAMReservation_fields_ok)

section \<open>Facts: the calls of the operations\<close>

text \<open>\<open>submissions cs\<close> are the calls of \<open>cs\<close> that are no GET.\<close>

definition submissions :: "call list \<Rightarrow> call list" where
  "submissions cs = filter (\<lambda>k. req_method (call_req k) \<noteq> ''GET'') cs"

lemma submissions_simps [simp]:
  "submissions [] = []" "submissions (cs @ ds) = submissions cs @ submissions ds"
  "submissions (k # cs) = (if req_method (call_req k) = ''GET'' then submissions cs else k # submissions cs)"
  by (simp_all add: submissions_def)

lemma submissions_only_GETs [simp]: "only_GETs cs \<Longrightarrow> submissions cs = []"
  by (induction cs) simp_all

lemma findWorkspaceURLOrDefault_calls:
  "\<exists>cs. calls (snd (findWorkspaceURLOrDefault config u w)) = calls w @ cs \<and> only_GETs cs \<and> length cs \<le> 1"
  using findDefaultWorkspaceID_calls_GET [of config w]
  by (simp add: findWorkspaceURLOrDefault_world)

lemma create_submit_world:
  "snd (create_submit config r u w) = w \<or>
   snd (create_submit config r u w) =
     snd (handleAsyncRequestAndFetchManagdObject (create_request config r u) config
            IPAMReservation_type ''POST'' w)"
proof (cases "Policy r = [] \<and> PolicyID r \<noteq> 0 \<and> url_ok w (collectionURL config IPAMReservationResourceType)")
  case True
  then show ?thesis
    by (simp add: create_submit_posts split: prod.splits sum.splits)
next
  case False
  then show ?thesis
    by (auto simp: create_submit_def buildPostRequest_def json_Marshal_def IPAMReservation_json_def
        Let_def)
qed

lemma create_submit_calls:
  "\<exists>cs. calls (snd (create_submit config r u w)) = calls w @ cs \<and> length (submissions cs) \<le> 1
     \<and> length cs \<le> 723"
  using create_submit_world [of config r u w]
    handleAsyncRequestAndFetchManagdObject_calls [of "create_request config r u" config
      IPAMReservation_type "''POST''" w]
  by (auto split: if_splits)

lemma CreateIPAMReservation_calls:
  "\<exists>cs. calls (snd (CreateIPAMReservation c r w)) = calls w @ cs \<and> length (submissions cs) \<le> 1
     \<and> length cs \<le> 724"
proof -
  obtain x w1 where f: "findWorkspaceURLOrDefault (api_config c) (WorkspaceURL r) w = (x, w1)"
    by (cases "findWorkspaceURLOrDefault (api_config c) (WorkspaceURL r) w")
  with findWorkspaceURLOrDefault_calls [of "api_config c" "WorkspaceURL r" w] obtain pre where
    pre: "calls w1 = calls w @ pre" "only_GETs pre" "length pre \<le> 1"
    by auto
  show ?thesis
  proof (cases x)
    case (Inl e)
    with f pre show ?thesis
      by (auto simp: CreateIPAMReservation_eq intro!: exI [of _ pre])
  next
    case (Inr u)
    from create_submit_calls [of "api_config c" r u w1] obtain cs where
      "calls (snd (create_submit (api_config c) r u w1)) = calls w1 @ cs"
      "length (submissions cs) \<le> 1" "length cs \<le> 723"
      by blast
    with f pre Inr show ?thesis
      by (auto simp: CreateIPAMReservation_eq intro!: exI [of _ "pre @ cs"])
  qed
qed


lemma DeleteIPAMReservation_calls:
  "\<exists>cs. calls (snd (DeleteIPAMReservation c n w)) = calls w @ cs \<and> length (submissions cs) \<le> 1
     \<and> length cs \<le> 722"
proof (cases "url_ok w (itemURL (api_config c) IPAMReservationResourceType n)")
  case False
  then show ?thesis
    by (simp add: DeleteIPAMReservation_bad_url)
next
  case True
  have "snd (DeleteIPAMReservation c n w)
      = snd (handleAsyncRequest (delete_request_of (api_config c) n) (api_config c) ''DELETE'' w)"
    by (simp add: DeleteIPAMReservation_eq [OF True] split: prod.splits sum.splits)
  moreover from handleAsyncRequest_calls [of "delete_request_of (api_config c) n" "api_config c" "''DELETE''" w]
  obtain k cs where "calls (snd (handleAsyncRequest (delete_request_of (api_config c) n)
      (api_config c) ''DELETE'' w)) = calls w @ k # cs" "only_GETs cs" "length cs \<le> 721"
    by blast
  ultimately show ?thesis
    by (intro exI [of _ "k # cs"]) simp
qed

section \<open>Scenarios\<close>

text \<open>
  The operations in the worlds of theory \<open>Fixtures\<close>: each step of a whole
  creation, a deletion whose job succeeds, and the lookup of a policy.
\<close>

lemma workspaces_decoded [simp]:
  "Workspaces (fst (json_Unmarshal WorkspacesListResponse_type
      (Json (JObject [(''_embedded'', JObject [(''workspaces'', JArray js)])])))) =
     map (\<lambda>j. get_struct Workspace_type (Some j)) js"
  by (simp add: member_Cons get_slice_def)

lemma one_workspace_found:
  "findWorkspaceURLOrDefault demo_config [] one_workspace =
     (Inr (itemURL demo_config WorkspaceResourceType 3),
      after_GET demo_config (default_workspace_url demo_config) one_workspace)"
  by (simp add: findWorkspaceURLOrDefault_default findDefaultWorkspaceID_eq one_workspace_def
      default_workspace_outcome_def exchange_of_def scripted_def workspaces_reply_def
      Workspace_type_def Workspace_of_def member_Cons)

lemma no_workspace_found:
  "findDefaultWorkspaceID demo_config no_workspace =
     (Inr [], after_GET demo_config (default_workspace_url demo_config) no_workspace)"
  by (simp add: findDefaultWorkspaceID_eq no_workspace_def
      default_workspace_outcome_def exchange_of_def scripted_def workspaces_reply_def)


lemma done_job_decoded:
  "JobStatus_ok (done_job_fields 7 href)"
  "get_int (member (done_job_fields 7 href) ''id'') = 7"
  "get_string (member (done_job_fields 7 href) ''jobState'') = ''Successful''"
  "get_ptr JobStatus_Links_type (member (done_job_fields 7 href) ''_links'') =
     Some \<lparr>jl_Self = LinkRef_zero, jl_JobMetadata = LinkRef_zero,
       jl_ManagedObject = \<lparr>Href = href, Title = []\<rparr>, jl_Policy = LinkRef_zero,
       jl_Workspace = LinkRef_zero\<rparr>"
  by (simp_all add: done_job_fields_def job_fields_def JobStatus_ok_def member_Cons
      entity_type_defs entity_of_defs entity_ok_defs get_defs ok_defs)

definition create_input :: IPAMReservation where
  "create_input = demo_reservation"

abbreviation create_w1 :: world where
  "create_w1 \<equiv> after_GET demo_config (default_workspace_url demo_config) create_world"

abbreviation create_req :: http_request where
  "create_req \<equiv> create_request demo_config create_input (itemURL demo_config WorkspaceResourceType 3)"

abbreviation create_w2 :: world where
  "create_w2 \<equiv> after_submit create_req demo_config create_w1"

lemma create_world_workspace:
  "findWorkspaceURLOrDefault demo_config [] create_world =
     (Inr (itemURL demo_config WorkspaceResourceType 3), create_w1)"
  by (simp add: findWorkspaceURLOrDefault_default findDefaultWorkspaceID_eq create_world_def
      default_workspace_outcome_def exchange_of_def scripted_def workspaces_reply_def
      Workspace_type_def Workspace_of_def member_Cons)

lemma create_world_wait:
  "waitForJob 7 demo_config create_w2 =
     (Inr (Some (JobStatus_of (done_job_fields 7 ''/api/v3/onefuse/ipamReservations/42/''))),
      (after_poll demo_config 7 ^^ 3) create_w2)"
  unfolding waitForJob_unfold numeral_3_eq_3
  by (rule waitForJob_loop_finds)
     (simp_all add: create_world_def scenario_simps exchange_of_def done_job_decoded
       poll_reply_replying [where code = 200
         and kvs = "done_job_fields 7 ''/api/v3/onefuse/ipamReservations/42/''"])

lemma create_world_job:
  "handleAsyncRequest create_req demo_config ''POST'' create_w1 =
     (Inr (Some (JobStatus_of (done_job_fields 7 ''/api/v3/onefuse/ipamReservations/42/''))),
      (after_poll demo_config 7 ^^ 3) create_w2)"
  by (subst submit_job_reply [where n = 7 and st = "''Pending''"])
     (simp_all add: create_world_wait await_job_def checkForJobErrors_def JobSuccess_def
       done_job_decoded, simp_all add: exchange_of_def create_world_def scripted_def)


abbreviation create_w5 :: world where
  "create_w5 \<equiv> (after_poll demo_config 7 ^^ 3) create_w2"

abbreviation created_url :: string where
  "created_url \<equiv> urlFromHref demo_config ''/api/v3/onefuse/ipamReservations/42/''"

lemma fits_stored [simp]: "fits_int (ID stored_reservation)" "fits_int (PolicyID stored_reservation)"
  by (simp_all add: stored_reservation_def demo_reservation_def)

lemma create_world_fetch:
  "doGet IPAMReservation_type demo_config created_url create_w5 =
     (Inr stored_reservation, after_GET demo_config created_url create_w5)"
  by (rule GET_reservation_reply)
     (simp_all add: exchange_of_def create_world_def scripted_def numeral_3_eq_3)

lemma create_input_sel [simp]:
  "WorkspaceURL create_input = []" "Policy create_input = []" "PolicyID create_input = 42"
  by (simp_all add: create_input_def demo_reservation_def)

lemma create_world_url_ok [simp]: "url_ok create_world u"
  by (simp add: create_world_def)

lemma create_world_run:
  "CreateIPAMReservation (NewAthenaApiClient demo_config) create_input create_world =
     (Inr stored_reservation, after_GET demo_config created_url create_w5)"
proof -
  let ?js = "JobStatus_of (done_job_fields 7 ''/api/v3/onefuse/ipamReservations/42/'')"
  have l: "js_Links ?js = Some \<lparr>jl_Self = LinkRef_zero, jl_JobMetadata = LinkRef_zero,
      jl_ManagedObject = \<lparr>Href = ''/api/v3/onefuse/ipamReservations/42/'', Title = []\<rparr>,
      jl_Policy = LinkRef_zero, jl_Workspace = LinkRef_zero\<rparr>"
    by (simp add: done_job_decoded)
  have "fetch_managed demo_config IPAMReservation_type (Some ?js) create_w5 =
      (Inr (Some ?js, stored_reservation), after_GET demo_config created_url create_w5)"
    by (simp add: fetch_managed_links [OF l] create_world_fetch)
  then have "create_submit demo_config create_input (itemURL demo_config WorkspaceResourceType 3)
      create_w1 = (Inr stored_reservation, after_GET demo_config created_url create_w5)"
    by (subst create_submit_posts)
       (simp_all add: handleAsyncRequestAndFetchManagdObject_eq create_world_job)
  then show ?thesis
    by (simp add: CreateIPAMReservation_eq NewAthenaApiClient_def create_world_workspace)
qed


lemma job_done_url_ok [simp]: "url_ok job_done u"
  by (simp add: job_done_def)

lemma job_done_delete:
  "DeleteIPAMReservation (NewAthenaApiClient demo_config) 42 job_done =
     (Inr (), after_poll demo_config 7 (after_submit (delete_request_of demo_config 42) demo_config job_done))"
  by (simp add: NewAthenaApiClient_def DeleteIPAMReservation_eq job_done_run)

lemma one_policy_get:
  "doGet IPAMPolicyResponse_type demo_config url one_policy =
     (Inr \<lparr>IPAMPolicies = [\<lparr>pol_Links = None, pol_ID = 42, pol_Name = ''prod'', pol_Description = []\<rparr>]\<rparr>,
      after_GET demo_config url one_policy)"
  by (simp add: doGet_eq one_policy_def exchange_of_def scripted_def GET_outcome_def
      IPAMPolicyResponse_type_def IPAMPolicies_Embedded_type_def IPAMPolicy_type_def
      IPAMPolicy_of_def IPAMPolicy_ok_def IPAMPolicy_Links_type_def member_Cons get_slice_def ok_slice_def)

section \<open>Properties of the operations on reservations\<close>

text \<open>
  C21. Creating a reservation returns the object the job produced. If the
  workspace resolves, the record names a policy id and no policy URL, the
  submission is answered with a job that ends \<open>Successful\<close> and whose status
  links to a managed object, and the GET of that link yields a reservation,
  then \<open>CreateIPAMReservation\<close> returns that reservation. In the world of the
  whole scenario the calls are a GET of the default workspace, the POST, three
  status fetches five seconds apart, and the GET of the reservation.
\<close>

theorem CreateIPAMReservation_returns_managed_object:
  assumes "findWorkspaceURLOrDefault (api_config c) (WorkspaceURL r) w = (Inr u, wa)"
    and "Policy r = []" and "PolicyID r \<noteq> 0"
    and "url_ok wa (collectionURL (api_config c) IPAMReservationResourceType)"
    and "handleAsyncRequest (create_request (api_config c) r u) (api_config c) ''POST'' wa
           = (Inr (Some js), wb)"
    and "js_Links js = Some links"
    and "doGet IPAMReservation_type (api_config c)
           (urlFromHref (api_config c) (Href (jl_ManagedObject links))) wb = (Inr x, wc)"
  shows "CreateIPAMReservation c r w = (Inr x, wc)"
  using assms
  by (simp add: CreateIPAMReservation_eq create_submit_posts
      handleAsyncRequestAndFetchManagdObject_eq fetch_managed_links)

theorem CreateIPAMReservation_returns_managed_object_witness:
  "CreateIPAMReservation (NewAthenaApiClient demo_config) create_input create_world =
     (Inr stored_reservation, after_GET demo_config created_url create_w5)
   \<and> map (\<lambda>k. (req_method (call_req k), call_at k))
         (calls (after_GET demo_config created_url create_w5)) =
       [(''GET'', 0), (''POST'', 0), (''GET'', 0), (''GET'', 5000000000), (''GET'', 10000000000),
        (''GET'', 15000000000)]"
proof -
  let ?js = "JobStatus_of (done_job_fields 7 ''/api/v3/onefuse/ipamReservations/42/'')"
  have l: "js_Links ?js = Some \<lparr>jl_Self = LinkRef_zero, jl_JobMetadata = LinkRef_zero,
      jl_ManagedObject = \<lparr>Href = ''/api/v3/onefuse/ipamReservations/42/'', Title = []\<rparr>,
      jl_Policy = LinkRef_zero, jl_Workspace = LinkRef_zero\<rparr>"
    by (simp add: done_job_decoded)
  have "CreateIPAMReservation (NewAthenaApiClient demo_config) create_input create_world =
      (Inr stored_reservation, after_GET demo_config created_url create_w5)"
    using CreateIPAMReservation_returns_managed_object [where c = "NewAthenaApiClient demo_config"
        and r = create_input and w = create_world and wa = create_w1 and js = ?js
        and u = "itemURL demo_config WorkspaceResourceType 3" and wb = create_w5
        and x = stored_reservation and wc = "after_GET demo_config created_url create_w5", OF _ _ _ _ _ l]
    by (simp add: NewAthenaApiClient_def create_world_workspace create_world_job
         create_world_fetch)
  moreover have "map (\<lambda>k. (req_method (call_req k), call_at k))
         (calls (after_GET demo_config created_url create_w5)) =
       [(''GET'', 0), (''POST'', 0), (''GET'', 0), (''GET'', 5000000000), (''GET'', 10000000000),
        (''GET'', 15000000000)]"
    by (simp add: scenario_simps create_world_def exchange_of_def create_request_def
        workspaces_reply_def poll_call_def)
  ultimately show ?thesis by simp
qed


text \<open>
  C22. A record without a usable policy is never submitted. If the record names
  a policy URL, or names no policy id, \<open>CreateIPAMReservation\<close> fails, the only
  call it can have made is the GET that looks up the default workspace, and
  with a workspace URL in the record it fails with the error
  \<open>IPAM Record Create requires a PolicyID or Policy URL\<close> before any call.
\<close>

theorem CreateIPAMReservation_invalid_policy:
  assumes "Policy r \<noteq> [] \<or> PolicyID r = 0"
  shows "is_fail (fst (CreateIPAMReservation c r w))
     \<and> only_GETs (new_calls w (snd (CreateIPAMReservation c r w)))
     \<and> length (new_calls w (snd (CreateIPAMReservation c r w))) \<le> 1
     \<and> (WorkspaceURL r \<noteq> [] \<longrightarrow> CreateIPAMReservation c r w = (Inl (Err Create_requires), w))"
proof -
  obtain x wa where f: "findWorkspaceURLOrDefault (api_config c) (WorkspaceURL r) w = (x, wa)"
    by (cases "findWorkspaceURLOrDefault (api_config c) (WorkspaceURL r) w")
  with findWorkspaceURLOrDefault_calls [of "api_config c" "WorkspaceURL r" w] obtain pre where
    "calls wa = calls w @ pre" "only_GETs pre" "length pre \<le> 1"
    by auto
  with f assms show ?thesis
    by (cases x) (auto simp: CreateIPAMReservation_eq create_submit_rejected)
qed

theorem CreateIPAMReservation_invalid_policy_witness:
  "is_fail (fst (CreateIPAMReservation (NewAthenaApiClient demo_config)
       (demo_reservation\<lparr>PolicyID := 0\<rparr>) one_workspace))
   \<and> only_GETs (new_calls one_workspace (snd (CreateIPAMReservation (NewAthenaApiClient demo_config)
       (demo_reservation\<lparr>PolicyID := 0\<rparr>) one_workspace)))
   \<and> length (new_calls one_workspace (snd (CreateIPAMReservation (NewAthenaApiClient demo_config)
       (demo_reservation\<lparr>PolicyID := 0\<rparr>) one_workspace))) \<le> 1"
  using CreateIPAMReservation_invalid_policy [of "demo_reservation\<lparr>PolicyID := 0\<rparr>"
      "NewAthenaApiClient demo_config" one_workspace]
  by (simp add: demo_reservation_def)

text \<open>
  C28. The workspace is looked up before the policy is checked. For a record
  with no workspace URL and no usable policy, \<open>CreateIPAMReservation\<close> has made
  one call when it rejects the record: the GET of the default workspace.
\<close>

theorem CreateIPAMReservation_lookup_before_validation:
  assumes "Policy r \<noteq> [] \<or> PolicyID r = 0" and "WorkspaceURL r = []"
    and "url_ok w (default_workspace_url (api_config c))"
  shows "new_calls w (snd (CreateIPAMReservation c r w)) =
           [call_of (getHttpClient (api_config c))
              (GET_request (api_config c) (default_workspace_url (api_config c))) w]"
proof -
  have "snd (CreateIPAMReservation c r w) = snd (findDefaultWorkspaceID (api_config c) w)"
    using assms(1,2)
    by (auto simp: CreateIPAMReservation_eq findWorkspaceURLOrDefault_default
        create_submit_rejected split: sum.splits)
  with assms(3) show ?thesis
    by (simp add: findDefaultWorkspaceID_calls)
qed

theorem CreateIPAMReservation_lookup_before_validation_witness:
  "new_calls unreachable (snd (CreateIPAMReservation (NewAthenaApiClient demo_config)
       (demo_reservation\<lparr>PolicyID := 0\<rparr>) unreachable)) =
     [call_of (getHttpClient demo_config)
        (GET_request demo_config (default_workspace_url demo_config)) unreachable]"
  using CreateIPAMReservation_lookup_before_validation [of "demo_reservation\<lparr>PolicyID := 0\<rparr>"
      unreachable "NewAthenaApiClient demo_config"]
  by (simp add: demo_reservation_def NewAthenaApiClient_def unreachable_def)

text \<open>
  C29. The policy of the request is a URL of the resource type \<open>workspaces\<close>. The
  body of the request that \<open>CreateIPAMReservation\<close> submits decodes to a
  reservation whose policy is the item URL of the policy id under
  \<open>/api/v3/onefuse/workspaces/\<close>, not under a resource type of policies.
\<close>

theorem create_request_policy:
  assumes "fits_int (ID r)" and "fits_int (PolicyID r)"
  shows "\<exists>kvs. req_body (create_request config r u) = Some (Json (JObject kvs))
     \<and> Policy (IPAMReservation_of kvs) =
         scheme config @ ''://'' @ address config @ '':'' @ port config
           @ ''/api/v3/onefuse/workspaces/'' @ Itoa (PolicyID r) @ ''/''
     \<and> WorkspaceURL (IPAMReservation_of kvs) = u"
proof -
  have "fits_int (ID (create_body config r u))" "fits_int (PolicyID (create_body config r u))"
    using assms by (simp_all add: create_body_def)
  then have "IPAMReservation_of (IPAMReservation_fields (create_body config r u)) = create_body config r u"
    by (rule IPAMReservation_roundtrip)
  moreover have "Policy (create_body config r u) =
      scheme config @ ''://'' @ address config @ '':'' @ port config
           @ ''/api/v3/onefuse/workspaces/'' @ Itoa (PolicyID r) @ ''/''"
    using itemURL_plain [of WorkspaceResourceType config "PolicyID r"]
    by (simp add: create_body_def) (simp add: WorkspaceResourceType_def)
  ultimately show ?thesis
    by (simp add: create_request_def create_body_def)
qed

theorem create_request_policy_witness:
  "\<exists>kvs. req_body (create_request demo_config demo_reservation ''w'') = Some (Json (JObject kvs))
     \<and> Policy (IPAMReservation_of kvs) = ''https://athena.example.org:8443/api/v3/onefuse/workspaces/42/''
     \<and> WorkspaceURL (IPAMReservation_of kvs) = ''w''"
  using create_request_policy [of demo_reservation demo_config "''w''"]
  by (simp add: demo_reservation_def)


text \<open>
  C24. The default workspace. For a record with no workspace URL,
  \<open>findWorkspaceURLOrDefault\<close> asks the service for the workspaces with the
  filter \<open>name.exact:Default\<close> and, when the answer lists a workspace, returns
  the item URL of the first one.
\<close>

theorem findWorkspaceURLOrDefault_resolves:
  assumes "url_ok w (default_workspace_url config)"
    and "reply (GET_exchange config (default_workspace_url config) w) = Inr res"
    and "readResponse res = Inr body"
    and "Workspaces (fst (json_Unmarshal WorkspacesListResponse_type body)) = ws # rest"
  shows "findWorkspaceURLOrDefault config [] w =
           (Inr (itemURL config WorkspaceResourceType (ws_ID ws)),
            after_GET config (default_workspace_url config) w)
     \<and> default_workspace_url config =
           collectionURL config WorkspaceResourceType @ ''?filter=name.exact:Default''"
proof -
  have "fits_int (ws_ID ws)"
    using Workspaces_decoded_fit [of ws body] assms(4) by simp
  with assms show ?thesis
    by (simp add: findWorkspaceURLOrDefault_default findDefaultWorkspaceID_eq
        default_workspace_outcome_def default_workspace_url_def)
qed

theorem findWorkspaceURLOrDefault_resolves_witness:
  "findWorkspaceURLOrDefault demo_config [] one_workspace =
     (Inr ''https://athena.example.org:8443/api/v3/onefuse/workspaces/3/'',
      after_GET demo_config (default_workspace_url demo_config) one_workspace)"
  using findWorkspaceURLOrDefault_resolves [of one_workspace demo_config
      "\<lparr>StatusCode = 200, resp_body = Inr (Json (JObject [(''_embedded'', JObject [(''workspaces'',
          JArray [JObject [(''id'', JNumber 3), (''name'', JString ''Default'')]])])]))\<rparr>"
      "Json (JObject [(''_embedded'', JObject [(''workspaces'',
          JArray [JObject [(''id'', JNumber 3), (''name'', JString ''Default'')]])])])"
      "\<lparr>ws_Links = None, ws_ID = 3, ws_Name = ''Default''\<rparr>" "[]"]
    itemURL_plain [of WorkspaceResourceType demo_config 3]
  by (simp add: one_workspace_def exchange_of_def scripted_def workspaces_reply_def
      Workspace_type_def Workspace_of_def member_Cons Itoa_def digits10.simps digit_char_def)
     (simp add: WorkspaceResourceType_def)

text \<open>
  C25. No default workspace. When the service lists no workspace,
  \<open>findDefaultWorkspaceID\<close> returns the empty id and no error, and
  \<open>findWorkspaceURLOrDefault\<close> fails on converting it: the text of the error is
  about an integer conversion and does not say that the workspace was not
  found.
\<close>

theorem findWorkspaceURLOrDefault_no_default:
  assumes "url_ok w (default_workspace_url config)"
    and "reply (GET_exchange config (default_workspace_url config) w) = Inr res"
    and "readResponse res = Inr body"
    and "Workspaces (fst (json_Unmarshal WorkspacesListResponse_type body)) = []"
  shows "fst (findDefaultWorkspaceID config w) = Inr []
     \<and> (\<exists>err. findWorkspaceURLOrDefault config [] w =
            (Inl (Err err), after_GET config (default_workspace_url config) w)
          \<and> Error err = ''athena.apiClient: Failed to convert Workspace ID '' @ [CHR 0x27, CHR 0x27]
               @ '' to integer: strconv.Atoi: parsing '' @ [CHR 0x22, CHR 0x22] @ '': invalid syntax'')"
  using assms
  by (simp add: findWorkspaceURLOrDefault_default findDefaultWorkspaceID_eq
      default_workspace_outcome_def NumError_def quote_def)

theorem findWorkspaceURLOrDefault_no_default_witness:
  "fst (findDefaultWorkspaceID demo_config no_workspace) = Inr []
   \<and> (\<exists>err. findWorkspaceURLOrDefault demo_config [] no_workspace =
          (Inl (Err err), after_GET demo_config (default_workspace_url demo_config) no_workspace)
        \<and> Error err = ''athena.apiClient: Failed to convert Workspace ID '' @ [CHR 0x27, CHR 0x27]
             @ '' to integer: strconv.Atoi: parsing '' @ [CHR 0x22, CHR 0x22] @ '': invalid syntax'')"
  using findWorkspaceURLOrDefault_no_default [of no_workspace demo_config
      "\<lparr>StatusCode = 200, resp_body = Inr (Json (JObject [(''_embedded'', JObject [(''workspaces'',
          JArray [])])]))\<rparr>"
      "Json (JObject [(''_embedded'', JObject [(''workspaces'', JArray [])])])"]
  by (simp add: no_workspace_def exchange_of_def scripted_def workspaces_reply_def)


text \<open>
  C23. At most one submission. Whatever the service answers,
  \<open>CreateIPAMReservation\<close> makes at most one call that is no GET, and at most
  724 calls in all: nothing is submitted twice and nothing is retried.
\<close>

theorem CreateIPAMReservation_posts_once:
  "length (submissions (new_calls w (snd (CreateIPAMReservation c r w)))) \<le> 1
   \<and> length (new_calls w (snd (CreateIPAMReservation c r w))) \<le> 724"
  using CreateIPAMReservation_calls [of c r w] by auto

text \<open>
  C26. Deleting succeeds only with a successful job. When
  \<open>DeleteIPAMReservation\<close> returns without an error, the request it submitted
  was a DELETE of the item URL of the reservation and the job it started
  ended \<open>Successful\<close>; a failure of the job or a timeout is returned as it is.
\<close>

theorem DeleteIPAMReservation_success:
  assumes "DeleteIPAMReservation c n w = (Inr (), w')"
  shows "\<exists>js. handleAsyncRequest (delete_request_of (api_config c) n) (api_config c) ''DELETE'' w
             = (Inr (Some js), w')
           \<and> JobState js = JobSuccess
           \<and> req_method (delete_request_of (api_config c) n) = ''DELETE''
           \<and> req_url (delete_request_of (api_config c) n)
               = itemURL (api_config c) IPAMReservationResourceType n"
proof -
  have ok: "url_ok w (itemURL (api_config c) IPAMReservationResourceType n)"
    using assms by (rule contrapos_pp) (simp add: DeleteIPAMReservation_bad_url)
  with assms obtain q where
    h: "handleAsyncRequest (delete_request_of (api_config c) n) (api_config c) ''DELETE'' w = (Inr q, w')"
    by (auto simp: DeleteIPAMReservation_eq split: prod.splits sum.splits)
  from handleAsyncRequest_Inr [OF h] h show ?thesis
    by (auto simp: delete_request_of_def)
qed

theorem DeleteIPAMReservation_success_witness:
  "\<exists>js. handleAsyncRequest (delete_request_of demo_config 42) demo_config ''DELETE'' job_done
       = (Inr (Some js), after_poll demo_config 7 (after_submit (delete_request_of demo_config 42) demo_config job_done))
     \<and> JobState js = JobSuccess
     \<and> req_method (delete_request_of demo_config 42) = ''DELETE''
     \<and> req_url (delete_request_of demo_config 42) = itemURL demo_config IPAMReservationResourceType 42"
  using DeleteIPAMReservation_success [OF job_done_delete]
  by (simp add: NewAthenaApiClient_def)

text \<open>
  C27. Deleting panics when the submission fails. If the URL is accepted and
  the service cannot be reached, or answers the DELETE with a status of 400 or
  more, \<open>DeleteIPAMReservation\<close> does not return an error: it dereferences the
  body of the request, which a DELETE does not have.
\<close>

theorem DeleteIPAMReservation_panics:
  assumes "url_ok w (itemURL (api_config c) IPAMReservationResourceType n)"
    and "case submit_reply (delete_request_of (api_config c) n) (api_config c) w of
           Inl err \<Rightarrow> True | Inr res \<Rightarrow> 400 \<le> StatusCode res"
  shows "DeleteIPAMReservation c n w =
           (Inl nil_dereference, after_submit (delete_request_of (api_config c) n) (api_config c) w)"
proof (cases "submit_reply (delete_request_of (api_config c) n) (api_config c) w")
  case (Inl err)
  with assms(1) show ?thesis
    by (simp add: DeleteIPAMReservation_eq handleAsyncRequest_no_reply delete_request_of_def)
next
  case (Inr res)
  with assms(2) obtain err where "readResponse res = Inl err"
    by (cases "readResponse res") (auto simp: readResponse_Inr_iff)
  with Inr assms(1) show ?thesis
    by (simp add: DeleteIPAMReservation_eq handleAsyncRequest_refused delete_request_of_def)
qed

theorem DeleteIPAMReservation_panics_witness:
  "DeleteIPAMReservation (NewAthenaApiClient demo_config) 42 unreachable =
     (Inl nil_dereference, after_submit (delete_request_of demo_config 42) demo_config unreachable)"
  using DeleteIPAMReservation_panics [of unreachable "NewAthenaApiClient demo_config" 42]
  by (simp add: NewAthenaApiClient_def unreachable_def exchange_of_def)

text \<open>
  Reading a reservation is one GET. If the URL of the item is accepted and
  the service answers with a status below 400 and the document of a
  reservation, \<open>GetIPAMReservation\<close> returns that reservation after exactly one
  call, the GET of the item URL; no job is involved.
\<close>

theorem GetIPAMReservation_reads:
  assumes "url_ok w (itemURL (api_config c) IPAMReservationResourceType n)"
    and "GET_exchange (api_config c) (itemURL (api_config c) IPAMReservationResourceType n) w
           = reservation_reply r"
    and "fits_int (ID r)" and "fits_int (PolicyID r)"
  shows "fst (GetIPAMReservation c n w) = Inr r
     \<and> new_calls w (snd (GetIPAMReservation c n w)) =
         [call_of (getHttpClient (api_config c))
            (GET_request (api_config c) (itemURL (api_config c) IPAMReservationResourceType n)) w]"
  using assms by (simp add: GetIPAMReservation_eq GET_reservation_reply)

theorem GetIPAMReservation_reads_witness:
  "fst (GetIPAMReservation (NewAthenaApiClient demo_config) 42 reading_world) = Inr stored_reservation
   \<and> new_calls reading_world (snd (GetIPAMReservation (NewAthenaApiClient demo_config) 42 reading_world)) =
       [call_of (getHttpClient demo_config)
          (GET_request demo_config (itemURL demo_config IPAMReservationResourceType 42)) reading_world]"
  using GetIPAMReservation_reads [of reading_world "NewAthenaApiClient demo_config" 42 stored_reservation]
  by (simp add: NewAthenaApiClient_def reading_world_def exchange_of_def scripted_def)


text \<open>
  Rendering a template is one POST. If the URL of the collection
  \<open>templateTester\<close> is accepted, \<open>RenderTemplate\<close> makes exactly one call, a
  POST whose body is the template and its properties; it starts no job,
  fetches no status, and never panics.
\<close>

theorem RenderTemplate_one_POST:
  assumes "url_ok w (collectionURL (api_config c) RenderTemplateType)"
  shows "new_calls w (snd (RenderTemplate T c t ps w)) =
           [call_of (getHttpClient (api_config c)) (render_request (api_config c) t ps) w]
     \<and> req_method (render_request (api_config c) t ps) = ''POST''
     \<and> req_body (render_request (api_config c) t ps) =
          Some (Json (JObject (RenderTemplateRequest_fields \<lparr>Template = t, rt_TemplateProperties = ps\<rparr>)))
     \<and> \<not> panics (fst (RenderTemplate T c t ps w))"
  using assms by (simp add: RenderTemplate_world RenderTemplate_not_panic render_request_def)

theorem RenderTemplate_one_POST_witness:
  "new_calls unreachable (snd (RenderTemplate JobStatus_type (NewAthenaApiClient demo_config)
       ''{{ name }}'' [(''name'', JString ''web01'')] unreachable)) =
     [call_of (getHttpClient demo_config)
        (render_request demo_config ''{{ name }}'' [(''name'', JString ''web01'')]) unreachable]"
  using RenderTemplate_one_POST [of unreachable "NewAthenaApiClient demo_config" JobStatus_type
      "''{{ name }}''" "[(''name'', JString ''web01'')]"]
  by (simp add: NewAthenaApiClient_def unreachable_def)

text \<open>
  C30. A policy by name. \<open>GetIPAMPolicyByName\<close> gets the collection of policies
  with the filter \<open>name:\<close> and the name; when the GET succeeds it returns the
  first policy of the answer, and for an empty answer it fails with an error
  that names the resource type and the name searched for.
\<close>

theorem GetIPAMPolicyByName_first:
  assumes "doGet IPAMPolicyResponse_type (api_config c)
             (collectionURL (api_config c) IPAMPolicyResourceType @ ''?filter=name:'' @ name) w
           = (Inr resp, w')"
  shows "GetIPAMPolicyByName c name w =
           (case IPAMPolicies resp of
              [] \<Rightarrow> Inl (Err (errors_New (''athena.apiClient: Could not find ipamPolicies ''
                      @ [CHR 0x27] @ name @ [CHR 0x27] @ ''!'')))
            | p # ps \<Rightarrow> Inr p, w')"
  using assms
  by (simp add: GetIPAMPolicyByName_eq name_filter_url_def Could_not_find_def
      IPAMPolicyResourceType_def split: list.splits)


theorem GetIPAMPolicyByName_first_witness:
  "GetIPAMPolicyByName (NewAthenaApiClient demo_config) ''prod'' one_policy =
     (Inr \<lparr>pol_Links = None, pol_ID = 42, pol_Name = ''prod'', pol_Description = []\<rparr>,
      after_GET demo_config (collectionURL demo_config IPAMPolicyResourceType @ ''?filter=name:prod'')
        one_policy)"
  using GetIPAMPolicyByName_first [of "NewAthenaApiClient demo_config" "''prod''" one_policy
      "\<lparr>IPAMPolicies = [\<lparr>pol_Links = None, pol_ID = 42, pol_Name = ''prod'', pol_Description = []\<rparr>]\<rparr>"
      "after_GET demo_config (collectionURL demo_config IPAMPolicyResourceType @ ''?filter=name:prod'') one_policy"]
  by (simp add: NewAthenaApiClient_def one_policy_get)

end
