(* ===== verification/ResourceData.thy ===== *)
theory ResourceData
  imports Config World
begin

text \<open>
  What the program uses of the Terraform SDK (\<open>helper/schema\<close>): the resource
  data that every operation of a resource receives, and the declarations of
  schemas, resources and providers.
  The resource data hold the values of the attributes, the prior state that
  \<open>HasChange\<close> compares with, and the id. \<open>Get\<close> yields the value of an
  attribute of the schema, or the zero value of its type, and nil for any
  other key; \<open>Set\<close> refuses a key that is not in the schema and a value of
  another type. A type assertion on a value of another type is a panic.
  \<open>HasChange\<close> compares the prior state with the values that the data hold,
  where the SDK compares it with the planned change; the two agree on the
  data that an operation receives, before it has set anything.
  Nothing here translates a line of the repository.
\<close>

section \<open>Resource data\<close>

datatype attr = AString string | AInt int | ABool bool | AList "attr list" | AMap fields

datatype attr_type = TypeString | TypeInt | TypeBool | TypeList attr_type | TypeMap

fun has_type :: "attr \<Rightarrow> attr_type \<Rightarrow> bool" where
  "has_type (AString s) t = (t = TypeString)"
| "has_type (AInt n) t = (t = TypeInt)"
| "has_type (ABool b) t = (t = TypeBool)"
| "has_type (AList xs) t = (case t of TypeList e \<Rightarrow> (\<forall>x \<in> set xs. has_type x e) | _ \<Rightarrow> False)"
| "has_type (AMap kvs) t = (t = TypeMap)"

fun zero_attr :: "attr_type \<Rightarrow> attr" where
  "zero_attr TypeString = AString []"
| "zero_attr TypeInt = AInt 0"
| "zero_attr TypeBool = ABool False"
| "zero_attr (TypeList e) = AList []"
| "zero_attr TypeMap = AMap []"

record ResourceData =
  rd_schema :: "(string \<times> attr_type) list"
  rd_state :: "(string \<times> attr) list"
  rd_values :: "(string \<times> attr) list"
  rd_id :: string

definition value_in :: "(string \<times> attr_type) list \<Rightarrow> (string \<times> attr) list \<Rightarrow> string \<Rightarrow> attr option" where
  "value_in sch vs k =
     (case map_of sch k of
        None \<Rightarrow> None
      | Some t \<Rightarrow> Some (case map_of vs k of Some v \<Rightarrow> v | None \<Rightarrow> zero_attr t))"

definition d_Get :: "ResourceData \<Rightarrow> string \<Rightarrow> attr option" where
  "d_Get d k = value_in (rd_schema d) (rd_values d) k"

definition d_HasChange :: "ResourceData \<Rightarrow> string \<Rightarrow> bool" where
  "d_HasChange d k \<longleftrightarrow> value_in (rd_schema d) (rd_state d) k \<noteq> value_in (rd_schema d) (rd_values d) k"

definition Invalid_address :: "string \<Rightarrow> goerror" where
  "Invalid_address k = errors_New (''Invalid address to set: [] '' @ k)"

definition d_Set :: "string \<Rightarrow> attr \<Rightarrow> ResourceData \<Rightarrow> goerror option \<times> ResourceData" where
  "d_Set k v d =
     (case map_of (rd_schema d) k of
        None \<Rightarrow> (Some (Invalid_address k), d)
      | Some t \<Rightarrow>
          if has_type v t then (None, d\<lparr>rd_values := (k, v) # rd_values d\<rparr>)
          else (Some (errors_New (k @ '': value of another type'')), d))"

definition d_Id :: "ResourceData \<Rightarrow> string" where
  "d_Id d = rd_id d"

definition d_SetId :: "string \<Rightarrow> ResourceData \<Rightarrow> ResourceData" where
  "d_SetId v d = d\<lparr>rd_id := v\<rparr>"

text \<open>Type assertions on the values that \<open>Get\<close> returns and on the provider's meta value.\<close>

definition interface_conversion :: failure where
  "interface_conversion = Panic ''interface conversion: interface {} is of another type''"

definition as_string :: "attr option \<Rightarrow> string result" where
  "as_string x = (case x of Some (AString s) \<Rightarrow> Inr s | _ \<Rightarrow> Inl interface_conversion)"

definition as_int :: "attr option \<Rightarrow> int result" where
  "as_int x = (case x of Some (AInt n) \<Rightarrow> Inr n | _ \<Rightarrow> Inl interface_conversion)"

definition as_list :: "attr option \<Rightarrow> attr list result" where
  "as_list x = (case x of Some (AList xs) \<Rightarrow> Inr xs | _ \<Rightarrow> Inl interface_conversion)"

definition as_map :: "attr option \<Rightarrow> fields result" where
  "as_map x = (case x of Some (AMap kvs) \<Rightarrow> Inr kvs | _ \<Rightarrow> Inl interface_conversion)"

definition as_bool :: "attr option \<Rightarrow> bool result" where
  "as_bool x = (case x of Some (ABool b) \<Rightarrow> Inr b | _ \<Rightarrow> Inl interface_conversion)"

datatype meta = Meta_Config Config | Meta_other

definition as_Config :: "meta \<Rightarrow> Config result" where
  "as_Config m = (case m of Meta_Config c \<Rightarrow> Inr c | Meta_other \<Rightarrow> Inl interface_conversion)"

definition and_then :: "'a result \<Rightarrow> ('a \<Rightarrow> 'b result) \<Rightarrow> 'b result" where
  "and_then r f = (case r of Inl e \<Rightarrow> Inl e | Inr x \<Rightarrow> f x)"

section \<open>Schemas, resources and providers\<close>

text \<open>
  The declarations that a provider hands to the SDK. A \<open>Schema\<close> gives the
  type of an attribute and its flags; its default is a function of the
  environment. A \<open>Resource\<close> names its four operations, its schema and its
  timeouts; a \<open>Provider\<close> its schema, its resources, its data sources and the
  function that configures it. A struct literal of Go leaves the fields it
  does not name at their zero values: \<open>Schema_of t\<close> is the schema with the type
  \<open>t\<close> and nothing else set.
\<close>

type_synonym environ = "string \<Rightarrow> string"

record Schema =
  Type :: attr_type
  Optional :: bool
  Required :: bool
  DefaultFunc :: "(environ \<Rightarrow> attr option) option"
  Description :: string
  Computed :: bool
  ForceNew :: bool
  Sensitive :: bool

definition Schema_of :: "attr_type \<Rightarrow> Schema" where
  "Schema_of t =
     \<lparr>Type = t, Optional = False, Required = False, DefaultFunc = None, Description = [],
      Computed = False, ForceNew = False, Sensitive = False\<rparr>"

definition EnvDefaultFunc :: "string \<Rightarrow> attr option \<Rightarrow> environ \<Rightarrow> attr option" where
  "EnvDefaultFunc k dv env = (if env k \<noteq> [] then Some (AString (env k)) else dv)"

definition time_Minute :: int where
  "time_Minute = 60 * 1000000000"

record ResourceTimeout =
  Create_timeout :: "int option"
  Read_timeout :: "int option"
  Update_timeout :: "int option"
  Delete_timeout :: "int option"
  Default_timeout :: "int option"

definition no_timeouts :: ResourceTimeout where
  "no_timeouts =
     \<lparr>Create_timeout = None, Read_timeout = None, Update_timeout = None, Delete_timeout = None,
      Default_timeout = None\<rparr>"

definition DefaultTimeout :: "int \<Rightarrow> int option" where
  "DefaultTimeout tx = Some tx"

type_synonym operation = "ResourceData \<Rightarrow> meta \<Rightarrow> world \<Rightarrow> unit result \<times> ResourceData \<times> world"

record Resource =
  Create :: "operation option"
  Read :: "operation option"
  Update :: "operation option"
  Delete :: "operation option"
  Schema :: "(string \<times> Schema) list"
  Timeouts :: "ResourceTimeout option"

record Provider =
  Schema :: "(string \<times> Schema) list"
  ResourcesMap :: "(string \<times> Resource) list"
  DataSourcesMap :: "string list"
  ConfigureFunc :: "(ResourceData \<Rightarrow> meta result) option"

text \<open>
  The requests of Terraform for a resource, and the operation of a
  declaration that answers each.
\<close>

datatype request = Create_request | Read_request | Update_request | Delete_request

definition operation_of :: "Resource \<Rightarrow> request \<Rightarrow> operation option" where
  "operation_of res rq =
     (case rq of
        Create_request \<Rightarrow> Create res
      | Read_request \<Rightarrow> Read res
      | Update_request \<Rightarrow> Update res
      | Delete_request \<Rightarrow> Delete res)"

definition Unknown_resource :: "string \<Rightarrow> goerror" where
  "Unknown_resource name = errors_New (''unknown resource type: '' @ name)"

definition Not_supported :: goerror where
  "Not_supported = errors_New ''resource does not support the operation''"

definition types_of :: "(string \<times> Schema) list \<Rightarrow> (string \<times> attr_type) list" where
  "types_of sch = map (\<lambda>(k, s). (k, Type s)) sch"

text \<open>
  The checks of \<open>InternalValidate\<close> on the flags of a schema and on a resource
  that can be created: an attribute is required, optional or computed, not
  required together with optional or computed, and its name is made of
  lower-case letters, digits and underscores; a resource has a read and a
  delete operation, no attribute with a reserved name, and either an update
  operation and an attribute that can be updated, or no update operation and
  no attribute that would need one. An attribute can be updated unless it
  forces a new resource or is computed and not optional.
\<close>

definition isValidFieldName :: "string \<Rightarrow> bool" where
  "isValidFieldName k \<longleftrightarrow>
     k \<noteq> [] \<and> list_all (\<lambda>c. c \<in> set lower_letters \<or> is_digit c \<or> c = CHR ''_'') k"

definition schema_valid :: "string \<times> Schema \<Rightarrow> bool" where
  "schema_valid ks =
     (case ks of (k, v) \<Rightarrow>
        \<not> (Optional v \<and> Required v) \<and> \<not> (Required v \<and> Computed v)
        \<and> (Required v \<or> Optional v \<or> Computed v) \<and> isValidFieldName k)"

definition updateable :: "Schema \<Rightarrow> bool" where
  "updateable v \<longleftrightarrow> \<not> (ForceNew v \<or> Computed v \<and> \<not> Optional v)"

definition ReservedResourceFields :: "string list" where
  "ReservedResourceFields =
     [''connection'', ''count'', ''depends_on'', ''id'', ''lifecycle'', ''provider'', ''provisioner'']"

definition Resource_InternalValidate :: "Resource \<Rightarrow> bool" where
  "Resource_InternalValidate r \<longleftrightarrow>
     (case Update r of
        None \<Rightarrow> list_all (\<lambda>(k, v). ForceNew v \<or> Computed v) (Resource.Schema r)
      | Some u \<Rightarrow> list_ex (\<lambda>(k, v). updateable v) (Resource.Schema r))
     \<and> Read r \<noteq> None \<and> Delete r \<noteq> None
     \<and> list_all (\<lambda>(k, v). k \<notin> set ReservedResourceFields) (Resource.Schema r)
     \<and> list_all schema_valid (Resource.Schema r)"

section \<open>Reading a configuration\<close>

text \<open>
  How the SDK fills the data of a provider from its configuration: the value
  of an attribute is the one given, or else what the default function of the
  schema yields; it is rendered as a string and read back at the type of the
  schema (\<open>stringToPrimitive\<close>). A required attribute without a value is an
  error. The attributes are taken in the order of the schema and the first
  error ends the reading; integers are read in decimal only.
\<close>

definition raw_value :: "Schema \<Rightarrow> environ \<Rightarrow> attr option \<Rightarrow> attr option" where
  "raw_value sch env given =
     (case given of
        Some v \<Rightarrow> Some v
      | None \<Rightarrow> (case DefaultFunc sch of None \<Rightarrow> None | Some f \<Rightarrow> f env))"

definition weak_string :: "attr \<Rightarrow> string option" where
  "weak_string v =
     (case v of
        AString s \<Rightarrow> Some s
      | ABool b \<Rightarrow> Some (if b then ''1'' else ''0'')
      | AInt n \<Rightarrow> Some (Itoa n)
      | _ \<Rightarrow> None)"

definition stringToPrimitive :: "attr_type \<Rightarrow> string \<Rightarrow> goerror + attr" where
  "stringToPrimitive t s =
     (case t of
        TypeString \<Rightarrow> Inr (AString s)
      | TypeBool \<Rightarrow> (if s = [] then Inr (ABool False) else map_sum id ABool (ParseBool s))
      | TypeInt \<Rightarrow> map_sum id AInt (Atoi s)
      | _ \<Rightarrow> Inl (errors_New ''Unknown type''))"

definition Required_not_set :: "string \<Rightarrow> goerror" where
  "Required_not_set k = errors_New (quote k @ '': required field is not set'')"

definition Not_a_primitive :: "string \<Rightarrow> goerror" where
  "Not_a_primitive k = errors_New (k @ '': expected a primitive value'')"

fun read_attrs ::
  "(string \<times> Schema) list \<Rightarrow> environ \<Rightarrow> (string \<times> attr) list \<Rightarrow> goerror + (string \<times> attr) list"
where
  "read_attrs [] env cfg = Inr []"
| "read_attrs ((k, sch) # rest) env cfg =
     (case raw_value sch env (map_of cfg k) of
        None \<Rightarrow> if Required sch then Inl (Required_not_set k) else read_attrs rest env cfg
      | Some v \<Rightarrow>
          (case weak_string v of
             None \<Rightarrow> Inl (Not_a_primitive k)
           | Some s \<Rightarrow>
               (case stringToPrimitive (Type sch) s of
                  Inl err \<Rightarrow> Inl err
                | Inr a \<Rightarrow> map_sum id ((#) (k, a)) (read_attrs rest env cfg))))"

definition configured ::
  "(string \<times> Schema) list \<Rightarrow> environ \<Rightarrow> (string \<times> attr) list \<Rightarrow> goerror + ResourceData"
where
  "configured sch env cfg =
     map_sum id (\<lambda>vs. \<lparr>rd_schema = types_of sch, rd_state = [], rd_values = vs, rd_id = []\<rparr>)
       (read_attrs sch env cfg)"

section \<open>Facts: resource data\<close>

text \<open>
  The data are well typed when every value that was set has the type that the
  schema gives its key. \<open>Set\<close> keeps that, so what \<open>Get\<close> returns for a key of
  the schema always has the type of the schema, and the type assertions of the
  operations succeed.
\<close>

definition fits_schema :: "(string \<times> attr_type) list \<Rightarrow> string \<Rightarrow> attr \<Rightarrow> bool" where
  "fits_schema sch k v = (case map_of sch k of None \<Rightarrow> False | Some t \<Rightarrow> has_type v t)"

definition well_typed :: "ResourceData \<Rightarrow> bool" where
  "well_typed d = list_all (\<lambda>(k, v). fits_schema (rd_schema d) k v) (rd_values d)"

lemma has_type_zero_attr [simp]: "has_type (zero_attr t) t"
  by (cases t) simp_all

lemma has_type_cases:
  "has_type v TypeString \<longleftrightarrow> (\<exists>s. v = AString s)"
  "has_type v TypeInt \<longleftrightarrow> (\<exists>n. v = AInt n)"
  "has_type v TypeMap \<longleftrightarrow> (\<exists>kvs. v = AMap kvs)"
  "has_type v (TypeList e) \<longleftrightarrow> (\<exists>xs. v = AList xs \<and> (\<forall>x \<in> set xs. has_type x e))"
  by (cases v; simp)+

lemma and_then_simps [simp]:
  "and_then (Inl e) f = Inl e"
  "and_then (Inr x) f = f x"
  by (simp_all add: and_then_def)

lemma and_then_ok: "is_ok r \<Longrightarrow> (\<And>x. is_ok (f x)) \<Longrightarrow> is_ok (and_then r f)"
  by (cases r) simp_all

lemma as_simps [simp]:
  "as_string (Some (AString s)) = Inr s"
  "as_int (Some (AInt n)) = Inr n"
  "as_list (Some (AList xs)) = Inr xs"
  "as_map (Some (AMap kvs)) = Inr kvs"
  "as_Config (Meta_Config c) = Inr c"
  "as_Config Meta_other = Inl interface_conversion"
  by (simp_all add: as_string_def as_int_def as_list_def as_map_def as_Config_def)

lemma value_in_Nil [simp]: "value_in sch [] k = map_option zero_attr (map_of sch k)"
  by (simp add: value_in_def split: option.splits)

lemma value_in_Cons [simp]:
  "value_in sch ((k', v) # vs) k =
     (if k = k' then map_option (\<lambda>t. v) (map_of sch k) else value_in sch vs k)"
  by (simp add: value_in_def split: option.splits)

lemma d_Get_typed:
  assumes "well_typed d" and "d_Get d k = Some v"
  shows "fits_schema (rd_schema d) k v"
proof (cases "map_of (rd_values d) k")
  case None
  with assms(2) show ?thesis
    by (auto simp add: d_Get_def value_in_def fits_schema_def split: option.splits)
next
  case (Some v')
  then have "(k, v') \<in> set (rd_values d)"
    by (rule map_of_SomeD)
  with assms(1) have "fits_schema (rd_schema d) k v'"
    by (auto simp add: well_typed_def list_all_iff)
  with assms(2) Some show ?thesis
    by (auto simp add: d_Get_def value_in_def split: option.splits)
qed

lemma d_Get_schema:
  assumes "well_typed d" and "map_of (rd_schema d) k = Some t"
  obtains v where "d_Get d k = Some v" and "has_type v t"
proof -
  from assms(2) obtain v where g: "d_Get d k = Some v"
    by (simp add: d_Get_def value_in_def)
  with assms d_Get_typed [OF assms(1) g] that show thesis
    by (simp add: fits_schema_def)
qed

lemma as_ok:
  assumes "well_typed d"
  shows "map_of (rd_schema d) k = Some TypeString \<Longrightarrow> is_ok (as_string (d_Get d k))"
    and "map_of (rd_schema d) k = Some TypeInt \<Longrightarrow> is_ok (as_int (d_Get d k))"
    and "map_of (rd_schema d) k = Some TypeMap \<Longrightarrow> is_ok (as_map (d_Get d k))"
    and "map_of (rd_schema d) k = Some (TypeList e) \<Longrightarrow> is_ok (as_list (d_Get d k))"
  by (erule d_Get_schema [OF assms], auto simp add: has_type_cases)+

lemma as_bool_ok:
  assumes "well_typed d" and "map_of (rd_schema d) k = Some TypeBool"
  shows "is_ok (as_bool (d_Get d k))"
proof -
  from assms obtain v where "d_Get d k = Some v" and "has_type v TypeBool"
    by (rule d_Get_schema)
  then show ?thesis
    by (cases v) (simp_all add: as_bool_def)
qed

lemma d_Set_accepts:
  "fits_schema (rd_schema d) k v \<Longrightarrow> d_Set k v d = (None, d\<lparr>rd_values := (k, v) # rd_values d\<rparr>)"
  by (auto simp add: d_Set_def fits_schema_def split: option.splits)

lemma d_Set_refuses:
  "\<not> fits_schema (rd_schema d) k v \<Longrightarrow> fst (d_Set k v d) \<noteq> None \<and> snd (d_Set k v d) = d"
  by (auto simp add: d_Set_def fits_schema_def split: option.splits)

lemma d_Set_frame [simp]:
  "rd_schema (snd (d_Set k v d)) = rd_schema d"
  "rd_state (snd (d_Set k v d)) = rd_state d"
  "rd_id (snd (d_Set k v d)) = rd_id d"
  by (simp_all add: d_Set_def split: option.splits)

lemma d_Set_well_typed: "well_typed d \<Longrightarrow> well_typed (snd (d_Set k v d))"
  by (simp add: d_Set_def well_typed_def fits_schema_def split: option.splits)

lemma d_SetId_sel [simp]:
  "rd_schema (d_SetId i d) = rd_schema d"
  "rd_state (d_SetId i d) = rd_state d"
  "rd_values (d_SetId i d) = rd_values d"
  "d_Id (d_SetId i d) = i"
  "well_typed (d_SetId i d) = well_typed d"
  "d_Get (d_SetId i d) k = d_Get d k"
  by (simp_all add: d_SetId_def d_Id_def well_typed_def d_Get_def)

section \<open>Facts: reading a configuration\<close>

lemma stringToPrimitive_typed: "stringToPrimitive t s = Inr a \<Longrightarrow> has_type a t"
  by (cases t) (auto simp add: stringToPrimitive_def map_sum_def split: sum.splits if_splits)

lemma read_attrs_entries:
  assumes "read_attrs sch env cfg = Inr vs" and "(k, v) \<in> set vs"
  shows "\<exists>s. (k, s) \<in> set sch \<and> has_type v (Type s)"
  using assms
proof (induction sch arbitrary: vs)
  case Nil
  then show ?case by simp
next
  case (Cons ks sch)
  obtain k' s' where ks: "ks = (k', s')"
    by (cases ks)
  show ?case
  proof (cases "raw_value s' env (map_of cfg k')")
    case None
    with Cons ks show ?thesis
      by (fastforce split: if_splits)
  next
    case (Some x)
    with Cons.prems(1) ks obtain t a ws where "weak_string x = Some t"
      and a: "stringToPrimitive (Type s') t = Inr a"
      and ws: "read_attrs sch env cfg = Inr ws" and vs: "vs = (k', a) # ws"
      by (auto simp add: map_sum_def split: option.splits sum.splits)
    from Cons.prems(2) vs consider "k = k'" and "v = a" | "(k, v) \<in> set ws"
      by auto
    then show ?thesis
    proof cases
      case 1
      with stringToPrimitive_typed [OF a] ks show ?thesis by auto
    next
      case 2
      from Cons.IH [OF ws 2] show ?thesis by auto
    qed
  qed
qed

lemma map_of_types_of:
  assumes "distinct (map fst sch)" and "(k, s) \<in> set sch"
  shows "map_of (types_of sch) k = Some (Type s)"
proof -
  from assms(1) have "distinct (map fst (types_of sch))"
    by (simp add: types_of_def comp_def case_prod_unfold)
  moreover from assms(2) have "(k, Type s) \<in> set (types_of sch)"
    by (force simp add: types_of_def)
  ultimately show ?thesis
    by (rule map_of_is_SomeI)
qed

lemma configured_well_typed:
  assumes "configured sch env cfg = Inr d" and "distinct (map fst sch)"
  shows "well_typed d" and "rd_schema d = types_of sch"
proof -
  from assms(1) obtain vs where vs: "read_attrs sch env cfg = Inr vs"
    and d: "d = \<lparr>rd_schema = types_of sch, rd_state = [], rd_values = vs, rd_id = []\<rparr>"
    by (auto simp add: configured_def map_sum_def split: sum.splits)
  from d show "rd_schema d = types_of sch"
    by simp
  from read_attrs_entries [OF vs] map_of_types_of [OF assms(2)] d show "well_typed d"
    by (fastforce simp add: well_typed_def list_all_iff fits_schema_def)
qed

end
