(* ===== verification/Binding.thy ===== *)
theory Binding
  imports Reservations ResourceData
begin

text \<open>
  The resource \<open>athena_ipam_record\<close> of \<open>src/unnamed/part_000\<close>
  (\<open>resource_ipam_reservation.go\<close>): \<open>bindIPAMReservationResource\<close>, the four
  operations create, read, update and delete that Terraform calls, and the
  declaration \<open>resourceIPAMReservation\<close> of the resource with its schema and
  timeouts. The resource data and the declarations of the SDK are in theory
  \<open>ResourceData\<close>.
\<close>

section \<open>bindIPAMReservationResource\<close>

text \<open>
  \<open>set_fields\<close> is a run of \<open>d.Set\<close> calls, each with the message of its error
  branch. \<open>policy_id_of\<close> reads the policy id out of the link to the policy: the
  element before the last of the link split at slashes, converted with the
  conversion error dropped, so that the id is the integer that \<open>Atoi\<close> returns
  beside its error: 0 for a segment that is no number, the largest or the
  smallest \<open>int\<close> for a number out of range.
\<close>

fun set_fields :: "(string \<times> attr \<times> string) list \<Rightarrow> ResourceData \<Rightarrow> unit result \<times> ResourceData" where
  "set_fields [] d = (Inr (), d)"
| "set_fields ((k, v, msg) # rest) d =
     (case d_Set k v d of
        (Some err, d') \<Rightarrow> (Inl (Err (errors_Wrapped err msg)), d')
      | (None, d') \<Rightarrow> set_fields rest d')"

definition policy_id_of :: "string \<Rightarrow> int result" where
  "policy_id_of href =
     (let ipamPolicyURLSplit = strings_Split href ''/''
      in if length ipamPolicyURLSplit < 2 then Inl index_out_of_range
         else (let ipamPolicyID = ipamPolicyURLSplit ! (length ipamPolicyURLSplit - 2);
                   ipamPolicyIDInt = Atoi_value ipamPolicyID
               in Inr ipamPolicyIDInt))"

definition bindIPAMReservationResource ::
  "ResourceData \<Rightarrow> IPAMReservation \<Rightarrow> unit result \<times> ResourceData"
where
  "bindIPAMReservationResource d ipamRecord =
     (case set_fields [(''computed_hostname'', AString (Hostname ipamRecord),
                        ''Cannot set name: '' @ Hostname ipamRecord)] d of
        (Inl err, d1) \<Rightarrow> (Inl err, d1)
      | (Inr u, d1) \<Rightarrow>
          (case Links ipamRecord of
             None \<Rightarrow> (Inl nil_dereference, d1)
           | Some links \<Rightarrow>
               (case set_fields
                  [(''workspace_url'', AString (Href (rl_Workspace links)),
                    ''Cannot set workspace: '' @ Href (rl_Workspace links)),
                   (''ip_address'', AString (IPaddress ipamRecord),
                    ''Cannot set IPAddress: '' @ IPaddress ipamRecord),
                   (''netmask'', AString (Netmask ipamRecord),
                    ''Cannot set Netmask '' @ Netmask ipamRecord),
                   (''primary_dns'', AString (PrimaryDNS ipamRecord),
                    ''Cannot set Primmary DNS: '' @ PrimaryDNS ipamRecord),
                   (''secondary_dns'', AString (SecondaryDNS ipamRecord),
                    ''Cannot set Secondary DNS: '' @ SecondaryDNS ipamRecord),
                   (''gateway'', AString (Gateway ipamRecord),
                    ''Cannot set Gateway: '' @ Gateway ipamRecord),
                   (''network'', AString (Network ipamRecord),
                    ''Cannot set Network: '' @ Network ipamRecord),
                   (''subnet'', AString (Subnet ipamRecord),
                    ''Cannot set Subnet: '' @ Subnet ipamRecord),
                   (''nic_label'', AString (NicLabel ipamRecord),
                    ''Cannot set NicLabel: '' @ NicLabel ipamRecord),
                   (''dns_suffix'', AString (DNSSuffix ipamRecord),
                    ''Cannot set DNSSuffix: '' @ DNSSuffix ipamRecord)] d1 of
                  (Inl err, d2) \<Rightarrow> (Inl err, d2)
                | (Inr u, d2) \<Rightarrow>
                    (case policy_id_of (Href (rl_Policy links)) of
                       Inl p \<Rightarrow> (Inl p, d2)
                     | Inr ipamPolicyIDInt \<Rightarrow>
                         set_fields [(''policy_id'', AInt ipamPolicyIDInt, ''Cannot set policy'')] d2))))"

section \<open>The operations of the resource\<close>

text \<open>
  \<open>suffixes_of\<close> is the loop that collects \<open>dns_search_suffix\<close> (its result is
  not used afterwards), \<open>record_of_data\<close> the reservation built from the
  attributes, \<open>changed\<close> the test of \<open>resourceIPAMReservationUpdate\<close>.
\<close>

definition suffixes_of :: "ResourceData \<Rightarrow> string list result" where
  "suffixes_of d =
     and_then (as_list (d_Get d ''dns_search_suffix''))
       (\<lambda>groups. if list_all (\<lambda>group. has_type group TypeString) groups
                 then Inr (map (\<lambda>group. case group of AString s \<Rightarrow> s | _ \<Rightarrow> []) groups)
                 else Inl interface_conversion)"

definition record_of_data :: "ResourceData \<Rightarrow> IPAMReservation result" where
  "record_of_data d =
     and_then (as_string (d_Get d ''hostname'')) (\<lambda>hostname.
     and_then (as_int (d_Get d ''policy_id'')) (\<lambda>policy_id.
     and_then (as_string (d_Get d ''workspace_url'')) (\<lambda>workspace_url.
     and_then (as_string (d_Get d ''ip_address'')) (\<lambda>ip_address.
     and_then (as_string (d_Get d ''netmask'')) (\<lambda>netmask.
     and_then (as_string (d_Get d ''subnet'')) (\<lambda>subnet.
     and_then (as_string (d_Get d ''gateway'')) (\<lambda>gateway.
     and_then (as_string (d_Get d ''network'')) (\<lambda>network.
     and_then (as_string (d_Get d ''primary_dns'')) (\<lambda>primary_dns.
     and_then (as_string (d_Get d ''secondary_dns'')) (\<lambda>secondary_dns.
     and_then (as_string (d_Get d ''dns_suffix'')) (\<lambda>dns_suffix.
     and_then (as_string (d_Get d ''nic_label'')) (\<lambda>nic_label.
     and_then (as_map (d_Get d ''template_properties'')) (\<lambda>template_properties.
       Inr (IPAMReservation_zero
         \<lparr>Hostname := hostname, PolicyID := policy_id, WorkspaceURL := workspace_url,
          IPaddress := ip_address, Netmask := netmask, Subnet := subnet, Gateway := gateway,
          Network := network, PrimaryDNS := primary_dns, SecondaryDNS := secondary_dns,
          DNSSuffix := dns_suffix, NicLabel := nic_label,
          TemplateProperties := template_properties\<rparr>))))))))))))))"

definition tracked :: "string list" where
  "tracked =
     [''hostname'', ''computed_hostname'', ''policy_id'', ''workspace_url'', ''ip_address'',
      ''netmask'', ''subnet'', ''network'', ''gateway'', ''primary_dns'', ''secondary_dns'',
      ''dns_suffix'', ''nic_label'', ''template_properties'']"

definition changed :: "ResourceData \<Rightarrow> bool" where
  "changed d = list_ex (d_HasChange d) tracked"

definition resourceIPAMReservationCreate ::
  "ResourceData \<Rightarrow> meta \<Rightarrow> world \<Rightarrow> unit result \<times> ResourceData \<times> world"
where
  "resourceIPAMReservationCreate d m w =
     (case suffixes_of d of
        Inl p \<Rightarrow> (Inl p, d, w)
      | Inr ipam_Suffixes \<Rightarrow>
          (case as_Config m of
             Inl p \<Rightarrow> (Inl p, d, w)
           | Inr config \<Rightarrow>
               (case record_of_data d of
                  Inl p \<Rightarrow> (Inl p, d, w)
                | Inr newIPAMRecord \<Rightarrow>
                    (case CreateIPAMReservation (NewAthenaApiClient config) newIPAMRecord w of
                       (Inl err, w1) \<Rightarrow> (Inl err, d, w1)
                     | (Inr ipamRecord, w1) \<Rightarrow>
                         (let d1 = d_SetId (Itoa (ID ipamRecord)) d
                          in case bindIPAMReservationResource d1 ipamRecord of
                               (r, d2) \<Rightarrow> (r, d2, w1))))))"

definition resourceIPAMReservationRead ::
  "ResourceData \<Rightarrow> meta \<Rightarrow> world \<Rightarrow> unit result \<times> ResourceData \<times> world"
where
  "resourceIPAMReservationRead d m w =
     (case as_Config m of
        Inl p \<Rightarrow> (Inl p, d, w)
      | Inr config \<Rightarrow>
          (let id' = d_Id d
           in case Atoi id' of
                Inl err \<Rightarrow> (Inl (Err err), d, w)
              | Inr intID \<Rightarrow>
                  (case GetIPAMReservation (NewAthenaApiClient config) intID w of
                     (Inl err, w1) \<Rightarrow> (Inl err, d, w1)
                   | (Inr ipamRecord, w1) \<Rightarrow>
                       (case bindIPAMReservationResource d ipamRecord of
                          (r, d1) \<Rightarrow> (r, d1, w1)))))"

definition resourceIPAMReservationUpdate ::
  "ResourceData \<Rightarrow> meta \<Rightarrow> world \<Rightarrow> unit result \<times> ResourceData \<times> world"
where
  "resourceIPAMReservationUpdate d m w =
     (if \<not> changed d then (Inr (), d, w)
      else
        (case suffixes_of d of
           Inl p \<Rightarrow> (Inl p, d, w)
         | Inr ipam_Suffixes \<Rightarrow>
             (case as_Config m of
                Inl p \<Rightarrow> (Inl p, d, w)
              | Inr config \<Rightarrow>
                  (let id' = d_Id d
                   in case record_of_data d of
                        Inl p \<Rightarrow> (Inl p, d, w)
                      | Inr desiredIPAMRecord \<Rightarrow>
                          (case Atoi id' of
                             Inl err \<Rightarrow> (Inl (Err err), d, w)
                           | Inr intID \<Rightarrow>
                               (case UpdateIPAMReservation (NewAthenaApiClient config) intID
                                       desiredIPAMRecord w of
                                  (Inl err, w1) \<Rightarrow> (Inl err, d, w1)
                                | (Inr ipamRecord, w1) \<Rightarrow>
                                    (case bindIPAMReservationResource d ipamRecord of
                                       (r, d1) \<Rightarrow> (r, d1, w1))))))))"

definition resourceIPAMReservationDelete ::
  "ResourceData \<Rightarrow> meta \<Rightarrow> world \<Rightarrow> unit result \<times> ResourceData \<times> world"
where
  "resourceIPAMReservationDelete d m w =
     (case as_Config m of
        Inl p \<Rightarrow> (Inl p, d, w)
      | Inr config \<Rightarrow>
          (let id' = d_Id d
           in case Atoi id' of
                Inl err \<Rightarrow> (Inl (Err err), d, w)
              | Inr intID \<Rightarrow>
                  (case DeleteIPAMReservation (NewAthenaApiClient config) intID w of
                     (r, w1) \<Rightarrow> (r, d, w1))))"

section \<open>The declaration of the resource\<close>

text \<open>
  \<open>resourceIPAMReservation\<close> is the resource as the provider registers it: the
  four operations, the fifteen attributes with their types and flags, and the
  timeouts of five minutes for create and delete.
  \<open>resourceIPAMReservation_schema\<close> are the types of its attributes, which is what
  \<open>Get\<close> and \<open>Set\<close> depend on.
\<close>

definition resourceIPAMReservation :: Resource where
  "resourceIPAMReservation =
     \<lparr>Create = Some resourceIPAMReservationCreate,
      Read = Some resourceIPAMReservationRead,
      Update = Some resourceIPAMReservationUpdate,
      Delete = Some resourceIPAMReservationDelete,
      Schema =
        [(''hostname'', Schema_of TypeString\<lparr>Required := True\<rparr>),
         (''computed_hostname'', Schema_of TypeString\<lparr>Computed := True\<rparr>),
         (''policy_id'', Schema_of TypeInt\<lparr>Required := True\<rparr>),
         (''workspace_url'', Schema_of TypeString\<lparr>Computed := True, Optional := True\<rparr>),
         (''ip_address'', Schema_of TypeString\<lparr>Optional := True, Computed := True, ForceNew := True\<rparr>),
         (''netmask'', Schema_of TypeString\<lparr>Optional := True, Computed := True, ForceNew := True\<rparr>),
         (''gateway'', Schema_of TypeString\<lparr>Optional := True, Computed := True, ForceNew := True\<rparr>),
         (''network'', Schema_of TypeString\<lparr>Optional := True, Computed := True, ForceNew := True\<rparr>),
         (''subnet'', Schema_of TypeString\<lparr>Optional := True, Computed := True, ForceNew := True\<rparr>),
         (''primary_dns'', Schema_of TypeString\<lparr>Optional := True, Computed := True, ForceNew := True\<rparr>),
         (''secondary_dns'', Schema_of TypeString\<lparr>Optional := True, Computed := True, ForceNew := True\<rparr>),
         (''nic_label'', Schema_of TypeString\<lparr>Optional := True, Computed := True, ForceNew := True\<rparr>),
         (''dns_suffix'', Schema_of TypeString\<lparr>Optional := True, Computed := True\<rparr>),
         (''dns_search_suffix'', Schema_of (TypeList TypeString)\<lparr>Optional := True, Computed := True\<rparr>),
         (''template_properties'', Schema_of TypeMap\<lparr>Optional := True\<rparr>)],
      Timeouts = Some (no_timeouts
        \<lparr>Create_timeout := DefaultTimeout (5 * time_Minute),
         Delete_timeout := DefaultTimeout (5 * time_Minute)\<rparr>)\<rparr>"

definition resourceIPAMReservation_schema :: "(string \<times> attr_type) list" where
  "resourceIPAMReservation_schema = types_of (Resource.Schema resourceIPAMReservation)"

lemma resourceIPAMReservation_schema_eq:
  "resourceIPAMReservation_schema =
     [(''hostname'', TypeString), (''computed_hostname'', TypeString), (''policy_id'', TypeInt),
      (''workspace_url'', TypeString), (''ip_address'', TypeString), (''netmask'', TypeString),
      (''gateway'', TypeString), (''network'', TypeString), (''subnet'', TypeString),
      (''primary_dns'', TypeString), (''secondary_dns'', TypeString), (''nic_label'', TypeString),
      (''dns_suffix'', TypeString), (''dns_search_suffix'', TypeList TypeString),
      (''template_properties'', TypeMap)]"
  by (simp add: resourceIPAMReservation_schema_def resourceIPAMReservation_def types_of_def
      Schema_of_def)

section \<open>Facts: a run of Set calls\<close>

definition accepted :: "ResourceData \<Rightarrow> (string \<times> attr \<times> string) list \<Rightarrow> bool" where
  "accepted d kvs = list_all (\<lambda>(k, v, msg). fits_schema (rd_schema d) k v) kvs"

definition settings :: "(string \<times> attr \<times> string) list \<Rightarrow> (string \<times> attr) list" where
  "settings kvs = rev (map (\<lambda>(k, v, msg). (k, v)) kvs)"


lemma set_fields_accepted:
  "accepted d kvs \<Longrightarrow> set_fields kvs d = (Inr (), d\<lparr>rd_values := settings kvs @ rd_values d\<rparr>)"
proof (induction kvs arbitrary: d)
  case Nil
  then show ?case by (simp add: settings_def)
next
  case (Cons kv kvs)
  obtain k v msg where kv: "kv = (k, v, msg)"
    by (cases kv)
  with Cons.prems have "accepted (d\<lparr>rd_values := (k, v) # rd_values d\<rparr>) kvs"
    by (simp add: accepted_def)
  from Cons.IH [OF this] Cons.prems kv show ?case
    by (simp add: accepted_def d_Set_accepts settings_def)
qed

lemma d_Set_cases:
  obtains (refused) e where "d_Set k v d = (Some e, d)"
  | (accepted) "d_Set k v d = (None, d\<lparr>rd_values := (k, v) # rd_values d\<rparr>)"
proof (cases "fits_schema (rd_schema d) k v")
  case True
  then show thesis
    using accepted by (simp add: d_Set_accepts)
next
  case False
  then have "fst (d_Set k v d) \<noteq> None \<and> snd (d_Set k v d) = d"
    by (rule d_Set_refuses)
  then obtain e where "d_Set k v d = (Some e, d)"
    by (cases "d_Set k v d") auto
  then show thesis
    by (rule refused)
qed

lemma set_fields_values: "\<exists>vs. snd (set_fields kvs d) = d\<lparr>rd_values := vs @ rd_values d\<rparr>"
proof (induction kvs arbitrary: d)
  case Nil
  then show ?case by (auto intro: exI [of _ "[]"])
next
  case (Cons kv kvs)
  obtain k v msg where kv: "kv = (k, v, msg)"
    by (cases kv)
  show ?case
  proof (cases rule: d_Set_cases [of k v d])
    case (refused e)
    with kv show ?thesis by (auto intro: exI [of _ "[]"])
  next
    case accepted
    from Cons.IH [of "d\<lparr>rd_values := (k, v) # rd_values d\<rparr>"] obtain vs
      where "snd (set_fields kvs (d\<lparr>rd_values := (k, v) # rd_values d\<rparr>))
               = d\<lparr>rd_values := vs @ (k, v) # rd_values d\<rparr>"
      by auto
    with accepted kv have "snd (set_fields (kv # kvs) d) = d\<lparr>rd_values := (vs @ [(k, v)]) @ rd_values d\<rparr>"
      by simp
    then show ?thesis ..
  qed
qed

lemma set_fields_frame [simp]:
  "rd_schema (snd (set_fields kvs d)) = rd_schema d"
  "rd_state (snd (set_fields kvs d)) = rd_state d"
  "rd_id (snd (set_fields kvs d)) = rd_id d"
  using set_fields_values [of kvs d] by auto

lemma set_fields_not_panic [simp]: "\<not> panics (fst (set_fields kvs d))"
proof (induction kvs arbitrary: d)
  case Nil
  then show ?case by simp
next
  case (Cons kv kvs)
  obtain k v msg where kv: "kv = (k, v, msg)"
    by (cases kv)
  with Cons.IH show ?case
    by (cases rule: d_Set_cases [of k v d]) simp_all
qed

lemma set_fields_well_typed: "well_typed d \<Longrightarrow> well_typed (snd (set_fields kvs d))"
proof (induction kvs arbitrary: d)
  case Nil
  then show ?case by simp
next
  case (Cons kv kvs)
  obtain k v msg where kv: "kv = (k, v, msg)"
    by (cases kv)
  from Cons.prems have "well_typed (snd (d_Set k v d))"
    by (rule d_Set_well_typed)
  from Cons.IH [OF this] Cons.prems kv show ?case
    by (cases rule: d_Set_cases [of k v d]) simp_all
qed

section \<open>Facts: the policy id of a link\<close>

lemma split_item:
  assumes "c \<notin> set q"
  shows "split_on c (p @ c # q @ [c]) = split_on c p @ [q, []]"
  using assms split_on_append_sep [of c p "q @ [c]"]
  by (simp add: split_on_snoc_sep split_on_no_sep)

lemma policy_id_of_no_slash:
  "CHR ''/'' \<notin> set href \<Longrightarrow> policy_id_of href = Inl index_out_of_range"
  by (simp add: policy_id_of_def strings_Split_char split_on_no_sep)

lemma policy_id_of_segment:
  assumes "CHR ''/'' \<notin> set q"
  shows "policy_id_of (p @ CHR ''/'' # q @ ''/'') = Inr (Atoi_value q)"
  using assms
  by (simp add: policy_id_of_def strings_Split_char split_item nth_append)

lemma policy_id_of_no_number:
  "policy_id_of ''/api/v3/onefuse/ipamPolicies/prod/'' = Inr 0"
  using policy_id_of_segment [of "''prod''" "''/api/v3/onefuse/ipamPolicies''"]
  by (simp add: Atoi_value_examples)

lemma policy_id_of_out_of_range:
  "policy_id_of ''/api/v3/onefuse/ipamPolicies/99999999999999999999/'' = Inr MaxInt"
  using policy_id_of_segment [of "''99999999999999999999''" "''/api/v3/onefuse/ipamPolicies''"]
  by (simp add: Atoi_value_examples)

lemma policy_id_of_not_Err [simp]: "policy_id_of href \<noteq> Inl (Err e)"
  by (simp add: policy_id_of_def Let_def index_out_of_range_def split: sum.splits)

section \<open>Facts: bindIPAMReservationResource\<close>

text \<open>\<open>bound r links n\<close> is what a complete binding sets, the latest first.\<close>

definition bound :: "IPAMReservation \<Rightarrow> IPAMReservation_Links \<Rightarrow> int \<Rightarrow> (string \<times> attr) list" where
  "bound r links n =
     [(''policy_id'', AInt n), (''dns_suffix'', AString (DNSSuffix r)),
      (''nic_label'', AString (NicLabel r)), (''subnet'', AString (Subnet r)),
      (''network'', AString (Network r)), (''gateway'', AString (Gateway r)),
      (''secondary_dns'', AString (SecondaryDNS r)), (''primary_dns'', AString (PrimaryDNS r)),
      (''netmask'', AString (Netmask r)), (''ip_address'', AString (IPaddress r)),
      (''workspace_url'', AString (Href (rl_Workspace links))),
      (''computed_hostname'', AString (Hostname r))]"

lemma bindIPAMReservationResource_eq:
  assumes "rd_schema d = resourceIPAMReservation_schema" and "Links r = Some links"
    and "policy_id_of (Href (rl_Policy links)) = Inr n"
  shows "bindIPAMReservationResource d r = (Inr (), d\<lparr>rd_values := bound r links n @ rd_values d\<rparr>)"
  using assms
  by (simp add: bindIPAMReservationResource_def set_fields_accepted accepted_def settings_def fits_schema_def
      resourceIPAMReservation_schema_eq bound_def del: set_fields.simps)

lemma bindIPAMReservationResource_nil_links:
  assumes "rd_schema d = resourceIPAMReservation_schema" and "Links r = None"
  shows "bindIPAMReservationResource d r
     = (Inl nil_dereference, d\<lparr>rd_values := (''computed_hostname'', AString (Hostname r)) # rd_values d\<rparr>)"
  using assms
  by (simp add: bindIPAMReservationResource_def set_fields_accepted accepted_def settings_def fits_schema_def
      resourceIPAMReservation_schema_eq del: set_fields.simps)

lemma policy_id_of_slash:
  assumes "CHR ''/'' \<in> set href"
  shows "\<exists>n. policy_id_of href = Inr n"
proof -
  from assms have "0 < count_list href CHR ''/''"
    using count_list_0_iff [of href "CHR ''/''"] by auto
  then have "2 \<le> length (strings_Split href ''/'')"
    by (simp add: strings_Split_char length_split_on)
  then show ?thesis
    by (auto simp add: policy_id_of_def Let_def split: sum.splits)
qed

lemma bindIPAMReservationResource_no_slash:
  assumes "rd_schema d = resourceIPAMReservation_schema" and "Links r = Some links"
    and "CHR ''/'' \<notin> set (Href (rl_Policy links))"
  shows "fst (bindIPAMReservationResource d r) = Inl index_out_of_range"
  using assms
  by (simp add: bindIPAMReservationResource_def set_fields_accepted accepted_def settings_def
      fits_schema_def resourceIPAMReservation_schema_eq policy_id_of_no_slash
      del: set_fields.simps)

lemma bindIPAMReservationResource_outcome:
  assumes "rd_schema d = resourceIPAMReservation_schema"
  shows "fst (bindIPAMReservationResource d r) =
     (case Links r of
        None \<Rightarrow> Inl nil_dereference
      | Some links \<Rightarrow>
          if CHR ''/'' \<in> set (Href (rl_Policy links)) then Inr () else Inl index_out_of_range)"
proof (cases "Links r")
  case None
  with assms show ?thesis
    by (simp add: bindIPAMReservationResource_nil_links)
next
  case (Some links)
  show ?thesis
  proof (cases "CHR ''/'' \<in> set (Href (rl_Policy links))")
    case True
    from policy_id_of_slash [OF this] obtain n where "policy_id_of (Href (rl_Policy links)) = Inr n" ..
    from bindIPAMReservationResource_eq [OF assms Some this] Some True show ?thesis
      by simp
  next
    case False
    with assms Some show ?thesis
      by (simp add: bindIPAMReservationResource_no_slash)
  qed
qed

lemma set_fields_keeps:
  assumes "set_fields kvs d = (x, d')"
  shows "rd_schema d' = rd_schema d \<and> rd_state d' = rd_state d \<and> rd_id d' = rd_id d
     \<and> (well_typed d \<longrightarrow> well_typed d')"
  using set_fields_frame [of kvs d] set_fields_well_typed [of d kvs] assms by simp

lemma bindIPAMReservationResource_keeps:
  "rd_schema (snd (bindIPAMReservationResource d r)) = rd_schema d
   \<and> rd_state (snd (bindIPAMReservationResource d r)) = rd_state d
   \<and> rd_id (snd (bindIPAMReservationResource d r)) = rd_id d
   \<and> (well_typed d \<longrightarrow> well_typed (snd (bindIPAMReservationResource d r)))"
  by (auto simp add: bindIPAMReservationResource_def set_fields_well_typed simp del: set_fields.simps
      split: prod.splits sum.splits option.splits dest!: set_fields_keeps)

lemma bindIPAMReservationResource_frame [simp]:
  "rd_schema (snd (bindIPAMReservationResource d r)) = rd_schema d"
  "rd_state (snd (bindIPAMReservationResource d r)) = rd_state d"
  "rd_id (snd (bindIPAMReservationResource d r)) = rd_id d"
  using bindIPAMReservationResource_keeps [of d r] by simp_all

lemma bindIPAMReservationResource_well_typed:
  "well_typed d \<Longrightarrow> well_typed (snd (bindIPAMReservationResource d r))"
  using bindIPAMReservationResource_keeps [of d r] by simp

lemma d_Get_bound:
  assumes "rd_schema d = resourceIPAMReservation_schema"
  shows "d_Get (d\<lparr>rd_values := bound r links n @ vs\<rparr>) ''computed_hostname'' = Some (AString (Hostname r))"
    and "d_Get (d\<lparr>rd_values := bound r links n @ vs\<rparr>) ''workspace_url''
           = Some (AString (Href (rl_Workspace links)))"
    and "d_Get (d\<lparr>rd_values := bound r links n @ vs\<rparr>) ''ip_address'' = Some (AString (IPaddress r))"
    and "d_Get (d\<lparr>rd_values := bound r links n @ vs\<rparr>) ''netmask'' = Some (AString (Netmask r))"
    and "d_Get (d\<lparr>rd_values := bound r links n @ vs\<rparr>) ''primary_dns'' = Some (AString (PrimaryDNS r))"
    and "d_Get (d\<lparr>rd_values := bound r links n @ vs\<rparr>) ''secondary_dns'' = Some (AString (SecondaryDNS r))"
    and "d_Get (d\<lparr>rd_values := bound r links n @ vs\<rparr>) ''gateway'' = Some (AString (Gateway r))"
    and "d_Get (d\<lparr>rd_values := bound r links n @ vs\<rparr>) ''network'' = Some (AString (Network r))"
    and "d_Get (d\<lparr>rd_values := bound r links n @ vs\<rparr>) ''subnet'' = Some (AString (Subnet r))"
    and "d_Get (d\<lparr>rd_values := bound r links n @ vs\<rparr>) ''nic_label'' = Some (AString (NicLabel r))"
    and "d_Get (d\<lparr>rd_values := bound r links n @ vs\<rparr>) ''dns_suffix'' = Some (AString (DNSSuffix r))"
    and "d_Get (d\<lparr>rd_values := bound r links n @ vs\<rparr>) ''policy_id'' = Some (AInt n)"
  using assms
  by (simp_all add: d_Get_def resourceIPAMReservation_schema_eq bound_def)

lemma d_Get_unbound:
  "d_Get (d\<lparr>rd_values := bound r links n @ vs\<rparr>) ''hostname'' = d_Get (d\<lparr>rd_values := vs\<rparr>) ''hostname''"
  "d_Get (d\<lparr>rd_values := bound r links n @ vs\<rparr>) ''dns_search_suffix''
     = d_Get (d\<lparr>rd_values := vs\<rparr>) ''dns_search_suffix''"
  "d_Get (d\<lparr>rd_values := bound r links n @ vs\<rparr>) ''template_properties''
     = d_Get (d\<lparr>rd_values := vs\<rparr>) ''template_properties''"
  by (simp_all add: d_Get_def bound_def)

section \<open>Facts: the operations of the resource\<close>

lemma bindIPAMReservationResource_kept:
  assumes "bindIPAMReservationResource d r = (x, d')"
  shows "rd_schema d' = rd_schema d \<and> rd_state d' = rd_state d \<and> rd_id d' = rd_id d
     \<and> (well_typed d \<longrightarrow> well_typed d')"
  using bindIPAMReservationResource_keeps [of d r] assms by simp

lemma suffixes_of_ok:
  assumes "well_typed d" and "rd_schema d = resourceIPAMReservation_schema"
  shows "is_ok (suffixes_of d)"
proof -
  from assms(2) have "map_of (rd_schema d) ''dns_search_suffix'' = Some (TypeList TypeString)"
    by (simp add: resourceIPAMReservation_schema_eq)
  with assms(1) obtain v where "d_Get d ''dns_search_suffix'' = Some v"
    and "has_type v (TypeList TypeString)"
    by (rule d_Get_schema)
  then show ?thesis
    by (auto simp add: suffixes_of_def has_type_cases list_all_iff)
qed

lemma record_of_data_ok:
  assumes "well_typed d" and "rd_schema d = resourceIPAMReservation_schema"
  shows "is_ok (record_of_data d)"
  unfolding record_of_data_def
  by (intro and_then_ok as_ok [OF assms(1)])
     (simp_all add: assms(2) resourceIPAMReservation_schema_eq)

lemma record_of_data_suffix_free:
  "record_of_data (d\<lparr>rd_values := (''dns_search_suffix'', v) # rd_values d\<rparr>) = record_of_data d"
  by (simp add: record_of_data_def d_Get_def)

lemma changed_iff:
  "changed d \<longleftrightarrow>
     (\<exists>k \<in> set tracked. value_in (rd_schema d) (rd_state d) k \<noteq> value_in (rd_schema d) (rd_values d) k)"
  by (simp add: changed_def list_ex_iff d_HasChange_def)

lemma resourceIPAMReservationUpdate_unchanged:
  "\<not> changed d \<Longrightarrow> resourceIPAMReservationUpdate d m w = (Inr (), d, w)"
  by (simp add: resourceIPAMReservationUpdate_def)

lemma resourceIPAMReservationUpdate_changed:
  "changed d \<Longrightarrow> is_fail (fst (resourceIPAMReservationUpdate d m w))
     \<and> snd (resourceIPAMReservationUpdate d m w) = (d, w)"
  by (simp add: resourceIPAMReservationUpdate_def UpdateIPAMReservation_def Let_def
      split: sum.splits)

lemma resourceIPAMReservationRead_eq:
  assumes "Atoi (d_Id d) = Inr n"
  shows "resourceIPAMReservationRead d (Meta_Config config) w =
     (case GetIPAMReservation (NewAthenaApiClient config) n w of
        (Inl err, w1) \<Rightarrow> (Inl err, d, w1)
      | (Inr r, w1) \<Rightarrow>
          (fst (bindIPAMReservationResource d r), snd (bindIPAMReservationResource d r), w1))"
  using assms by (simp add: resourceIPAMReservationRead_def split: prod.splits sum.splits)

lemma resourceIPAMReservationCreate_eq:
  assumes "is_ok (suffixes_of d)" and "record_of_data d = Inr r"
  shows "resourceIPAMReservationCreate d (Meta_Config config) w =
     (case CreateIPAMReservation (NewAthenaApiClient config) r w of
        (Inl err, w1) \<Rightarrow> (Inl err, d, w1)
      | (Inr created, w1) \<Rightarrow>
          (fst (bindIPAMReservationResource (d_SetId (Itoa (ID created)) d) created),
           snd (bindIPAMReservationResource (d_SetId (Itoa (ID created)) d) created), w1))"
  using assms
  by (cases "suffixes_of d")
     (simp_all add: resourceIPAMReservationCreate_def split: prod.splits sum.splits)

lemma bad_id_no_call:
  assumes "Atoi (d_Id d) = Inl err"
  shows "resourceIPAMReservationRead d (Meta_Config config) w = (Inl (Err err), d, w)"
    and "resourceIPAMReservationDelete d (Meta_Config config) w = (Inl (Err err), d, w)"
  using assms by (simp_all add: resourceIPAMReservationRead_def resourceIPAMReservationDelete_def)

lemma other_meta_panics:
  "fst (resourceIPAMReservationRead d Meta_other w) = Inl interface_conversion"
  "fst (resourceIPAMReservationDelete d Meta_other w) = Inl interface_conversion"
  by (simp_all add: resourceIPAMReservationRead_def resourceIPAMReservationDelete_def)

lemma operations_keep_schema:
  "rd_schema (fst (snd (resourceIPAMReservationCreate d m w))) = rd_schema d"
  "rd_schema (fst (snd (resourceIPAMReservationRead d m w))) = rd_schema d"
  "rd_schema (fst (snd (resourceIPAMReservationUpdate d m w))) = rd_schema d"
  "rd_schema (fst (snd (resourceIPAMReservationDelete d m w))) = rd_schema d"
  by (auto simp add: resourceIPAMReservationCreate_def resourceIPAMReservationRead_def
      resourceIPAMReservationUpdate_def resourceIPAMReservationDelete_def Let_def
      UpdateIPAMReservation_def
      split: prod.splits sum.splits dest!: bindIPAMReservationResource_kept)

lemma operations_keep_well_typed:
  assumes "well_typed d"
  shows "well_typed (fst (snd (resourceIPAMReservationCreate d m w)))"
    and "well_typed (fst (snd (resourceIPAMReservationRead d m w)))"
    and "well_typed (fst (snd (resourceIPAMReservationUpdate d m w)))"
    and "well_typed (fst (snd (resourceIPAMReservationDelete d m w)))"
  using assms
  by (auto simp add: resourceIPAMReservationCreate_def resourceIPAMReservationRead_def
      resourceIPAMReservationUpdate_def resourceIPAMReservationDelete_def Let_def
      UpdateIPAMReservation_def
      split: prod.splits sum.splits dest!: bindIPAMReservationResource_kept)

section \<open>Facts: the declaration of the resource\<close>

text \<open>
  \<open>updateable_keys\<close> are the attributes that can change without a new
  resource; Terraform requests an update when one of them has changed
  (\<open>update_requested\<close>). \<open>computed_keys\<close> are the attributes that the provider
  may set.
\<close>

definition updateable_keys :: "string list" where
  "updateable_keys = map fst (filter (\<lambda>(k, v). updateable v) (Resource.Schema resourceIPAMReservation))"

definition computed_keys :: "string list" where
  "computed_keys = map fst (filter (\<lambda>(k, v). Computed v) (Resource.Schema resourceIPAMReservation))"

definition update_requested :: "ResourceData \<Rightarrow> bool" where
  "update_requested d = list_ex (d_HasChange d) updateable_keys"

lemma resourceIPAMReservation_valid: "Resource_InternalValidate resourceIPAMReservation"
  by (simp add: Resource_InternalValidate_def resourceIPAMReservation_def Schema_of_def
      schema_valid_def updateable_def ReservedResourceFields_def isValidFieldName_def
      lower_letters_def)

lemma resourceIPAMReservation_keys:
  "distinct (map fst (Resource.Schema resourceIPAMReservation))"
  by (simp add: resourceIPAMReservation_def)

lemma updateable_keys_eq:
  "updateable_keys =
     [''hostname'', ''policy_id'', ''workspace_url'', ''dns_suffix'', ''dns_search_suffix'',
      ''template_properties'']"
  by (simp add: updateable_keys_def resourceIPAMReservation_def Schema_of_def updateable_def)

lemma computed_keys_eq:
  "computed_keys =
     [''computed_hostname'', ''workspace_url'', ''ip_address'', ''netmask'', ''gateway'',
      ''network'', ''subnet'', ''primary_dns'', ''secondary_dns'', ''nic_label'', ''dns_suffix'',
      ''dns_search_suffix'']"
  by (simp add: computed_keys_def resourceIPAMReservation_def Schema_of_def)

lemma bound_not_computed:
  "filter (\<lambda>k. k \<notin> set computed_keys) (map fst (bound r links n)) = [''policy_id'']"
  by (simp add: computed_keys_eq bound_def)

lemma resourceIPAMReservation_timeouts:
  "Timeouts resourceIPAMReservation =
     Some (no_timeouts\<lparr>Create_timeout := Some 300000000000, Delete_timeout := Some 300000000000\<rparr>)"
  by (simp add: resourceIPAMReservation_def DefaultTimeout_def time_Minute_def)

lemma update_requested_unchanged:
  assumes "update_requested d" and "\<not> changed d"
  shows "d_HasChange d ''dns_search_suffix''"
  using assms
  by (auto simp add: update_requested_def changed_def tracked_def updateable_keys_eq)

lemma resourceIPAMReservationUpdate_not_implemented:
  assumes "changed d" and "well_typed d" and "rd_schema d = resourceIPAMReservation_schema"
    and "Atoi (d_Id d) = Inr n"
  shows "resourceIPAMReservationUpdate d (Meta_Config config) w = (Inl (Err Not_implemented), d, w)"
proof -
  from suffixes_of_ok [OF assms(2,3)] obtain xs where "suffixes_of d = Inr xs"
    by (cases "suffixes_of d") simp_all
  moreover from record_of_data_ok [OF assms(2,3)] obtain r where "record_of_data d = Inr r"
    by (cases "record_of_data d") simp_all
  ultimately show ?thesis
    using assms(1,4) by (simp add: resourceIPAMReservationUpdate_def UpdateIPAMReservation_def)
qed

section \<open>Scenarios\<close>

text \<open>
  \<open>demo_data\<close> is the configuration of a reservation before it is created; its
  attributes are those of \<open>demo_reservation\<close>. \<open>stored_data\<close> is the same after
  the creation, with the id 42. \<open>linked_reservation\<close> is the stored reservation
  as the service sends it, with its links; \<open>linked_world\<close> answers one GET with
  it.
\<close>

definition demo_data :: ResourceData where
  "demo_data =
     \<lparr>rd_schema = resourceIPAMReservation_schema, rd_state = [],
      rd_values =
        [(''hostname'', AString ''web01''), (''policy_id'', AInt 42),
         (''ip_address'', AString ''10.0.0.5''), (''gateway'', AString ''10.0.0.1''),
         (''primary_dns'', AString ''10.0.0.2''), (''network'', AString ''prod''),
         (''subnet'', AString ''10.0.0.0/24''), (''dns_suffix'', AString ''example.org''),
         (''netmask'', AString ''255.255.255.0''), (''nic_label'', AString ''eth0''),
         (''template_properties'', AMap [(''env'', JString ''prod'')]),
         (''dns_search_suffix'', AList [AString ''example.org''])],
      rd_id = []\<rparr>"

definition stored_data :: ResourceData where
  "stored_data = demo_data\<lparr>rd_state := rd_values demo_data, rd_id := ''42''\<rparr>"

definition demo_links :: IPAMReservation_Links where
  "demo_links =
     \<lparr>rl_Self = \<lparr>Href = ''/api/v3/onefuse/ipamReservations/42/'', Title = ''web01''\<rparr>,
      rl_Workspace = \<lparr>Href = ''/api/v3/onefuse/workspaces/3/'', Title = ''Default''\<rparr>,
      rl_Policy = \<lparr>Href = ''/api/v3/onefuse/ipamPolicies/42/'', Title = ''prod''\<rparr>,
      rl_JobMetadata = LinkRef_zero\<rparr>"

definition linked_reservation :: IPAMReservation where
  "linked_reservation = stored_reservation\<lparr>Links := Some demo_links\<rparr>"

definition linked_world :: world where
  "linked_world = world_with (scripted [reservation_reply linked_reservation])"

lemma demo_data_sel [simp]:
  "rd_schema demo_data = resourceIPAMReservation_schema" "rd_id demo_data = []"
  "rd_state demo_data = []" "d_Id demo_data = []"
  "rd_schema stored_data = resourceIPAMReservation_schema" "rd_id stored_data = ''42''"
  "d_Id stored_data = ''42''" "rd_values stored_data = rd_values demo_data"
  "rd_state stored_data = rd_values demo_data"
  by (simp_all add: demo_data_def stored_data_def d_Id_def)

lemma demo_data_well_typed [simp]: "well_typed demo_data" "well_typed stored_data"
  by (simp_all add: well_typed_def stored_data_def)
     (simp_all add: demo_data_def resourceIPAMReservation_schema_eq fits_schema_def)

lemma demo_data_record [simp]:
  "record_of_data demo_data = Inr demo_reservation"
  "suffixes_of demo_data = Inr [''example.org'']"
  by (simp_all add: record_of_data_def suffixes_of_def d_Get_def demo_data_def
      resourceIPAMReservation_schema_eq IPAMReservation_zero_def demo_reservation_def)

lemma stored_data_unchanged [simp]: "\<not> changed stored_data"
  by (simp add: changed_iff)

lemma linked_reservation_sel [simp]:
  "Links linked_reservation = Some demo_links"
  "fits_int (ID linked_reservation)" "fits_int (PolicyID linked_reservation)"
  "Href (rl_Policy demo_links) = ''/api/v3/onefuse/ipamPolicies'' @ ''/'' @ Itoa 42 @ ''/''"
  by (simp_all add: linked_reservation_def demo_links_def stored_reservation_def
      demo_reservation_def)

lemma create_world_binding:
  "resourceIPAMReservationCreate demo_data (Meta_Config demo_config) create_world =
     (Inl nil_dereference,
      demo_data\<lparr>rd_values := (''computed_hostname'', AString ''web01'') # rd_values demo_data,
                 rd_id := ''42''\<rparr>,
      after_GET demo_config created_url create_w5)"
  using create_world_run
  by (simp add: resourceIPAMReservationCreate_eq create_input_def
      bindIPAMReservationResource_nil_links stored_reservation_def demo_reservation_def d_SetId_def)

text \<open>
  \<open>renamed_data\<close> is the stored resource after its \<open>hostname\<close> was changed in
  the configuration.
\<close>

definition renamed_data :: ResourceData where
  "renamed_data = stored_data\<lparr>rd_values := (''hostname'', AString ''web02'') # rd_values stored_data\<rparr>"

lemma renamed_data_sel [simp]:
  "rd_schema renamed_data = resourceIPAMReservation_schema" "d_Id renamed_data = ''42''"
  "well_typed renamed_data" "changed renamed_data" "update_requested renamed_data"
  by (simp_all add: renamed_data_def d_Id_def well_typed_def fits_schema_def changed_iff
      update_requested_def updateable_keys_eq d_HasChange_def tracked_def)
     (simp_all add: demo_data_def resourceIPAMReservation_schema_eq fits_schema_def)

lemma Atoi_42 [simp]: "Atoi ''42'' = Inr 42"
  using Atoi_Itoa [of 42] by simp

section \<open>Properties of the resource binding\<close>

text \<open>
  C34. The policy id of a link. For a link of the form \<open>.../<id>/\<close>, where the
  id is the decimal text of a 64-bit integer, \<open>policy_id_of\<close> (the derivation at
  the end of \<open>bindIPAMReservationResource\<close>) yields that integer: it is the
  element before the last of the link split at slashes.
\<close>

theorem policy_id_of_item:
  assumes "fits_int n"
  shows "policy_id_of (p @ ''/'' @ Itoa n @ ''/'') = Inr n"
  using assms by (simp add: policy_id_of_segment Atoi_Itoa)

theorem policy_id_of_item_witness:
  "policy_id_of ''/api/v3/onefuse/ipamPolicies/42/'' = Inr 42"
  using policy_id_of_item [of 42 "''/api/v3/onefuse/ipamPolicies''"] by simp

text \<open>
  C33. Reading binds the reservation. When the id of the resource is the text
  of an integer, the URL of that reservation is accepted and the service
  answers the GET with a reservation whose links are present and whose policy
  link ends in \<open>/<id>/\<close>, \<open>resourceIPAMReservationRead\<close> returns nil after that
  one call, and the data are the old ones with the attributes of the
  reservation set on top: \<open>computed_hostname\<close>, \<open>workspace_url\<close> from the link to
  the workspace, the ten address attributes, and \<open>policy_id\<close> from the link to
  the policy. The attribute \<open>hostname\<close>, the id and the prior state are not
  touched.
\<close>

theorem resourceIPAMReservationRead_binds:
  assumes "rd_schema d = resourceIPAMReservation_schema" and "d_Id d = Itoa n" and "fits_int n"
    and "url_ok w (itemURL config IPAMReservationResourceType n)"
    and "GET_exchange config (itemURL config IPAMReservationResourceType n) w = reservation_reply r"
    and "fits_int (ID r)" and "fits_int (PolicyID r)"
    and "Links r = Some links" and "Href (rl_Policy links) = p @ ''/'' @ Itoa pid @ ''/''"
    and "fits_int pid"
  shows "resourceIPAMReservationRead d (Meta_Config config) w =
     (Inr (), d\<lparr>rd_values := bound r links pid @ rd_values d\<rparr>,
      after_GET config (itemURL config IPAMReservationResourceType n) w)"
proof -
  from assms(2,3) have "Atoi (d_Id d) = Inr n"
    by (simp add: Atoi_Itoa)
  moreover from assms(4-7)
  have "GetIPAMReservation (NewAthenaApiClient config) n w =
      (Inr r, after_GET config (itemURL config IPAMReservationResourceType n) w)"
    by (simp add: GetIPAMReservation_eq GET_reservation_reply NewAthenaApiClient_def)
  moreover from assms(9,10) have "policy_id_of (Href (rl_Policy links)) = Inr pid"
    by (simp add: policy_id_of_segment Atoi_Itoa)
  ultimately show ?thesis
    using assms(1,8) by (simp add: resourceIPAMReservationRead_eq bindIPAMReservationResource_eq)
qed

theorem resourceIPAMReservationRead_binds_witness:
  "resourceIPAMReservationRead stored_data (Meta_Config demo_config) linked_world =
     (Inr (), stored_data\<lparr>rd_values := bound linked_reservation demo_links 42 @ rd_values stored_data\<rparr>,
      after_GET demo_config (itemURL demo_config IPAMReservationResourceType 42) linked_world)"
  using resourceIPAMReservationRead_binds [where d = stored_data and n = 42 and w = linked_world
      and config = demo_config and r = linked_reservation and links = demo_links and pid = 42
      and p = "''/api/v3/onefuse/ipamPolicies''"]
  by (simp add: linked_world_def exchange_of_def scripted_def)

text \<open>
  An update succeeds only when nothing changed. \<open>resourceIPAMReservationUpdate\<close>
  returns nil exactly when none of the fourteen attributes it compares has
  changed; in every case it makes no call and leaves the data as they are,
  because the client's update is not implemented.
\<close>

theorem resourceIPAMReservationUpdate_only_unchanged:
  "(fst (resourceIPAMReservationUpdate d m w) = Inr ()) = (\<not> changed d)
   \<and> snd (resourceIPAMReservationUpdate d m w) = (d, w)"
proof (cases "changed d")
  case True
  from resourceIPAMReservationUpdate_changed [OF this, of m w] show ?thesis
    using True by (auto simp add: is_fail_iff_not_ok)
next
  case False
  then show ?thesis
    by (simp add: resourceIPAMReservationUpdate_unchanged)
qed

text \<open>
  The operations keep the data well typed. If every attribute that was
  set has the type its key has in the schema, the same holds of the data that
  create, read, update and delete leave, whatever the service answers.
\<close>

theorem resource_operations_well_typed:
  assumes "well_typed d"
  shows "well_typed (fst (snd (resourceIPAMReservationCreate d m w)))
     \<and> well_typed (fst (snd (resourceIPAMReservationRead d m w)))
     \<and> well_typed (fst (snd (resourceIPAMReservationUpdate d m w)))
     \<and> well_typed (fst (snd (resourceIPAMReservationDelete d m w)))"
  using operations_keep_well_typed [OF assms] by simp

theorem resource_operations_well_typed_witness:
  "well_typed (fst (snd (resourceIPAMReservationCreate stored_data (Meta_Config demo_config) linked_world)))
   \<and> well_typed (fst (snd (resourceIPAMReservationRead stored_data (Meta_Config demo_config) linked_world)))
   \<and> well_typed (fst (snd (resourceIPAMReservationUpdate stored_data (Meta_Config demo_config) linked_world)))
   \<and> well_typed (fst (snd (resourceIPAMReservationDelete stored_data (Meta_Config demo_config) linked_world)))"
  using resource_operations_well_typed [of stored_data "Meta_Config demo_config" linked_world]
  by simp

text \<open>
  C37. The type assertions hold on well-typed data. On data of the schema of
  the resource that are well typed, the loop over \<open>dns_search_suffix\<close> and the
  thirteen type assertions that build the reservation in create and update
  do not panic.
\<close>

theorem well_typed_assertions_hold:
  assumes "well_typed d" and "rd_schema d = resourceIPAMReservation_schema"
  shows "is_ok (suffixes_of d) \<and> is_ok (record_of_data d)"
  using assms by (simp add: suffixes_of_ok record_of_data_ok)

theorem well_typed_assertions_hold_witness:
  "is_ok (suffixes_of demo_data) \<and> is_ok (record_of_data demo_data)"
  using well_typed_assertions_hold [of demo_data] by simp

text \<open>
  C38. Create sets the id before it binds. When the client returns the created
  reservation, the id of the resource is the decimal text of the
  reservation's id and the world is the one the client left, also when the
  binding that follows fails. In the example the service sends the created
  reservation without \<open>_links\<close>: the reservation exists, the id is 42, and the
  binding dereferences the missing links.
\<close>

theorem resourceIPAMReservationCreate_sets_id:
  assumes "is_ok (suffixes_of d)" and "record_of_data d = Inr r"
    and "CreateIPAMReservation (NewAthenaApiClient config) r w = (Inr created, w')"
  shows "d_Id (fst (snd (resourceIPAMReservationCreate d (Meta_Config config) w))) = Itoa (ID created)
     \<and> snd (snd (resourceIPAMReservationCreate d (Meta_Config config) w)) = w'"
  using assms by (simp add: resourceIPAMReservationCreate_eq d_Id_def d_SetId_def)

theorem resourceIPAMReservationCreate_sets_id_witness:
  "d_Id (fst (snd (resourceIPAMReservationCreate demo_data (Meta_Config demo_config) create_world))) = ''42''
   \<and> snd (snd (resourceIPAMReservationCreate demo_data (Meta_Config demo_config) create_world))
       = after_GET demo_config created_url create_w5
   \<and> fst (resourceIPAMReservationCreate demo_data (Meta_Config demo_config) create_world)
       = Inl nil_dereference"
  using resourceIPAMReservationCreate_sets_id [where d = demo_data and r = demo_reservation
      and config = demo_config and w = create_world and created = stored_reservation
      and w' = "after_GET demo_config created_url create_w5"]
    create_world_run create_world_binding
  by (simp add: create_input_def stored_reservation_def)

text \<open>
  C35. What binding returns. On data of the schema of the resource,
  \<open>bindIPAMReservationResource\<close> never returns an error: every attribute it sets
  is declared with the type of the value, so the twelve error branches after
  the calls of \<open>Set\<close> are not reached. It returns nil when the reservation has
  links and the link to the policy contains a slash, and panics otherwise: a
  nil dereference without links, an index out of range without a slash.
\<close>

theorem bindIPAMReservationResource_outcomes:
  assumes "rd_schema d = resourceIPAMReservation_schema"
  shows "fst (bindIPAMReservationResource d r) =
     (case Links r of
        None \<Rightarrow> Inl nil_dereference
      | Some links \<Rightarrow>
          if CHR ''/'' \<in> set (Href (rl_Policy links)) then Inr () else Inl index_out_of_range)"
  using assms by (rule bindIPAMReservationResource_outcome)

theorem bindIPAMReservationResource_outcomes_witness:
  "fst (bindIPAMReservationResource stored_data linked_reservation) = Inr ()
   \<and> fst (bindIPAMReservationResource stored_data stored_reservation) = Inl nil_dereference"
  using bindIPAMReservationResource_outcomes [of stored_data linked_reservation]
    bindIPAMReservationResource_outcomes [of stored_data stored_reservation]
  by (simp add: demo_links_def stored_reservation_def demo_reservation_def)

text \<open>
  C36. The updates that Terraform requests. An update is requested when an
  attribute that does not force a new resource has changed: \<open>hostname\<close>,
  \<open>policy_id\<close>, \<open>workspace_url\<close>, \<open>dns_suffix\<close>, \<open>dns_search_suffix\<close> or
  \<open>template_properties\<close>. On well-typed data with a numeric id, every such
  update fails with the error \<open>Not implemented yet\<close>, except the one that
  changes \<open>dns_search_suffix\<close> alone: the operation does not compare that
  attribute and reports the update as done.
\<close>

theorem requested_update_outcome:
  assumes "update_requested d" and "well_typed d"
    and "rd_schema d = resourceIPAMReservation_schema" and "Atoi (d_Id d) = Inr n"
  shows "fst (resourceIPAMReservationUpdate d (Meta_Config config) w)
           = (if changed d then Inl (Err Not_implemented) else Inr ())
     \<and> (changed d \<or> d_HasChange d ''dns_search_suffix'')"
  using assms update_requested_unchanged [of d]
  by (auto simp add: resourceIPAMReservationUpdate_not_implemented
      resourceIPAMReservationUpdate_unchanged)

theorem requested_update_outcome_witness:
  "fst (resourceIPAMReservationUpdate renamed_data (Meta_Config demo_config) unreachable)
     = Inl (Err Not_implemented)"
  using requested_update_outcome [of renamed_data 42 demo_config unreachable] by simp

end
