(* ===== verification/Provider.thy ===== *)
theory Provider
  imports Binding
begin

text \<open>
  The provider of \<open>src/api_client.go\<close> (\<open>provider.go\<close>): the declaration
  \<open>Provider\<close> with the six attributes of its configuration, their defaults
  from the environment, the resource and the data source it registers, and
  \<open>configureProvider\<close>, which builds the configuration that every operation
  of the resource receives as its meta value. The data source
  \<open>athena_ipam_policy\<close> is registered by name; its declaration is not in the
  sources. \<open>serve\<close> is the plugin at work: a request of Terraform is answered
  by the operation that the declarations name for it.
\<close>

section \<open>configureProvider\<close>

definition configureProvider :: "ResourceData \<Rightarrow> meta result" where
  "configureProvider d =
     and_then (as_string (d_Get d ''scheme'')) (\<lambda>scheme'.
     and_then (as_string (d_Get d ''address'')) (\<lambda>address'.
     and_then (as_string (d_Get d ''port'')) (\<lambda>port'.
     and_then (as_string (d_Get d ''user'')) (\<lambda>user'.
     and_then (as_string (d_Get d ''password'')) (\<lambda>password'.
     and_then (as_bool (d_Get d ''verify_ssl'')) (\<lambda>verify_ssl.
       Inr (Meta_Config (NewConfig scheme' address' port' user' password' verify_ssl))))))))"

section \<open>The declaration of the provider\<close>

definition Provider :: Provider where
  "Provider =
     \<lparr>Schema =
        [(''scheme'', Schema_of TypeString
            \<lparr>Optional := True,
             DefaultFunc := Some (EnvDefaultFunc ''ATHENA_SCHEME'' (Some (AString ''https''))),
             Description := ''ATHENA REST endpoint service http(s) scheme''\<rparr>),
         (''address'', Schema_of TypeString
            \<lparr>Required := True,
             DefaultFunc := Some (EnvDefaultFunc ''ATHENA_ADDRESS'' None),
             Description := ''ATHENA REST endpoint service host address''\<rparr>),
         (''port'', Schema_of TypeString
            \<lparr>Required := True,
             DefaultFunc := Some (EnvDefaultFunc ''ATHENA_PORT'' None),
             Description := ''ATHENA REST endpoint service port number''\<rparr>),
         (''user'', Schema_of TypeString
            \<lparr>Required := True,
             DefaultFunc := Some (EnvDefaultFunc ''ATHENA_USER'' None),
             Description := ''ATHENA REST endpoint user name''\<rparr>),
         (''password'', Schema_of TypeString
            \<lparr>Required := True, Sensitive := True,
             DefaultFunc := Some (EnvDefaultFunc ''ATHENA_PASSWORD'' None),
             Description := ''ATHENA REST endpoint password''\<rparr>),
         (''verify_ssl'', Schema_of TypeBool
            \<lparr>Optional := True,
             DefaultFunc := Some (EnvDefaultFunc ''ATHENA_VERIFY_SSL'' (Some (ABool True))),
             Description := ''Verify SSL certificates for ATHENA endpoints''\<rparr>)],
      ResourcesMap = [(''athena_ipam_record'', resourceIPAMReservation)],
      DataSourcesMap = [''athena_ipam_policy''],
      ConfigureFunc = Some configureProvider\<rparr>"

definition provider_schema :: "(string \<times> attr_type) list" where
  "provider_schema = types_of (Provider.Schema Provider)"

text \<open>
  \<open>provider_meta env cfg\<close> is what the SDK hands to the operations of the
  resource for a configuration \<open>cfg\<close> in the environment \<open>env\<close>: the
  configuration is read against the schema, and the function that the
  provider names configures it.
\<close>

definition provider_meta :: "environ \<Rightarrow> (string \<times> attr) list \<Rightarrow> meta result" where
  "provider_meta env cfg =
     (case configured (Provider.Schema Provider) env cfg of
        Inl err \<Rightarrow> Inl (Err err)
      | Inr d \<Rightarrow> (case ConfigureFunc Provider of None \<Rightarrow> Inr Meta_other | Some f \<Rightarrow> f d))"

section \<open>Serving the requests of Terraform\<close>

text \<open>
  What the plugin that \<open>main\<close> serves does with a request for a resource: the
  provider is configured, the resource is looked up by its name in
  \<open>ResourcesMap\<close>, and the operation that its declaration names for the request
  is called with the data and the configuration.
\<close>

definition serve ::
  "environ \<Rightarrow> (string \<times> attr) list \<Rightarrow> string \<Rightarrow> request \<Rightarrow> ResourceData \<Rightarrow> world
     \<Rightarrow> unit result \<times> ResourceData \<times> world"
where
  "serve env cfg name rq d w =
     (case provider_meta env cfg of
        Inl f \<Rightarrow> (Inl f, d, w)
      | Inr m \<Rightarrow>
          (case map_of (ResourcesMap Provider) name of
             None \<Rightarrow> (Inl (Err (Unknown_resource name)), d, w)
           | Some res \<Rightarrow>
               (case operation_of res rq of
                  None \<Rightarrow> (Inl (Err Not_supported), d, w)
                | Some f \<Rightarrow> f d m w)))"

section \<open>Facts: configureProvider\<close>

lemma provider_schema_eq:
  "provider_schema =
     [(''scheme'', TypeString), (''address'', TypeString), (''port'', TypeString),
      (''user'', TypeString), (''password'', TypeString), (''verify_ssl'', TypeBool)]"
  by (simp add: provider_schema_def Provider_def types_of_def Schema_of_def)

lemma Provider_keys [simp]:
  "map fst (Provider.Schema Provider)
     = [''scheme'', ''address'', ''port'', ''user'', ''password'', ''verify_ssl'']"
  by (simp add: Provider_def)

lemma Provider_sel [simp]:
  "ConfigureFunc Provider = Some configureProvider"
  "ResourcesMap Provider = [(''athena_ipam_record'', resourceIPAMReservation)]"
  by (simp_all add: Provider_def)

lemma configureProvider_ok:
  assumes "well_typed d" and "rd_schema d = provider_schema"
  shows "is_ok (configureProvider d)"
  unfolding configureProvider_def
  by (intro and_then_ok as_ok [OF assms(1)] as_bool_ok [OF assms(1)])
     (simp_all add: assms(2) provider_schema_eq)

lemma configureProvider_eq:
  assumes "rd_schema d = provider_schema"
    and "rd_values d = [(''scheme'', AString s), (''address'', AString a), (''port'', AString p),
           (''user'', AString u), (''password'', AString pw), (''verify_ssl'', ABool v)]"
  shows "configureProvider d = Inr (Meta_Config (NewConfig s a p u pw v))"
  using assms by (simp add: configureProvider_def d_Get_def provider_schema_eq as_bool_def)

lemma provider_meta_eq:
  "provider_meta env cfg =
     (case configured (Provider.Schema Provider) env cfg of
        Inl err \<Rightarrow> Inl (Err err)
      | Inr d \<Rightarrow> configureProvider d)"
  by (simp add: provider_meta_def split: sum.splits)

lemmas read_defs = raw_value_def EnvDefaultFunc_def weak_string_def stringToPrimitive_def
  configured_def Schema_of_def types_of_def

lemma configured_from_environment:
  assumes "env ''ATHENA_ADDRESS'' \<noteq> []" and "env ''ATHENA_PORT'' \<noteq> []"
    and "env ''ATHENA_USER'' \<noteq> []" and "env ''ATHENA_PASSWORD'' \<noteq> []"
    and "ParseBool (if env ''ATHENA_VERIFY_SSL'' = [] then ''1'' else env ''ATHENA_VERIFY_SSL'') = Inr verify"
  shows "configured (Provider.Schema Provider) env [] =
     Inr \<lparr>rd_schema = provider_schema, rd_state = [],
          rd_values =
            [(''scheme'', AString (if env ''ATHENA_SCHEME'' = [] then ''https'' else env ''ATHENA_SCHEME'')),
             (''address'', AString (env ''ATHENA_ADDRESS'')), (''port'', AString (env ''ATHENA_PORT'')),
             (''user'', AString (env ''ATHENA_USER'')), (''password'', AString (env ''ATHENA_PASSWORD'')),
             (''verify_ssl'', ABool verify)],
          rd_id = []\<rparr>"
  using assms by (auto simp add: Provider_def provider_schema_def read_defs split: if_splits)

lemma provider_meta_without_address:
  assumes "map_of cfg ''scheme'' = None" and "map_of cfg ''address'' = None"
    and "env ''ATHENA_ADDRESS'' = []"
  shows "provider_meta env cfg = Inl (Err (Required_not_set ''address''))"
  using assms by (simp add: provider_meta_eq Provider_def read_defs map_sum_def)

section \<open>Facts: serving requests\<close>

lemma provider_meta_Config:
  assumes "provider_meta env cfg = Inr m"
  obtains config where "m = Meta_Config config"
  using assms
  by (auto simp add: provider_meta_eq configureProvider_def and_then_def split: sum.splits)

lemma operation_of_resource:
  "operation_of resourceIPAMReservation rq =
     Some (case rq of
        Create_request \<Rightarrow> resourceIPAMReservationCreate
      | Read_request \<Rightarrow> resourceIPAMReservationRead
      | Update_request \<Rightarrow> resourceIPAMReservationUpdate
      | Delete_request \<Rightarrow> resourceIPAMReservationDelete)"
  by (simp add: operation_of_def resourceIPAMReservation_def split: request.splits)

lemma serve_cases [case_names refused unknown create read update delete]:
  obtains (refused) f where "provider_meta env cfg = Inl f" and "serve env cfg name rq d w = (Inl f, d, w)"
  | (unknown) "name \<noteq> ''athena_ipam_record''"
      and "serve env cfg name rq d w = (Inl (Err (Unknown_resource name)), d, w)"
  | (create) config where "rq = Create_request"
      and "serve env cfg name rq d w = resourceIPAMReservationCreate d (Meta_Config config) w"
  | (read) config where "rq = Read_request"
      and "serve env cfg name rq d w = resourceIPAMReservationRead d (Meta_Config config) w"
  | (update) config where "rq = Update_request"
      and "serve env cfg name rq d w = resourceIPAMReservationUpdate d (Meta_Config config) w"
  | (delete) config where "rq = Delete_request"
      and "serve env cfg name rq d w = resourceIPAMReservationDelete d (Meta_Config config) w"
proof (cases "provider_meta env cfg")
  case (Inl f)
  then show thesis
    by (intro refused [of f]) (simp_all add: serve_def)
next
  case (Inr m)
  then obtain config where m: "m = Meta_Config config"
    by (rule provider_meta_Config)
  show thesis
  proof (cases "name = ''athena_ipam_record''")
    case False
    with Inr show thesis
      by (intro unknown) (simp_all add: serve_def)
  next
    case True
    with Inr m show thesis
      by (cases rq)
         (auto simp add: serve_def operation_of_resource
           intro: create [of config] read [of config] update [of config] delete [of config])
  qed
qed

lemma serve_well_typed:
  assumes "well_typed d"
  shows "well_typed (fst (snd (serve env cfg name rq d w)))"
  by (cases env cfg name rq d w rule: serve_cases)
     (simp_all add: assms operations_keep_well_typed [OF assms])

lemma serve_schema: "rd_schema (fst (snd (serve env cfg name rq d w))) = rd_schema d"
  by (cases env cfg name rq d w rule: serve_cases) (simp_all add: operations_keep_schema)

definition demo_env :: environ where
  "demo_env =
     (\<lambda>k. if k = ''ATHENA_ADDRESS'' then ''athena.example.org''
          else if k = ''ATHENA_PORT'' then ''8443''
          else if k = ''ATHENA_USER'' then ''admin''
          else if k = ''ATHENA_PASSWORD'' then ''secret'' else [])"

section \<open>Properties of the provider\<close>

text \<open>
  C39. The configuration from the environment. When the configuration of the
  provider gives no attribute and the environment sets \<open>ATHENA_ADDRESS\<close>,
  \<open>ATHENA_PORT\<close>, \<open>ATHENA_USER\<close> and \<open>ATHENA_PASSWORD\<close>, the operations of the
  resource receive the configuration built from these four, with the scheme
  of \<open>ATHENA_SCHEME\<close> or \<open>https\<close> when that is not set, and with the
  verification of certificates as \<open>ATHENA_VERIFY_SSL\<close> says, or on when that is
  not set.
\<close>

theorem provider_meta_from_environment:
  assumes "env ''ATHENA_ADDRESS'' \<noteq> []" and "env ''ATHENA_PORT'' \<noteq> []"
    and "env ''ATHENA_USER'' \<noteq> []" and "env ''ATHENA_PASSWORD'' \<noteq> []"
    and "ParseBool (if env ''ATHENA_VERIFY_SSL'' = [] then ''1'' else env ''ATHENA_VERIFY_SSL'') = Inr verify"
  shows "provider_meta env [] =
     Inr (Meta_Config (NewConfig
       (if env ''ATHENA_SCHEME'' = [] then ''https'' else env ''ATHENA_SCHEME'')
       (env ''ATHENA_ADDRESS'') (env ''ATHENA_PORT'') (env ''ATHENA_USER'') (env ''ATHENA_PASSWORD'')
       verify))"
  by (simp add: provider_meta_eq configured_from_environment [OF assms] configureProvider_eq)

theorem provider_meta_from_environment_witness:
  "provider_meta demo_env [] = Inr (Meta_Config demo_config)"
  using provider_meta_from_environment [of demo_env True]
  by (simp add: demo_env_def demo_config_def ParseBool_def)

text \<open>
  C40. Configuring the provider does not panic. Whatever the configuration and
  the environment hold, the SDK either refuses the configuration with an
  error or \<open>configureProvider\<close> returns a configuration: its six type
  assertions hold on the data that the SDK reads against the schema that
  \<open>Provider\<close> declares.
\<close>

theorem provider_meta_total:
  "\<not> panics (provider_meta env cfg)
   \<and> (is_ok (provider_meta env cfg) \<longleftrightarrow> is_ok (configured (Provider.Schema Provider) env cfg))"
proof (cases "configured (Provider.Schema Provider) env cfg")
  case (Inl err)
  then show ?thesis
    by (simp add: provider_meta_eq)
next
  case (Inr d)
  from configured_well_typed [OF Inr] have "is_ok (configureProvider d)"
    by (intro configureProvider_ok) (simp_all add: provider_schema_def)
  with Inr show ?thesis
    by (cases "configureProvider d") (simp_all add: provider_meta_eq)
qed

end
