(* ===== verification/Protocol.thy ===== *)
theory Protocol
  imports JobEngine "HOL-Library.Product_Order"
begin

text \<open>
  The poll loop of \<open>waitForJob\<close> once more, as a transition system: one
  transition is one evaluation of the loop's guard together with the turn of
  the body that follows it. The function \<open>waitForJob_loop\<close> of \<open>JobEngine\<close> and
  the transitions are two readings of the same lines of \<open>src/api_client.go\<close>;
  this theory shows that they agree, proves the invariants of the reachable
  states by induction over the transitions, and relates the loop to the state
  machine of the job protocol (\<open>Polling\<close>, then \<open>Succeeded\<close>, \<open>Failed\<close> or
  \<open>TimedOut\<close>, or the protocol is aborted by an error of the transport): every
  transition of the loop is a transition of that machine or leaves its phase
  unchanged. The last part is termination: the transitions are well-founded,
  and 721 steps of the successor function end every run.
\<close>

section \<open>The loop as a transition system\<close>

text \<open>
  A state of the loop holds the loop variables \<open>jobStatusDescription\<close> and
  \<open>jobStatus\<close> and the world, or what the function has returned.
\<close>

datatype run =
  Looping string "JobStatus option" world
| Returned "JobStatus option result" world

inductive turn :: "Config \<Rightarrow> int \<Rightarrow> int \<Rightarrow> run \<Rightarrow> run \<Rightarrow> bool"
  for config :: Config and jobID :: int and startTime :: int
where
  leave:
    "jobStatusDescription = JobSuccess \<or> jobStatusDescription = JobFailed
     \<Longrightarrow> turn config jobID startTime (Looping jobStatusDescription jobStatus w)
           (Returned (Inr jobStatus) w)"
| fail:
    "jobStatusDescription \<noteq> JobSuccess \<Longrightarrow> jobStatusDescription \<noteq> JobFailed
     \<Longrightarrow> GetJobStatus jobID config w = (Inl err, w1)
     \<Longrightarrow> turn config jobID startTime (Looping jobStatusDescription jobStatus w)
           (Returned (Inl err) w1)"
| expire:
    "jobStatusDescription \<noteq> JobSuccess \<Longrightarrow> jobStatusDescription \<noteq> JobFailed
     \<Longrightarrow> GetJobStatus jobID config w = (Inr js, w1)
     \<Longrightarrow> w2 = time_Sleep (Duration_ms PollingIntervalMS) w1
     \<Longrightarrow> time_Since startTime w2 > Duration_ms PollingTimeoutMS
     \<Longrightarrow> turn config jobID startTime (Looping jobStatusDescription jobStatus w)
           (Returned (Inl (Err timed_out)) w2)"
| again:
    "jobStatusDescription \<noteq> JobSuccess \<Longrightarrow> jobStatusDescription \<noteq> JobFailed
     \<Longrightarrow> GetJobStatus jobID config w = (Inr js, w1)
     \<Longrightarrow> w2 = time_Sleep (Duration_ms PollingIntervalMS) w1
     \<Longrightarrow> \<not> time_Since startTime w2 > Duration_ms PollingTimeoutMS
     \<Longrightarrow> turn config jobID startTime (Looping jobStatusDescription jobStatus w)
           (Looping (JobState js) (Some js) w2)"

code_pred turn .

inductive_cases turn_LoopingE: "turn config n start (Looping d p w) c"
inductive_cases turn_ReturnedE [elim!]: "turn config n start (Returned r w) c"

text \<open>
  \<open>advance\<close> computes the one successor of a state of the loop; \<open>reach\<close> are the
  states that a call of \<open>waitForJob\<close> in the world \<open>w\<close> goes through.
\<close>

fun settle :: "JobStatus result \<times> world \<Rightarrow> run" where
  "settle (Inl err, w) = Returned (Inl err) w"
| "settle (Inr js, w) = Looping (JobState js) (Some js) w"

fun advance :: "Config \<Rightarrow> int \<Rightarrow> int \<Rightarrow> run \<Rightarrow> run" where
  "advance config n start (Looping d p w) =
     (if terminal d then Returned (Inr p) w else settle (poll_turn config n start w))"
| "advance config n start (Returned r w) = Returned r w"

definition reach :: "Config \<Rightarrow> int \<Rightarrow> world \<Rightarrow> run \<Rightarrow> bool" where
  "reach config n w c = (turn config n (time_Now w))\<^sup>*\<^sup>* (Looping [] None w) c"

section \<open>The protocol\<close>

text \<open>
  The state machine of a job after its submission, with the number of status
  fetches made so far. A job is polled until it has succeeded or failed or
  the budget is spent; an error of the transport aborts the protocol, with or
  without a call made. A fetch that finds the job pending or ended is
  followed by the pause of five seconds and has to end within the hour, so it
  is one of the first 720; the fetch that runs out of time is one of the
  first 721. No phase but \<open>Polling\<close> has a successor.
\<close>

datatype phase = Polling | Succeeded | Failed | TimedOut | Aborted

inductive protocol :: "phase \<times> nat \<Rightarrow> phase \<times> nat \<Rightarrow> bool" where
  pending: "k < 720 \<Longrightarrow> protocol (Polling, k) (Polling, Suc k)"
| succeeds: "k < 720 \<Longrightarrow> protocol (Polling, k) (Succeeded, Suc k)"
| fails: "k < 720 \<Longrightarrow> protocol (Polling, k) (Failed, Suc k)"
| expires: "k \<le> 720 \<Longrightarrow> protocol (Polling, k) (TimedOut, Suc k)"
| aborts: "k \<le> 720 \<Longrightarrow> k' = k \<or> k' = Suc k \<Longrightarrow> protocol (Polling, k) (Aborted, k')"

code_pred protocol .

inductive_simps protocol_simps:
  "protocol (Polling, k) (Polling, k')" "protocol (Polling, k) (Succeeded, k')"
  "protocol (Polling, k) (Failed, k')" "protocol (Polling, k) (TimedOut, k')"
  "protocol (Polling, k) (Aborted, k')"

inductive_cases protocol_finalE [elim!]:
  "protocol (Succeeded, k) s" "protocol (Failed, k) s" "protocol (TimedOut, k) s"
  "protocol (Aborted, k) s"

text \<open>
  The phases are ordered by progress: \<open>Polling\<close> is below every phase, and the
  four final phases are above nothing but themselves. States of the protocol
  are ordered by phase and count.
\<close>

instantiation phase :: order
begin

definition less_eq_phase :: "phase \<Rightarrow> phase \<Rightarrow> bool" where
  "less_eq_phase q q' \<longleftrightarrow> q = Polling \<or> q = q'"

definition less_phase :: "phase \<Rightarrow> phase \<Rightarrow> bool" where
  "less_phase q q' \<longleftrightarrow> q = Polling \<and> q' \<noteq> Polling"

instance
  by standard (auto simp add: less_eq_phase_def less_phase_def)

end

definition phase_of_state :: "string \<Rightarrow> phase" where
  "phase_of_state d = (if d = JobSuccess then Succeeded else if d = JobFailed then Failed else Polling)"

fun phase_of :: "run \<Rightarrow> phase" where
  "phase_of (Looping d p w) = phase_of_state d"
| "phase_of (Returned (Inr None) w) = Polling"
| "phase_of (Returned (Inr (Some js)) w) = phase_of_state (JobState js)"
| "phase_of (Returned (Inl f) w) = (if f = Err timed_out then TimedOut else Aborted)"

text \<open>
  The loop variables are coherent when the description is the state of the
  status held, or nothing was fetched yet; a returned status is terminal.
\<close>

fun coherent :: "run \<Rightarrow> bool" where
  "coherent (Looping d p w) = (case p of None \<Rightarrow> d = [] | Some js \<Rightarrow> d = JobState js)"
| "coherent (Returned (Inr p) w) = (case p of None \<Rightarrow> False | Some js \<Rightarrow> terminal (JobState js))"
| "coherent (Returned (Inl f) w) = True"

fun world_of :: "run \<Rightarrow> world" where
  "world_of (Looping d p w) = w"
| "world_of (Returned r w) = w"

fun_cases coherent_ReturnedE: "coherent (Returned (Inr p) w)"

definition abstraction :: "world \<Rightarrow> run \<Rightarrow> phase \<times> nat" where
  "abstraction w c = (phase_of c, length (new_calls w (world_of c)))"

definition on_schedule :: "world \<Rightarrow> run \<Rightarrow> bool" where
  "on_schedule w c \<longleftrightarrow>
     coherent c \<and> prefix (calls w) (calls (world_of c)) \<and>
     (case c of
        Looping d p w' \<Rightarrow>
          5000000000 * int (length (new_calls w w')) \<le> clock w' - clock w \<and>
          clock w' - clock w \<le> 3600000000000
      | Returned r w' \<Rightarrow> True)"

section \<open>Facts: one transition\<close>

lemma settle_poll_turn:
  "settle (poll_turn config n start w) =
     (case GetJobStatus n config w of
        (Inl err, w1) \<Rightarrow> Returned (Inl err) w1
      | (Inr js, w1) \<Rightarrow>
          if time_Since start (time_Sleep PollingInterval w1) > PollingTimeout
          then Returned (Inl (Err timed_out)) (time_Sleep PollingInterval w1)
          else Looping (JobState js) (Some js) (time_Sleep PollingInterval w1))"
  by (simp add: poll_turn_def Let_def split: prod.splits sum.splits)

lemma turn_iff_advance:
  "turn config n start (Looping d p w) c \<longleftrightarrow> c = advance config n start (Looping d p w)"
proof
  assume "turn config n start (Looping d p w) c"
  then show "c = advance config n start (Looping d p w)"
    by (rule turn_LoopingE) (simp_all add: terminal_def settle_poll_turn)
next
  assume c: "c = advance config n start (Looping d p w)"
  obtain x w1 where g: "GetJobStatus n config w = (x, w1)"
    by (cases "GetJobStatus n config w")
  show "turn config n start (Looping d p w) c"
  proof (cases "terminal d")
    case True
    with c show ?thesis
      by (simp add: terminal_def) (rule leave, simp)
  next
    case False
    then have d: "d \<noteq> JobSuccess" "d \<noteq> JobFailed"
      by (simp_all add: terminal_def)
    from c False g show ?thesis
      by (cases x)
         (auto simp add: settle_poll_turn simp del: PollingInterval_eq PollingTimeout_eq
           intro: fail [OF d] expire [OF d] again [OF d])
  qed
qed

lemma turn_deterministic:
  assumes "turn config n start c c'" and "turn config n start c c''"
  shows "c'' = c'"
  using assms by (cases c) (simp_all add: turn_iff_advance, blast)

lemma turn_cases [consumes 1, case_names leave fail expire again]:
  assumes "turn config n start c c'"
  obtains
    (leave) d p w where "c = Looping d p w" and "terminal d" and "c' = Returned (Inr p) w"
  | (fail) d p w f w' where "c = Looping d p w" and "\<not> terminal d" and "c' = Returned (Inl f) w'"
      and "f \<noteq> Err timed_out" and "calls w' = calls w \<or> calls w' = calls w @ [poll_call config n w]"
  | (expire) d p w where "c = Looping d p w" and "\<not> terminal d"
      and "c' = Returned (Inl (Err timed_out)) (after_poll config n w)"
      and "3600000000000 < clock (after_poll config n w) - start"
  | (again) d p w js where "c = Looping d p w" and "\<not> terminal d"
      and "c' = Looping (JobState js) (Some js) (after_poll config n w)"
      and "clock (after_poll config n w) - start \<le> 3600000000000"
      and "poll_reply config n w = Inr js"
proof (cases c)
  case (Returned r w)
  with assms show thesis by blast
next
  case (Looping d p w)
  with assms have c': "c' = advance config n start (Looping d p w)"
    by (simp add: turn_iff_advance)
  obtain x w1 where t: "poll_turn config n start w = (x, w1)"
    by (cases "poll_turn config n start w")
  show thesis
  proof (cases "terminal d")
    case True
    with c' Looping show thesis by (simp add: leave)
  next
    case False
    show thesis
    proof (cases x)
      case (Inr js)
      from poll_turn_Inr [OF t [unfolded Inr]] c' t Inr False Looping show thesis
        by (simp add: again)
    next
      case (Inl f)
      show thesis
      proof (cases "f = Err timed_out")
        case True
        from poll_turn_timed_out [OF t [unfolded Inl True]] c' t Inl True False Looping
        show thesis by (auto intro: expire)
      next
        case no: False
        from poll_turn_Inl_calls [OF t [unfolded Inl]] c' t Inl no False Looping
        show thesis by (simp add: fail)
      qed
    qed
  qed
qed

section \<open>Facts: the function and the transitions agree\<close>

lemma Returned_final:
  "(turn config n start)\<^sup>*\<^sup>* (Returned r w) c \<Longrightarrow> c = Returned r w"
  by (erule converse_rtranclpE) auto

lemma loop_runs:
  "(turn config n start)\<^sup>*\<^sup>* (Looping d p w)
     (Returned (fst (waitForJob_loop config n start d p w)) (snd (waitForJob_loop config n start d p w)))"
proof (induction config n start d p w rule: waitForJob_loop_induct)
  case (leave config n start d p w)
  then have "turn config n start (Looping d p w) (Returned (Inr p) w)"
    by (simp add: turn_iff_advance)
  with leave show ?case
    by (simp add: waitForJob_loop_done)
next
  case (turn config n start d p w)
  obtain x w1 where t: "poll_turn config n start w = (x, w1)"
    by (cases "poll_turn config n start w")
  with turn.hyps have s: "turn config n start (Looping d p w) (settle (x, w1))"
    by (simp add: turn_iff_advance)
  show ?case
  proof (cases x)
    case (Inl f)
    with s t turn.hyps show ?thesis
      by (simp add: waitForJob_loop_turn)
  next
    case (Inr js)
    from turn.IH [OF t [unfolded Inr]] s t Inr turn.hyps show ?thesis
      by (simp add: waitForJob_loop_turn converse_rtranclp_into_rtranclp)
  qed
qed

lemma final_unique:
  assumes "(turn config n start)\<^sup>*\<^sup>* c (Returned r w')"
    and "(turn config n start)\<^sup>*\<^sup>* c (Returned r2 w2)"
  shows "r2 = r \<and> w2 = w'"
  using assms
proof (induction rule: converse_rtranclp_induct)
  case base
  from Returned_final [OF base] show ?case by simp
next
  case (step c y)
  from step.prems show ?case
  proof (cases rule: converse_rtranclpE)
    case base
    with step.hyps(1) show ?thesis by auto
  next
    case (step z)
    with turn_deterministic [OF step.hyps(1) step(1)] step.IH show ?thesis
      by simp
  qed
qed

lemma turns_agree:
  "(turn config n start)\<^sup>*\<^sup>* (Looping d p w) (Returned r w')
     \<longleftrightarrow> waitForJob_loop config n start d p w = (r, w')"
  using final_unique [OF loop_runs, of config n start d p w r w'] loop_runs [of config n start d p w]
  by (auto simp add: prod_eq_iff)

section \<open>Facts: the reachable states\<close>

lemma on_schedule_start: "on_schedule w (Looping [] None w)"
  by (simp add: on_schedule_def new_calls_def)

lemma new_calls_prefix:
  "prefix (calls w) (calls w') \<Longrightarrow> calls w' = calls w @ new_calls w w'"
  by (auto simp add: prefix_def new_calls_def)

lemma new_calls_after_poll:
  "prefix (calls w) (calls w') \<Longrightarrow>
     new_calls w (after_poll config n w') = new_calls w w' @ [poll_call config n w']"
  by (auto simp add: prefix_def new_calls_def)

lemma turn_on_schedule:
  assumes "turn config n (clock w) c c'" and "on_schedule w c"
  shows "on_schedule w c'"
  using assms
proof (cases rule: turn_cases)
  case (leave d p w0)
  with assms(2) show ?thesis
    by (auto simp add: on_schedule_def split: option.splits)
next
  case (fail d p w0 f w1)
  with assms(2) show ?thesis
    by (auto simp add: on_schedule_def)
next
  case (expire d p w0)
  with assms(2) show ?thesis
    by (auto simp add: on_schedule_def)
next
  case (again d p w0 js)
  with assms(2) after_poll_clock [of w0 config n] show ?thesis
    by (auto simp add: on_schedule_def new_calls_after_poll)
qed

lemma reach_on_schedule: "reach config n w c \<Longrightarrow> on_schedule w c"
  unfolding reach_def time_Now_def
  by (induction rule: rtranclp_induct) (simp_all add: on_schedule_start turn_on_schedule)

lemma on_schedule_polls:
  assumes "on_schedule w (Looping d p w')"
  shows "length (new_calls w w') \<le> 720"
  using assms by (simp add: on_schedule_def)

section \<open>Facts: the loop follows the protocol\<close>

lemma phase_of_state_simps [simp]:
  "\<not> terminal d \<Longrightarrow> phase_of_state d = Polling"
  "phase_of_state JobSuccess = Succeeded" "phase_of_state JobFailed = Failed"
  by (simp_all add: phase_of_state_def terminal_def JobSuccess_def JobFailed_def)

lemma protocol_Polling:
  "protocol (Polling, k) (phase_of_state d, Suc k) \<longleftrightarrow> k < 720"
  by (auto simp add: phase_of_state_def protocol_simps)

lemma simulation:
  assumes "turn config n (clock w) c c'" and "on_schedule w c"
  shows "protocol (abstraction w c) (abstraction w c') \<or> abstraction w c' = abstraction w c"
proof -
  note next_one = turn_on_schedule [OF assms]
  from assms show ?thesis
  proof (cases rule: turn_cases)
    case (leave d p w0)
    with assms(2) show ?thesis
      by (auto simp add: on_schedule_def abstraction_def split: option.splits)
  next
    case (fail d p w0 f w1)
    with assms(2) have "length (new_calls w w0) \<le> 720" and "prefix (calls w) (calls w0)"
      by (simp_all add: on_schedule_def)
    with fail show ?thesis
      by (auto simp add: abstraction_def protocol_simps new_calls_def prefix_def)
  next
    case (expire d p w0)
    with assms(2) have "length (new_calls w w0) \<le> 720" and "prefix (calls w) (calls w0)"
      by (simp_all add: on_schedule_def)
    with expire show ?thesis
      by (simp add: abstraction_def protocol_simps new_calls_after_poll)
  next
    case (again d p w0 js)
    with next_one have "length (new_calls w (after_poll config n w0)) \<le> 720"
      by (simp add: on_schedule_polls)
    moreover from again assms(2) have "prefix (calls w) (calls w0)"
      by (simp add: on_schedule_def)
    ultimately show ?thesis
      using again by (simp add: abstraction_def new_calls_after_poll protocol_Polling)
  qed
qed

lemma protocol_mono: "protocol s t \<Longrightarrow> s \<le> t"
  by (erule protocol.cases) (auto simp add: less_eq_phase_def)

lemma protocols_mono: "protocol\<^sup>*\<^sup>* s t \<Longrightarrow> s \<le> t"
  by (induction rule: rtranclp_induct) (simp, metis protocol_mono order_trans)

lemma protocol_bound:
  assumes "protocol\<^sup>*\<^sup>* s t" and "s = (Polling, 0)"
  shows "snd t \<le> 721 \<and> (fst t \<in> {Polling, Succeeded, Failed} \<longrightarrow> snd t \<le> 720)"
  using assms
  by (induction rule: rtranclp_induct) (auto elim!: protocol.cases)

lemma reach_protocol:
  assumes "reach config n w c"
  shows "protocol\<^sup>*\<^sup>* (Polling, 0) (abstraction w c)"
  using assms unfolding reach_def time_Now_def
proof (induction rule: rtranclp_induct)
  case base
  show ?case
    by (simp add: abstraction_def new_calls_def)
next
  case (step y z)
  from step.hyps(1) have "on_schedule w y"
    by (simp add: reach_on_schedule reach_def time_Now_def)
  from simulation [OF step.hyps(2) this] step.IH show ?case
    by (auto intro: rtranclp.rtrancl_into_rtrancl)
qed

lemma reach_polls_bound:
  "reach config n w c \<Longrightarrow> length (new_calls w (world_of c)) \<le> 721"
  using protocol_bound [OF reach_protocol, of config n w c] by (simp add: abstraction_def)

lemma turn_progress:
  assumes "reach config n w c" and "turn config n (clock w) c c'"
  shows "abstraction w c \<le> abstraction w c'"
  using simulation [OF assms(2) reach_on_schedule [OF assms(1)]]
  by (auto dest: protocol_mono)

lemma reach_returned:
  assumes "reach config n w (Returned (Inr p) w')"
  obtains js where "p = Some js" and "terminal (JobState js)"
proof -
  from reach_on_schedule [OF assms] have "coherent (Returned (Inr p) w')"
    by (simp add: on_schedule_def del: coherent.simps)
  then show thesis
    by (rule coherent_ReturnedE) (auto intro: that split: option.splits)
qed

section \<open>Facts: termination\<close>

text \<open>
  \<open>turns_ahead w c\<close> bounds the transitions that can still follow a state on
  schedule: while the loop runs, one more than the fetches that still fit
  into the hour. \<open>final_of\<close> is the state in which the run of a state ends.
\<close>

fun turns_ahead :: "world \<Rightarrow> run \<Rightarrow> nat" where
  "turns_ahead w (Looping d p w') = Suc (720 - length (new_calls w w'))"
| "turns_ahead w (Returned r w') = 0"

fun final_of :: "Config \<Rightarrow> int \<Rightarrow> int \<Rightarrow> run \<Rightarrow> run" where
  "final_of config n start (Looping d p w) =
     Returned (fst (waitForJob_loop config n start d p w)) (snd (waitForJob_loop config n start d p w))"
| "final_of config n start (Returned r w) = Returned r w"

lemma turn_decreases:
  assumes "turn config n (clock w) c c'" and "on_schedule w c"
  shows "turns_ahead w c' < turns_ahead w c"
proof -
  note next_one = turn_on_schedule [OF assms]
  from assms show ?thesis
  proof (cases rule: turn_cases)
    case (again d p w0 js)
    with next_one have "length (new_calls w (after_poll config n w0)) \<le> 720"
      by (simp add: on_schedule_polls)
    moreover from again assms(2) have "prefix (calls w) (calls w0)"
      by (simp add: on_schedule_def)
    ultimately show ?thesis
      using again by (simp add: new_calls_after_poll)
  qed simp_all
qed

lemma final_of_advance: "final_of config n start (advance config n start c) = final_of config n start c"
proof (cases c)
  case (Returned r w)
  then show ?thesis by simp
next
  case (Looping d p w)
  show ?thesis
  proof (cases "terminal d")
    case True
    with Looping show ?thesis
      by (simp add: waitForJob_loop_done)
  next
    case False
    with Looping show ?thesis
      by (cases "poll_turn config n start w" rule: settle.cases)
         (simp_all add: waitForJob_loop_turn)
  qed
qed

lemma advance_on_schedule:
  assumes "on_schedule w c"
  shows "on_schedule w (advance config n (clock w) c)"
    and "turns_ahead w (advance config n (clock w) c) \<le> turns_ahead w c - 1"
proof -
  have "on_schedule w (advance config n (clock w) c)
      \<and> turns_ahead w (advance config n (clock w) c) \<le> turns_ahead w c - 1"
  proof (cases c)
    case (Returned r w')
    with assms show ?thesis by simp
  next
    case (Looping d p w')
    then have "turn config n (clock w) c (advance config n (clock w) c)"
      by (simp add: turn_iff_advance)
    from turn_on_schedule [OF this assms] turn_decreases [OF this assms] show ?thesis
      by simp
  qed
  then show "on_schedule w (advance config n (clock w) c)"
    and "turns_ahead w (advance config n (clock w) c) \<le> turns_ahead w c - 1"
    by simp_all
qed

lemma advance_funpow:
  assumes "on_schedule w c" and "turns_ahead w c \<le> k"
  shows "(advance config n (clock w) ^^ k) c = final_of config n (clock w) c"
  using assms
proof (induction k arbitrary: c)
  case 0
  then show ?case
    by (cases c) simp_all
next
  case (Suc k)
  from advance_on_schedule [OF Suc.prems(1), of config n] Suc.prems(2)
  have "on_schedule w (advance config n (clock w) c)"
    and "turns_ahead w (advance config n (clock w) c) \<le> k"
    by simp_all
  from Suc.IH [OF this] show ?case
    by (simp add: funpow_swap1 final_of_advance)
qed

section \<open>Scenarios\<close>

lemma slow_sleeper_turn:
  "turn demo_config 7 (time_Now slow_sleeper) (Looping [] None slow_sleeper)
     (Returned (Inl (Err timed_out)) (after_poll demo_config 7 slow_sleeper))"
  by (simp add: turn_iff_advance time_Now_def poll_turn_eq scenario_simps)

lemma three_polls_turn:
  "turn demo_config 7 (time_Now three_polls) (Looping [] None three_polls)
     (Looping ''Pending'' (Some (JobStatus_of (job_fields 7 ''Pending'')))
        (after_poll demo_config 7 three_polls))"
  by (simp add: turn_iff_advance time_Now_def poll_turn_eq scenario_simps)

lemma three_polls_reach:
  "reach demo_config 7 three_polls
     (Looping ''Pending'' (Some (JobStatus_of (job_fields 7 ''Pending'')))
        (after_poll demo_config 7 three_polls))"
  unfolding reach_def by (rule r_into_rtranclp) (rule three_polls_turn)

section \<open>Properties of the protocol\<close>

text \<open>
  C14. The invariant of the poll loop. In every state that a call of
  \<open>waitForJob\<close> reaches, the loop variables are coherent (the description is
  the state of the status held, nothing was fetched yet when there is none,
  and a status that is returned is \<open>Successful\<close> or \<open>Failed\<close>), the calls made
  before the call are still the first ones of the history, and while the loop
  runs, five seconds have passed for every status fetch made and no more than
  the hour of the budget: the pause follows every fetch, and no turn begins
  after the budget is spent.
\<close>

theorem waitForJob_invariant:
  assumes "reach config n w c"
  shows "coherent c \<and> prefix (calls w) (calls (world_of c)) \<and>
     (case c of
        Looping d p w' \<Rightarrow>
          5000000000 * int (length (new_calls w w')) \<le> clock w' - clock w \<and>
          clock w' - clock w \<le> 3600000000000
      | Returned r w' \<Rightarrow> True)"
  using reach_on_schedule [OF assms] by (simp only: on_schedule_def)

theorem waitForJob_invariant_witness:
  "coherent (Looping ''Pending'' (Some (JobStatus_of (job_fields 7 ''Pending'')))
       (after_poll demo_config 7 three_polls))
   \<and> prefix (calls three_polls) (calls (after_poll demo_config 7 three_polls))
   \<and> 5000000000 * int (length (new_calls three_polls (after_poll demo_config 7 three_polls)))
       \<le> clock (after_poll demo_config 7 three_polls) - clock three_polls
   \<and> clock (after_poll demo_config 7 three_polls) - clock three_polls \<le> 3600000000000"
  using waitForJob_invariant [OF three_polls_reach] by simp

text \<open>
  The transitions and the function agree. The states that a call of
  \<open>waitForJob\<close> goes through, one evaluation of the guard and one turn of the
  loop at a time, end in the state that holds what the function returns, and
  in no other: a result and a world are reached by the transitions exactly
  when \<open>waitForJob\<close> returns them.
\<close>

theorem waitForJob_reaches:
  "reach config n w (Returned r w') \<longleftrightarrow> waitForJob n config w = (r, w')"
  by (simp add: reach_def waitForJob_def turns_agree)

theorem waitForJob_reaches_witness:
  "reach demo_config 7 three_polls
     (Returned (Inr (Some (JobStatus_of (job_fields 7 ''Successful''))))
        ((after_poll demo_config 7 ^^ 3) three_polls))"
  using waitForJob_reaches [of demo_config 7 three_polls] three_polls_run by simp

text \<open>
  The loop refines the protocol. From every state that a call of
  \<open>waitForJob\<close> reaches, a transition of the loop is a transition of the
  protocol between the phases of the two states, counted with the calls made
  since \<open>waitForJob\<close> was called, or it changes neither the phase nor the
  count (the loop leaving with the status it holds). So a job that was seen
  \<open>Successful\<close> or \<open>Failed\<close> is not polled again, a timeout comes with fetch 721
  at the latest, and a status is fetched 720 times at most without one.
\<close>

theorem waitForJob_refines_protocol:
  assumes "reach config n w c" and "turn config n (time_Now w) c c'"
  shows "protocol (abstraction w c) (abstraction w c') \<or> abstraction w c' = abstraction w c"
  using simulation [of config n w c c'] reach_on_schedule [OF assms(1)] assms(2)
  by (simp add: time_Now_def)

theorem waitForJob_refines_protocol_witness:
  "protocol (abstraction slow_sleeper (Looping [] None slow_sleeper))
     (abstraction slow_sleeper (Returned (Inl (Err timed_out)) (after_poll demo_config 7 slow_sleeper)))
   \<or> abstraction slow_sleeper (Returned (Inl (Err timed_out)) (after_poll demo_config 7 slow_sleeper))
       = abstraction slow_sleeper (Looping [] None slow_sleeper)"
  using waitForJob_refines_protocol [OF _ slow_sleeper_turn]
  by (simp add: reach_def)

text \<open>
  C11. The loop ends after at most 721 transitions. Advancing the initial
  state of \<open>waitForJob\<close> 721 times, one evaluation of the guard and one turn of
  the loop at a time, gives the state that holds what \<open>waitForJob\<close> returns,
  whatever the service answers and however long its answers and the pauses
  take: 720 fetches can be followed by a pause that ends within the hour, and
  one more transition leaves the loop.
\<close>

theorem waitForJob_in_721_turns:
  "(advance config n (time_Now w) ^^ 721) (Looping [] None w)
     = Returned (fst (waitForJob n config w)) (snd (waitForJob n config w))"
  using advance_funpow [OF on_schedule_start, of w 721 config n]
  by (simp add: time_Now_def waitForJob_def new_calls_def)

text \<open>
  No run of the loop is infinite. The transitions of the loop, taken from the
  states that a call of \<open>waitForJob\<close> reaches, form a well-founded relation:
  every reachable state is on schedule, and from such a state every
  transition lowers the number of fetches that still fit into the hour, or
  ends the run.
\<close>

theorem turn_terminates:
  "wfp (\<lambda>c' c. reach config n w c \<and> turn config n (time_Now w) c c')"
  by (rule wfp_if_convertible_to_nat [where f = "turns_ahead w"])
     (auto intro: turn_decreases dest: reach_on_schedule simp add: time_Now_def)

end
