(* ===== verification/Engine.thy ===== *)
theory Engine
  imports Protocol Reservations
begin

text \<open>
  The job engine of \<open>src/api_client.go\<close> as one transition system:
  \<open>handleAsyncRequestAndFetchManagdObject\<close> and \<open>handleAsyncRequest\<close> go through
  the stages of submitting the request, waiting for the job (the transitions
  \<open>turn\<close> of theory \<open>Protocol\<close>), checking how the job ended, and fetching the
  object that the job names. The functions of \<open>JobEngine\<close> and the transitions
  are two readings of the same lines; this theory shows that they agree,
  relates the stages to the life cycle of a job in the specification
  (\<open>Submitted\<close>, then the phases of the protocol, then the resolution), and
  proves that every run ends.
\<close>

section \<open>The submission\<close>

text \<open>
  \<open>submission\<close> is \<open>handleAsyncRequest\<close> up to the call of \<open>waitForJob\<close>: it sends
  the request and decodes the answer as the first status of the job, of which
  only the id is used.
\<close>

definition submission :: "http_request \<Rightarrow> Config \<Rightarrow> string \<Rightarrow> world \<Rightarrow> int result \<times> world" where
  "submission req config httpVerb w =
     (let client = getHttpClient config
      in case client_Do client req w of
           (Inl err, left, w1) \<Rightarrow>
             (case ReadAll_request left of
                Inl p \<Rightarrow> (Inl p, w1)
              | Inr body \<Rightarrow>
                  (Inl (Err (errors_Wrapped err
                     (''athena.apiClient: Failed to do request '' @ httpVerb @ '' '' @ req_url req
                        @ '' '' @ body))), w1))
         | (Inr res, left, w1) \<Rightarrow>
             (case readResponse res of
                Inl err \<Rightarrow>
                  (case ReadAll_request left of
                     Inl p \<Rightarrow> (Inl p, w1)
                   | Inr body \<Rightarrow>
                       (Inl (Err (errors_Wrapped err
                          (''athena.apiClient: Failed to read response body from '' @ httpVerb @ '' ''
                             @ req_url req @ '' '' @ body))), w1))
              | Inr body \<Rightarrow>
                  (case json_Unmarshal_ptr JobStatus_type body of
                     (jobStatus, Some err) \<Rightarrow>
                       (Inl (Err (errors_Wrapped err
                          (''athena.apiClient: Failed to unmarshal response '' @ body_string body))), w1)
                   | (None, None) \<Rightarrow> (Inl nil_dereference, w1)
                   | (Some submitted, None) \<Rightarrow> (Inr (js_ID submitted), w1))))"

text \<open>
  \<open>conclude\<close> is what follows the return of \<open>waitForJob\<close>: the error of the
  wait is passed on, the final status is checked, and the managed object of a
  successful job is fetched.
\<close>

fun conclude ::
  "Config \<Rightarrow> 'a gotype \<Rightarrow> JobStatus option result \<times> world \<Rightarrow> (JobStatus option \<times> 'a) result \<times> world"
where
  "conclude config T (Inl err, w) = (Inl err, w)"
| "conclude config T (Inr jobStatus, w) =
     (case checkForJobErrors jobStatus of
        Some err \<Rightarrow> (Inl err, w)
      | None \<Rightarrow> fetch_managed config T jobStatus w)"

section \<open>The stages of a request\<close>

text \<open>
  A request is about to be submitted; the engine waits for job \<open>n\<close> with the
  start time and the loop state of \<open>waitForJob\<close>; the job has succeeded and its
  object is about to be fetched; the operation has returned.
\<close>

datatype 'a stage =
  Submitting http_request world
| Awaiting int int run
| Resolving "JobStatus option" world
| Finished "(JobStatus option \<times> 'a) result" world

inductive engine :: "Config \<Rightarrow> 'a gotype \<Rightarrow> string \<Rightarrow> 'a stage \<Rightarrow> 'a stage \<Rightarrow> bool"
  for config :: Config and T :: "'a gotype" and httpVerb :: string
where
  refused:
    "submission req config httpVerb w = (Inl err, w1)
     \<Longrightarrow> engine config T httpVerb (Submitting req w) (Finished (Inl err) w1)"
| accepted:
    "submission req config httpVerb w = (Inr n, w1)
     \<Longrightarrow> engine config T httpVerb (Submitting req w) (Awaiting n (time_Now w1) (Looping [] None w1))"
| polling:
    "turn config n startTime c c'
     \<Longrightarrow> engine config T httpVerb (Awaiting n startTime c) (Awaiting n startTime c')"
| gave_up:
    "engine config T httpVerb (Awaiting n startTime (Returned (Inl err) w)) (Finished (Inl err) w)"
| job_failed:
    "checkForJobErrors jobStatus = Some err
     \<Longrightarrow> engine config T httpVerb (Awaiting n startTime (Returned (Inr jobStatus) w))
           (Finished (Inl err) w)"
| job_succeeded:
    "checkForJobErrors jobStatus = None
     \<Longrightarrow> engine config T httpVerb (Awaiting n startTime (Returned (Inr jobStatus) w))
           (Resolving jobStatus w)"
| resolve:
    "fetch_managed config T jobStatus w = (r, w')
     \<Longrightarrow> engine config T httpVerb (Resolving jobStatus w) (Finished r w')"

code_pred engine .

inductive_cases engine_SubmittingE: "engine config T verb (Submitting req w) s"
inductive_cases engine_AwaitingE: "engine config T verb (Awaiting n start c) s"
inductive_cases engine_ResolvingE: "engine config T verb (Resolving q w) s"
inductive_cases engine_FinishedE [elim!]: "engine config T verb (Finished r w) s"

text \<open>
  \<open>proceed\<close> computes the one successor of a stage, \<open>outcome\<close> what the run of a
  stage returns; \<open>ended\<close> is the result of the wait in a state of the loop.
\<close>

fun ended :: "Config \<Rightarrow> int \<Rightarrow> int \<Rightarrow> run \<Rightarrow> JobStatus option result \<times> world" where
  "ended config n start (Looping d p w) = waitForJob_loop config n start d p w"
| "ended config n start (Returned r w) = (r, w)"

fun proceed :: "Config \<Rightarrow> 'a gotype \<Rightarrow> string \<Rightarrow> 'a stage \<Rightarrow> 'a stage" where
  "proceed config T verb (Submitting req w) =
     (case submission req config verb w of
        (Inl err, w1) \<Rightarrow> Finished (Inl err) w1
      | (Inr n, w1) \<Rightarrow> Awaiting n (time_Now w1) (Looping [] None w1))"
| "proceed config T verb (Awaiting n start (Looping d p w)) =
     Awaiting n start (advance config n start (Looping d p w))"
| "proceed config T verb (Awaiting n start (Returned (Inl err) w)) = Finished (Inl err) w"
| "proceed config T verb (Awaiting n start (Returned (Inr jobStatus) w)) =
     (case checkForJobErrors jobStatus of
        Some err \<Rightarrow> Finished (Inl err) w
      | None \<Rightarrow> Resolving jobStatus w)"
| "proceed config T verb (Resolving jobStatus w) =
     (case fetch_managed config T jobStatus w of (r, w') \<Rightarrow> Finished r w')"
| "proceed config T verb (Finished r w) = Finished r w"

fun outcome ::
  "Config \<Rightarrow> 'a gotype \<Rightarrow> string \<Rightarrow> 'a stage \<Rightarrow> (JobStatus option \<times> 'a) result \<times> world"
where
  "outcome config T verb (Submitting req w) = handleAsyncRequestAndFetchManagdObject req config T verb w"
| "outcome config T verb (Awaiting n start c) = conclude config T (ended config n start c)"
| "outcome config T verb (Resolving jobStatus w) = fetch_managed config T jobStatus w"
| "outcome config T verb (Finished r w) = (r, w)"

fun final :: "'a stage \<Rightarrow> bool" where
  "final (Finished r w) = True"
| "final s = False"

section \<open>The life cycle of a job\<close>

text \<open>
  The state machine of the specification: a job is \<open>Submitted\<close> until its handle
  is known, then goes through the phases of the protocol with the number of
  status fetches made, and a job that has succeeded is resolved by fetching its
  object. A submission that fails, a job that ends in another phase than
  \<open>Succeeded\<close>, and a resolution that fails close the life cycle with an error.
\<close>

datatype job = Submitted | Tracked phase nat | Resolved | Closed

inductive lifecycle :: "job \<Rightarrow> job \<Rightarrow> bool" where
  handle: "lifecycle Submitted (Tracked Polling 0)"
| rejected: "lifecycle Submitted Closed"
| tracked: "protocol (q, k) (q', k') \<Longrightarrow> lifecycle (Tracked q k) (Tracked q' k')"
| resolved: "lifecycle (Tracked Succeeded k) Resolved"
| closed: "q \<noteq> Polling \<Longrightarrow> lifecycle (Tracked q k) Closed"

code_pred lifecycle .

inductive_cases lifecycle_ResolvedE [elim!]: "lifecycle s Resolved"
inductive_cases lifecycle_finalE [elim!]: "lifecycle Resolved s" "lifecycle Closed s"

text \<open>
  \<open>job_of w1 s\<close> is the state of the life cycle that a stage stands for, where
  \<open>w1\<close> is the world in which the wait began. \<open>staged config w1 s\<close> is the
  invariant of the stages of a run: the wait began when the submission was
  answered, its loop is on schedule, and only a successful job is resolved.
  \<open>stages_ahead\<close> bounds the transitions that can follow a stage.
\<close>

fun job_of :: "world \<Rightarrow> 'a stage \<Rightarrow> job" where
  "job_of w1 (Submitting req w) = Submitted"
| "job_of w1 (Awaiting n start c) = Tracked (phase_of c) (length (new_calls w1 (world_of c)))"
| "job_of w1 (Resolving q w) = Tracked Succeeded (length (new_calls w1 w))"
| "job_of w1 (Finished r w) = (if is_ok r then Resolved else Closed)"

fun staged :: "Config \<Rightarrow> world \<Rightarrow> 'a stage \<Rightarrow> bool" where
  "staged config w1 (Submitting req w) \<longleftrightarrow> w1 = after_submit req config w"
| "staged config w1 (Awaiting n start c) \<longleftrightarrow> start = clock w1 \<and> on_schedule w1 c"
| "staged config w1 (Resolving q w) \<longleftrightarrow> (case q of None \<Rightarrow> False | Some js \<Rightarrow> JobState js = JobSuccess)"
| "staged config w1 (Finished r w) \<longleftrightarrow> True"

fun stages_ahead :: "world \<Rightarrow> 'a stage \<Rightarrow> nat" where
  "stages_ahead w1 (Submitting req w) = 724"
| "stages_ahead w1 (Awaiting n start c) = 2 + turns_ahead w1 c"
| "stages_ahead w1 (Resolving q w) = 1"
| "stages_ahead w1 (Finished r w) = 0"

section \<open>Facts: the functions in stages\<close>

lemma handleAsyncRequest_stages:
  "handleAsyncRequest req config verb w =
     (case submission req config verb w of
        (Inl err, w1) \<Rightarrow> (Inl err, w1)
      | (Inr n, w1) \<Rightarrow> await_job n config w1)"
  by (auto simp add: handleAsyncRequest_def submission_def await_job_def Let_def
      split: prod.splits sum.splits option.splits)

lemma conclude_await_job:
  "conclude config T (waitForJob n config w) =
     (case await_job n config w of
        (Inl err, w1) \<Rightarrow> (Inl err, w1)
      | (Inr jobStatus, w1) \<Rightarrow> fetch_managed config T jobStatus w1)"
  by (cases "waitForJob n config w")
     (auto simp add: await_job_def split: sum.splits option.splits)

lemma handleAsyncRequestAndFetchManagdObject_stages:
  "handleAsyncRequestAndFetchManagdObject req config T verb w =
     (case submission req config verb w of
        (Inl err, w1) \<Rightarrow> (Inl err, w1)
      | (Inr n, w1) \<Rightarrow> conclude config T (waitForJob n config w1))"
  by (simp add: handleAsyncRequestAndFetchManagdObject_eq handleAsyncRequest_stages
      conclude_await_job split: prod.splits sum.splits)

lemma submission_accepted:
  "submit_reply req config w = Inr res \<Longrightarrow> readResponse res = Inr (Json (JObject kvs)) \<Longrightarrow>
     JobStatus_ok kvs \<Longrightarrow>
     submission req config verb w = (Inr (get_int (member kvs ''id'')), after_submit req config w)"
  by (simp add: submission_def client_Do_eq Let_def split: option.splits prod.splits)

lemma submission_world: "snd (submission req config verb w) = after_submit req config w"
  by (simp add: submission_def client_Do_eq Let_def split: prod.splits sum.splits option.splits)

section \<open>Facts: one transition\<close>

lemma final_of_ended:
  "final_of config n start c = Returned (fst (ended config n start c)) (snd (ended config n start c))"
  by (cases c) simp_all

lemma ended_advance: "ended config n start (advance config n start c) = ended config n start c"
  using final_of_advance [of config n start c] by (simp add: final_of_ended prod_eq_iff)

lemma ended_turn: "turn config n start c c' \<Longrightarrow> ended config n start c' = ended config n start c"
  by (cases c) (auto simp add: turn_iff_advance ended_advance simp del: advance.simps)

lemma engine_iff_proceed:
  "engine config T verb s s' \<longleftrightarrow> \<not> final s \<and> s' = proceed config T verb s"
proof (cases s)
  case (Submitting req w)
  then show ?thesis
    by (cases "submission req config verb w")
       (auto elim!: engine_SubmittingE intro: engine.intros split: sum.splits)
next
  case (Awaiting n start c)
  show ?thesis
  proof (cases c)
    case (Looping d p w)
    with Awaiting show ?thesis
      by (auto elim!: engine_AwaitingE intro: polling simp add: turn_iff_advance simp del: advance.simps)
  next
    case (Returned r w)
    with Awaiting show ?thesis
      by (cases r) (auto elim!: engine_AwaitingE intro: engine.intros split: option.splits)
  qed
next
  case (Resolving q w)
  then show ?thesis
    by (cases "fetch_managed config T q w") (auto elim!: engine_ResolvingE intro: resolve)
next
  case (Finished r w)
  then show ?thesis by auto
qed

lemma engine_deterministic:
  "engine config T verb s s' \<Longrightarrow> engine config T verb s s'' \<Longrightarrow> s'' = s'"
  by (simp add: engine_iff_proceed)

lemma engine_outcome:
  assumes "engine config T verb s s'"
  shows "outcome config T verb s' = outcome config T verb s"
  using assms
  by (cases rule: engine.cases)
     (simp_all add: handleAsyncRequestAndFetchManagdObject_stages waitForJob_def Let_def ended_turn)

section \<open>Facts: the functions and the transitions agree\<close>

lemma engines_outcome:
  "(engine config T verb)\<^sup>*\<^sup>* s s' \<Longrightarrow> outcome config T verb s' = outcome config T verb s"
  by (induction rule: rtranclp_induct) (simp_all add: engine_outcome)

lemma awaiting_runs:
  "(turn config n start)\<^sup>*\<^sup>* c c'
   \<Longrightarrow> (engine config T verb)\<^sup>*\<^sup>* (Awaiting n start c) (Awaiting n start c')"
  by (induction rule: rtranclp_induct) (auto intro: polling rtranclp.rtrancl_into_rtrancl)

lemma resolving_runs:
  "(engine config T verb)\<^sup>*\<^sup>* (Resolving q w)
     (Finished (fst (fetch_managed config T q w)) (snd (fetch_managed config T q w)))"
  by (rule r_into_rtranclp) (simp add: resolve)

lemma returned_runs:
  "(engine config T verb)\<^sup>*\<^sup>* (Awaiting n start (Returned r w))
     (Finished (fst (conclude config T (r, w))) (snd (conclude config T (r, w))))"
proof (cases r)
  case (Inl err)
  then show ?thesis
    by (auto intro: gave_up)
next
  case (Inr q)
  show ?thesis
  proof (cases "checkForJobErrors q")
    case None
    with Inr job_succeeded [OF None, of config T verb n start w] resolving_runs [of config T verb q w]
    show ?thesis by (simp add: converse_rtranclp_into_rtranclp)
  next
    case (Some err)
    with Inr show ?thesis
      by (auto intro: job_failed)
  qed
qed

lemma awaiting_ends:
  "(engine config T verb)\<^sup>*\<^sup>* (Awaiting n start c)
     (Finished (fst (outcome config T verb (Awaiting n start c)))
        (snd (outcome config T verb (Awaiting n start c))))"
proof (cases c)
  case (Looping d p w)
  from awaiting_runs [where T = T and verb = verb, OF loop_runs [of config n start d p w]]
    returned_runs [of config T verb n start "fst (waitForJob_loop config n start d p w)"
      "snd (waitForJob_loop config n start d p w)"]
  show ?thesis
    by (simp add: Looping)
next
  case (Returned r w)
  with returned_runs [of config T verb n start r w] show ?thesis by simp
qed

lemma engine_runs:
  "(engine config T verb)\<^sup>*\<^sup>* s
     (Finished (fst (outcome config T verb s)) (snd (outcome config T verb s)))"
proof (cases s)
  case (Submitting req w)
  obtain x w1 where sub: "submission req config verb w = (x, w1)"
    by (cases "submission req config verb w")
  show ?thesis
  proof (cases x)
    case (Inl err)
    with sub Submitting show ?thesis
      by (auto simp add: handleAsyncRequestAndFetchManagdObject_stages intro: refused)
  next
    case (Inr n)
    with sub have "engine config T verb s (Awaiting n (time_Now w1) (Looping [] None w1))"
      by (simp add: Submitting accepted)
    from converse_rtranclp_into_rtranclp [OF this awaiting_ends] engine_outcome [OF this]
    show ?thesis by simp
  qed
next
  case (Awaiting n start c)
  with awaiting_ends [of config T verb n start c] show ?thesis by simp
next
  case (Resolving q w)
  with resolving_runs [of config T verb q w] show ?thesis by simp
next
  case (Finished r w)
  then show ?thesis by simp
qed

lemma engine_ends:
  "(engine config T verb)\<^sup>*\<^sup>* s (Finished r w') \<longleftrightarrow> outcome config T verb s = (r, w')"
  using engines_outcome [of config T verb s "Finished r w'"] engine_runs [of config T verb s]
  by (auto simp add: prod_eq_iff)

section \<open>Facts: the stages of a run\<close>

lemma engine_staged:
  assumes "engine config T verb s s'" and "staged config w1 s"
  shows "staged config w1 s'"
  using assms
proof (cases rule: engine.cases)
  case (accepted req w n w')
  with assms(2) submission_world [of req config verb w] show ?thesis
    by (simp add: time_Now_def on_schedule_start)
next
  case (polling n start c c')
  with assms(2) show ?thesis
    by (auto intro: turn_on_schedule)
next
  case (job_succeeded q n start w)
  then show ?thesis
    by (auto simp add: checkForJobErrors_None_iff split: option.splits)
qed simp_all

lemma engines_staged:
  "(engine config T verb)\<^sup>*\<^sup>* s s' \<Longrightarrow> staged config w1 s \<Longrightarrow> staged config w1 s'"
  by (induction rule: rtranclp_induct) (auto intro: engine_staged)

lemma engine_decreases:
  assumes "engine config T verb s s'" and "staged config w1 s"
  shows "stages_ahead w1 s' < stages_ahead w1 s"
  using assms
proof (cases rule: engine.cases)
  case (polling n start c c')
  with assms(2) turn_decreases [of config n w1 c c'] show ?thesis
    by simp
qed (simp_all add: new_calls_def)

lemma proceed_final: "(proceed config T verb ^^ k) (Finished r w) = Finished r w"
  by (induction k) simp_all

lemma proceed_funpow:
  assumes "staged config w1 s" and "stages_ahead w1 s \<le> k"
  shows "(proceed config T verb ^^ k) s
     = Finished (fst (outcome config T verb s)) (snd (outcome config T verb s))"
  using assms
proof (induction k arbitrary: s)
  case 0
  then show ?case by (cases s) simp_all
next
  case (Suc k)
  show ?case
  proof (cases "final s")
    case True
    then obtain r w where "s = Finished r w"
      by (cases s) simp_all
    then show ?thesis
      by (simp add: proceed_final)
  next
    case False
    then have step: "engine config T verb s (proceed config T verb s)"
      by (simp add: engine_iff_proceed)
    from engine_decreases [OF step Suc.prems(1)] Suc.prems(2)
    have "stages_ahead w1 (proceed config T verb s) \<le> k"
      by simp
    from Suc.IH [OF engine_staged [OF step Suc.prems(1)] this] engine_outcome [OF step]
    show ?thesis
      by (simp add: funpow_swap1)
  qed
qed

lemma proceed_724:
  "(proceed config T verb ^^ 724) (Submitting req w)
     = Finished (fst (handleAsyncRequestAndFetchManagdObject req config T verb w))
         (snd (handleAsyncRequestAndFetchManagdObject req config T verb w))"
  using proceed_funpow [of config "after_submit req config w" "Submitting req w" 724 T verb]
  by simp

text \<open>
  Runs counted by their transitions: a run of \<open>k\<close> transitions uses up \<open>k\<close> of the
  transitions that its first stage has ahead, and from every stage of a run
  the transitions that are ahead lead to a finished stage.
\<close>

lemma engine_run_bound:
  assumes "((engine config T verb) ^^ k) s s'" and "staged config w1 s"
  shows "stages_ahead w1 s' + k \<le> stages_ahead w1 s \<and> staged config w1 s'"
  using assms
proof (induction k arbitrary: s')
  case 0
  then show ?case by simp
next
  case (Suc k)
  from Suc.prems(1) obtain y where y: "((engine config T verb) ^^ k) s y" "engine config T verb y s'"
    by auto
  from Suc.IH [OF y(1) Suc.prems(2)] engine_decreases [OF y(2)] engine_staged [OF y(2)]
  show ?case by fastforce
qed

lemma engine_finishes:
  assumes "staged config w1 s"
  shows "\<exists>j. j \<le> stages_ahead w1 s \<and>
           ((engine config T verb) ^^ j) s
             (Finished (fst (outcome config T verb s)) (snd (outcome config T verb s)))"
  using assms
proof (induction "stages_ahead w1 s" arbitrary: s rule: less_induct)
  case less
  show ?case
  proof (cases "final s")
    case True
    then obtain r w where "s = Finished r w"
      by (cases s) simp_all
    then show ?thesis
      by (intro exI [of _ 0]) simp
  next
    case False
    then have step: "engine config T verb s (proceed config T verb s)"
      by (simp add: engine_iff_proceed)
    note lower = engine_decreases [OF step less.prems]
    from less.hyps [OF lower engine_staged [OF step less.prems]] engine_outcome [OF step]
    obtain j where "j \<le> stages_ahead w1 (proceed config T verb s)"
      "((engine config T verb) ^^ j) (proceed config T verb s)
         (Finished (fst (outcome config T verb s)) (snd (outcome config T verb s)))"
      by auto
    with lower relpowp_Suc_I2 [OF step this(2)] show ?thesis
      by (intro exI [of _ "Suc j"]) simp
  qed
qed

lemma engine_wfp:
  "wfp (\<lambda>s' s. (engine config T verb)\<^sup>*\<^sup>* (Submitting req w) s \<and> engine config T verb s s')"
proof (rule wfp_if_convertible_to_nat [where f = "stages_ahead (after_submit req config w)"])
  fix s' s
  assume "(engine config T verb)\<^sup>*\<^sup>* (Submitting req w) s \<and> engine config T verb s s'"
  then show "stages_ahead (after_submit req config w) s' < stages_ahead (after_submit req config w) s"
    using engines_staged [of config T verb "Submitting req w" s "after_submit req config w"]
    by (auto intro: engine_decreases)
qed

section \<open>Facts: the stages follow the life cycle\<close>

lemma engine_simulation:
  assumes "engine config T verb s s'" and "staged config w1 s"
  shows "lifecycle (job_of w1 s) (job_of w1 s') \<or> job_of w1 s' = job_of w1 s"
  using assms
proof (cases rule: engine.cases)
  case (refused req w err w')
  then show ?thesis by (simp add: rejected)
next
  case (accepted req w n w')
  with assms(2) submission_world [of req config verb w] show ?thesis
    by (simp add: handle)
next
  case (polling n start c c')
  with assms(2) simulation [of config n w1 c c'] show ?thesis
    by (auto simp add: abstraction_def intro: tracked)
next
  case (gave_up n start err w)
  then show ?thesis by (simp add: closed)
next
  case (job_failed q err n start w)
  with assms(2) show ?thesis
    by (auto simp add: on_schedule_def terminal_def phase_of_state_def intro!: closed
        split: option.splits)
next
  case (job_succeeded q n start w)
  then show ?thesis
    by (auto simp add: checkForJobErrors_None_iff)
next
  case (resolve q w r w')
  then show ?thesis
    by (cases "is_ok r") (simp_all add: resolved closed)
qed

lemma engines_lifecycle:
  assumes "(engine config T verb)\<^sup>*\<^sup>* s s'" and "staged config w1 s"
  shows "lifecycle\<^sup>*\<^sup>* (job_of w1 s) (job_of w1 s')"
  using assms
proof (induction rule: rtranclp_induct)
  case base
  show ?case by simp
next
  case (step y z)
  from engine_simulation [OF step.hyps(2) engines_staged [OF step.hyps(1) step.prems]]
    step.IH [OF step.prems]
  show ?case
    by (auto intro: rtranclp.rtrancl_into_rtrancl)
qed

section \<open>Facts: the stages and the results of the functions\<close>

text \<open>
  \<open>traced\<close> relates the stages of a run to what the functions return: the wait
  is for the job of the submission, a job is resolved when \<open>handleAsyncRequest\<close>
  has returned its status, and the run finishes with what
  \<open>handleAsyncRequestAndFetchManagdObject\<close> returns.
\<close>

fun traced :: "Config \<Rightarrow> 'a gotype \<Rightarrow> string \<Rightarrow> http_request \<Rightarrow> world \<Rightarrow> 'a stage \<Rightarrow> bool" where
  "traced config T verb req w0 (Submitting req' w) \<longleftrightarrow> req' = req \<and> w = w0"
| "traced config T verb req w0 (Awaiting n start c) \<longleftrightarrow>
     submission req config verb w0 = (Inr n, after_submit req config w0) \<and>
     start = clock (after_submit req config w0) \<and> reach config n (after_submit req config w0) c"
| "traced config T verb req w0 (Resolving q w) \<longleftrightarrow> handleAsyncRequest req config verb w0 = (Inr q, w)"
| "traced config T verb req w0 (Finished r w) \<longleftrightarrow>
     handleAsyncRequestAndFetchManagdObject req config T verb w0 = (r, w)"

lemma reach_turn:
  "reach config n w c \<Longrightarrow> turn config n (clock w) c c' \<Longrightarrow> reach config n w c'"
  by (simp add: reach_def time_Now_def)

lemma engine_traced:
  assumes "engine config T verb s s'" and "traced config T verb req w0 s"
  shows "traced config T verb req w0 s'"
  using assms
proof (cases rule: engine.cases)
  case (refused req' w err w')
  with assms(2) show ?thesis
    by (simp add: handleAsyncRequestAndFetchManagdObject_stages)
next
  case (accepted req' w n w')
  with assms(2) submission_world [of req config verb w0] show ?thesis
    by (simp add: time_Now_def reach_def)
next
  case (polling n start c c')
  with assms(2) show ?thesis
    by (auto intro: reach_turn)
next
  case (gave_up n start err w)
  with assms(2) show ?thesis
    by (simp add: waitForJob_reaches handleAsyncRequestAndFetchManagdObject_stages)
next
  case (job_failed q err n start w)
  with assms(2) show ?thesis
    by (simp add: waitForJob_reaches handleAsyncRequestAndFetchManagdObject_stages)
next
  case (job_succeeded q n start w)
  with assms(2) show ?thesis
    by (simp add: waitForJob_reaches handleAsyncRequest_stages await_job_def)
next
  case (resolve q w r w')
  with assms(2) show ?thesis
    by (simp add: handleAsyncRequestAndFetchManagdObject_eq)
qed

lemma engines_traced:
  "(engine config T verb)\<^sup>*\<^sup>* s s' \<Longrightarrow> traced config T verb req w0 s
     \<Longrightarrow> traced config T verb req w0 s'"
  by (induction rule: rtranclp_induct) (auto intro: engine_traced)

lemma engine_resolving:
  "(engine config T verb)\<^sup>*\<^sup>* (Submitting req w) (Resolving q w')
     \<longleftrightarrow> handleAsyncRequest req config verb w = (Inr q, w')"
proof
  assume "(engine config T verb)\<^sup>*\<^sup>* (Submitting req w) (Resolving q w')"
  from engines_traced [OF this, of req w] show "handleAsyncRequest req config verb w = (Inr q, w')"
    by simp
next
  assume h: "handleAsyncRequest req config verb w = (Inr q, w')"
  then obtain n w1 where sub: "submission req config verb w = (Inr n, w1)"
    and a: "await_job n config w1 = (Inr q, w')"
    by (auto simp add: handleAsyncRequest_stages split: prod.splits sum.splits)
  from await_job_Inr(2) [OF a] have "reach config n w1 (Returned (Inr q) w')"
    by (simp add: waitForJob_reaches)
  from awaiting_runs [OF this [unfolded reach_def], of T verb]
  have "(engine config T verb)\<^sup>*\<^sup>* (Awaiting n (time_Now w1) (Looping [] None w1))
      (Awaiting n (time_Now w1) (Returned (Inr q) w'))" .
  moreover from a await_job_Inr(2) [OF a] have "checkForJobErrors q = None"
    by (simp add: await_job_def split: option.splits)
  ultimately show "(engine config T verb)\<^sup>*\<^sup>* (Submitting req w) (Resolving q w')"
    using accepted [OF sub, of T] job_succeeded [of q config T verb n "time_Now w1" w']
    by (meson converse_rtranclp_into_rtranclp rtranclp.rtrancl_into_rtrancl)
qed

section \<open>Facts: the calls of a successful run\<close>

lemma waitForJob_Inr_polls:
  assumes "waitForJob n config w = (Inr q, w')"
  shows "\<exists>polls. calls w' = calls w @ polls \<and> polls_spaced config n (clock w) polls
           \<and> polls \<noteq> [] \<and> length polls \<le> 720"
proof -
  have ok: "url_ok w (job_url config n)"
    using assms by (auto simp add: waitForJob_turn split: prod.splits sum.splits dest: poll_turn_Inr(1))
  from waitForJob_run [OF assms] ok obtain cs where
    cs: "calls w' = calls w @ cs" "polls_spaced config n (clock w) cs" "cs \<noteq> []"
    by blast
  from assms have r: "reach config n w (Returned (Inr q) w')"
    by (simp add: waitForJob_reaches)
  from reach_returned [OF r] obtain js where "q = Some js"
    by blast
  with protocol_bound [OF reach_protocol [OF r] refl] cs(1) have "length cs \<le> 720"
    by (simp add: abstraction_def phase_of_state_def split: if_splits)
  with cs show ?thesis by blast
qed

lemma conclude_Inr:
  "conclude config T (r, w) = (Inr y, w') \<Longrightarrow>
     \<exists>q. r = Inr q \<and> checkForJobErrors q = None \<and> fetch_managed config T q w = (Inr y, w')"
  by (cases r) (auto split: option.splits)

lemma fetch_managed_Inr:
  assumes "fetch_managed config T q w = (Inr (q', x), w')"
  obtains js links where "q = Some js" and "q' = q" and "js_Links js = Some links"
    and "doGet T config (urlFromHref config (Href (jl_ManagedObject links))) w = (Inr x, w')"
  using assms
  by (auto simp add: fetch_managed_def split: option.splits prod.splits sum.splits)

section \<open>Scenarios\<close>

text \<open>
  The creation of theory \<open>Reservations\<close>: the submission is answered with job 7,
  which is seen pending twice and then successful with a link to reservation
  42, and the GET of that link yields the reservation.
\<close>

abbreviation create_job :: JobStatus where
  "create_job \<equiv> JobStatus_of (done_job_fields 7 ''/api/v3/onefuse/ipamReservations/42/'')"

lemma submission_job_reply:
  "submit_reply req config w = reply (job_reply n st) \<Longrightarrow> fits_int n \<Longrightarrow>
     submission req config verb w = (Inr n, after_submit req config w)"
  by (simp add: job_reply_def submission_accepted [where kvs = "job_fields n st"] readResponse_ok)

lemma always_pending_submission:
  "submission req demo_config verb always_pending = (Inr 7, after_submit req demo_config always_pending)"
  by (rule submission_job_reply [where st = "''Pending''"])
     (simp_all add: exchange_of_def always_pending_def)

lemma always_pending_first:
  "((engine demo_config T verb) ^^ 1) (Submitting req always_pending)
     (Awaiting 7 (time_Now (after_submit req demo_config always_pending))
        (Looping [] None (after_submit req demo_config always_pending)))"
  unfolding relpowp_1 by (rule accepted) (rule always_pending_submission)

lemma create_world_submission:
  "submission create_req demo_config ''POST'' create_w1 = (Inr 7, create_w2)"
  by (rule submission_job_reply [where st = "''Pending''"])
     (simp_all add: exchange_of_def create_world_def scripted_def)

lemma create_world_resolve:
  "fetch_managed demo_config IPAMReservation_type (Some create_job) create_w5 =
     (Inr (Some create_job, stored_reservation), after_GET demo_config created_url create_w5)"
  by (simp add: fetch_managed_def done_job_decoded create_world_fetch)

lemma create_world_engine:
  "handleAsyncRequestAndFetchManagdObject create_req demo_config IPAMReservation_type ''POST'' create_w1 =
     (Inr (Some create_job, stored_reservation), after_GET demo_config created_url create_w5)"
  by (simp add: handleAsyncRequestAndFetchManagdObject_eq create_world_job create_world_resolve)

section \<open>Properties of the engine\<close>

text \<open>
  The stages and the functions agree. The stages that a request goes
  through, from its submission on, end in the stage that holds what
  \<open>handleAsyncRequestAndFetchManagdObject\<close> returns, and in no other; and a job is
  about to be resolved with a status and a world exactly when
  \<open>handleAsyncRequest\<close> returns them.
\<close>

theorem engine_reaches:
  "((engine config T verb)\<^sup>*\<^sup>* (Submitting req w) (Finished r w')
      \<longleftrightarrow> handleAsyncRequestAndFetchManagdObject req config T verb w = (r, w'))
   \<and> ((engine config T verb)\<^sup>*\<^sup>* (Submitting req w) (Resolving q w2)
      \<longleftrightarrow> handleAsyncRequest req config verb w = (Inr q, w2))"
  by (simp add: engine_ends engine_resolving)

theorem engine_reaches_witness:
  "(engine demo_config IPAMReservation_type ''POST'')\<^sup>*\<^sup>* (Submitting create_req create_w1)
     (Finished (Inr (Some create_job, stored_reservation)) (after_GET demo_config created_url create_w5))"
  using engine_reaches [of demo_config IPAMReservation_type "''POST''" create_req create_w1]
  by (simp add: create_world_engine)

text \<open>
  C12. The engine follows the life cycle of a job. From every stage that a
  request reaches after its submission, a transition of the engine is a
  transition of the life cycle of the specification, or changes nothing in
  it: the job is \<open>Submitted\<close> until the submission is answered; it is then
  tracked through the protocol with the number of status fetches made since;
  only a job that was seen \<open>Successful\<close> is resolved; and a
  submission that fails, a wait that ends otherwise, and a resolution that
  fails close the life cycle with an error.
\<close>

theorem engine_refines_lifecycle:
  assumes "(engine config T verb)\<^sup>*\<^sup>* (Submitting req w) s" and "engine config T verb s s'"
  shows "lifecycle (job_of (after_submit req config w) s) (job_of (after_submit req config w) s')
     \<or> job_of (after_submit req config w) s' = job_of (after_submit req config w) s"
  using engine_simulation [OF assms(2) engines_staged [OF assms(1)]] by simp

theorem engine_refines_lifecycle_witness:
  "lifecycle (job_of create_w2 (Resolving (Some create_job) create_w5))
     (job_of create_w2
        (Finished (Inr (Some create_job, stored_reservation)) (after_GET demo_config created_url create_w5)))
   \<or> job_of create_w2
        (Finished (Inr (Some create_job, stored_reservation)) (after_GET demo_config created_url create_w5))
      = job_of create_w2 (Resolving (Some create_job) create_w5)"
  using engine_refines_lifecycle [OF engine_resolving [THEN iffD2, OF create_world_job]
      resolve [OF create_world_resolve]]
  by simp

text \<open>
  C16. No request is handled for ever. However a request has run so far, it
  has made at most 724 transitions since its submission, and the transitions
  that are left of the 724 take it to the stage that holds what
  \<open>handleAsyncRequestAndFetchManagdObject\<close> returns: one transition for the
  submission, at most 721 for the poll loop, which the budget of one hour and
  the pause of five seconds bound, one for the check of the final status and
  one for the fetch of the managed object. A job that stays pending for ever
  is given up within these.
\<close>

theorem engine_terminates:
  assumes "((engine config T verb) ^^ k) (Submitting req w) s"
  shows "k \<le> 724 \<and>
     (\<exists>j. k + j \<le> 724 \<and>
        ((engine config T verb) ^^ j) s
          (Finished (fst (handleAsyncRequestAndFetchManagdObject req config T verb w))
             (snd (handleAsyncRequestAndFetchManagdObject req config T verb w))))"
proof -
  let ?w1 = "after_submit req config w"
  from engine_run_bound [OF assms, of ?w1]
  have k: "stages_ahead ?w1 s + k \<le> 724" and s: "staged config ?w1 s"
    by simp_all
  from engines_outcome [OF relpowp_imp_rtranclp [OF assms]]
  have "outcome config T verb s = handleAsyncRequestAndFetchManagdObject req config T verb w"
    by simp
  with engine_finishes [OF s, of T verb] obtain j where "j \<le> stages_ahead ?w1 s"
    "((engine config T verb) ^^ j) s
       (Finished (fst (handleAsyncRequestAndFetchManagdObject req config T verb w))
          (snd (handleAsyncRequestAndFetchManagdObject req config T verb w)))"
    by auto
  with k show ?thesis
    by (intro conjI exI [of _ j]) simp_all
qed

theorem engine_terminates_witness:
  "(1::nat) \<le> 724 \<and>
     (\<exists>j. 1 + j \<le> 724 \<and>
        ((engine demo_config IPAMReservation_type ''DELETE'') ^^ j)
          (Awaiting 7 (time_Now (after_submit delete_request demo_config always_pending))
             (Looping [] None (after_submit delete_request demo_config always_pending)))
          (Finished (fst (handleAsyncRequestAndFetchManagdObject delete_request demo_config
                IPAMReservation_type ''DELETE'' always_pending))
             (snd (handleAsyncRequestAndFetchManagdObject delete_request demo_config
                IPAMReservation_type ''DELETE'' always_pending))))"
  using engine_terminates [OF always_pending_first, of IPAMReservation_type "''DELETE''" delete_request]
  by simp

text \<open>
  C13. The calls of a successful request, in order. When
  \<open>handleAsyncRequestAndFetchManagdObject\<close> returns an object, the calls it made
  are the submitted request, then between one and 720 fetches of the status
  of the job that the submission was answered with, each at least five
  seconds after the one before, then one GET of the link \<open>managedObject\<close> of the
  status returned, which is \<open>Successful\<close>: nothing is fetched before the job
  has succeeded, and nothing is polled after.
\<close>

theorem resolved_after_success:
  assumes "handleAsyncRequestAndFetchManagdObject req config T verb w = (Inr (q, x), w')"
  shows "\<exists>n js links polls fetch.
     submission req config verb w = (Inr n, after_submit req config w)
     \<and> q = Some js \<and> JobState js = JobSuccess \<and> js_Links js = Some links
     \<and> calls w' = calls w @ [call_of (getHttpClient config) req w] @ polls @ [fetch]
     \<and> polls \<noteq> [] \<and> length polls \<le> 720
     \<and> polls_spaced config n (clock (after_submit req config w)) polls
     \<and> call_req fetch = GET_request config (urlFromHref config (Href (jl_ManagedObject links)))
     \<and> call_client fetch = getHttpClient config"
proof -
  from assms obtain n where sub: "submission req config verb w = (Inr n, after_submit req config w)"
    and c: "conclude config T (waitForJob n config (after_submit req config w)) = (Inr (q, x), w')"
    using submission_world [of req config verb w]
    by (auto simp add: handleAsyncRequestAndFetchManagdObject_stages split: prod.splits sum.splits)
  from c obtain q0 w2 where wait: "waitForJob n config (after_submit req config w) = (Inr q0, w2)"
    and ok: "checkForJobErrors q0 = None"
    and f: "fetch_managed config T q0 w2 = (Inr (q, x), w')"
    by (cases "waitForJob n config (after_submit req config w)") (auto dest: conclude_Inr)
  from f obtain js links where q: "q0 = Some js" "q = q0" "js_Links js = Some links"
    and g: "doGet T config (urlFromHref config (Href (jl_ManagedObject links))) w2 = (Inr x, w')"
    by (rule fetch_managed_Inr)
  from waitForJob_Inr_polls [OF wait] obtain polls where
    p: "calls w2 = calls (after_submit req config w) @ polls"
      "polls_spaced config n (clock (after_submit req config w)) polls" "polls \<noteq> []"
      "length polls \<le> 720"
    by blast
  from ok q have "JobState js = JobSuccess"
    by (simp add: checkForJobErrors_None_iff)
  with sub q p doGet_Inr_calls [OF g] show ?thesis
    by (auto simp add: call_of_def)
qed

theorem resolved_after_success_witness:
  "\<exists>n js links polls fetch.
     submission create_req demo_config ''POST'' create_w1 = (Inr n, after_submit create_req demo_config create_w1)
     \<and> Some create_job = Some js \<and> JobState js = JobSuccess \<and> js_Links js = Some links
     \<and> calls (after_GET demo_config created_url create_w5)
         = calls create_w1 @ [call_of (getHttpClient demo_config) create_req create_w1] @ polls @ [fetch]
     \<and> polls \<noteq> [] \<and> length polls \<le> 720
     \<and> polls_spaced demo_config n (clock (after_submit create_req demo_config create_w1)) polls
     \<and> call_req fetch = GET_request demo_config (urlFromHref demo_config (Href (jl_ManagedObject links)))
     \<and> call_client fetch = getHttpClient demo_config"
  by (rule resolved_after_success [OF create_world_engine])

end
