(* ===== verification/Spec2Isabelle.thy ===== *)
theory Spec2Isabelle
  imports Provider Engine
begin

text \<open>
  A verification development for the Terraform provider \<open>athena\<close>: the REST
  client, the provider and its configuration in \<open>src/api_client.go\<close>
  (transport helpers, generic accessors, the asynchronous job engine, the
  domain operations on IPAM reservations, \<open>configureProvider\<close>) and the resource
  \<open>athena_ipam_record\<close> of \<open>src/unnamed/part_000\<close>.

  \<^bold>\<open>The program.\<close> Terraform calls the four operations of the resource
  (\<open>resourceIPAMReservationCreate\<close>, \<open>Read\<close>, \<open>Update\<close>, \<open>Delete\<close>) with the
  resource data and the configuration. They build a reservation from the data,
  call the client (\<open>CreateIPAMReservation\<close>, \<open>GetIPAMReservation\<close>,
  \<open>UpdateIPAMReservation\<close>, \<open>DeleteIPAMReservation\<close>) and bind the reservation that
  comes back to the data (\<open>bindIPAMReservationResource\<close>). Every mutating
  operation of the remote service is asynchronous: the client submits a
  request, the service answers with a job, and the client polls the status of
  the job every five seconds until it is \<open>Successful\<close> or \<open>Failed\<close> or one hour
  has passed (\<open>handleAsyncRequest\<close>, \<open>waitForJob\<close>, \<open>checkForJobErrors\<close>); after a
  creation it fetches the object that the job names
  (\<open>handleAsyncRequestAndFetchManagdObject\<close>). Reads are direct GETs (\<open>doGet\<close>,
  \<open>findEntityByName\<close>). URLs are built from the configuration and a resource
  type (\<open>collectionURL\<close>, \<open>itemURL\<close>, \<open>urlFromHref\<close>); every request carries the
  same headers and basic authentication (\<open>setHeaders\<close>).

  \<^bold>\<open>The theories\<close>, in the order of their imports.

  \<^item> \<open>Prelude\<close>: the fact collections of the development, results as sums,
    splitting and joining lists at a separator, decimal digits.
  \<^item> \<open>GoLib\<close>: what the program uses of the Go runtime and standard library:
    error values with their text (\<open>errors.New\<close>, \<open>errors.WithMessage\<close>),
    panics, \<open>strconv.Itoa\<close> and \<open>strconv.Atoi\<close> on 64-bit integers, with the
    value that \<open>Atoi\<close> returns beside an error (\<open>Atoi_value\<close>),
    \<open>strconv.ParseBool\<close>, \<open>strings.Split\<close>, \<open>path.Join\<close>.
  \<^item> \<open>Json\<close>: JSON documents as trees, and the decoding and encoding of
    \<open>encoding/json\<close> into Go types: a Go type is a record of its zero value, its
    decoder and the test that a document fits it, because \<open>json.Unmarshal\<close>
    decodes what it can and reports the mismatch beside the value.
  \<^item> \<open>Config\<close>: the struct \<open>Config\<close> and \<open>NewConfig\<close>.
  \<^item> \<open>World\<close>: the world outside the program as a record that every operation
    takes and returns: the clock in nanoseconds, the calls made so far, the
    remote service as a function of the history and the call, how long a sleep
    oversleeps, and which URLs \<open>net/url\<close> accepts. \<open>time.Sleep\<close>,
    \<open>http.NewRequest\<close>, \<open>http.Header.Add\<close> with its canonical keys and
    \<open>client.Do\<close> act on it.
  \<^item> \<open>Transport\<close>: the constants, the URL builders, the headers, the HTTP
    client, \<open>checkForErrors\<close>, \<open>readResponse\<close>, \<open>buildPostRequest\<close>,
    \<open>buildPutRequest\<close>.
  \<^item> \<open>Entities\<close>: the structs of the wire format (\<open>LinkRef\<close>, \<open>Workspace\<close>,
    \<open>IPAMReservation\<close>, \<open>IPAMPolicy\<close>, \<open>JobStatus\<close>, the list responses,
    \<open>RenderTemplateRequest\<close>) as records, each with its Go type and, where the
    program sends it, its encoder with \<open>omitempty\<close>.
  \<^item> \<open>Fixtures\<close>: concrete replies and worlds (services that answer from a
    script) on which the properties are instantiated.
  \<^item> \<open>Accessors\<close>: \<open>doGet\<close>, \<open>GetJobStatus\<close>, \<open>findDefaultWorkspaceID\<close> and
    \<open>findEntityByName\<close>, with every error branch and its message.
  \<^item> \<open>JobEngine\<close>: \<open>waitForJob\<close> (its loop is the function
    \<open>waitForJob_loop\<close>), \<open>checkForJobErrors\<close>, \<open>handleAsyncRequest\<close>,
    \<open>handleAsyncRequestAndFetchManagdObject\<close>, and their properties.
  \<^item> \<open>Protocol\<close>: the loop of \<open>waitForJob\<close> as an inductive transition relation
    \<open>turn\<close> over the states \<open>run\<close> with its successor function \<open>advance\<close>, its
    agreement with the function, the invariant of the reachable states, the
    state machine \<open>protocol\<close> of a job with the simulation that relates the
    loop to it, and the termination of the transitions.
  \<^item> \<open>Reservations\<close>: the methods of \<open>AthenaAPIClient\<close> (\<open>CreateIPAMReservation\<close>,
    \<open>GetIPAMReservation\<close>, \<open>UpdateIPAMReservation\<close>, \<open>DeleteIPAMReservation\<close>,
    \<open>GetIPAMPolicy\<close>, \<open>GetIPAMPolicyByName\<close>, \<open>RenderTemplate\<close>) and
    \<open>findWorkspaceURLOrDefault\<close>.
  \<^item> \<open>Engine\<close>: \<open>handleAsyncRequest\<close> and
    \<open>handleAsyncRequestAndFetchManagdObject\<close> as an inductive transition relation
    \<open>engine\<close> over the stages \<open>Submitting\<close>, \<open>Awaiting\<close> (which embeds \<open>turn\<close>),
    \<open>Resolving\<close> and \<open>Finished\<close>, with the successor function \<open>proceed\<close>; the
    life cycle \<open>lifecycle\<close> of a job in the specification (\<open>Submitted\<close>, the
    phases of the protocol, \<open>Resolved\<close> or \<open>Closed\<close>) and the simulation that
    relates the stages to it.
  \<^item> \<open>ResourceData\<close>: what the program uses of the Terraform SDK: the resource
    data (\<open>Get\<close>, \<open>Set\<close>, \<open>HasChange\<close>, \<open>Id\<close>, \<open>SetId\<close> over typed attributes),
    the records \<open>Schema\<close>, \<open>ResourceTimeout\<close>, \<open>Resource\<close> and \<open>Provider\<close> of a
    declaration, \<open>EnvDefaultFunc\<close>, the checks of \<open>InternalValidate\<close>, and the
    reading of a configuration against a schema (\<open>configured\<close>).
  \<^item> \<open>Binding\<close>: \<open>bindIPAMReservationResource\<close>, the four operations of the
    resource, and the declaration \<open>resourceIPAMReservation\<close> with its fifteen
    attributes, their flags and the timeouts.
  \<^item> \<open>Provider\<close>: \<open>configureProvider\<close> and the declaration \<open>Provider\<close> with its
    six attributes, their defaults from the environment, and the resource it
    registers; \<open>provider_meta\<close> is the configuration that the operations
    receive, and \<open>serve\<close> answers a request of Terraform (\<open>request\<close>) with
    the operation that \<open>Provider\<close> and \<open>resourceIPAMReservation\<close> name for it.
  \<^item> \<open>Spec2Isabelle\<close>: the properties that span components: the URL that
    the job engine polls, the calls of the resource operations and of the
    requests served, and the declared timeouts against the budget of the poll
    loop.

  \<^bold>\<open>Correspondence with the code.\<close> A Go function \<open>f(args) (T, error)\<close> that
  performs I/O is a definition \<open>f args w = (r, w')\<close> where \<open>w\<close> and \<open>w'\<close> are the
  world before and after and \<open>r\<close> is \<open>Inr\<close> of the value returned or \<open>Inl\<close> of a
  failure: \<open>Err e\<close> for a returned error, \<open>Panic m\<close> for a run-time panic (a nil
  dereference, an index out of range, a failed type assertion). The operations
  of the resource also take and return the resource data. Definitions keep the
  names of the source; early returns are the branches of the \<open>case\<close>
  expressions, in the order of the code. Response bodies are JSON trees or
  text that is not JSON; the text of a document is produced only where the
  program prints it in a message, in one canonical form and not byte for
  byte as the service sent it; the URL of a request is the string it was
  built from. The Go type \<open>int\<close> is taken to have 64 bits.

  \<^bold>\<open>What is proved.\<close>
  \<^item> \<open>GoLib\<close>: \<open>Atoi\<close> after \<open>Itoa\<close> is the identity on 64-bit integers; \<open>Itoa\<close> is
    injective and yields no slash; \<open>path.Join\<close> on plain segments is joining
    with slashes.
  \<^item> \<open>Transport\<close>: the closed form of collection and item URLs, injectivity
    of \<open>itemURL\<close> in the id, the headers every request carries,
    \<open>checkForErrors\<close> fails exactly from status 400 on, what \<open>buildPostRequest\<close>
    builds.
  \<^item> \<open>Entities\<close>: decoding the encoding of a reservation gives the
    reservation back, without an error.
  \<^item> \<open>Accessors\<close>: \<open>doGet\<close> makes exactly one call when the URL is accepted
    and none otherwise, never panics, never sets the clock back; what it
    returns for a document that fits and for a status from 400 on.
  \<^item> \<open>JobEngine\<close>: the loop terminates (its termination proof is the
    decreasing distance of the clock from the budget); it returns the first
    terminal status; a status it returns is terminal; it makes at most 721
    fetches, each a GET of the job's URL, at least five seconds apart, and at
    least one; it times out when the job stays pending, and reports a timeout
    only after the budget; \<open>handleAsyncRequest\<close> succeeds only with a
    successful job and reports a failed job with its messages; a failed job
    without error details and a successful job without links are panics.
  \<^item> \<open>Protocol\<close>: the transitions reach exactly the result that the function
    returns; every reachable state is on schedule (its calls and its clock
    agree, the loop variables are coherent); every transition of the loop is a
    transition of the protocol or changes neither phase nor count; the
    transitions from reachable states are well-founded (\<open>turns_ahead\<close>, the
    fetches that still fit into the hour, decreases), and 721 steps of
    \<open>advance\<close> from the initial state give what \<open>waitForJob\<close> returns.
  \<^item> \<open>Engine\<close>: the stages reach exactly what
    \<open>handleAsyncRequestAndFetchManagdObject\<close> returns, and the stage \<open>Resolving\<close>
    exactly what \<open>handleAsyncRequest\<close> returns; every transition from a stage of
    a run is a transition of the life cycle or changes nothing in it, so only
    a job seen \<open>Successful\<close> is resolved; a run from the submission has at
    most 724 transitions and the transitions left of these finish it, also
    for a job that stays pending for ever; the calls of a successful
    request are the submission, one to 720 status fetches, and the GET of the
    managed object, in this order.
  \<^item> \<open>Reservations\<close>: a creation returns the object that the job names, after
    at most one submission; the workspace is the one given or the default one;
    a record with no policy id, or with a policy URL, is rejected, but only
    after the lookup of the workspace; the policy sent is built with the
    resource type of workspaces; a lookup of the default workspace that finds
    none returns no error; a deletion succeeds with a successful job and
    panics on an error of the transport; reading is one GET, rendering one
    POST.
  \<^item> \<open>Binding\<close>: the policy id read out of a link \<open>.../<id>/\<close> is that id;
    reading binds every attribute of the reservation that came back; an update
    succeeds exactly when none of the compared attributes changed and never
    makes a call; the operations keep the data well typed (which \<open>Set\<close>
    ensures, whatever is bound), and on well-typed data of the schema that
    the resource declares no type assertion fails and no \<open>Set\<close> of the
    binding is refused; create sets the id before it binds, so a
    reservation sent without links leaves a created reservation and a panic;
    binding has three outcomes (a panic without links, a panic on a policy
    link without a slash, and fifteen attributes set); the declaration passes
    the checks of \<open>InternalValidate\<close>; the attributes that an update may change
    are \<open>hostname\<close>, \<open>policy_id\<close>, \<open>workspace_url\<close>, \<open>dns_suffix\<close>,
    \<open>dns_search_suffix\<close> and \<open>template_properties\<close>, and what
    \<open>resourceIPAMReservationUpdate\<close> answers to a change of each; a policy link
    whose segment is no number binds \<open>policy_id\<close> 0 and one whose number is out
    of range binds the largest or the smallest \<open>int\<close>, because the error of
    \<open>Atoi\<close> is dropped.
  \<^item> \<open>Provider\<close>: the configuration read from the environment alone;
    configuring never panics, because data read against the schema are well
    typed; the meta value is always a \<open>Config\<close>, so the assertion \<open>m.(Config)\<close> of
    the operations holds.
  \<^item> \<open>Spec2Isabelle\<close>: the calls that create, read, update and delete make
    (at most 724, one, none and 722, with at most one that is no GET), also
    when the plugin serves them; a
    deletion whose job takes more than the five minutes that the resource
    declares still succeeds, because no operation reads the declared timeout.

  \<^bold>\<open>Instances.\<close> Each property with a hypothesis is followed by its
  instance in a world of \<open>Fixtures\<close>, \<open>JobEngine\<close>, \<open>Reservations\<close> or \<open>Binding\<close>: a
  service that answers from a script (\<open>three_polls\<close>, \<open>create_world\<close>,
  \<open>linked_world\<close>, \<open>ends_after 60\<close>, ...) or an environment (\<open>demo_env\<close>),
  evaluated by simplification.

  \<^bold>\<open>Bounds.\<close> The polling interval is 5000 ms and the budget 3600000 ms, both
  multiplied by \<open>time.Millisecond\<close> at 64 bits (\<open>Duration_ms\<close>); neither
  wraps. The loop needs no fuel: a turn that does not leave the loop advances
  the clock by five seconds at least, and a turn that ends after the budget
  leaves it. 721 is \<open>(3600000 + 5000) div 5000\<close>: the fetch at 3600 s is the
  last one that can start a turn; 720 is the number of fetches whose pause can
  end within the hour. A submission through \<open>handleAsyncRequestAndFetchManagdObject\<close>
  makes at most 723 calls, a creation at most 724. The iteration
  \<open>advance ^^ 721\<close> is 720 turns that fetch and one that leaves the loop;
  \<open>advance\<close> is the identity on final states, so any larger number of steps
  gives the same state. For the engine, 724 is one step for the submission,
  721 for the loop, one for the check of the final status and one for the
  fetch of the managed object.

  \<^bold>\<open>Not modelled.\<close> The plugin entry point (\<open>main\<close>), which hands \<open>Provider\<close>
  to \<open>plugin.Serve\<close>, and logging; the data source \<open>athena_ipam_policy\<close> and
  the type \<open>RenderTemplateResponse\<close>, which the sources name but do not
  declare. The Terraform SDK is a library that the sources only call:
  \<open>ResourceData\<close> holds what the program relies on of it, from its
  documentation, without plans, diffs, state files and the plugin protocol;
  of a schema, \<open>Description\<close> and \<open>Sensitive\<close> are recorded and have no effect
  in the model. TLS, connection handling and the parsing of JSON text are
  inside the Go libraries and are represented by the service function of the
  world and by JSON trees; keys of JSON objects are matched exactly. With
  these, every function of \<open>src/\<close> but \<open>main\<close> is a definition of the
  development.
\<close>

section \<open>The polled resource\<close>

text \<open>
  The loop of the job engine polls the URL that the transport builds for the
  resource type \<open>jobStatus\<close>: the two components agree on its form.
\<close>

lemma job_url_form:
  "job_url config n =
     scheme config @ ''://'' @ address config @ '':'' @ port config @ ''/api/v3/onefuse/jobStatus/''
       @ Itoa n @ ''/''"
  using itemURL_plain [of JobStatusResourceType config n]
  by (simp add: job_url_def plain_resource_types) (simp add: JobStatusResourceType_def)

section \<open>The calls of the resource operations\<close>

text \<open>
  What Terraform's four operations do to the service, through the binding,
  the client and the job engine: reading is at most one GET, an update makes
  no call, and a creation makes at most 724 calls of which at most one is not
  a GET.
\<close>

lemma resourceIPAMReservationCreate_world:
  "snd (snd (resourceIPAMReservationCreate d m w)) = w
   \<or> (\<exists>config r. snd (snd (resourceIPAMReservationCreate d m w))
         = snd (CreateIPAMReservation (NewAthenaApiClient config) r w))"
  by (auto simp add: resourceIPAMReservationCreate_def Let_def split: sum.splits prod.splits)
     (metis snd_conv)+

lemma resourceIPAMReservationCreate_calls:
  "\<exists>cs. calls (snd (snd (resourceIPAMReservationCreate d m w))) = calls w @ cs
     \<and> length (submissions cs) \<le> 1 \<and> length cs \<le> 724"
  using resourceIPAMReservationCreate_world [of d m w] CreateIPAMReservation_calls
  by (auto intro: exI [of _ "[]"])

lemma resourceIPAMReservationRead_world:
  "snd (snd (resourceIPAMReservationRead d m w)) = w
   \<or> (\<exists>config n. snd (snd (resourceIPAMReservationRead d m w))
         = snd (GetIPAMReservation (NewAthenaApiClient config) n w))"
  by (auto simp add: resourceIPAMReservationRead_def Let_def split: sum.splits prod.splits)
     (metis snd_conv)+

lemma resourceIPAMReservationRead_calls:
  "\<exists>cs. calls (snd (snd (resourceIPAMReservationRead d m w))) = calls w @ cs
     \<and> only_GETs cs \<and> length cs \<le> 1"
  using resourceIPAMReservationRead_world [of d m w] doGet_calls_GET
  by (auto simp add: GetIPAMReservation_eq intro: exI [of _ "[]"])

lemma resourceIPAMReservationUpdate_world:
  "snd (snd (resourceIPAMReservationUpdate d m w)) = w"
  by (cases "changed d")
     (simp_all add: resourceIPAMReservationUpdate_changed resourceIPAMReservationUpdate_unchanged)

lemma resourceIPAMReservationDelete_world:
  "snd (snd (resourceIPAMReservationDelete d m w)) = w
   \<or> (\<exists>config n. snd (snd (resourceIPAMReservationDelete d m w))
         = snd (DeleteIPAMReservation (NewAthenaApiClient config) n w))"
  by (auto simp add: resourceIPAMReservationDelete_def Let_def split: sum.splits prod.splits)
     (metis snd_conv)+

lemma resourceIPAMReservationDelete_calls:
  "\<exists>cs. calls (snd (snd (resourceIPAMReservationDelete d m w))) = calls w @ cs
     \<and> length (submissions cs) \<le> 1 \<and> length cs \<le> 722"
  using resourceIPAMReservationDelete_world [of d m w] DeleteIPAMReservation_calls
  by (auto intro: exI [of _ "[]"])

text \<open>
  C38. The calls of the four operations. Whatever the data, the configuration
  and the answers of the service are, a creation makes at most 724 calls of
  which at most one is not a GET, a read makes at most one call, a GET, an
  update makes no call at all, and a deletion makes at most 722 calls of
  which at most one is not a GET: no operation submits anything twice, and
  none goes on calling the service after the budget of the poll loop.
\<close>

theorem resource_operations_calls:
  "(\<exists>cs. calls (snd (snd (resourceIPAMReservationCreate d m w))) = calls w @ cs
       \<and> length (submissions cs) \<le> 1 \<and> length cs \<le> 724)
   \<and> (\<exists>cs. calls (snd (snd (resourceIPAMReservationRead d m w))) = calls w @ cs
       \<and> only_GETs cs \<and> length cs \<le> 1)
   \<and> calls (snd (snd (resourceIPAMReservationUpdate d m w))) = calls w
   \<and> (\<exists>cs. calls (snd (snd (resourceIPAMReservationDelete d m w))) = calls w @ cs
       \<and> length (submissions cs) \<le> 1 \<and> length cs \<le> 722)"
  using resourceIPAMReservationCreate_calls [of d m w] resourceIPAMReservationRead_calls [of d m w]
    resourceIPAMReservationDelete_calls [of d m w]
  by (simp add: resourceIPAMReservationUpdate_world)

section \<open>The calls of the requests served\<close>

text \<open>
  Whatever request the plugin serves, in whatever environment, it makes at
  most 724 calls, of which at most one is not a GET. Nothing is sent twice.
\<close>

lemma serve_calls:
  "\<exists>cs. calls (snd (snd (serve env cfg name rq d w))) = calls w @ cs
     \<and> length (submissions cs) \<le> 1 \<and> length cs \<le> 724"
proof (cases env cfg name rq d w rule: serve_cases)
  case (create config)
  with resourceIPAMReservationCreate_calls [of d "Meta_Config config" w] show ?thesis by simp
next
  case (read config)
  with resourceIPAMReservationRead_calls [of d "Meta_Config config" w] show ?thesis by auto
next
  case (update config)
  then show ?thesis by (simp add: resourceIPAMReservationUpdate_world)
next
  case (delete config)
  with resourceIPAMReservationDelete_calls [of d "Meta_Config config" w] show ?thesis by auto
qed simp_all

section \<open>The declared timeouts\<close>

text \<open>
  The resource declares a timeout of five minutes for create and for delete,
  but no operation reads it, and the job engine waits up to an hour. A
  deletion whose job is seen pending sixty times and then successful returns
  nil after more than five minutes.
\<close>

lemma resourceIPAMReservationDelete_finds:
  assumes "d_Id d = Itoa i" and "fits_int i"
    and "url_ok w (itemURL config IPAMReservationResourceType i)"
    and "submit_reply (delete_request_of config i) config w = Inr res"
    and "readResponse res = Inr (Json (JObject kvs))" and "JobStatus_ok kvs"
    and "n = get_int (member kvs ''id'')"
    and "w1 = after_submit (delete_request_of config i) config w"
    and "url_ok w (job_url config n)" and "pending_for config n k w1"
    and "poll_reply config n ((after_poll config n ^^ k) w1) = Inr js" and "JobState js = JobSuccess"
    and "clock ((after_poll config n ^^ Suc k) w1) - clock w1 \<le> 3600000000000"
  shows "resourceIPAMReservationDelete d (Meta_Config config) w
           = (Inr (), d, (after_poll config n ^^ Suc k) w1)"
proof -
  from assms(8,9) have "url_ok w1 (job_url config n)"
    by simp
  from await_job_finds [OF this assms(10-13)] assms(4-8)
  have "handleAsyncRequest (delete_request_of config i) config ''DELETE'' w
      = (Inr (Some js), (after_poll config n ^^ Suc k) w1)"
    by (simp add: handleAsyncRequest_accepted)
  with assms(1-3) show ?thesis
    by (simp add: resourceIPAMReservationDelete_def Atoi_Itoa DeleteIPAMReservation_eq
        NewAthenaApiClient_def)
qed

text \<open>
  C15. The declared timeout does not bound a deletion. If the id of the
  resource is numeric, the service answers the DELETE with a job, the next
  \<open>k\<close> fetches of its status show it pending and the one after shows it
  \<open>Successful\<close> within the hour, then \<open>resourceIPAMReservationDelete\<close> returns
  nil; and when \<open>k\<close> is sixty or more, the clock has then advanced by more than
  the timeout that \<open>resourceIPAMReservation\<close> declares for delete.
\<close>

theorem declared_timeout_not_enforced:
  assumes "d_Id d = Itoa i" and "fits_int i"
    and "url_ok w (itemURL config IPAMReservationResourceType i)"
    and "submit_reply (delete_request_of config i) config w = Inr res"
    and "readResponse res = Inr (Json (JObject kvs))" and "JobStatus_ok kvs"
    and "n = get_int (member kvs ''id'')"
    and "w1 = after_submit (delete_request_of config i) config w"
    and "url_ok w (job_url config n)" and "pending_for config n k w1"
    and "poll_reply config n ((after_poll config n ^^ k) w1) = Inr js" and "JobState js = JobSuccess"
    and "clock ((after_poll config n ^^ Suc k) w1) - clock w1 \<le> 3600000000000"
    and "60 \<le> k"
  shows "fst (resourceIPAMReservationDelete d (Meta_Config config) w) = Inr ()
     \<and> (\<exists>ts t. Timeouts resourceIPAMReservation = Some ts \<and> Delete_timeout ts = Some t
           \<and> t < clock (snd (snd (resourceIPAMReservationDelete d (Meta_Config config) w))) - clock w)"
proof -
  from after_poll_funpow_far [of w1 "Suc k" config n] assms(8,14)
  have "300000000000 < clock ((after_poll config n ^^ Suc k) w1) - clock w"
    by simp
  with resourceIPAMReservationDelete_finds [OF assms(1-13)] show ?thesis
    by (simp add: resourceIPAMReservation_timeouts)
qed

lemma ends_after_sel [simp]:
  "network (ends_after k) = (\<lambda>h c. if length h \<le> k then job_reply 7 ''Pending'' else job_reply 7 ''Successful'')"
  "oversleep (ends_after k) = (\<lambda>t. 0)" "clock (ends_after k) = 0" "calls (ends_after k) = []"
  "url_ok (ends_after k) u"
  by (simp_all add: ends_after_def world_with_def)

theorem declared_timeout_not_enforced_witness:
  "fst (resourceIPAMReservationDelete stored_data (Meta_Config demo_config) (ends_after 60)) = Inr ()
   \<and> 300000000000
       < clock (snd (snd (resourceIPAMReservationDelete stored_data (Meta_Config demo_config) (ends_after 60))))
           - clock (ends_after 60)"
  using declared_timeout_not_enforced [where d = stored_data and i = 42 and w = "ends_after 60"
      and config = demo_config and kvs = "job_fields 7 ''Pending''" and n = 7 and k = 60
      and js = "JobStatus_of (job_fields 7 ''Successful'')"
      and res = "\<lparr>StatusCode = 200, resp_body = Inr (Json (JObject (job_fields 7 ''Pending'')))\<rparr>"
      and ?w1.0 = "after_submit (delete_request_of demo_config 42) demo_config (ends_after 60)"]
  by (simp add: resourceIPAMReservation_timeouts exchange_of_def readResponse_ok
      ends_after_pending [where m = 60] ends_after_clock [where m = 60] poll_reply_job_reply
      JobSuccess_def)

end
